(* ===== verification/Prelude.thy ===== *)
theory Prelude
  imports Complex_Main
begin

text \<open>
  Shared vocabulary of the development: the identifiers and numbers of the
  application (users, tasks, stories, token counts, credit amounts), the
  Python exceptions the core can raise, Python's rounding of floats
  (\<open>round(x)\<close>, round half to even, and \<open>round(x, 2)\<close>), Python's true division
  that raises on a zero divisor, and Python's list indexing with negative
  indices.  Python floats are modelled as exact rationals (\<open>rat\<close>): the
  development does not model binary floating-point error.
\<close>

named_theorems round_simps "facts about py_round used by the cost proofs"
named_theorems eval_simps "equations that evaluate the model on concrete inputs by simp"

type_synonym uid = nat
type_synonym task_id = nat
type_synonym story_id = nat
type_synonym tokens = nat
type_synonym dollars = rat
type_synonym credits = rat

text \<open>The exceptions the modelled code can raise (each is a branch of the model).\<close>

datatype py_error =
    ZeroDivisionError
  | AttributeError string
  | TypeError string
  | ValueError string
  | JSONDecodeError
  | IndexError
  | ModelError string
  | IntegrityError
  | PendingRollbackError
  | NameError string
  | HTTPNotFound
  | InterfaceError
  | KeyError string

text \<open>\<open>str(e)\<close> of an exception, as stored in a log row's \<open>error_message\<close>.\<close>

fun py_error_str :: "py_error \<Rightarrow> string" where
  "py_error_str ZeroDivisionError = ''float division by zero''"
| "py_error_str (AttributeError a) = ''object has no attribute '' @ a"
| "py_error_str (TypeError m) = m"
| "py_error_str (ValueError m) = m"
| "py_error_str JSONDecodeError = ''Expecting value''"
| "py_error_str IndexError = ''list index out of range''"
| "py_error_str (ModelError m) = m"
| "py_error_str IntegrityError = ''NOT NULL constraint failed''"
| "py_error_str PendingRollbackError = ''This Session's transaction has been rolled back''"
| "py_error_str HTTPNotFound = ''404 Not Found''"
| "py_error_str InterfaceError = ''Error binding parameter''"
| "py_error_str (NameError n) = ''name '' @ [CHR 0x27] @ n @ [CHR 0x27] @ '' is not defined''"
| "py_error_str (KeyError k) = [CHR 0x27] @ k @ [CHR 0x27]"

subsection \<open>Python's \<open>round\<close> on a float\<close>

text \<open>\<open>round(x)\<close>: the nearest integer, ties to the even neighbour.\<close>

definition py_round :: "rat \<Rightarrow> int" where
  "py_round x =
     (let f = \<lfloor>x\<rfloor>; d = x - of_int f in
      if d < 1/2 then f
      else if 1/2 < d then f + 1
      else if even f then f else f + 1)"

text \<open>\<open>round(x, 2)\<close>: rounding to two decimal places, again ties to even.\<close>

definition py_round2 :: "rat \<Rightarrow> rat" where
  "py_round2 x = of_int (py_round (x * 100)) / 100"

text \<open>Python's \<open>a / b\<close>: \<open>ZeroDivisionError\<close> when \<open>b\<close> is zero.\<close>

definition py_div :: "rat \<Rightarrow> rat \<Rightarrow> py_error + rat" where
  "py_div a b = (if b = 0 then Inl ZeroDivisionError else Inr (a / b))"

text \<open>Python's \<open>xs[i]\<close> on a list: negative indices count from the end.\<close>

definition py_index :: "'a list \<Rightarrow> int \<Rightarrow> 'a option" where
  "py_index xs i =
     (let n = int (length xs); j = (if i < 0 then n + i else i)
      in if 0 \<le> j \<and> j < n then Some (xs ! nat j) else None)"

text \<open>
  Sequencing of fallible steps: the first exception propagates, as an
  uncaught Python exception leaves the rest of the block unexecuted.
\<close>

definition bind_err :: "'e + 'a \<Rightarrow> ('a \<Rightarrow> 'e + 'b) \<Rightarrow> 'e + 'b" where
  "bind_err r f = (case r of Inl e \<Rightarrow> Inl e | Inr a \<Rightarrow> f a)"

text \<open>A loop that stops at the first exception and otherwise collects the
  values of its iterations: a request handler's loop, whose exception aborts
  the request.\<close>

fun map_err :: "('a \<Rightarrow> 'e + 'b) \<Rightarrow> 'a list \<Rightarrow> 'e + 'b list" where
  "map_err f [] = Inr []"
| "map_err f (x # xs) = bind_err (f x) (\<lambda>y. bind_err (map_err f xs) (\<lambda>ys. Inr (y # ys)))"

text \<open>\<open>str.isspace\<close> on a character (the Latin-1 range the model's characters
  cover) and \<open>str.strip()\<close>.\<close>

definition py_isspace :: "char \<Rightarrow> bool" where
  "py_isspace c \<longleftrightarrow> (of_char c :: nat) \<in> {9, 10, 11, 12, 13, 28, 29, 30, 31, 32, 133, 160}"

definition py_strip :: "string \<Rightarrow> string" where
  "py_strip s = rev (dropWhile py_isspace (rev (dropWhile py_isspace s)))"

lemma bind_err_Inl [simp]: "bind_err (Inl e) f = Inl e"
  by (simp add: bind_err_def)

lemma bind_err_Inr [simp]: "bind_err (Inr a) f = f a"
  by (simp add: bind_err_def)

lemma bind_err_eq_Inr:
  "bind_err r f = Inr b \<longleftrightarrow> (\<exists>a. r = Inr a \<and> f a = Inr b)"
  by (cases r) auto

lemma bind_err_eq_Inl:
  "bind_err r f = Inl e \<longleftrightarrow> r = Inl e \<or> (\<exists>a. r = Inr a \<and> f a = Inl e)"
  by (cases r) auto

subsection \<open>Rounding lemmas\<close>

lemma py_round_cases:
  "py_round x = \<lfloor>x\<rfloor> \<or> py_round x = \<lfloor>x\<rfloor> + 1"
  by (auto simp: py_round_def Let_def)

lemma py_round_below [round_simps]:
  "x - of_int \<lfloor>x\<rfloor> < 1/2 \<Longrightarrow> py_round x = \<lfloor>x\<rfloor>"
  by (simp add: py_round_def Let_def)

lemma py_round_above [round_simps]:
  "1/2 < x - of_int \<lfloor>x\<rfloor> \<Longrightarrow> py_round x = \<lfloor>x\<rfloor> + 1"
  by (simp add: py_round_def Let_def)

lemma py_round_of_int [simp, round_simps]: "py_round (of_int n) = n"
  by (simp add: py_round_def)

lemma py_round_of_nat [simp, round_simps]: "py_round (of_nat n) = int n"
  using py_round_of_int [of "int n"] by simp

lemma py_round_zero [simp]: "py_round 0 = 0"
  using py_round_of_int [of 0] by simp

lemma py_round_numeral [simp]: "py_round (numeral k) = numeral k"
  using py_round_of_int [of "numeral k"] by simp

text \<open>The result is within one half of the argument.\<close>

lemma py_round_dist: "\<bar>of_int (py_round x) - x\<bar> \<le> 1/2"
proof -
  have f: "of_int \<lfloor>x\<rfloor> \<le> x" "x < of_int \<lfloor>x\<rfloor> + 1"
    using floor_correct [of x] by simp_all
  then show ?thesis
    by (auto simp: py_round_def Let_def)
qed

lemma py_round_lower: "x - 1/2 \<le> of_int (py_round x)"
  using py_round_dist [of x] by linarith

lemma py_round_upper: "of_int (py_round x) \<le> x + 1/2"
  using py_round_dist [of x] by linarith

lemma py_round_nonneg [round_simps]: "0 \<le> x \<Longrightarrow> 0 \<le> py_round x"
proof -
  assume "0 \<le> x"
  then have "0 \<le> \<lfloor>x\<rfloor>" by simp
  then show ?thesis using py_round_cases [of x] by auto
qed

text \<open>Rounding is monotone (ties to even included).\<close>

lemma py_round_mono [round_simps]:
  assumes "x \<le> y"
  shows "py_round x \<le> py_round y"
proof (cases "x = y")
  case True
  then show ?thesis by simp
next
  case False
  with assms have "x < y" by simp
  then have "of_int (py_round x) < (of_int (py_round y + 1) :: rat)"
    using py_round_upper [of x] py_round_lower [of y] by simp
  then show ?thesis by linarith
qed

lemma py_round_pos: "1/2 < x \<Longrightarrow> 1 \<le> py_round x"
proof -
  assume gt: "1/2 < x"
  then have "0 \<le> \<lfloor>x\<rfloor>" by simp
  show ?thesis
  proof (cases "\<lfloor>x\<rfloor> = 0")
    case True
    with gt show ?thesis by (simp add: py_round_def Let_def)
  next
    case False
    with \<open>0 \<le> \<lfloor>x\<rfloor>\<close> have "1 \<le> \<lfloor>x\<rfloor>" by linarith
    then show ?thesis using py_round_cases [of x] by linarith
  qed
qed

text \<open>Evaluation of rounding on rational literals by \<open>simp\<close>.\<close>

lemma floor_rat_numeral_div [simp]:
  "\<lfloor>numeral a / numeral b :: rat\<rfloor> = numeral a div numeral b"
  by (metis floor_divide_of_int_eq of_int_numeral)

lemmas [eval_simps] = py_round_def py_round2_def py_div_def Let_def

subsection \<open>Division and indexing lemmas\<close>

lemma py_div_Inr [simp]: "b \<noteq> 0 \<Longrightarrow> py_div a b = Inr (a / b)"
  by (simp add: py_div_def)

lemma py_div_zero [simp]: "py_div a 0 = Inl ZeroDivisionError"
  by (simp add: py_div_def)

lemma py_div_Inl: "py_div a b = Inl e \<Longrightarrow> b = 0 \<and> e = ZeroDivisionError"
  by (simp add: py_div_def split: if_splits)

lemma py_index_nonneg:
  "0 \<le> i \<Longrightarrow> i < int (length xs) \<Longrightarrow> py_index xs i = Some (xs ! nat i)"
  by (simp add: py_index_def)

lemma py_index_neg_one:
  "xs \<noteq> [] \<Longrightarrow> py_index xs (-1) = Some (last xs)"
  by (cases xs rule: rev_cases) (simp_all add: py_index_def nth_append)

lemma find_key_map_of:
  "map_of tab k = Some v \<Longrightarrow> find (\<lambda>(i, _). i = k) tab = Some (k, v)"
  by (induction tab) (auto split: if_splits)

end
