(* ===== verification/Estimator.thy ===== *)
theory Estimator
  imports Prelude
begin

text \<open>
  The cost estimator of \<open>src/predictions.py\<close>: the pricing configuration
  (\<open>TokenCostConfig\<close>, \<open>src/models/TokenCostConfig.py\<close>), the per-action
  credit modifiers (\<open>CreditConfig\<close>, looked up by action with fallback 2), the
  shared arithmetic of every \<open>calculate_*_cost\<close> function (tokens per credit
  rounded to two places, base cost, modified cost, total), the five
  prediction and five reconciliation functions, the image cost and the
  all-chapters loop, and the defaults installed by \<open>src/app.py\<close>.
  Prompt rendering and tokenisation (\<open>count_tokens\<close>) are external: the token
  counts are arguments.
\<close>

record token_cost_config =
  cost_per_credit :: dollars
  cost_per_1m_input :: dollars
  cost_per_1m_output :: dollars
  o1_cost_per_credit :: dollars
  o1_cost_per_1m_input :: dollars
  o1_cost_per_1m_output :: dollars
  dall_e_price_per_image :: dollars

text \<open>The \<open>CreditConfig\<close> table: one modifier per action name.\<close>

type_synonym credit_configs = "string \<rightharpoonup> rat"

definition get_modifier :: "credit_configs \<Rightarrow> string \<Rightarrow> rat" where
  "get_modifier cc action = (case cc action of Some m \<Rightarrow> m | None \<Rightarrow> 2)"

text \<open>The two price tiers: the \<open>cost_per_*\<close> fields (gpt-4o-mini) and the
  \<open>o1_cost_per_*\<close> fields (o1-mini).\<close>

datatype model_tier = GPT4oMini | O1Mini

fun tier_prices :: "model_tier \<Rightarrow> token_cost_config \<Rightarrow> dollars \<times> dollars \<times> dollars" where
  "tier_prices GPT4oMini c = (cost_per_credit c, cost_per_1m_input c, cost_per_1m_output c)"
| "tier_prices O1Mini c = (o1_cost_per_credit c, o1_cost_per_1m_input c, o1_cost_per_1m_output c)"

text \<open>\<open>round((credit_cost_dollar * 1_000_000) / cost_per_million, 2)\<close>\<close>

definition tokens_per_credit :: "dollars \<Rightarrow> dollars \<Rightarrow> py_error + rat" where
  "tokens_per_credit credit_cost_dollar cost_per_million =
     bind_err (py_div (credit_cost_dollar * 1000000) cost_per_million) (\<lambda>q. Inr (py_round2 q))"

text \<open>\<open>max(1, round(tokens / tokens_per_credit))\<close> where the function floors the
  base cost at one credit, \<open>round(tokens / tokens_per_credit)\<close> where it does not.\<close>

definition base_credit_cost :: "bool \<Rightarrow> tokens \<Rightarrow> rat \<Rightarrow> py_error + int" where
  "base_credit_cost floored n tpc =
     bind_err (py_div (of_nat n) tpc)
       (\<lambda>q. Inr (if floored then max 1 (py_round q) else py_round q))"

text \<open>The dictionary every \<open>calculate_*_cost\<close> function returns.\<close>

record cost_info =
  ci_input_tokens :: tokens
  ci_output_tokens :: tokens
  input_tokens_per_credit :: rat
  output_tokens_per_credit :: rat
  base_credit_cost_input :: int
  modified_credit_cost_input :: int
  base_credit_cost_output :: int
  modified_credit_cost_output :: int
  total_credit_cost :: int

text \<open>
  The arithmetic shared by all ten text cost functions: read the tier's
  prices from the (first) \<open>TokenCostConfig\<close> row (\<open>None\<close>: no row, so the
  attribute access on \<open>None\<close> raises), compute tokens per credit for input
  and output, the base costs, apply the two action modifiers, add.
\<close>

text \<open>The first attribute a cost function reads from the pricing row.\<close>

fun price_attr :: "model_tier \<Rightarrow> string" where
  "price_attr GPT4oMini = ''cost_per_1m_input''"
| "price_attr O1Mini = ''o1_cost_per_1m_input''"

definition credit_cost ::
  "model_tier \<Rightarrow> bool \<Rightarrow> string \<Rightarrow> string \<Rightarrow> token_cost_config option \<Rightarrow> credit_configs \<Rightarrow>
   tokens \<Rightarrow> tokens \<Rightarrow> py_error + cost_info" where
  "credit_cost tier floored act_in act_out cfg cc n_in n_out =
     (case cfg of
        None \<Rightarrow> Inl (AttributeError (price_attr tier))
      | Some c \<Rightarrow>
          (case tier_prices tier c of (cpc, p_in, p_out) \<Rightarrow>
           bind_err (tokens_per_credit cpc p_in) (\<lambda>t_in.
           bind_err (tokens_per_credit cpc p_out) (\<lambda>t_out.
           bind_err (base_credit_cost floored n_in t_in) (\<lambda>b_in.
           bind_err (base_credit_cost floored n_out t_out) (\<lambda>b_out.
             let m_in = py_round (of_int b_in * get_modifier cc act_in);
                 m_out = py_round (of_int b_out * get_modifier cc act_out)
             in Inr \<lparr>ci_input_tokens = n_in, ci_output_tokens = n_out,
                     input_tokens_per_credit = t_in, output_tokens_per_credit = t_out,
                     base_credit_cost_input = b_in, modified_credit_cost_input = m_in,
                     base_credit_cost_output = b_out, modified_credit_cost_output = m_out,
                     total_credit_cost = m_in + m_out\<rparr>))))))"

subsection \<open>The per-kind cost functions\<close>

definition calculate_predicted_meta_cost ::
  "token_cost_config option \<Rightarrow> credit_configs \<Rightarrow> tokens \<Rightarrow> py_error + cost_info" where
  "calculate_predicted_meta_cost cfg cc n_in =
     credit_cost GPT4oMini True ''meta_input'' ''meta_output'' cfg cc n_in 200"

definition calculate_actual_meta_cost ::
  "token_cost_config option \<Rightarrow> credit_configs \<Rightarrow> tokens \<Rightarrow> tokens \<Rightarrow> py_error + cost_info" where
  "calculate_actual_meta_cost cfg cc n_in n_out =
     credit_cost GPT4oMini True ''meta_input'' ''meta_output'' cfg cc n_in n_out"

definition calculate_predicted_summaries_cost ::
  "token_cost_config option \<Rightarrow> credit_configs \<Rightarrow> tokens \<Rightarrow> nat \<Rightarrow> py_error + cost_info" where
  "calculate_predicted_summaries_cost cfg cc n_in chapters_count =
     credit_cost O1Mini False ''summary_input'' ''summary_output'' cfg cc n_in (chapters_count * 50)"

definition calculate_actual_summaries_cost ::
  "token_cost_config option \<Rightarrow> credit_configs \<Rightarrow> tokens \<Rightarrow> tokens \<Rightarrow> py_error + cost_info" where
  "calculate_actual_summaries_cost cfg cc n_in n_out =
     credit_cost O1Mini False ''summary_input'' ''summary_output'' cfg cc n_in n_out"

definition calculate_predicted_story_arcs_cost ::
  "token_cost_config option \<Rightarrow> credit_configs \<Rightarrow> tokens \<Rightarrow> py_error + cost_info" where
  "calculate_predicted_story_arcs_cost cfg cc n_in =
     credit_cost O1Mini True ''arcs_input'' ''arcs_output'' cfg cc n_in 250"

definition calculate_actual_story_arcs_cost ::
  "token_cost_config option \<Rightarrow> credit_configs \<Rightarrow> tokens \<Rightarrow> tokens \<Rightarrow> py_error + cost_info" where
  "calculate_actual_story_arcs_cost cfg cc n_in n_out =
     credit_cost O1Mini True ''arcs_input'' ''arcs_output'' cfg cc n_in n_out"

definition calculate_predicted_chapter_guide_cost ::
  "token_cost_config option \<Rightarrow> credit_configs \<Rightarrow> tokens \<Rightarrow> py_error + cost_info" where
  "calculate_predicted_chapter_guide_cost cfg cc n_in =
     credit_cost O1Mini True ''chapter_guide_input'' ''chapter_guide_output'' cfg cc n_in 250"

definition calculate_actual_chapter_guide_cost ::
  "token_cost_config option \<Rightarrow> credit_configs \<Rightarrow> tokens \<Rightarrow> tokens \<Rightarrow> py_error + cost_info" where
  "calculate_actual_chapter_guide_cost cfg cc n_in n_out =
     credit_cost O1Mini True ''chapter_guide_input'' ''chapter_guide_output'' cfg cc n_in n_out"

definition calculate_predicted_chapter_cost ::
  "token_cost_config option \<Rightarrow> credit_configs \<Rightarrow> tokens \<Rightarrow> py_error + cost_info" where
  "calculate_predicted_chapter_cost cfg cc n_in =
     credit_cost O1Mini False ''chapter_input'' ''chapter_output'' cfg cc n_in 300"

definition calculate_actual_chapter_cost ::
  "token_cost_config option \<Rightarrow> credit_configs \<Rightarrow> tokens \<Rightarrow> tokens \<Rightarrow> py_error + cost_info" where
  "calculate_actual_chapter_cost cfg cc n_in n_out =
     credit_cost O1Mini False ''chapter_input'' ''chapter_output'' cfg cc n_in n_out"

text \<open>\<open>calculate_image_cost\<close>: (base cost, modifier, total).\<close>

definition calculate_image_cost ::
  "token_cost_config option \<Rightarrow> credit_configs \<Rightarrow> py_error + (dollars \<times> rat \<times> rat)" where
  "calculate_image_cost cfg cc =
     (case cfg of
        None \<Rightarrow> Inl (AttributeError ''dall_e_price_per_image'')
      | Some c \<Rightarrow>
          (let base = dall_e_price_per_image c; m = get_modifier cc ''image''
           in Inr (base, m, base * m)))"

text \<open>
  \<open>calculate_predicted_all_chapters_cost\<close>: one chapter prediction per chapter,
  in chapter order, accumulating the total and the breakdown
  (index, predicted cost, details).  The argument is the list of the chapters'
  prompt token counts.
\<close>

type_synonym breakdown = "(nat \<times> int \<times> cost_info) list"

fun all_chapters_loop ::
  "token_cost_config option \<Rightarrow> credit_configs \<Rightarrow> nat \<Rightarrow> tokens list \<Rightarrow> int \<times> breakdown \<Rightarrow>
   py_error + (int \<times> breakdown)" where
  "all_chapters_loop cfg cc i [] acc = Inr acc"
| "all_chapters_loop cfg cc i (t # ts) (acc_total, bd) =
     bind_err (calculate_predicted_chapter_cost cfg cc t) (\<lambda>ci.
       all_chapters_loop cfg cc (Suc i) ts
         (acc_total + total_credit_cost ci, bd @ [(i, total_credit_cost ci, ci)]))"

definition calculate_predicted_all_chapters_cost ::
  "token_cost_config option \<Rightarrow> credit_configs \<Rightarrow> tokens list \<Rightarrow> py_error + (int \<times> breakdown)" where
  "calculate_predicted_all_chapters_cost cfg cc ts = all_chapters_loop cfg cc 0 ts (0, [])"

subsection \<open>Defaults installed at start-up (\<open>src/app.py\<close>)\<close>

definition default_token_cost_config :: token_cost_config where
  "default_token_cost_config =
     \<lparr>cost_per_credit = 999 / 1000000, cost_per_1m_input = 150 / 1000,
      cost_per_1m_output = 600 / 1000, o1_cost_per_credit = 999 / 1000000,
      o1_cost_per_1m_input = 15, o1_cost_per_1m_output = 60,
      dall_e_price_per_image = 8 / 100\<rparr>"

definition default_credit_configs :: credit_configs where
  "default_credit_configs =
     [''image'' \<mapsto> 50, ''meta_input'' \<mapsto> 50, ''meta_output'' \<mapsto> 50,
      ''summary_input'' \<mapsto> 2, ''summary_output'' \<mapsto> 2,
      ''arcs_input'' \<mapsto> 2, ''arcs_output'' \<mapsto> 2,
      ''chapter_guide_input'' \<mapsto> 2, ''chapter_guide_output'' \<mapsto> 2,
      ''chapter_input'' \<mapsto> 2, ''chapter_output'' \<mapsto> 2]"

subsection \<open>Evaluation and decomposition lemmas\<close>

lemmas cost_defs [eval_simps] = credit_cost_def tokens_per_credit_def base_credit_cost_def
  get_modifier_def

lemma tokens_per_credit_eq:
  "tokens_per_credit a p =
     (if p = 0 then Inl ZeroDivisionError else Inr (py_round2 (a * 1000000 / p)))"
  by (simp add: tokens_per_credit_def py_div_def)

lemma base_credit_cost_eq:
  "base_credit_cost fl n t =
     (if t = 0 then Inl ZeroDivisionError
      else Inr (if fl then max 1 (py_round (of_nat n / t)) else py_round (of_nat n / t)))"
  by (simp add: base_credit_cost_def py_div_def)

text \<open>What a successful cost computation consists of.\<close>

lemma credit_cost_InrD:
  assumes "credit_cost tier fl ai ao cfg cc n k = Inr r"
  obtains c cpc p_in p_out where "cfg = Some c" "tier_prices tier c = (cpc, p_in, p_out)"
    "tokens_per_credit cpc p_in = Inr (input_tokens_per_credit r)"
    "tokens_per_credit cpc p_out = Inr (output_tokens_per_credit r)"
    "base_credit_cost fl n (input_tokens_per_credit r) = Inr (base_credit_cost_input r)"
    "base_credit_cost fl k (output_tokens_per_credit r) = Inr (base_credit_cost_output r)"
    "modified_credit_cost_input r = py_round (of_int (base_credit_cost_input r) * get_modifier cc ai)"
    "modified_credit_cost_output r = py_round (of_int (base_credit_cost_output r) * get_modifier cc ao)"
    "total_credit_cost r = modified_credit_cost_input r + modified_credit_cost_output r"
    "ci_input_tokens r = n" "ci_output_tokens r = k"
  using assms
  by (auto simp: credit_cost_def bind_err_eq_Inr Let_def split: option.splits prod.splits)

lemma credit_cost_Some:
  "tier_prices tier c = (cpc, p_in, p_out) \<Longrightarrow>
   credit_cost tier fl ai ao (Some c) cc n k =
     (if p_in = 0 \<or> p_out = 0 \<or> py_round2 (cpc * 1000000 / p_in) = 0
         \<or> py_round2 (cpc * 1000000 / p_out) = 0
      then Inl ZeroDivisionError
      else (let t_in = py_round2 (cpc * 1000000 / p_in); t_out = py_round2 (cpc * 1000000 / p_out);
                b_in = (if fl then max 1 (py_round (of_nat n / t_in)) else py_round (of_nat n / t_in));
                b_out = (if fl then max 1 (py_round (of_nat k / t_out)) else py_round (of_nat k / t_out));
                m_in = py_round (of_int b_in * get_modifier cc ai);
                m_out = py_round (of_int b_out * get_modifier cc ao)
            in Inr \<lparr>ci_input_tokens = n, ci_output_tokens = k,
                    input_tokens_per_credit = t_in, output_tokens_per_credit = t_out,
                    base_credit_cost_input = b_in, modified_credit_cost_input = m_in,
                    base_credit_cost_output = b_out, modified_credit_cost_output = m_out,
                    total_credit_cost = m_in + m_out\<rparr>))"
  by (simp add: credit_cost_def tokens_per_credit_eq base_credit_cost_eq Let_def)

text \<open>Base costs grow with the token count and are never negative, for a
  positive rate.\<close>

lemma base_credit_cost_mono:
  assumes "0 < t" "n \<le> n'"
    and "base_credit_cost fl n t = Inr b" "base_credit_cost fl n' t = Inr b'"
  shows "b \<le> b'"
proof -
  have "of_nat n / t \<le> of_nat n' / t"
    using assms(1,2) by (simp add: divide_right_mono)
  then have "py_round (of_nat n / t) \<le> py_round (of_nat n' / t)"
    by (rule py_round_mono)
  with assms(3,4) show ?thesis
    by (auto simp: base_credit_cost_eq split: if_splits)
qed

lemma base_credit_cost_nonneg:
  "0 < t \<Longrightarrow> base_credit_cost fl n t = Inr b \<Longrightarrow> 0 \<le> b"
  by (auto simp: base_credit_cost_eq intro!: py_round_nonneg split: if_splits)

lemma base_credit_cost_floored:
  "base_credit_cost True n t = Inr b \<Longrightarrow> 1 \<le> b"
  by (auto simp: base_credit_cost_eq split: if_splits)

lemma tokens_per_credit_pos:
  assumes "0 < a" "0 < p" "tokens_per_credit a p = Inr t" "t \<noteq> 0"
  shows "0 < t"
proof -
  from assms(3) have "t = py_round2 (a * 1000000 / p)"
    by (simp add: tokens_per_credit_eq split: if_splits)
  moreover have "0 \<le> py_round (a * 1000000 / p * 100)"
    using assms(1,2) by (intro py_round_nonneg) simp
  ultimately show ?thesis
    using assms(4) by (simp add: py_round2_def)
qed

lemma base_credit_cost_rate_nonzero:
  "base_credit_cost fl n t = Inr b \<Longrightarrow> t \<noteq> 0"
  by (simp add: base_credit_cost_eq split: if_splits)

lemma modified_cost_mono:
  "b \<le> b' \<Longrightarrow> 0 \<le> m \<Longrightarrow> py_round (of_int b * m) \<le> py_round (of_int b' * m)"
  by (intro py_round_mono mult_right_mono) simp_all

lemma all_chapters_loop_Inr:
  "all_chapters_loop cfg cc i ts (tot0, bd0) = Inr (tot, bd) \<Longrightarrow>
   \<exists>cis. list_all2 (\<lambda>t ci. calculate_predicted_chapter_cost cfg cc t = Inr ci) ts cis \<and>
     bd = bd0 @ map2 (\<lambda>j ci. (j, total_credit_cost ci, ci)) [i..<i + length ts] cis \<and>
     tot = tot0 + sum_list (map total_credit_cost cis)"
proof (induction ts arbitrary: i tot0 bd0)
  case Nil
  then show ?case by simp
next
  case (Cons t ts)
  from Cons.prems obtain ci where ci: "calculate_predicted_chapter_cost cfg cc t = Inr ci"
    and rest: "all_chapters_loop cfg cc (Suc i) ts
                 (tot0 + total_credit_cost ci, bd0 @ [(i, total_credit_cost ci, ci)]) = Inr (tot, bd)"
    by (auto simp: bind_err_eq_Inr)
  from Cons.IH [OF rest] obtain cis where
    "list_all2 (\<lambda>t ci. calculate_predicted_chapter_cost cfg cc t = Inr ci) ts cis"
    "bd = (bd0 @ [(i, total_credit_cost ci, ci)]) @
            map2 (\<lambda>j ci. (j, total_credit_cost ci, ci)) [Suc i..<Suc i + length ts] cis"
    "tot = tot0 + total_credit_cost ci + sum_list (map total_credit_cost cis)"
    by blast
  moreover have "[i..<i + length (t # ts)] = i # [Suc i..<Suc i + length ts]"
    by (subst upt_rec) simp
  ultimately show ?case using ci
    by (intro exI [of _ "ci # cis"]) simp
qed

subsection \<open>Properties of the estimator\<close>

text \<open>
  C2: Prediction and reconciliation use the same arithmetic.  For every
  kind, the predicted cost of a prompt is exactly the reconciled cost of a
  run whose output has the kind's heuristic length (200 tokens for
  metadata, 250 for arcs and chapter guides, 50 per chapter for summaries,
  300 for a chapter).
\<close>

theorem prediction_is_reconciliation_at_heuristic:
  "calculate_predicted_meta_cost cfg cc n = calculate_actual_meta_cost cfg cc n 200 \<and>
   calculate_predicted_story_arcs_cost cfg cc n = calculate_actual_story_arcs_cost cfg cc n 250 \<and>
   calculate_predicted_chapter_guide_cost cfg cc n =
     calculate_actual_chapter_guide_cost cfg cc n 250 \<and>
   calculate_predicted_summaries_cost cfg cc n m =
     calculate_actual_summaries_cost cfg cc n (m * 50) \<and>
   calculate_predicted_chapter_cost cfg cc n = calculate_actual_chapter_cost cfg cc n 300"
  by (simp add: calculate_predicted_meta_cost_def calculate_actual_meta_cost_def
      calculate_predicted_story_arcs_cost_def calculate_actual_story_arcs_cost_def
      calculate_predicted_chapter_guide_cost_def calculate_actual_chapter_guide_cost_def
      calculate_predicted_summaries_cost_def calculate_actual_summaries_cost_def
      calculate_predicted_chapter_cost_def calculate_actual_chapter_cost_def)

text \<open>
  Scenario A of the specification.  With the default prices and
  modifiers, a metadata prompt of 10,000 tokens gives 6660 input tokens per
  credit, a base input cost of 2 credits and a modified input cost of 100;
  the heuristic 200 output tokens add 50, for a predicted total of 150.
\<close>

theorem scenario_a_meta_prediction:
  "calculate_predicted_meta_cost (Some default_token_cost_config) default_credit_configs 10000 =
   Inr \<lparr>ci_input_tokens = 10000, ci_output_tokens = 200,
        input_tokens_per_credit = 6660, output_tokens_per_credit = 1665,
        base_credit_cost_input = 2, modified_credit_cost_input = 100,
        base_credit_cost_output = 1, modified_credit_cost_output = 50,
        total_credit_cost = 150\<rparr>"
  by (simp add: calculate_predicted_meta_cost_def default_token_cost_config_def
      default_credit_configs_def eval_simps)

text \<open>
  C3: The estimator fails exactly on a missing pricing row (an attribute
  access on \<open>None\<close>) or on a zero divisor: a zero price per million tokens,
  or a tokens-per-credit rate that rounds to 0.00.  Missing credit modifiers
  never cause an error: the condition does not mention them.
\<close>

theorem credit_cost_error_cases:
  "credit_cost tier fl ai ao cfg cc n k = Inl e \<longleftrightarrow>
     (cfg = None \<and> e = AttributeError (price_attr tier)) \<or>
     (\<exists>c cpc p_in p_out. cfg = Some c \<and> tier_prices tier c = (cpc, p_in, p_out) \<and>
        e = ZeroDivisionError \<and>
        (p_in = 0 \<or> p_out = 0 \<or> py_round2 (cpc * 1000000 / p_in) = 0 \<or>
         py_round2 (cpc * 1000000 / p_out) = 0))"
proof (cases cfg)
  case None
  then show ?thesis by (auto simp: credit_cost_def)
next
  case (Some c)
  obtain cpc p_in p_out where tp: "tier_prices tier c = (cpc, p_in, p_out)"
    by (cases "tier_prices tier c") auto
  show ?thesis
    using Some credit_cost_Some [OF tp] tp by (auto simp: Let_def)
qed

text \<open>
  C4: The modifier fallback.  When no \<open>CreditConfig\<close> row exists for the input
  or the output action, the estimator multiplies the base cost by 2.
\<close>

theorem modifier_fallback_doubles:
  assumes "cc ai = None" "cc ao = None"
    and "credit_cost tier fl ai ao cfg cc n k = Inr r"
  shows "modified_credit_cost_input r = 2 * base_credit_cost_input r \<and>
         modified_credit_cost_output r = 2 * base_credit_cost_output r"
proof -
  have two: "\<And>b. py_round (of_int b * 2) = 2 * b"
    by (metis mult.commute of_int_numeral of_int_mult py_round_of_int)
  from assms(3) show ?thesis
    by (rule credit_cost_InrD) (simp add: get_modifier_def assms(1,2) two)
qed

theorem modifier_fallback_doubles_witness:
  "Map.empty ''meta_input'' = (None :: rat option) \<and> Map.empty ''meta_output'' = (None :: rat option) \<and>
   credit_cost GPT4oMini True ''meta_input'' ''meta_output'' (Some default_token_cost_config)
     Map.empty 10000 200 =
   Inr \<lparr>ci_input_tokens = 10000, ci_output_tokens = 200,
        input_tokens_per_credit = 6660, output_tokens_per_credit = 1665,
        base_credit_cost_input = 2, modified_credit_cost_input = 4,
        base_credit_cost_output = 1, modified_credit_cost_output = 2,
        total_credit_cost = 6\<rparr> \<and>
   (4::int) = 2 * 2 \<and> (2::int) = 2 * 1"
proof -
  have run: "credit_cost GPT4oMini True ''meta_input'' ''meta_output'' (Some default_token_cost_config)
     Map.empty 10000 200 =
   Inr \<lparr>ci_input_tokens = 10000, ci_output_tokens = 200,
        input_tokens_per_credit = 6660, output_tokens_per_credit = 1665,
        base_credit_cost_input = 2, modified_credit_cost_input = 4,
        base_credit_cost_output = 1, modified_credit_cost_output = 2,
        total_credit_cost = 6\<rparr>"
    by (simp add: default_token_cost_config_def eval_simps)
  have "modified_credit_cost_input \<lparr>ci_input_tokens = 10000, ci_output_tokens = 200,
        input_tokens_per_credit = 6660, output_tokens_per_credit = 1665,
        base_credit_cost_input = 2, modified_credit_cost_input = 4,
        base_credit_cost_output = 1, modified_credit_cost_output = 2,
        total_credit_cost = 6\<rparr> = 2 * 2"
    using modifier_fallback_doubles [OF _ _ run] by simp
  with run show ?thesis by simp
qed

text \<open>
  C5: For the kinds whose base costs are floored at one credit (metadata,
  arcs, chapter guide), any successful estimate with modifiers above one
  half costs at least two credits: a prediction is never zero.
\<close>

theorem floored_cost_at_least_two:
  assumes "credit_cost tier True ai ao cfg cc n k = Inr r"
    and "1/2 < get_modifier cc ai" "1/2 < get_modifier cc ao"
  shows "2 \<le> total_credit_cost r"
proof -
  have pos: "1 \<le> py_round (of_int b * m)" if "1 \<le> b" "1/2 < m" for b :: int and m :: rat
  proof (rule py_round_pos)
    have "m \<le> of_int b * m"
      using that by (simp add: mult_le_cancel_right1)
    with that(2) show "1/2 < of_int b * m" by linarith
  qed
  from assms(1) show ?thesis
  proof (rule credit_cost_InrD)
    assume "base_credit_cost True n (input_tokens_per_credit r) = Inr (base_credit_cost_input r)"
      and "base_credit_cost True k (output_tokens_per_credit r) = Inr (base_credit_cost_output r)"
      and "modified_credit_cost_input r =
             py_round (of_int (base_credit_cost_input r) * get_modifier cc ai)"
      and "modified_credit_cost_output r =
             py_round (of_int (base_credit_cost_output r) * get_modifier cc ao)"
      and "total_credit_cost r = modified_credit_cost_input r + modified_credit_cost_output r"
    note eqs = this
    have "1 \<le> base_credit_cost_input r" "1 \<le> base_credit_cost_output r"
      using base_credit_cost_floored [OF eqs(1)] base_credit_cost_floored [OF eqs(2)] by simp_all
    then have "1 \<le> modified_credit_cost_input r" "1 \<le> modified_credit_cost_output r"
      using eqs(3,4) pos assms(2,3) by simp_all
    with eqs(5) show ?thesis by simp
  qed
qed

theorem floored_cost_at_least_two_witness:
  "calculate_predicted_meta_cost (Some default_token_cost_config) default_credit_configs 10 =
     Inr \<lparr>ci_input_tokens = 10, ci_output_tokens = 200,
        input_tokens_per_credit = 6660, output_tokens_per_credit = 1665,
        base_credit_cost_input = 1, modified_credit_cost_input = 50,
        base_credit_cost_output = 1, modified_credit_cost_output = 50,
        total_credit_cost = 100\<rparr> \<and>
   1/2 < get_modifier default_credit_configs ''meta_input'' \<and>
   1/2 < get_modifier default_credit_configs ''meta_output'' \<and> (2::int) \<le> 100"
proof -
  have run: "credit_cost GPT4oMini True ''meta_input'' ''meta_output''
      (Some default_token_cost_config) default_credit_configs 10 200 =
     Inr \<lparr>ci_input_tokens = 10, ci_output_tokens = 200,
        input_tokens_per_credit = 6660, output_tokens_per_credit = 1665,
        base_credit_cost_input = 1, modified_credit_cost_input = 50,
        base_credit_cost_output = 1, modified_credit_cost_output = 50,
        total_credit_cost = 100\<rparr>"
    by (simp add: default_token_cost_config_def default_credit_configs_def eval_simps)
  have m: "get_modifier default_credit_configs ''meta_input'' = 50"
    "get_modifier default_credit_configs ''meta_output'' = 50"
    by (simp_all add: get_modifier_def default_credit_configs_def)
  have "2 \<le> total_credit_cost \<lparr>ci_input_tokens = 10, ci_output_tokens = 200,
        input_tokens_per_credit = 6660, output_tokens_per_credit = 1665,
        base_credit_cost_input = 1, modified_credit_cost_input = 50,
        base_credit_cost_output = 1, modified_credit_cost_output = 50,
        total_credit_cost = 100\<rparr>"
    using floored_cost_at_least_two [OF run] m by simp
  with run m show ?thesis by (simp add: calculate_predicted_meta_cost_def)
qed

text \<open>
  Billing is monotone: with positive prices and non-negative modifiers,
  a run with at least as many input and output tokens never costs fewer
  credits.
\<close>

theorem credit_cost_mono:
  assumes r: "credit_cost tier fl ai ao (Some c) cc n k = Inr r"
    and r': "credit_cost tier fl ai ao (Some c) cc n' k' = Inr r'"
    and tp: "tier_prices tier c = (cpc, p_in, p_out)"
    and pos: "0 < cpc" "0 < p_in" "0 < p_out"
    and mods: "0 \<le> get_modifier cc ai" "0 \<le> get_modifier cc ao"
    and le: "n \<le> n'" "k \<le> k'"
  shows "total_credit_cost r \<le> total_credit_cost r'"
proof -
  from r obtain b_in b_out t_in t_out where
      t: "tokens_per_credit cpc p_in = Inr t_in" "tokens_per_credit cpc p_out = Inr t_out"
    and b: "base_credit_cost fl n t_in = Inr b_in" "base_credit_cost fl k t_out = Inr b_out"
    and tot: "total_credit_cost r = py_round (of_int b_in * get_modifier cc ai)
                                   + py_round (of_int b_out * get_modifier cc ao)"
    by (rule credit_cost_InrD) (use tp in auto)
  from r' obtain b_in' b_out' where
      b': "base_credit_cost fl n' t_in = Inr b_in'" "base_credit_cost fl k' t_out = Inr b_out'"
    and tot': "total_credit_cost r' = py_round (of_int b_in' * get_modifier cc ai)
                                     + py_round (of_int b_out' * get_modifier cc ao)"
    by (rule credit_cost_InrD) (use tp t in auto)
  have "0 < t_in" "0 < t_out"
    using tokens_per_credit_pos [OF pos(1,2) t(1)] tokens_per_credit_pos [OF pos(1,3) t(2)]
      base_credit_cost_rate_nonzero [OF b(1)] base_credit_cost_rate_nonzero [OF b(2)]
    by auto
  then have "b_in \<le> b_in'" "b_out \<le> b_out'"
    using base_credit_cost_mono [OF _ le(1) b(1) b'(1)] base_credit_cost_mono [OF _ le(2) b(2) b'(2)]
    by auto
  then show ?thesis
    unfolding tot tot' using mods by (intro add_mono modified_cost_mono)
qed

theorem credit_cost_mono_witness:
  "credit_cost O1Mini False ''chapter_input'' ''chapter_output'' (Some default_token_cost_config)
     default_credit_configs 1000 100 = Inr \<lparr>ci_input_tokens = 1000, ci_output_tokens = 100,
        input_tokens_per_credit = 333 / 5, output_tokens_per_credit = 333 / 20,
        base_credit_cost_input = 15, modified_credit_cost_input = 30,
        base_credit_cost_output = 6, modified_credit_cost_output = 12, total_credit_cost = 42\<rparr> \<and>
   credit_cost O1Mini False ''chapter_input'' ''chapter_output'' (Some default_token_cost_config)
     default_credit_configs 2000 300 = Inr \<lparr>ci_input_tokens = 2000, ci_output_tokens = 300,
        input_tokens_per_credit = 333 / 5, output_tokens_per_credit = 333 / 20,
        base_credit_cost_input = 30, modified_credit_cost_input = 60,
        base_credit_cost_output = 18, modified_credit_cost_output = 36, total_credit_cost = 96\<rparr> \<and>
   total_credit_cost \<lparr>ci_input_tokens = 1000, ci_output_tokens = 100,
        input_tokens_per_credit = 333 / 5, output_tokens_per_credit = 333 / 20,
        base_credit_cost_input = 15, modified_credit_cost_input = 30,
        base_credit_cost_output = 6, modified_credit_cost_output = 12, total_credit_cost = 42\<rparr> \<le> total_credit_cost \<lparr>ci_input_tokens = 2000, ci_output_tokens = 300,
        input_tokens_per_credit = 333 / 5, output_tokens_per_credit = 333 / 20,
        base_credit_cost_input = 30, modified_credit_cost_input = 60,
        base_credit_cost_output = 18, modified_credit_cost_output = 36, total_credit_cost = 96\<rparr>"
proof -
  have run1: "credit_cost O1Mini False ''chapter_input'' ''chapter_output''
      (Some default_token_cost_config) default_credit_configs 1000 100 = Inr \<lparr>ci_input_tokens = 1000, ci_output_tokens = 100,
        input_tokens_per_credit = 333 / 5, output_tokens_per_credit = 333 / 20,
        base_credit_cost_input = 15, modified_credit_cost_input = 30,
        base_credit_cost_output = 6, modified_credit_cost_output = 12, total_credit_cost = 42\<rparr>"
    by (simp add: default_token_cost_config_def default_credit_configs_def eval_simps)
  have run2: "credit_cost O1Mini False ''chapter_input'' ''chapter_output''
      (Some default_token_cost_config) default_credit_configs 2000 300 = Inr \<lparr>ci_input_tokens = 2000, ci_output_tokens = 300,
        input_tokens_per_credit = 333 / 5, output_tokens_per_credit = 333 / 20,
        base_credit_cost_input = 30, modified_credit_cost_input = 60,
        base_credit_cost_output = 18, modified_credit_cost_output = 36, total_credit_cost = 96\<rparr>"
    by (simp add: default_token_cost_config_def default_credit_configs_def eval_simps)
  have tp: "tier_prices O1Mini default_token_cost_config = (999 / 1000000, 15, 60)"
    by (simp add: default_token_cost_config_def)
  have m: "0 \<le> get_modifier default_credit_configs ''chapter_input''"
    "0 \<le> get_modifier default_credit_configs ''chapter_output''"
    by (simp_all add: get_modifier_def default_credit_configs_def)
  have "total_credit_cost \<lparr>ci_input_tokens = 1000, ci_output_tokens = 100,
        input_tokens_per_credit = 333 / 5, output_tokens_per_credit = 333 / 20,
        base_credit_cost_input = 15, modified_credit_cost_input = 30,
        base_credit_cost_output = 6, modified_credit_cost_output = 12, total_credit_cost = 42\<rparr> \<le> total_credit_cost \<lparr>ci_input_tokens = 2000, ci_output_tokens = 300,
        input_tokens_per_credit = 333 / 5, output_tokens_per_credit = 333 / 20,
        base_credit_cost_input = 30, modified_credit_cost_input = 60,
        base_credit_cost_output = 18, modified_credit_cost_output = 36, total_credit_cost = 96\<rparr>"
    by (rule credit_cost_mono [OF run1 run2 tp _ _ _ m]) simp_all
  with run1 run2 show ?thesis by simp
qed

text \<open>
  C6: The all-chapters prediction is the sum of the per-chapter predictions:
  the loop predicts every chapter in order, records (index, cost, details)
  for each, and its total is the sum of the recorded costs.
\<close>

theorem all_chapters_total_is_sum:
  assumes "calculate_predicted_all_chapters_cost cfg cc ts = Inr (tot, bd)"
  shows "\<exists>cis. list_all2 (\<lambda>t ci. calculate_predicted_chapter_cost cfg cc t = Inr ci) ts cis \<and>
           bd = map2 (\<lambda>j ci. (j, total_credit_cost ci, ci)) [0..<length ts] cis \<and>
           tot = sum_list (map total_credit_cost cis)"
  using all_chapters_loop_Inr [OF assms [unfolded calculate_predicted_all_chapters_cost_def]]
  by simp

theorem all_chapters_total_is_sum_witness:
  "calculate_predicted_all_chapters_cost (Some default_token_cost_config) default_credit_configs
     [1000] = Inr (66, [(0, 66, \<lparr>ci_input_tokens = 1000, ci_output_tokens = 300,
        input_tokens_per_credit = 333 / 5, output_tokens_per_credit = 333 / 20,
        base_credit_cost_input = 15, modified_credit_cost_input = 30,
        base_credit_cost_output = 18, modified_credit_cost_output = 36, total_credit_cost = 66\<rparr>)]) \<and>
   calculate_predicted_chapter_cost (Some default_token_cost_config) default_credit_configs 1000
     = Inr \<lparr>ci_input_tokens = 1000, ci_output_tokens = 300,
        input_tokens_per_credit = 333 / 5, output_tokens_per_credit = 333 / 20,
        base_credit_cost_input = 15, modified_credit_cost_input = 30,
        base_credit_cost_output = 18, modified_credit_cost_output = 36, total_credit_cost = 66\<rparr> \<and> (66::int) = sum_list (map total_credit_cost [\<lparr>ci_input_tokens = 1000, ci_output_tokens = 300,
        input_tokens_per_credit = 333 / 5, output_tokens_per_credit = 333 / 20,
        base_credit_cost_input = 15, modified_credit_cost_input = 30,
        base_credit_cost_output = 18, modified_credit_cost_output = 36, total_credit_cost = 66\<rparr>])"
proof -
  have ch: "calculate_predicted_chapter_cost (Some default_token_cost_config) default_credit_configs
     1000 = Inr \<lparr>ci_input_tokens = 1000, ci_output_tokens = 300,
        input_tokens_per_credit = 333 / 5, output_tokens_per_credit = 333 / 20,
        base_credit_cost_input = 15, modified_credit_cost_input = 30,
        base_credit_cost_output = 18, modified_credit_cost_output = 36, total_credit_cost = 66\<rparr>"
    by (simp add: calculate_predicted_chapter_cost_def default_token_cost_config_def
        default_credit_configs_def eval_simps)
  have run: "calculate_predicted_all_chapters_cost (Some default_token_cost_config)
     default_credit_configs [1000] = Inr (66, [(0, 66, \<lparr>ci_input_tokens = 1000, ci_output_tokens = 300,
        input_tokens_per_credit = 333 / 5, output_tokens_per_credit = 333 / 20,
        base_credit_cost_input = 15, modified_credit_cost_input = 30,
        base_credit_cost_output = 18, modified_credit_cost_output = 36, total_credit_cost = 66\<rparr>)])"
    by (simp add: calculate_predicted_all_chapters_cost_def ch)
  have "\<exists>cis. list_all2 (\<lambda>t ci. calculate_predicted_chapter_cost (Some default_token_cost_config)
              default_credit_configs t = Inr ci) [1000] cis \<and>
           [(0::nat, 66::int, \<lparr>ci_input_tokens = 1000, ci_output_tokens = 300,
        input_tokens_per_credit = 333 / 5, output_tokens_per_credit = 333 / 20,
        base_credit_cost_input = 15, modified_credit_cost_input = 30,
        base_credit_cost_output = 18, modified_credit_cost_output = 36, total_credit_cost = 66\<rparr>)] = map2 (\<lambda>j ci. (j, total_credit_cost ci, ci)) [0..<length [1000::nat]] cis \<and>
           (66::int) = sum_list (map total_credit_cost cis)"
    by (rule all_chapters_total_is_sum [OF run])
  with run ch show ?thesis by simp
qed

lemma py_round_small: "0 \<le> x \<Longrightarrow> x < 1/2 \<Longrightarrow> py_round x = 0"
proof -
  assume "0 \<le> x" "x < 1/2"
  then have "\<lfloor>x\<rfloor> = 0" by (simp add: floor_eq_iff)
  with \<open>x < 1/2\<close> show ?thesis by (simp add: py_round_below)
qed

lemma unfloored_base_zero:
  "base_credit_cost False n t = Inr b \<Longrightarrow> 2 * of_nat n < t \<Longrightarrow> b = 0"
proof -
  assume b: "base_credit_cost False n t = Inr b" and lt: "2 * of_nat n < t"
  have "0 \<le> 2 * (of_nat n :: rat)" by simp
  with lt have t: "0 < t" by linarith
  have "0 \<le> of_nat n / t" using t by simp
  moreover have "of_nat n / t < 1/2" using t lt by (simp add: divide_less_eq)
  ultimately have "py_round (of_nat n / t) = 0" by (rule py_round_small)
  with b t show ?thesis by (simp add: base_credit_cost_eq)
qed

text \<open>
  C7: The summaries and chapter predictions do not floor their base costs
  at one credit: whenever the prompt's tokens and the predicted output
  tokens are each below half of the tokens one credit buys (the rates the
  estimate reports), the predicted cost is 0 credits, whatever the
  modifiers.  The floored kinds cost at least 2 in that case (C7).
\<close>

theorem unfloored_predictions_reach_zero:
  assumes "calculate_predicted_summaries_cost cfg cc n_in k = Inr r \<or> calculate_predicted_chapter_cost cfg cc n_in = Inr r"
    and "2 * of_nat (ci_input_tokens r) < input_tokens_per_credit r"
    and "2 * of_nat (ci_output_tokens r) < output_tokens_per_credit r"
  shows "total_credit_cost r = 0"
proof -
  from assms(1) obtain ai ao k' where "credit_cost O1Mini False ai ao cfg cc n_in k' = Inr r"
    by (auto simp: calculate_predicted_summaries_cost_def calculate_predicted_chapter_cost_def)
  then show ?thesis
  proof (rule credit_cost_InrD)
    fix c cpc p_in p_out
    assume bi: "base_credit_cost False n_in (input_tokens_per_credit r) = Inr (base_credit_cost_input r)"
      and bo: "base_credit_cost False k' (output_tokens_per_credit r) = Inr (base_credit_cost_output r)"
      and m: "modified_credit_cost_input r = py_round (of_int (base_credit_cost_input r) * get_modifier cc ai)"
      "modified_credit_cost_output r = py_round (of_int (base_credit_cost_output r) * get_modifier cc ao)"
      "total_credit_cost r = modified_credit_cost_input r + modified_credit_cost_output r"
      and n: "ci_input_tokens r = n_in" "ci_output_tokens r = k'"
    from bi assms(2) n have "base_credit_cost_input r = 0" by (auto intro: unfloored_base_zero)
    moreover from bo assms(3) n have "base_credit_cost_output r = 0" by (auto intro: unfloored_base_zero)
    ultimately show ?thesis using m by simp
  qed
qed

theorem unfloored_predictions_reach_zero_witness:
  "calculate_predicted_summaries_cost (Some default_token_cost_config) default_credit_configs 30 0 =
     Inr \<lparr>ci_input_tokens = 30, ci_output_tokens = 0,
        input_tokens_per_credit = 333 / 5, output_tokens_per_credit = 333 / 20,
        base_credit_cost_input = 0, modified_credit_cost_input = 0,
        base_credit_cost_output = 0, modified_credit_cost_output = 0, total_credit_cost = 0\<rparr> \<and>
   total_credit_cost \<lparr>ci_input_tokens = 30, ci_output_tokens = 0,
        input_tokens_per_credit = 333 / 5, output_tokens_per_credit = 333 / 20,
        base_credit_cost_input = 0, modified_credit_cost_input = 0,
        base_credit_cost_output = 0, modified_credit_cost_output = 0, total_credit_cost = 0\<rparr> = 0"
proof -
  have e: "calculate_predicted_summaries_cost (Some default_token_cost_config) default_credit_configs 30 0 =
     Inr \<lparr>ci_input_tokens = 30, ci_output_tokens = 0,
        input_tokens_per_credit = 333 / 5, output_tokens_per_credit = 333 / 20,
        base_credit_cost_input = 0, modified_credit_cost_input = 0,
        base_credit_cost_output = 0, modified_credit_cost_output = 0, total_credit_cost = 0\<rparr>"
    by (simp add: calculate_predicted_summaries_cost_def default_token_cost_config_def
        default_credit_configs_def eval_simps)
  have "2 * of_nat (30::nat) < (333 / 5 :: rat)" "2 * of_nat (0::nat) < (333 / 20 :: rat)" by simp_all
  from unfloored_predictions_reach_zero [OF disjI1 [OF e]] this e show ?thesis by simp
qed

end
