(* ===== verification/Lock.thy ===== *)
theory Lock
  imports Prelude
begin

text \<open>
  The per-user generation lock of \<open>src/api/generation.py\<close>: a Redis key
  \<open>generation_lock:<user_id>\<close> set with \<open>SET key 1 EX expire NX\<close> and removed
  with \<open>DEL\<close>.  The key space is a map from user id to the key's expiry time;
  a key whose expiry time has passed is absent, as in Redis.  Time is a
  natural number of seconds.
\<close>

type_synonym lock_store = "uid \<rightharpoonup> nat"

definition lock_held :: "lock_store \<Rightarrow> nat \<Rightarrow> uid \<Rightarrow> bool" where
  "lock_held L now u = (case L u of None \<Rightarrow> False | Some t \<Rightarrow> now < t)"

text \<open>\<open>set_user_generation_lock(user_id, expire=2000)\<close>: set-if-absent with expiry;
  the boolean is Redis's answer.\<close>

definition set_user_generation_lock :: "lock_store \<Rightarrow> nat \<Rightarrow> uid \<Rightarrow> nat \<Rightarrow> bool \<times> lock_store" where
  "set_user_generation_lock L now u expire =
     (if lock_held L now u then (False, L) else (True, L(u \<mapsto> now + expire)))"

definition default_lock_expiry :: nat where
  "default_lock_expiry = 2000"

text \<open>\<open>clear_user_generation_lock(user_id)\<close>: an unconditional delete.\<close>

definition clear_user_generation_lock :: "lock_store \<Rightarrow> uid \<Rightarrow> lock_store" where
  "clear_user_generation_lock L u = L(u := None)"

subsection \<open>Lock lemmas\<close>

lemma lock_held_clear [simp]:
  "lock_held (clear_user_generation_lock L u) now v = (v \<noteq> u \<and> lock_held L now v)"
  by (simp add: lock_held_def clear_user_generation_lock_def)

lemma set_lock_True:
  "set_user_generation_lock L now u e = (True, L') \<longleftrightarrow> \<not> lock_held L now u \<and> L' = L(u \<mapsto> now + e)"
  by (auto simp: set_user_generation_lock_def)

lemma set_lock_False:
  "set_user_generation_lock L now u e = (False, L') \<longleftrightarrow> lock_held L now u \<and> L' = L"
  by (auto simp: set_user_generation_lock_def)

lemma set_lock_held_after:
  "set_user_generation_lock L now u e = (True, L') \<Longrightarrow> lock_held L' t u \<longleftrightarrow> t < now + e"
  by (auto simp: set_lock_True lock_held_def)

lemma set_lock_other:
  "set_user_generation_lock L now u e = (b, L') \<Longrightarrow> v \<noteq> u \<Longrightarrow> L' v = L v"
  by (auto simp: set_user_generation_lock_def split: if_splits)

subsection \<open>Properties of the lock\<close>

text \<open>
  C8: Scenario C of the specification.  Of two acquisitions of the same
  user's lock at the same moment with a positive expiry, the second is
  refused and leaves the lock as the first set it; releasing the lock lets
  the next acquisition succeed.
\<close>

theorem lock_second_acquire_refused:
  assumes "set_user_generation_lock L now u e = (True, L1)" "0 < e"
  shows "set_user_generation_lock L1 now u e' = (False, L1) \<and>
         fst (set_user_generation_lock (clear_user_generation_lock L1 u) now u e') = True"
proof -
  from assms(1) have "L1 = L(u \<mapsto> now + e)" by (simp add: set_lock_True)
  with assms(2) show ?thesis
    by (simp add: set_user_generation_lock_def lock_held_def clear_user_generation_lock_def)
qed

theorem lock_second_acquire_refused_witness:
  "set_user_generation_lock Map.empty 0 (7::nat) default_lock_expiry = (True, [7 \<mapsto> 2000]) \<and>
   set_user_generation_lock [7 \<mapsto> 2000] 0 7 default_lock_expiry = (False, [7 \<mapsto> 2000]) \<and>
   fst (set_user_generation_lock (clear_user_generation_lock [7 \<mapsto> 2000] 7) 0 7 default_lock_expiry)"
proof -
  have s: "set_user_generation_lock Map.empty 0 (7::nat) default_lock_expiry = (True, [7 \<mapsto> 2000])"
    by (simp add: set_user_generation_lock_def lock_held_def default_lock_expiry_def)
  have "0 < default_lock_expiry" by (simp add: default_lock_expiry_def)
  from lock_second_acquire_refused [OF s this, of default_lock_expiry] s show ?thesis by simp
qed

text \<open>
  C9: The expiry bounds an orphaned lock.  A lock acquired at time \<open>t\<close> with
  expiry \<open>e\<close> and never cleared blocks the user's acquisitions exactly before
  \<open>t + e\<close>: any acquisition at or after \<open>t + e\<close> succeeds.
\<close>

theorem lock_expiry_bounds_orphan:
  assumes "set_user_generation_lock L t u e = (True, L1)"
  shows "fst (set_user_generation_lock L1 now u e') \<longleftrightarrow> t + e \<le> now"
proof -
  from assms have "L1 = L(u \<mapsto> t + e)" by (simp add: set_lock_True)
  then show ?thesis
    by (auto simp: set_user_generation_lock_def lock_held_def)
qed

theorem lock_expiry_bounds_orphan_witness:
  "set_user_generation_lock Map.empty 10 (7::nat) default_lock_expiry = (True, [7 \<mapsto> 2010]) \<and>
   fst (set_user_generation_lock [7 \<mapsto> 2010] 2010 7 default_lock_expiry) \<and>
   \<not> fst (set_user_generation_lock [7 \<mapsto> 2010] 2009 7 default_lock_expiry)"
proof -
  have s: "set_user_generation_lock Map.empty 10 (7::nat) default_lock_expiry = (True, [7 \<mapsto> 2010])"
    by (simp add: set_user_generation_lock_def lock_held_def default_lock_expiry_def)
  show ?thesis
    using lock_expiry_bounds_orphan [OF s, of 2010 default_lock_expiry]
      lock_expiry_bounds_orphan [OF s, of 2009 default_lock_expiry] s
    by (simp add: default_lock_expiry_def)
qed

end
