(* ===== verification/Ledger.thy ===== *)
theory Ledger
  imports Prelude
begin

text \<open>
  The credit ledger: the three credit counters of a \<open>User\<close> row
  (\<open>src/models/User.py\<close>), the affordability check \<open>can_spend_credits\<close> and the
  debit \<open>spend_credits\<close> of \<open>src/helpers.py\<close>, and the two admin operations that
  add or set credits (\<open>adjust_credits\<close>, the role grant of
  \<open>update_user_role\<close> in \<open>src/api/admin.py\<close>).  The credit type is the string
  the code passes (\<open>''text''\<close>, \<open>''image''\<close>, \<open>''audio''\<close>); an unknown type is
  never affordable and is never debited.  Counters are rationals because the
  image debit is a float (price times modifier).
\<close>

record user_credits =
  text_credits :: credits
  image_credits :: credits
  audio_credits :: credits

type_synonym users = "uid \<rightharpoonup> user_credits"

definition can_spend_credits :: "user_credits \<Rightarrow> string \<Rightarrow> credits \<Rightarrow> bool" where
  "can_spend_credits u credit_type cost =
     (if credit_type = ''text'' then cost \<le> text_credits u
      else if credit_type = ''image'' then cost \<le> image_credits u
      else if credit_type = ''audio'' then cost \<le> audio_credits u
      else False)"

text \<open>
  \<open>spend_credits(user_id, credit_type, cost)\<close>: the user is looked up by id;
  on a missing user the attribute access of a known credit type raises.
\<close>

definition spend_credits :: "users \<Rightarrow> uid \<Rightarrow> string \<Rightarrow> credits \<Rightarrow> py_error + users" where
  "spend_credits us uid credit_type cost =
     (if credit_type = ''text'' then
        (case us uid of None \<Rightarrow> Inl (AttributeError ''text_credits'')
         | Some u \<Rightarrow> Inr (us(uid \<mapsto> u\<lparr>text_credits := text_credits u - cost\<rparr>)))
      else if credit_type = ''image'' then
        (case us uid of None \<Rightarrow> Inl (AttributeError ''image_credits'')
         | Some u \<Rightarrow> Inr (us(uid \<mapsto> u\<lparr>image_credits := image_credits u - cost\<rparr>)))
      else if credit_type = ''audio'' then
        (case us uid of None \<Rightarrow> Inl (AttributeError ''audio_credits'')
         | Some u \<Rightarrow> Inr (us(uid \<mapsto> u\<lparr>audio_credits := audio_credits u - cost\<rparr>)))
      else Inr us)"

text \<open>\<open>adjust_credits\<close> (admin): set one counter to a value.\<close>

definition adjust_credits :: "users \<Rightarrow> uid \<Rightarrow> string \<Rightarrow> int \<Rightarrow> users option" where
  "adjust_credits us uid credit_type new_credits =
     (case us uid of
        None \<Rightarrow> None
      | Some u \<Rightarrow> Some (us(uid \<mapsto>
          (if credit_type = ''text'' then u\<lparr>text_credits := of_int new_credits\<rparr>
           else if credit_type = ''image'' then u\<lparr>image_credits := of_int new_credits\<rparr>
           else if credit_type = ''audio'' then u\<lparr>audio_credits := of_int new_credits\<rparr>
           else u))))"

text \<open>The credit grant of \<open>update_user_role\<close>: the new role's defaults are added.\<close>

definition grant_role_credits :: "user_credits \<Rightarrow> int \<Rightarrow> int \<Rightarrow> int \<Rightarrow> user_credits" where
  "grant_role_credits u dt di da =
     u\<lparr>text_credits := text_credits u + of_int dt, image_credits := image_credits u + of_int di,
       audio_credits := audio_credits u + of_int da\<rparr>"

text \<open>The counter a credit type names (a reading of the three branches above).\<close>

definition balance :: "user_credits \<Rightarrow> string \<Rightarrow> credits option" where
  "balance u credit_type =
     (if credit_type = ''text'' then Some (text_credits u)
      else if credit_type = ''image'' then Some (image_credits u)
      else if credit_type = ''audio'' then Some (audio_credits u)
      else None)"

subsection \<open>Ledger lemmas\<close>

lemma can_spend_credits_balance:
  "can_spend_credits u t c \<longleftrightarrow> (\<exists>b. balance u t = Some b \<and> c \<le> b)"
  by (simp add: can_spend_credits_def balance_def)

lemma spend_credits_unknown [simp]:
  "balance u t = None \<Longrightarrow> us uid = Some u \<Longrightarrow> spend_credits us uid t c = Inr us"
  by (simp add: spend_credits_def balance_def split: if_splits)

lemma spend_credits_other_user:
  "spend_credits us uid t c = Inr us' \<Longrightarrow> v \<noteq> uid \<Longrightarrow> us' v = us v"
  by (auto simp: spend_credits_def split: if_splits option.splits)

lemma spend_credits_Some_user:
  "spend_credits us uid t c = Inr us' \<Longrightarrow> us uid = Some u \<Longrightarrow> \<exists>u'. us' uid = Some u'"
  by (auto simp: spend_credits_def split: if_splits option.splits)

lemma balance_text [simp]: "balance u ''text'' = Some (text_credits u)"
  by (simp add: balance_def)

lemma balance_image [simp]: "balance u ''image'' = Some (image_credits u)"
  by (simp add: balance_def)

subsection \<open>Properties of the ledger\<close>

text \<open>
  A debit is exact and local.  For an existing user and a credit type
  that names a counter, spending \<open>c\<close> credits lowers exactly that counter by
  exactly \<open>c\<close>, and leaves the other counters and every other user unchanged.
\<close>

theorem spend_credits_exact:
  assumes "us uid = Some u" "balance u t = Some b"
  shows "\<exists>u'. spend_credits us uid t c = Inr (us(uid \<mapsto> u')) \<and> balance u' t = Some (b - c) \<and>
           (\<forall>t'. t' \<noteq> t \<longrightarrow> balance u' t' = balance u t')"
  using assms by (auto simp: spend_credits_def balance_def split: if_splits)

theorem spend_credits_exact_witness:
  "spend_credits [(1::nat) \<mapsto> \<lparr>text_credits = 5, image_credits = 7, audio_credits = 0\<rparr>] 1 ''text'' 3
     = Inr [1 \<mapsto> \<lparr>text_credits = 2, image_credits = 7, audio_credits = 0\<rparr>] \<and>
   balance \<lparr>text_credits = 2, image_credits = 7, audio_credits = 0\<rparr> ''image'' = Some 7"
proof -
  have "\<exists>u'. spend_credits [(1::nat) \<mapsto> \<lparr>text_credits = 5, image_credits = 7, audio_credits = 0\<rparr>]
      1 ''text'' 3 = Inr ([1 \<mapsto> \<lparr>text_credits = 5, image_credits = 7, audio_credits = 0\<rparr>](1 \<mapsto> u')) \<and>
      balance u' ''text'' = Some (5 - 3) \<and>
      (\<forall>t'. t' \<noteq> ''text'' \<longrightarrow> balance u' t' =
         balance \<lparr>text_credits = 5, image_credits = 7, audio_credits = 0\<rparr> t')"
    by (rule spend_credits_exact) simp_all
  then show ?thesis by (auto simp: spend_credits_def balance_def)
qed

text \<open>
  Checking and then debiting the same amount never overdraws: if
  \<open>can_spend_credits\<close> accepts cost \<open>c\<close>, the debit of \<open>c\<close> leaves that counter
  non-negative.  (The worker debits the reconciled cost, not the checked one,
  so this is what the affordability check guarantees and no more.)
\<close>

theorem checked_debit_nonneg:
  assumes "us uid = Some u" "can_spend_credits u t c"
    and "spend_credits us uid t c = Inr us'"
  shows "\<exists>u' b. us' uid = Some u' \<and> balance u' t = Some b \<and> 0 \<le> b"
  using assms by (auto simp: can_spend_credits_def spend_credits_def balance_def split: if_splits)

theorem checked_debit_nonneg_witness:
  "[(1::nat) \<mapsto> \<lparr>text_credits = 5, image_credits = 0, audio_credits = 0\<rparr>] 1 =
     Some \<lparr>text_credits = 5, image_credits = 0, audio_credits = 0\<rparr> \<and>
   can_spend_credits \<lparr>text_credits = 5, image_credits = 0, audio_credits = 0\<rparr> ''text'' 5 \<and>
   spend_credits [1 \<mapsto> \<lparr>text_credits = 5, image_credits = 0, audio_credits = 0\<rparr>] 1 ''text'' 5 =
     Inr [1 \<mapsto> \<lparr>text_credits = 0, image_credits = 0, audio_credits = 0\<rparr>] \<and>
   (\<exists>u' b. [(1::nat) \<mapsto> \<lparr>text_credits = 0, image_credits = 0, audio_credits = 0\<rparr>] 1 = Some u' \<and>
      balance u' ''text'' = Some b \<and> 0 \<le> b)"
proof -
  have a: "can_spend_credits \<lparr>text_credits = 5, image_credits = 0, audio_credits = 0\<rparr> ''text'' 5"
    by (simp add: can_spend_credits_def)
  have s: "spend_credits [1 \<mapsto> \<lparr>text_credits = 5, image_credits = 0, audio_credits = 0\<rparr>] 1 ''text'' 5 =
     Inr [(1::nat) \<mapsto> \<lparr>text_credits = 0, image_credits = 0, audio_credits = 0\<rparr>]"
    by (simp add: spend_credits_def)
  show ?thesis
    using checked_debit_nonneg [OF _ a s] a s by simp
qed

end
