(* ===== verification/GenerationLog.thy ===== *)
theory GenerationLog
  imports Ledger
begin

text \<open>
  The generation log (\<open>GenerationLog\<close>, \<open>src/models/GenerationLog.py\<close>): one
  row per dispatched job, in insertion order (the autoincrement id is the
  position plus one).  The queries the core uses are modelled as functions on
  the row list: the worker's lookup by task, user and kind
  (\<open>filter_by(...).first()\<close>), a row update, and the most recent row of a user
  (\<open>order_by(desc(id)).first()\<close>), which the overdraft guard
  \<open>is_last_generation_and_negative_creds\<close> of \<open>src/helpers.py\<close> reads.
\<close>

record generation_log =
  log_id :: nat
  log_user :: uid
  task_id :: task_id
  generation_type :: string
  predicted_cost :: "rat option"
  real_cost :: "rat option"
  status :: string
  error_message :: "string option"
  log_model :: "string option"
  input_tokens :: nat
  output_tokens :: nat

type_synonym log_table = "generation_log list"

text \<open>\<open>GenerationLog(user_id=..., task_id=..., generation_type=..., predicted_cost=...,
  status="pending")\<close>, optionally with \<open>real_cost\<close> (the cover-image handler sets it).\<close>

definition new_log ::
  "uid \<Rightarrow> task_id \<Rightarrow> string \<Rightarrow> rat option \<Rightarrow> rat option \<Rightarrow> generation_log" where
  "new_log uid tid gtype predicted real_c =
     \<lparr>log_id = 0, log_user = uid, task_id = tid, generation_type = gtype,
      predicted_cost = predicted, real_cost = real_c, status = ''pending'',
      error_message = None, log_model = None, input_tokens = 0, output_tokens = 0\<rparr>"

text \<open>\<open>db.session.add(log_entry); db.session.commit()\<close>: the row gets the next id.\<close>

definition add_log :: "log_table \<Rightarrow> generation_log \<Rightarrow> log_table" where
  "add_log logs e = logs @ [e\<lparr>log_id := Suc (length logs)\<rparr>]"

text \<open>\<open>GenerationLog.query.filter_by(task_id=..., user_id=..., generation_type=...).first()\<close>:
  the position of the first matching row.\<close>

fun find_log_from :: "nat \<Rightarrow> log_table \<Rightarrow> task_id \<Rightarrow> uid \<Rightarrow> string \<Rightarrow> nat option" where
  "find_log_from i [] tid uid gtype = None"
| "find_log_from i (e # es) tid uid gtype =
     (if task_id e = tid \<and> log_user e = uid \<and> generation_type e = gtype then Some i
      else find_log_from (Suc i) es tid uid gtype)"

definition find_log :: "log_table \<Rightarrow> task_id \<Rightarrow> uid \<Rightarrow> string \<Rightarrow> nat option" where
  "find_log logs tid uid gtype = find_log_from 0 logs tid uid gtype"

text \<open>\<open>if log_entry: ...; db.session.commit()\<close>: update the row found, if any.\<close>

definition update_log ::
  "log_table \<Rightarrow> nat option \<Rightarrow> (generation_log \<Rightarrow> generation_log) \<Rightarrow> log_table" where
  "update_log logs entry f = (case entry of None \<Rightarrow> logs | Some i \<Rightarrow> logs[i := f (logs ! i)])"

text \<open>\<open>order_by(desc(GenerationLog.id)).first()\<close> for one user.\<close>

definition last_log_of_user :: "log_table \<Rightarrow> uid \<Rightarrow> generation_log option" where
  "last_log_of_user logs uid =
     (let es = filter (\<lambda>e. log_user e = uid) logs in if es = [] then None else Some (last es))"

text \<open>
  \<open>is_last_generation_and_negative_creds(user, _type)\<close>: true when the user's
  most recent job is of kind \<open>_type\<close> and the counter of that kind is at most
  zero.  The chain of \<open>elif\<close>s of the source, with its duplicated
  \<open>"chapter"\<close> branch, is kept.
\<close>

definition is_last_generation_and_negative_creds ::
  "log_table \<Rightarrow> uid \<Rightarrow> user_credits \<Rightarrow> string \<Rightarrow> bool" where
  "is_last_generation_and_negative_creds logs uid u gtype_req =
     (case last_log_of_user logs uid of
        None \<Rightarrow> False
      | Some e \<Rightarrow>
          (let gt = generation_type e in
           if gt \<noteq> gtype_req then False
           else if gt = ''meta'' then text_credits u \<le> 0
           else if gt = ''story_arcs'' then text_credits u \<le> 0
           else if gt = ''summaries'' then text_credits u \<le> 0
           else if gt = ''chapter_guide'' then text_credits u \<le> 0
           else if gt = ''chapter'' then text_credits u \<le> 0
           else if gt = ''chapter'' then text_credits u \<le> 0
           else if gt = ''image'' then image_credits u \<le> 0
           else False))"

text \<open>The credit type each generation kind is charged to (\<open>spend_credits\<close> call sites).\<close>

definition kind_credit_type :: "string \<Rightarrow> string option" where
  "kind_credit_type gt =
     (if gt \<in> {''meta'', ''story_arcs'', ''summaries'', ''chapter_guide'', ''chapter''} then Some ''text''
      else if gt = ''image'' then Some ''image'' else None)"

subsection \<open>Log lemmas\<close>

lemma length_add_log [simp]: "length (add_log logs e) = Suc (length logs)"
  by (simp add: add_log_def)

lemma length_update_log [simp]: "length (update_log logs i f) = length logs"
  by (simp add: update_log_def split: option.splits)

lemma find_log_from_bound:
  "find_log_from i logs tid uid gt = Some j \<Longrightarrow> i \<le> j \<and> j < i + length logs"
  by (induction i logs tid uid gt rule: find_log_from.induct) (fastforce split: if_splits)+

lemma find_log_from_nth:
  "find_log_from i logs tid uid gt = Some j \<Longrightarrow>
   task_id (logs ! (j - i)) = tid \<and> log_user (logs ! (j - i)) = uid \<and>
   generation_type (logs ! (j - i)) = gt"
proof (induction i logs tid uid gt rule: find_log_from.induct)
  case (1 i tid uid gtype)
  then show ?case by simp
next
  case (2 i e es tid uid gtype)
  show ?case
  proof (cases "task_id e = tid \<and> log_user e = uid \<and> generation_type e = gtype")
    case True
    with "2.prems" show ?thesis by simp
  next
    case False
    with "2.prems" have f: "find_log_from (Suc i) es tid uid gtype = Some j" by simp
    with "2.IH" False have "task_id (es ! (j - Suc i)) = tid \<and> log_user (es ! (j - Suc i)) = uid \<and>
        generation_type (es ! (j - Suc i)) = gtype" by simp
    moreover from find_log_from_bound [OF f] have "j - i = Suc (j - Suc i)" by arith
    ultimately show ?thesis by simp
  qed
qed

lemma find_log_Some:
  "find_log logs tid uid gt = Some j \<Longrightarrow>
   j < length logs \<and> task_id (logs ! j) = tid \<and> log_user (logs ! j) = uid \<and>
   generation_type (logs ! j) = gt"
  using find_log_from_bound [of 0 logs tid uid gt j] find_log_from_nth [of 0 logs tid uid gt j]
  by (simp add: find_log_def)

lemma find_log_from_None:
  "find_log_from i logs tid uid gt = None \<longleftrightarrow>
   (\<forall>e \<in> set logs. \<not> (task_id e = tid \<and> log_user e = uid \<and> generation_type e = gt))"
  by (induction i logs tid uid gt rule: find_log_from.induct) auto

lemma last_log_of_user_add_log [simp]:
  "last_log_of_user (add_log logs e) (log_user e) = Some (e\<lparr>log_id := Suc (length logs)\<rparr>)"
  by (simp add: last_log_of_user_def add_log_def)

lemma last_log_of_user_add_other:
  "log_user e \<noteq> uid \<Longrightarrow> last_log_of_user (add_log logs e) uid = last_log_of_user logs uid"
  by (simp add: last_log_of_user_def add_log_def)

subsection \<open>Properties of the overdraft guard\<close>


end
