(* ===== verification/Json.thy ===== *)
theory Json
  imports Prelude
begin

text \<open>
  The values \<open>json.loads\<close> returns, as the workers of \<open>src/tasks.py\<close> see them,
  and the Python operations those workers apply to them: \<open>d.get(key, default)\<close>,
  \<open>len(x)\<close>, iteration (\<open>for x in v\<close>, \<open>enumerate(v)\<close>) and \<open>d.items()\<close>.  Python's
  \<open>None\<close> and JSON's \<open>null\<close> are the same value \<open>JNull\<close>.  An object is the list of
  its members in text order; as \<open>json.loads\<close> builds a \<open>dict\<close>, a duplicated key
  keeps the position of its first occurrence and the value of its last.
  Operations on a value of the wrong type raise the exception CPython raises:
  \<open>AttributeError\<close> for \<open>.get\<close> and \<open>.items\<close> on a non-object, \<open>TypeError\<close> for
  \<open>len\<close> and iteration on a value without them.
\<close>

datatype json =
    JNull
  | JBool bool
  | JNum rat
  | JStr string
  | JArr "json list"
  | JObj "(string \<times> json) list"

text \<open>Python's truth value of a decoded value (\<open>if x:\<close>, \<open>not x\<close>).\<close>

fun py_truthy :: "json \<Rightarrow> bool" where
  "py_truthy JNull = False"
| "py_truthy (JBool b) = b"
| "py_truthy (JNum q) = (q \<noteq> 0)"
| "py_truthy (JStr s) = (s \<noteq> [])"
| "py_truthy (JArr xs) = (xs \<noteq> [])"
| "py_truthy (JObj kvs) = (kvs \<noteq> [])"

text \<open>\<open>dict[key]\<close> of the decoded object: the last value given for the key.\<close>

definition dict_lookup :: "(string \<times> json) list \<Rightarrow> string \<Rightarrow> json option" where
  "dict_lookup kvs k = map_of (rev kvs) k"

text \<open>The keys of the decoded object in insertion order.\<close>

definition dict_keys :: "(string \<times> json) list \<Rightarrow> string list" where
  "dict_keys kvs = remdups (map fst kvs)"

text \<open>\<open>v.get(key, default)\<close>.\<close>

fun py_get :: "json \<Rightarrow> string \<Rightarrow> json \<Rightarrow> py_error + json" where
  "py_get (JObj kvs) k d = Inr (case dict_lookup kvs k of None \<Rightarrow> d | Some v \<Rightarrow> v)"
| "py_get _ k d = Inl (AttributeError ''get'')"

text \<open>\<open>len(v)\<close>.\<close>

fun py_len :: "json \<Rightarrow> py_error + nat" where
  "py_len (JStr s) = Inr (length s)"
| "py_len (JArr xs) = Inr (length xs)"
| "py_len (JObj kvs) = Inr (length (dict_keys kvs))"
| "py_len _ = Inl (TypeError ''object has no len()'')"

text \<open>\<open>for x in v\<close>: the characters of a string, the elements of a list, the keys
  of an object.\<close>

fun py_iter :: "json \<Rightarrow> py_error + json list" where
  "py_iter (JStr s) = Inr (map (\<lambda>c. JStr [c]) s)"
| "py_iter (JArr xs) = Inr xs"
| "py_iter (JObj kvs) = Inr (map JStr (dict_keys kvs))"
| "py_iter _ = Inl (TypeError ''object is not iterable'')"

text \<open>\<open>v.items()\<close>.\<close>

fun py_items :: "json \<Rightarrow> py_error + (string \<times> json) list" where
  "py_items (JObj kvs) =
     Inr (map (\<lambda>k. (k, case dict_lookup kvs k of None \<Rightarrow> JNull | Some v \<Rightarrow> v)) (dict_keys kvs))"
| "py_items _ = Inl (AttributeError ''items'')"

text \<open>
  A \<open>for\<close> loop whose body may raise, in a database session: the rows built
  before the exception were already added to the session, so the loop returns
  them with the exception, if any.
\<close>

fun map_partial :: "('a \<Rightarrow> py_error + 'b) \<Rightarrow> 'a list \<Rightarrow> 'b list \<times> py_error option" where
  "map_partial f [] = ([], None)"
| "map_partial f (x # xs) =
     (case f x of
        Inl e \<Rightarrow> ([], Some e)
      | Inr y \<Rightarrow> (case map_partial f xs of (ys, r) \<Rightarrow> (y # ys, r)))"

subsection \<open>Lemmas on the JSON operations\<close>

lemma py_get_Inr_iff [simp]:
  "py_get v k d = Inr r \<longleftrightarrow> (\<exists>kvs. v = JObj kvs \<and> r = (case dict_lookup kvs k of None \<Rightarrow> d | Some x \<Rightarrow> x))"
  by (cases v) auto

lemma map_partial_all:
  "(\<forall>x \<in> set xs. \<exists>y. f x = Inr y) \<Longrightarrow> map_partial f xs = (map (\<lambda>x. projr (f x)) xs, None)"
  by (induction xs) auto

lemma map_partial_None:
  "map_partial f xs = (ys, None) \<Longrightarrow> ys = map (\<lambda>x. projr (f x)) xs"
  by (induction xs arbitrary: ys) (auto split: sum.splits prod.splits)

lemma map_partial_length: "length (fst (map_partial f xs)) \<le> length xs"
  by (induction xs) (auto split: sum.splits prod.splits)

lemma dict_lookup_keys: "dict_lookup kvs k \<noteq> None \<longleftrightarrow> k \<in> set (dict_keys kvs)"
  by (auto simp: dict_lookup_def dict_keys_def map_of_eq_None_iff image_iff)

end
