(* ===== verification/Story.thy ===== *)
theory Story
  imports Json
begin

text \<open>
  The story-owned rows the workers write (\<open>src/models/Story.py\<close>,
  \<open>Chapter.py\<close>, \<open>ChapterGuide.py\<close>, \<open>StoryArc.py\<close>, \<open>Location.py\<close>, and
  \<open>Character\<close>), grouped per story, and the persistence steps of
  \<open>src/tasks.py\<close>: replacing characters and locations, replacing the arcs,
  creating or updating chapters from summaries, building the chapter guide,
  storing a chapter's content.  Rows are kept in insertion order, which is the
  order the unordered queries of the code return them.  A column a worker
  fills from decoded JSON holds a \<open>json\<close> value (\<open>JNull\<close> is SQL \<open>NULL\<close>).

  Each step starts with the deletions the code issues before its loop and
  returns, with the story as the session then holds it, the exception the
  loop raised, if any: rows added before the exception stay in the session
  and are written by the next successful commit.  The \<open>NOT NULL\<close> columns the
  workers can fill with \<open>null\<close> (\<open>Chapter.title\<close>, \<open>StoryArc.arc_text\<close>,
  \<open>Location.name\<close>) are checked by \<open>story_ok\<close>, which a commit requires.
\<close>

record character =
  char_name :: json
  char_description :: json
  example_dialogue :: json

record location =
  loc_name :: json
  loc_description :: json

record chapter_row =
  chapter_id :: nat
  chapter_number :: int
  chapter_title :: json
  chapter_summary :: json
  chapter_content :: json
  chapter_image_key :: "string option"

record guide_part =
  gp_chapter_title :: string
  part_index :: json
  part_text :: json
  gp_characters :: json
  gp_locations :: json

text \<open>The arcs are the \<open>arc_text\<close> values in \<open>arc_order\<close>.\<close>

record story =
  story_user :: uid
  chapters_count :: nat
  story_characters :: "character list"
  story_locations :: "location list"
  story_arcs :: "json list"
  story_chapters :: "chapter_row list"
  story_guide :: "guide_part list"
  cover_image_key :: "string option"
  cover_image_prompt :: "string option"

text \<open>The \<open>nullable=False\<close> constraints a worker's rows can violate.\<close>

definition story_ok :: "story \<Rightarrow> bool" where
  "story_ok st \<longleftrightarrow>
     list_all (\<lambda>c. chapter_title c \<noteq> JNull) (story_chapters st) \<and>
     list_all (\<lambda>a. a \<noteq> JNull) (story_arcs st) \<and>
     list_all (\<lambda>l. loc_name l \<noteq> JNull) (story_locations st)"

text \<open>\<open>str(n)\<close> for a natural number, for the default title \<open>f"Chapter {index}"\<close>.\<close>

fun nat_str :: "nat \<Rightarrow> string" where
  "nat_str n = (if n < 10 then [char_of (48 + n)] else nat_str (n div 10) @ [char_of (48 + n mod 10)])"

subsection \<open>Persistence steps of the workers\<close>

text \<open>\<open>Character(name=d.get("name"), description=..., example_dialogue=...)\<close>.\<close>

definition mk_character :: "json \<Rightarrow> py_error + character" where
  "mk_character d =
     bind_err (py_get d ''name'' JNull) (\<lambda>n.
     bind_err (py_get d ''description'' JNull) (\<lambda>ds.
     bind_err (py_get d ''example_dialogue'' JNull) (\<lambda>ex.
       Inr \<lparr>char_name = n, char_description = ds, example_dialogue = ex\<rparr>)))"

definition mk_location :: "json \<Rightarrow> py_error + location" where
  "mk_location d =
     bind_err (py_get d ''name'' JNull) (\<lambda>n.
     bind_err (py_get d ''description'' JNull) (\<lambda>ds.
       Inr \<lparr>loc_name = n, loc_description = ds\<rparr>))"

text \<open>\<open>generate_meta_task\<close>, story found: delete the characters and locations,
  then add one row per element of \<open>result.get("characters", [])\<close> and of
  \<open>result.get("locations", [])\<close>.\<close>

definition replace_meta :: "story \<Rightarrow> json \<Rightarrow> story \<times> py_error option" where
  "replace_meta st result =
     (let st0 = st\<lparr>story_characters := [], story_locations := []\<rparr> in
      case bind_err (py_get result ''characters'' (JArr [])) py_iter of
        Inl e \<Rightarrow> (st0, Some e)
      | Inr cs \<Rightarrow>
          (case map_partial mk_character cs of
             (chars, Some e) \<Rightarrow> (st0\<lparr>story_characters := chars\<rparr>, Some e)
           | (chars, None) \<Rightarrow>
               (case bind_err (py_get result ''locations'' (JArr [])) py_iter of
                  Inl e \<Rightarrow> (st0\<lparr>story_characters := chars\<rparr>, Some e)
                | Inr ls \<Rightarrow>
                    (case map_partial mk_location ls of
                       (locs, r) \<Rightarrow> (st0\<lparr>story_characters := chars, story_locations := locs\<rparr>, r)))))"

text \<open>\<open>generate_story_arcs_task\<close>, story found: delete the arcs, then one row
  per element of the decoded value, \<open>arc_order = index + 1\<close>.\<close>

definition replace_arcs :: "story \<Rightarrow> json \<Rightarrow> story \<times> py_error option" where
  "replace_arcs st arcs =
     (case py_iter arcs of
        Inl e \<Rightarrow> (st\<lparr>story_arcs := []\<rparr>, Some e)
      | Inr xs \<Rightarrow> (st\<lparr>story_arcs := xs\<rparr>, None))"

text \<open>\<open>Chapter.query.filter_by(story_id=..., chapter_number=n).first()\<close>.\<close>

fun find_chapter :: "chapter_row list \<Rightarrow> int \<Rightarrow> chapter_row option" where
  "find_chapter [] n = None"
| "find_chapter (c # cs) n = (if chapter_number c = n then Some c else find_chapter cs n)"

fun update_chapter :: "chapter_row list \<Rightarrow> int \<Rightarrow> (chapter_row \<Rightarrow> chapter_row) \<Rightarrow> chapter_row list" where
  "update_chapter [] n f = []"
| "update_chapter (c # cs) n f =
     (if chapter_number c = n then f c # cs else c # update_chapter cs n f)"

text \<open>
  \<open>generate_summaries_task\<close>: for the \<open>index\<close>-th decoded summary (from 1),
  update the first chapter with that number or create one; a new row gets
  the next free id.  Returns the chapters, the next free id and the
  exception raised, if any.
\<close>

fun upsert_summaries ::
  "chapter_row list \<Rightarrow> nat \<Rightarrow> nat \<Rightarrow> json list \<Rightarrow> chapter_row list \<times> nat \<times> py_error option" where
  "upsert_summaries cs next_id index [] = (cs, next_id, None)"
| "upsert_summaries cs next_id index (d # ds) =
     (case find_chapter cs (int index) of
        None \<Rightarrow>
          (case py_get d ''title'' (JStr (''Chapter '' @ nat_str index)) of
             Inl e \<Rightarrow> (cs, next_id, Some e)
           | Inr t \<Rightarrow>
               (case py_get d ''summary'' (JStr '''') of
                  Inl e \<Rightarrow> (cs, next_id, Some e)
                | Inr sm \<Rightarrow>
                    upsert_summaries
                      (cs @ [\<lparr>chapter_id = next_id, chapter_number = int index, chapter_title = t,
                              chapter_summary = sm, chapter_content = JNull, chapter_image_key = None\<rparr>])
                      (Suc next_id) (Suc index) ds))
      | Some c \<Rightarrow>
          (case py_get d ''title'' (chapter_title c) of
             Inl e \<Rightarrow> (cs, next_id, Some e)
           | Inr t \<Rightarrow>
               (case py_get d ''summary'' (chapter_summary c) of
                  Inl e \<Rightarrow> (update_chapter cs (int index) (\<lambda>c. c\<lparr>chapter_title := t\<rparr>), next_id, Some e)
                | Inr sm \<Rightarrow>
                    upsert_summaries
                      (update_chapter cs (int index) (\<lambda>c. c\<lparr>chapter_title := t, chapter_summary := sm\<rparr>))
                      next_id (Suc index) ds)))"

text \<open>\<open>generate_chapter_guide_task\<close>: one part per element of a chapter's list;
  a part whose \<open>arc\<close> or \<open>arc_text\<close> is \<open>None\<close> is skipped.\<close>

definition mk_part :: "string \<Rightarrow> json \<Rightarrow> py_error + guide_part option" where
  "mk_part title p =
     bind_err (py_get p ''arc'' JNull) (\<lambda>a.
     bind_err (py_get p ''arc_text'' JNull) (\<lambda>txt.
     bind_err (py_get p ''characters'' (JArr [])) (\<lambda>chs.
     bind_err (py_get p ''locations'' (JArr [])) (\<lambda>ls.
       Inr (if txt = JNull \<or> a = JNull then None
            else Some \<lparr>gp_chapter_title = title, part_index = a, part_text = txt,
                       gp_characters = chs, gp_locations = ls\<rparr>)))))"

fun guide_loop :: "(string \<times> json) list \<Rightarrow> guide_part list \<times> py_error option" where
  "guide_loop [] = ([], None)"
| "guide_loop ((title, parts) # rest) =
     (case py_iter parts of
        Inl e \<Rightarrow> ([], Some e)
      | Inr ps \<Rightarrow>
          (case map_partial (mk_part title) ps of
             (rows, Some e) \<Rightarrow> (List.map_filter id rows, Some e)
           | (rows, None) \<Rightarrow>
               (case guide_loop rest of (rows', r) \<Rightarrow> (List.map_filter id rows @ rows', r))))"

text \<open>\<open>generate_chapter_task\<close>: store the content of the first chapter with the
  given number, if there is one.\<close>

definition set_chapter_content :: "story \<Rightarrow> int \<Rightarrow> string \<Rightarrow> story" where
  "set_chapter_content st n content =
     st\<lparr>story_chapters := update_chapter (story_chapters st) n (\<lambda>c. c\<lparr>chapter_content := JStr content\<rparr>)\<rparr>"

subsection \<open>Lemmas on the persistence steps\<close>

lemma find_chapter_Some:
  "find_chapter cs n = Some c \<Longrightarrow> c \<in> set cs \<and> chapter_number c = n"
  by (induction cs) (auto split: if_splits)

lemma find_chapter_None:
  "find_chapter cs n = None \<longleftrightarrow> (\<forall>c \<in> set cs. chapter_number c \<noteq> n)"
  by (induction cs) auto

lemma length_update_chapter [simp]: "length (update_chapter cs n f) = length cs"
  by (induction cs) auto

lemma update_chapter_none:
  "find_chapter cs n = None \<Longrightarrow> update_chapter cs n f = cs"
  by (induction cs) (auto split: if_splits)

lemma map_number_update_chapter:
  "(\<And>c. chapter_number (f c) = chapter_number c) \<Longrightarrow>
   map chapter_number (update_chapter cs n f) = map chapter_number cs"
  by (induction cs) auto

lemma story_ok_set_chapter_content [simp]:
  "story_ok (set_chapter_content st n txt) = story_ok st"
proof -
  have "list_all (\<lambda>c. chapter_title c \<noteq> JNull)
          (update_chapter cs n (\<lambda>c. c\<lparr>chapter_content := JStr txt\<rparr>)) =
        list_all (\<lambda>c. chapter_title c \<noteq> JNull) cs" for cs
    by (induction cs) auto
  then show ?thesis by (simp add: story_ok_def set_chapter_content_def)
qed

end
