(* ===== verification/SystemState.thy ===== *)
theory SystemState
  imports Estimator Lock GenerationLog Story
begin

text \<open>
  The state the dispatcher and the workers share, and the interface between
  them.  The state gathers the database tables the core touches (users'
  credits, stories, the generation log), the Redis lock key space, the
  Celery queue of job descriptors, the clock, the pricing rows, and the
  messages pushed to users (\<open>notify\<close> and \<open>socketio.emit\<close>).  A job descriptor
  is the argument list of one \<open>.delay(...)\<close> call of \<open>src/api/generation.py\<close>,
  consumed by the task of \<open>src/tasks.py\<close> with the same name.  Prompt rendering
  and token counting are external and given by an \<open>env\<close>: the prompt the
  handler sends, and the token count the predictor computes for its own
  rendering of the prompt.
\<close>

text \<open>One constructor per Celery task, carrying its arguments in the source's order.\<close>

datatype job =
    MetaJob story_id string uid tokens
  | StoryArcsJob story_id string uid tokens
  | SummariesJob story_id string uid tokens
  | ChapterGuideJob story_id string uid tokens
  | ChapterJob story_id string int uid tokens
  | ImageJob story_id string string uid rat "nat option"

fun job_user :: "job \<Rightarrow> uid" where
  "job_user (MetaJob _ _ u _) = u"
| "job_user (StoryArcsJob _ _ u _) = u"
| "job_user (SummariesJob _ _ u _) = u"
| "job_user (ChapterGuideJob _ _ u _) = u"
| "job_user (ChapterJob _ _ _ u _) = u"
| "job_user (ImageJob _ _ _ u _ _) = u"

text \<open>The story a job writes.\<close>

fun job_story :: "job \<Rightarrow> story_id" where
  "job_story (MetaJob sid _ _ _) = sid"
| "job_story (StoryArcsJob sid _ _ _) = sid"
| "job_story (SummariesJob sid _ _ _) = sid"
| "job_story (ChapterGuideJob sid _ _ _) = sid"
| "job_story (ChapterJob sid _ _ _ _) = sid"
| "job_story (ImageJob sid _ _ _ _ _) = sid"

text \<open>The \<open>generation_type\<close> string each task looks its log row up by.\<close>

fun job_type :: "job \<Rightarrow> string" where
  "job_type (MetaJob _ _ _ _) = ''meta''"
| "job_type (StoryArcsJob _ _ _ _) = ''story_arcs''"
| "job_type (SummariesJob _ _ _ _) = ''summaries''"
| "job_type (ChapterGuideJob _ _ _ _) = ''chapter_guide''"
| "job_type (ChapterJob _ _ _ _ _) = ''chapter''"
| "job_type (ImageJob _ _ _ _ _ _) = ''image''"

record sys =
  users :: users
  roles :: "uid \<rightharpoonup> string"
  stories :: "story_id \<rightharpoonup> story"
  locks :: lock_store
  logs :: log_table
  queue :: "(task_id \<times> job) list"
  next_task :: task_id
  next_row :: nat
  clock :: nat
  pricing :: "token_cost_config option"
  modifiers :: credit_configs
  outbox :: "(uid \<times> string) list"

text \<open>The external collaborators: the handler's rendered prompt and the
  predictor's token count, per kind, story snapshot and chapter index; the
  tokenizer (\<open>count_tokens\<close> of \<open>src/prompt_templates.py\<close>); and \<open>json.loads\<close>,
  \<open>None\<close> when it raises \<open>JSONDecodeError\<close>.\<close>

record env =
  render_prompt :: "string \<Rightarrow> story \<Rightarrow> int \<Rightarrow> string"
  predicted_tokens :: "string \<Rightarrow> story \<Rightarrow> int \<Rightarrow> tokens"
  count_tokens :: "string \<Rightarrow> tokens"
  json_loads :: "string \<Rightarrow> json option"

text \<open>\<open>notify(message, user_id)\<close> and \<open>socketio.emit(event, ..., room=user_id)\<close>.\<close>

definition notify :: "string \<Rightarrow> uid \<Rightarrow> sys \<Rightarrow> sys" where
  "notify msg uid s = s\<lparr>outbox := outbox s @ [(uid, msg)]\<rparr>"

text \<open>\<open>clear_user_generation_lock\<close> on the shared key space.\<close>

definition clear_lock :: "uid \<Rightarrow> sys \<Rightarrow> sys" where
  "clear_lock uid s = s\<lparr>locks := clear_user_generation_lock (locks s) uid\<rparr>"

text \<open>\<open>task.delay(...)\<close>: the broker assigns the task id and queues the job.\<close>

definition enqueue :: "job \<Rightarrow> sys \<Rightarrow> task_id \<times> sys" where
  "enqueue j s = (next_task s, s\<lparr>queue := queue s @ [(next_task s, j)], next_task := Suc (next_task s)\<rparr>)"

subsection \<open>Example data\<close>

text \<open>A small concrete system on which the lemmas of the handlers and workers
  are instantiated: user 1 with \<open>c\<close> credits of each type, story 1 with one
  chapter, the default pricing rows and modifiers, an empty log, queue and
  lock store; the environment renders every prompt to the same text and
  counts 10000 tokens for every prompt.\<close>

definition example_story :: story where
  "example_story =
     \<lparr>story_user = 1, chapters_count = 1, story_characters = [], story_locations = [], story_arcs = [],
      story_chapters = [\<lparr>chapter_id = 1, chapter_number = 1, chapter_title = JStr ''One'',
                          chapter_summary = JStr ''A summary'', chapter_content = JNull,
                          chapter_image_key = None\<rparr>],
      story_guide = [], cover_image_key = None, cover_image_prompt = None\<rparr>"

definition example_state :: "credits \<Rightarrow> sys" where
  "example_state c =
     \<lparr>users = [1 \<mapsto> \<lparr>text_credits = c, image_credits = c, audio_credits = c\<rparr>],
      roles = [1 \<mapsto> ''user''],
      stories = [1 \<mapsto> example_story], locks = Map.empty, logs = [], queue = [],
      next_task = 1, next_row = 2, clock = 0, pricing = Some default_token_cost_config,
      modifiers = default_credit_configs, outbox = []\<rparr>"

definition example_env :: env where
  "example_env = \<lparr>render_prompt = (\<lambda>_ _ _. ''prompt''), predicted_tokens = (\<lambda>_ _ _. 10000),
                  count_tokens = (\<lambda>_. 10000), json_loads = (\<lambda>_. None)\<rparr>"

lemmas example_defs = example_story_def example_state_def example_env_def
  default_token_cost_config_def default_credit_configs_def

subsection \<open>Frame lemmas\<close>

lemma notify_simps [simp]:
  "users (notify m u s) = users s" "stories (notify m u s) = stories s"
  "locks (notify m u s) = locks s" "logs (notify m u s) = logs s"
  "queue (notify m u s) = queue s" "next_task (notify m u s) = next_task s"
  "clock (notify m u s) = clock s" "pricing (notify m u s) = pricing s"
  "modifiers (notify m u s) = modifiers s" "next_row (notify m u s) = next_row s"
  by (simp_all add: notify_def)

lemma clear_lock_simps [simp]:
  "users (clear_lock u s) = users s" "stories (clear_lock u s) = stories s"
  "locks (clear_lock u s) = clear_user_generation_lock (locks s) u"
  "logs (clear_lock u s) = logs s" "queue (clear_lock u s) = queue s"
  "next_task (clear_lock u s) = next_task s" "clock (clear_lock u s) = clock s"
  "pricing (clear_lock u s) = pricing s" "modifiers (clear_lock u s) = modifiers s"
  "outbox (clear_lock u s) = outbox s" "next_row (clear_lock u s) = next_row s"
  by (simp_all add: clear_lock_def)

lemma enqueue_simps:
  "enqueue j s = (t, s') \<Longrightarrow> t = next_task s \<and> users s' = users s \<and> stories s' = stories s \<and>
     locks s' = locks s \<and> logs s' = logs s \<and> queue s' = queue s @ [(next_task s, j)] \<and>
     next_task s' = Suc (next_task s) \<and> clock s' = clock s \<and> outbox s' = outbox s \<and>
     pricing s' = pricing s \<and> modifiers s' = modifiers s \<and> next_row s' = next_row s"
  by (auto simp: enqueue_def)

end
