(* ===== verification/Worker.thy ===== *)
theory Worker
  imports SystemState
begin

text \<open>
  The Celery workers of \<open>src/tasks.py\<close>: one definition per
  \<open>generate_*_task\<close>, each the whole function, from the log lookup before the
  \<open>try\<close> to the \<open>finally\<close> block.

  The database is seen through the SQLAlchemy session the worker uses: a
  \<open>session\<close> holds the committed state, the state the worker's pending writes
  make (\<open>working\<close>), and whether a flush has failed.  A commit writes the
  working state if the story the task writes satisfies its \<open>NOT NULL\<close>
  constraints, and otherwise raises \<open>IntegrityError\<close> and leaves the session
  failed; every later commit on a failed session raises
  \<open>PendingRollbackError\<close>.  \<open>db.session.remove()\<close> in \<open>finally\<close> discards what
  was not committed.  The Redis lock and the Socket.IO messages are not
  transactional: they apply to both states at once.

  The external calls are inputs: the model's reply (text, or the exception
  the call raised), for images whether generating and downloading raised and
  the result of the upload.  \<open>json.loads\<close> and the tokenizer come from the
  environment.  The task's own id (\<open>self.request.id\<close>) is the id the
  dispatcher's broker returned for the job.
\<close>

record session =
  committed :: sys
  working :: sys
  flush_failed :: bool

definition open_session :: "sys \<Rightarrow> session" where
  "open_session s = \<lparr>committed = s, working = s, flush_failed = False\<rparr>"

text \<open>A non-transactional effect: the Redis lock, a Socket.IO message.\<close>

definition ext :: "(sys \<Rightarrow> sys) \<Rightarrow> session \<Rightarrow> session" where
  "ext f ss = ss\<lparr>committed := f (committed ss), working := f (working ss)\<rparr>"

text \<open>A pending write in the session.\<close>

definition work :: "(sys \<Rightarrow> sys) \<Rightarrow> session \<Rightarrow> session" where
  "work f ss = ss\<lparr>working := f (working ss)\<rparr>"

text \<open>The constraints of story \<open>sid\<close>'s rows hold (vacuously for a missing story).\<close>

definition story_ok_at :: "sys \<Rightarrow> story_id \<Rightarrow> bool" where
  "story_ok_at s sid = (case stories s sid of None \<Rightarrow> True | Some st \<Rightarrow> story_ok st)"

text \<open>\<open>db.session.commit()\<close> for a task writing story \<open>sid\<close>.\<close>

definition db_commit :: "story_id \<Rightarrow> session \<Rightarrow> (py_error \<times> session) + session" where
  "db_commit sid ss =
     (if flush_failed ss then Inl (PendingRollbackError, ss)
      else if story_ok_at (working ss) sid then Inr (ss\<lparr>committed := working ss\<rparr>)
      else Inl (IntegrityError, ss\<lparr>flush_failed := True\<rparr>))"

text \<open>\<open>db.session.rollback()\<close>.\<close>

definition db_rollback :: "session \<Rightarrow> session" where
  "db_rollback ss = ss\<lparr>working := committed ss, flush_failed := False\<rparr>"

text \<open>\<open>socketio.emit(event, ..., room=user_id)\<close>: a message on the user's channel.\<close>

definition emit :: "string \<Rightarrow> uid \<Rightarrow> sys \<Rightarrow> sys" where
  "emit ev uid s = s\<lparr>outbox := outbox s @ [(uid, ev)]\<rparr>"

definition set_story :: "story_id \<Rightarrow> story \<Rightarrow> sys \<Rightarrow> sys" where
  "set_story sid st s = s\<lparr>stories := (stories s)(sid \<mapsto> st)\<rparr>"

definition set_log :: "nat option \<Rightarrow> (generation_log \<Rightarrow> generation_log) \<Rightarrow> sys \<Rightarrow> sys" where
  "set_log entry f s = s\<lparr>logs := update_log (logs s) entry f\<rparr>"

text \<open>What a task returns: the success dictionary, an error dictionary, \<open>None\<close>
  (the early return of the metadata task), or an exception that escapes it.\<close>

datatype task_result = TaskSuccess | TaskFailed string | TaskNone | TaskRaised py_error

text \<open>The log updates of the success and the failure branches.\<close>

definition log_succeeded :: "cost_info \<Rightarrow> string \<Rightarrow> generation_log \<Rightarrow> generation_log" where
  "log_succeeded p model e =
     e\<lparr>real_cost := Some (of_int (total_credit_cost p)), status := ''succeeded'',
       input_tokens := ci_input_tokens p, output_tokens := ci_output_tokens p,
       log_model := Some model\<rparr>"

definition log_failed :: "py_error \<Rightarrow> generation_log \<Rightarrow> generation_log" where
  "log_failed e l = l\<lparr>status := ''failed'', error_message := Some (py_error_str e)\<rparr>"

text \<open>
  The \<open>except Exception as e\<close> block: mark the log row failed and commit (this
  commit raises on a failed session, and the exception escapes), then notify
  and emit \<open>generation_error\<close>.
\<close>

definition task_except ::
  "story_id \<Rightarrow> uid \<Rightarrow> nat option \<Rightarrow> string \<Rightarrow> py_error \<Rightarrow> session \<Rightarrow> task_result \<times> session" where
  "task_except sid uid entry msg e ss =
     (let fail = (\<lambda>ss'. ext (emit ''generation_error'' uid) (ext (notify msg uid) ss')) in
      case entry of
        None \<Rightarrow> (TaskFailed (py_error_str e), fail ss)
      | Some i \<Rightarrow>
          (case db_commit sid (work (set_log (Some i) (log_failed e)) ss) of
             Inl (e', ss') \<Rightarrow> (TaskRaised e', ss')
           | Inr ss' \<Rightarrow> (TaskFailed (py_error_str e), fail ss')))"

text \<open>
  A task: the \<open>try\<close> body's outcome, the \<open>except\<close> block on an exception
  (after \<open>db.session.rollback()\<close> for the image task), then \<open>finally\<close>: clear the
  user's lock and discard the uncommitted writes.
\<close>

definition run_task ::
  "story_id \<Rightarrow> uid \<Rightarrow> nat option \<Rightarrow> string \<Rightarrow> bool \<Rightarrow>
   (py_error \<times> session) + (task_result \<times> session) \<Rightarrow> task_result \<times> sys" where
  "run_task sid uid entry msg rollback body =
     (case (case body of
              Inr rs \<Rightarrow> rs
            | Inl (e, ss) \<Rightarrow> task_except sid uid entry msg e (if rollback then db_rollback ss else ss)) of
        (r, ss) \<Rightarrow> (r, committed (ext (clear_lock uid) ss)))"

text \<open>
  The reconciliation every text task ends with: the actual cost of the reply,
  \<open>spend_credits\<close> (which commits), the log row's success fields and a commit,
  the success notification.
\<close>

definition reconcile ::
  "(token_cost_config option \<Rightarrow> credit_configs \<Rightarrow> tokens \<Rightarrow> tokens \<Rightarrow> py_error + cost_info) \<Rightarrow>
   string \<Rightarrow> env \<Rightarrow> story_id \<Rightarrow> uid \<Rightarrow> nat option \<Rightarrow> tokens \<Rightarrow> string \<Rightarrow> string \<Rightarrow>
   session \<Rightarrow> (py_error \<times> session) + session" where
  "reconcile actual model E sid uid entry n_in text msg ss =
     (case actual (pricing (working ss)) (modifiers (working ss)) n_in (count_tokens E text) of
        Inl e \<Rightarrow> Inl (e, ss)
      | Inr p \<Rightarrow>
          (case spend_credits (users (working ss)) uid ''text'' (of_int (total_credit_cost p)) of
             Inl e \<Rightarrow> Inl (e, ss)
           | Inr us \<Rightarrow>
               bind_err (db_commit sid (work (\<lambda>s. s\<lparr>users := us\<rparr>) ss)) (\<lambda>ss1.
               bind_err (case entry of
                           None \<Rightarrow> Inr ss1
                         | Some i \<Rightarrow> db_commit sid (work (set_log (Some i) (log_succeeded p model)) ss1))
                 (\<lambda>ss2. Inr (ext (notify msg uid) ss2)))))"

text \<open>\<open>story = Story.query.get(story_id); if story: ...; db.session.commit()\<close>
  around a persistence step of \<open>Story\<close>.\<close>

definition story_step ::
  "story_id \<Rightarrow> (story \<Rightarrow> story \<times> py_error option) \<Rightarrow> session \<Rightarrow> (py_error \<times> session) + session" where
  "story_step sid f ss =
     (case stories (working ss) sid of
        None \<Rightarrow> Inr ss
      | Some st \<Rightarrow>
          (case f st of
             (st', Some e) \<Rightarrow> Inl (e, work (set_story sid st') ss)
           | (st', None) \<Rightarrow> db_commit sid (work (set_story sid st') ss)))"

subsection \<open>generate_meta_task\<close>

text \<open>\<open>if len(result.get("locations")) == 0 and len(result.get("characters")) == 0\<close>,
  with Python's short-circuit \<open>and\<close>.\<close>

definition meta_is_empty :: "json \<Rightarrow> py_error + bool" where
  "meta_is_empty result =
     bind_err (bind_err (py_get result ''locations'' JNull) py_len) (\<lambda>nl.
       if nl = 0 then bind_err (bind_err (py_get result ''characters'' JNull) py_len) (\<lambda>nc. Inr (nc = 0))
       else Inr False)"

definition generate_meta_task ::
  "env \<Rightarrow> py_error + string \<Rightarrow> task_id \<Rightarrow> story_id \<Rightarrow> uid \<Rightarrow> tokens \<Rightarrow> sys \<Rightarrow> task_result \<times> sys" where
  "generate_meta_task E out tid sid uid n_in s =
     (let entry = find_log (logs s) tid uid ''meta''; ss = open_session s in
      run_task sid uid entry ''Metadata Generation Failed'' False
        (case out of
           Inl e \<Rightarrow> Inl (e, ss)
         | Inr text \<Rightarrow>
             (let result = (case json_loads E text of
                              Some v \<Rightarrow> v
                            | None \<Rightarrow> JObj [(''locations'', JArr []), (''characters'', JArr [])]) in
              case meta_is_empty result of
                Inl e \<Rightarrow> Inl (e, ss)
              | Inr no_data \<Rightarrow>
                  if no_data then Inr (TaskNone, ext (clear_lock uid) (ext (notify ''Metadata Generation Failed'' uid) ss))
                  else
                    bind_err (story_step sid (\<lambda>st. replace_meta st result) ss) (\<lambda>ss1.
                    bind_err (reconcile calculate_actual_meta_cost ''gpt-4o-mini'' E sid uid entry n_in text
                                ''Metadata Generation Successful'' ss1) (\<lambda>ss2.
                      (case stories s sid of
                         None \<Rightarrow> Inl (AttributeError ''id'', ss2)
                       | Some _ \<Rightarrow> Inr (TaskSuccess, ext (emit ''meta_generated'' uid) ss2)))))))"

subsection \<open>generate_story_arcs_task\<close>

definition generate_story_arcs_task ::
  "env \<Rightarrow> py_error + string \<Rightarrow> task_id \<Rightarrow> story_id \<Rightarrow> uid \<Rightarrow> tokens \<Rightarrow> sys \<Rightarrow> task_result \<times> sys" where
  "generate_story_arcs_task E out tid sid uid n_in s =
     (let entry = find_log (logs s) tid uid ''story_arcs''; ss = open_session s in
      run_task sid uid entry ''Story Arcs Generation Failed'' False
        (case out of
           Inl e \<Rightarrow> Inl (e, ss)
         | Inr text \<Rightarrow>
             (case json_loads E text of
                None \<Rightarrow> Inl (JSONDecodeError, ss)
              | Some arcs \<Rightarrow>
                  bind_err (story_step sid (\<lambda>st. replace_arcs st arcs) ss) (\<lambda>ss1.
                  bind_err (reconcile calculate_actual_story_arcs_cost ''o1-mini'' E sid uid entry n_in text
                              ''Story Arcs Generation Successful'' ss1) (\<lambda>ss2.
                    Inr (TaskSuccess, ext (emit ''arcs_generated'' uid) ss2))))))"

subsection \<open>generate_summaries_task\<close>

text \<open>\<open>not text.strip()\<close>: every character is whitespace (\<open>str.isspace\<close> on the
  Latin-1 range).\<close>

definition py_strip_empty :: "string \<Rightarrow> bool" where
  "py_strip_empty txt \<longleftrightarrow>
     list_all (\<lambda>c. (of_char c :: nat) \<in> {9, 10, 11, 12, 13, 28, 29, 30, 31, 32, 133, 160}) txt"

definition generate_summaries_task ::
  "env \<Rightarrow> py_error + string \<Rightarrow> task_id \<Rightarrow> story_id \<Rightarrow> uid \<Rightarrow> tokens \<Rightarrow> sys \<Rightarrow> task_result \<times> sys" where
  "generate_summaries_task E out tid sid uid n_in s =
     (let entry = find_log (logs s) tid uid ''summaries''; ss = open_session s in
      run_task sid uid entry ''Summaries Generation Failed'' False
        (case out of
           Inl e \<Rightarrow> Inl (e, ss)
         | Inr text \<Rightarrow>
             if py_strip_empty text
             then Inl (ValueError ''Empty response received for Chapter Summaries.'', ss)
             else (case json_loads E text of
                     None \<Rightarrow> Inl (ValueError ''Failed to parse Chapter Summaries JSON'', ss)
                   | Some v \<Rightarrow>
                       (case py_iter v of
                          Inl e \<Rightarrow> Inl (e, ss)
                        | Inr items \<Rightarrow>
                            bind_err
                              (case stories s sid of
                                 None \<Rightarrow> if items = [] then db_commit sid ss else Inl (AttributeError ''id'', ss)
                               | Some st \<Rightarrow>
                                   (case upsert_summaries (story_chapters st) (next_row (working ss)) 1 items of
                                      (cs, nid, r) \<Rightarrow>
                                        (let ss1 = work (\<lambda>w. set_story sid (st\<lparr>story_chapters := cs\<rparr>)
                                                               (w\<lparr>next_row := nid\<rparr>)) ss in
                                         case r of Some e \<Rightarrow> Inl (e, ss1) | None \<Rightarrow> db_commit sid ss1)))
                              (\<lambda>ss1.
                            bind_err (reconcile calculate_actual_summaries_cost ''o1-mini'' E sid uid entry n_in text
                                        ''Summaries Generation Successful'' ss1) (\<lambda>ss2.
                              (case stories s sid of
                                 None \<Rightarrow> Inl (AttributeError ''chapters'', ss2)
                               | Some _ \<Rightarrow> Inr (TaskSuccess, ext (emit ''summaries_generated'' uid) ss2))))))))"

subsection \<open>generate_chapter_guide_task\<close>

text \<open>\<open>ChapterGuide.query.filter_by(story_id=story_id).delete()\<close>, then the parts
  of \<open>chapter_guide.items()\<close>.  The rows of a story that does not exist are not
  kept (no row of the model refers to them), but the loop runs and may raise.\<close>

definition set_guide :: "story_id \<Rightarrow> guide_part list \<Rightarrow> sys \<Rightarrow> sys" where
  "set_guide sid rows s =
     (case stories s sid of None \<Rightarrow> s | Some st \<Rightarrow> set_story sid (st\<lparr>story_guide := rows\<rparr>) s)"

definition guide_step :: "story_id \<Rightarrow> json \<Rightarrow> session \<Rightarrow> (py_error \<times> session) + session" where
  "guide_step sid guide ss =
     (case py_items guide of
        Inl e \<Rightarrow> Inl (e, work (set_guide sid []) ss)
      | Inr items \<Rightarrow>
          (case guide_loop items of
             (rows, r) \<Rightarrow>
               (let ss1 = work (set_guide sid rows) ss in
                case r of Some e \<Rightarrow> Inl (e, ss1) | None \<Rightarrow> db_commit sid ss1)))"

definition generate_chapter_guide_task ::
  "env \<Rightarrow> py_error + string \<Rightarrow> task_id \<Rightarrow> story_id \<Rightarrow> uid \<Rightarrow> tokens \<Rightarrow> sys \<Rightarrow> task_result \<times> sys" where
  "generate_chapter_guide_task E out tid sid uid n_in s =
     (let entry = find_log (logs s) tid uid ''chapter_guide''; ss = open_session s in
      run_task sid uid entry ''Detailed Story Arcs Generation Failed'' False
        (case out of
           Inl e \<Rightarrow> Inl (e, ss)
         | Inr text \<Rightarrow>
             (case json_loads E text of
                None \<Rightarrow> Inl (JSONDecodeError, ss)
              | Some g \<Rightarrow>
                  bind_err (guide_step sid g ss) (\<lambda>ss1.
                  bind_err (reconcile calculate_actual_chapter_guide_cost ''o1-mini'' E sid uid entry n_in text
                              ''Detailed Story Arcs Generation Successful'' ss1) (\<lambda>ss2.
                    Inr (TaskSuccess, ext (emit ''chapter_guide_generated'' uid) ss2))))))"

subsection \<open>generate_chapter_task\<close>

text \<open>The chapter is looked up by number; when there is none, the content is
  not stored, the user is still charged, and \<open>chapter.title\<close> in the success
  message raises.\<close>

definition generate_chapter_task ::
  "env \<Rightarrow> py_error + string \<Rightarrow> task_id \<Rightarrow> story_id \<Rightarrow> int \<Rightarrow> uid \<Rightarrow> tokens \<Rightarrow> sys \<Rightarrow>
   task_result \<times> sys" where
  "generate_chapter_task E out tid sid n uid n_in s =
     (let entry = find_log (logs s) tid uid ''chapter''; ss = open_session s in
      run_task sid uid entry ''Chapter Generation Failed'' False
        (case out of
           Inl e \<Rightarrow> Inl (e, ss)
         | Inr content \<Rightarrow>
             (let chapter = (case stories s sid of None \<Rightarrow> None | Some st \<Rightarrow> find_chapter (story_chapters st) n);
                  ss1 = (case stories s sid of
                           None \<Rightarrow> ss
                         | Some st \<Rightarrow> work (set_story sid (set_chapter_content st n content)) ss) in
              bind_err (db_commit sid ss1) (\<lambda>ss2.
              bind_err (reconcile calculate_actual_chapter_cost ''o1-mini'' E sid uid entry n_in content
                          ''Chapter Generation Successful'' ss2) (\<lambda>ss3.
                (case chapter of
                   None \<Rightarrow> Inl (AttributeError ''title'', ss3)
                 | Some _ \<Rightarrow> Inr (TaskSuccess, ext (emit ''chapter_generated'' uid) ss3)))))))"

subsection \<open>generate_image_task\<close>

text \<open>\<open>Chapter.query.filter_by(story_id=story_id, id=chapter_id).first()\<close> and the
  update of that row's \<open>chapter_image_key\<close>.\<close>

fun find_chapter_id :: "chapter_row list \<Rightarrow> nat \<Rightarrow> chapter_row option" where
  "find_chapter_id [] cid = None"
| "find_chapter_id (c # cs) cid = (if chapter_id c = cid then Some c else find_chapter_id cs cid)"

fun set_chapter_image :: "chapter_row list \<Rightarrow> nat \<Rightarrow> string \<Rightarrow> chapter_row list" where
  "set_chapter_image [] cid url = []"
| "set_chapter_image (c # cs) cid url =
     (if chapter_id c = cid then c\<lparr>chapter_image_key := Some url\<rparr> # cs else c # set_chapter_image cs cid url)"

text \<open>After the image key is set: commit, charge the image credits, mark the
  row succeeded (\<open>real_cost\<close> is not written), notify and emit.\<close>

definition image_success ::
  "story_id \<Rightarrow> uid \<Rightarrow> nat option \<Rightarrow> rat \<Rightarrow> session \<Rightarrow> (py_error \<times> session) + (task_result \<times> session)" where
  "image_success sid uid entry cost ss =
     bind_err (db_commit sid ss) (\<lambda>ss1.
       (case spend_credits (users (working ss1)) uid ''image'' cost of
          Inl e \<Rightarrow> Inl (e, ss1)
        | Inr us \<Rightarrow>
            bind_err (db_commit sid (work (\<lambda>w. w\<lparr>users := us\<rparr>) ss1)) (\<lambda>ss2.
            bind_err (case entry of
                        None \<Rightarrow> Inr ss2
                      | Some i \<Rightarrow> db_commit sid (work (set_log (Some i)
                                    (\<lambda>l. l\<lparr>status := ''succeeded'', log_model := Some ''dall-e-3''\<rparr>)) ss2))
              (\<lambda>ss3. Inr (TaskSuccess,
                       ext (emit ''image_generated'' uid) (ext (notify ''Image Generation Complete'' uid) ss3))))))"

definition generate_image_task ::
  "py_error option \<Rightarrow> py_error + string \<Rightarrow> task_id \<Rightarrow> story_id \<Rightarrow> uid \<Rightarrow> rat \<Rightarrow> nat option \<Rightarrow> sys \<Rightarrow>
   task_result \<times> sys" where
  "generate_image_task gen upload tid sid uid cost chapter s =
     (let entry = find_log (logs s) tid uid ''image''; ss = open_session s in
      run_task sid uid entry ''Image Generation Failed'' True
        (case gen of
           Some e \<Rightarrow> Inl (e, ss)
         | None \<Rightarrow>
             (case chapter of
                None \<Rightarrow>
                  (case stories s sid of
                     None \<Rightarrow> Inr (TaskFailed ''Story not found.'', ext (notify ''Story not found'' uid) ss)
                   | Some st \<Rightarrow>
                       (case upload of
                          Inl e \<Rightarrow> Inl (e, ss)
                        | Inr url \<Rightarrow>
                            image_success sid uid entry cost
                              (work (set_story sid (st\<lparr>cover_image_key := Some url\<rparr>)) ss)))
              | Some cid \<Rightarrow>
                  (case (case stories s sid of None \<Rightarrow> None
                         | Some st \<Rightarrow> map_option (\<lambda>_. st) (find_chapter_id (story_chapters st) cid)) of
                     None \<Rightarrow> Inr (TaskFailed ''Chapter not found.'', ext (notify ''Chapter not found'' uid) ss)
                   | Some st \<Rightarrow>
                       (case upload of
                          Inl e \<Rightarrow> Inl (e, ss)
                        | Inr url \<Rightarrow>
                            image_success sid uid entry cost
                              (work (set_story sid (st\<lparr>story_chapters :=
                                 set_chapter_image (story_chapters st) cid url\<rparr>)) ss))))))"

subsection \<open>Running a queued job\<close>

text \<open>What the outside world gives a worker: the model's reply, and for an
  image whether generating and downloading it raised and what the upload
  returned.\<close>

record outcome =
  reply :: "py_error + string"
  image_error :: "py_error option"
  upload :: "py_error + string"

text \<open>The Celery worker consuming job \<open>j\<close> queued under task id \<open>t\<close>.\<close>

fun run_job :: "env \<Rightarrow> outcome \<Rightarrow> task_id \<Rightarrow> job \<Rightarrow> sys \<Rightarrow> task_result \<times> sys" where
  "run_job E oc t (MetaJob sid p uid n) s = generate_meta_task E (reply oc) t sid uid n s"
| "run_job E oc t (StoryArcsJob sid p uid n) s = generate_story_arcs_task E (reply oc) t sid uid n s"
| "run_job E oc t (SummariesJob sid p uid n) s = generate_summaries_task E (reply oc) t sid uid n s"
| "run_job E oc t (ChapterGuideJob sid p uid n) s = generate_chapter_guide_task E (reply oc) t sid uid n s"
| "run_job E oc t (ChapterJob sid p k uid n) s = generate_chapter_task E (reply oc) t sid k uid n s"
| "run_job E oc t (ImageJob sid key p uid c ch) s =
     generate_image_task (image_error oc) (upload oc) t sid uid c ch s"

subsection \<open>Example data\<close>

text \<open>Concrete inputs for the lemmas below: an outcome with the given model
  reply, the example system with one pending log row of kind \<open>k\<close> for task 1
  of user 1, and an environment whose \<open>json.loads\<close> returns \<open>v\<close>.\<close>

definition example_outcome :: "py_error + string \<Rightarrow> outcome" where
  "example_outcome r = \<lparr>reply = r, image_error = None, upload = Inr ''images/1.png''\<rparr>"

definition example_logged :: "string \<Rightarrow> sys" where
  "example_logged k = (example_state 1000)\<lparr>logs := add_log [] (new_log 1 1 k (Some 336) None)\<rparr>"

definition example_json_env :: "json \<Rightarrow> env" where
  "example_json_env v = example_env\<lparr>json_loads := (\<lambda>_. Some v)\<rparr>"

lemmas worker_example_defs = example_outcome_def example_logged_def example_json_env_def example_defs
  add_log_def new_log_def find_log_def

subsection \<open>Session and frame lemmas\<close>

lemma session_simps [simp]:
  "committed (ext f ss) = f (committed ss)" "working (ext f ss) = f (working ss)"
  "flush_failed (ext f ss) = flush_failed ss"
  "committed (work f ss) = committed ss" "working (work f ss) = f (working ss)"
  "flush_failed (work f ss) = flush_failed ss"
  "committed (db_rollback ss) = committed ss" "working (db_rollback ss) = committed ss"
  "flush_failed (db_rollback ss) = False"
  "committed (open_session s) = s" "working (open_session s) = s" "flush_failed (open_session s) = False"
  by (simp_all add: ext_def work_def db_rollback_def open_session_def)

lemma emit_simps [simp]:
  "users (emit m u s) = users s" "stories (emit m u s) = stories s"
  "locks (emit m u s) = locks s" "logs (emit m u s) = logs s"
  by (simp_all add: emit_def)

lemma set_log_simps [simp]:
  "users (set_log e f s) = users s" "stories (set_log e f s) = stories s"
  "locks (set_log e f s) = locks s" "logs (set_log e f s) = update_log (logs s) e f"
  "pricing (set_log e f s) = pricing s" "modifiers (set_log e f s) = modifiers s"
  by (simp_all add: set_log_def)

lemma set_log_None [simp]: "set_log None f s = s"
  by (simp add: set_log_def update_log_def)

lemma run_task_lock: "locks (snd (run_task sid uid entry msg rb body)) uid = None"
  by (simp add: run_task_def clear_user_generation_lock_def split: prod.splits)

lemma run_task_error_open:
  "story_ok_at s sid \<Longrightarrow>
   run_task sid uid entry msg False (Inl (e, open_session s)) =
     (TaskFailed (py_error_str e),
      clear_lock uid (emit ''generation_error'' uid (notify msg uid (set_log entry (log_failed e) s))))"
  by (cases entry) (simp_all add: run_task_def task_except_def db_commit_def story_ok_at_def)

subsection \<open>Properties of the workers\<close>

text \<open>
  C15: Property P3 of the specification.  Whatever the job and whatever the
  model, the upload or the database do, the user's lock is absent once the
  worker has finished: the \<open>finally\<close> block clears it on every path, the early
  returns and the exceptions escaping the \<open>except\<close> block included.
\<close>

theorem worker_releases_lock: "locks (snd (run_job E oc t j s)) (job_user j) = None"
  by (cases j) (simp_all only: run_job.simps job_user.simps generate_meta_task_def
      generate_story_arcs_task_def generate_summaries_task_def generate_chapter_guide_task_def
      generate_chapter_task_def generate_image_task_def Let_def run_task_lock)

text \<open>
  C16: Execution errors of the specification.  When the model call of a text
  job raises, the worker returns the error, charges nothing, changes no story,
  and marks the job's log row failed with the exception's text (if the row
  exists), provided the story's rows satisfy their constraints, as committed
  rows do.
\<close>

theorem reply_error_marks_failed:
  assumes "reply oc = Inl e" "job_type j \<noteq> ''image''" "story_ok_at s (job_story j)"
    "run_job E oc t j s = (r, s')"
  shows "r = TaskFailed (py_error_str e) \<and> users s' = users s \<and> stories s' = stories s \<and>
         logs s' = update_log (logs s) (find_log (logs s) t (job_user j) (job_type j)) (log_failed e)"
  using assms
  by (cases j) (auto simp: generate_meta_task_def generate_story_arcs_task_def generate_summaries_task_def
      generate_chapter_guide_task_def generate_chapter_task_def Let_def run_task_error_open)

theorem reply_error_marks_failed_witness:
  "\<exists>s'. run_job example_env (example_outcome (Inl (ModelError ''timeout''))) 1 (MetaJob 1 ''prompt'' 1 10000)
          (example_logged ''meta'') = (TaskFailed ''timeout'', s') \<and>
        map status (logs s') = [''failed''] \<and> users s' = users (example_logged ''meta'')"
proof -
  obtain r s' where e: "run_job example_env (example_outcome (Inl (ModelError ''timeout''))) 1
      (MetaJob 1 ''prompt'' 1 10000) (example_logged ''meta'') = (r, s')" by (rule prod.exhaust)
  have ok: "story_ok_at (example_logged ''meta'') (job_story (MetaJob 1 ''prompt'' 1 10000))"
    by (simp add: worker_example_defs story_ok_at_def story_ok_def)
  from reply_error_marks_failed [OF _ _ ok e] e show ?thesis
    by (simp add: worker_example_defs update_log_def log_failed_def)
qed

text \<open>
  C17: Property P2 of the specification.  When a text job succeeds, its log row
  is marked succeeded with a real cost, and the user's text credits were
  lowered by exactly that cost.
\<close>

theorem success_charges_recorded_cost:
  assumes "run_job E oc t j s = (TaskSuccess, s')" "job_type j \<noteq> ''image''"
    "find_log (logs s) t (job_user j) (job_type j) = Some i" "users s (job_user j) = Some u"
  shows "\<exists>c. real_cost (logs s' ! i) = Some c \<and> status (logs s' ! i) = ''succeeded'' \<and>
     users s' (job_user j) = Some (u\<lparr>text_credits := text_credits u - c\<rparr>)"
  using assms find_log_Some [OF assms(3)]
  by (cases j) (auto simp: generate_meta_task_def generate_story_arcs_task_def generate_summaries_task_def
      generate_chapter_guide_task_def generate_chapter_task_def guide_step_def set_guide_def
      run_task_def task_except_def reconcile_def story_step_def
      db_commit_def story_ok_at_def spend_credits_def update_log_def Let_def log_succeeded_def set_story_def
      split: sum.splits option.splits prod.splits if_splits)
theorem success_charges_recorded_cost_witness:
  "\<exists>s' c. run_job example_env (example_outcome (Inr ''Once upon a time'')) 1 (ChapterJob 1 ''prompt'' 1 1 10000)
          (example_logged ''chapter'') = (TaskSuccess, s') \<and>
        real_cost (logs s' ! 0) = Some c \<and> status (logs s' ! 0) = ''succeeded'' \<and>
        users s' 1 = Some \<lparr>text_credits = 1000 - c, image_credits = 1000, audio_credits = 1000\<rparr>"
proof -
  have "\<exists>s'. run_job example_env (example_outcome (Inr ''Once upon a time'')) 1 (ChapterJob 1 ''prompt'' 1 1 10000)
          (example_logged ''chapter'') = (TaskSuccess, s')"
    by (simp add: generate_chapter_task_def run_task_def reconcile_def db_commit_def story_ok_at_def
        story_ok_def worker_example_defs calculate_actual_chapter_cost_def eval_simps spend_credits_def
        set_story_def set_chapter_content_def set_log_def update_log_def)
  then obtain s' where e: "run_job example_env (example_outcome (Inr ''Once upon a time'')) 1
      (ChapterJob 1 ''prompt'' 1 1 10000) (example_logged ''chapter'') = (TaskSuccess, s')" ..
  have f: "find_log (logs (example_logged ''chapter'')) 1 (job_user (ChapterJob 1 ''prompt'' 1 1 10000))
      (job_type (ChapterJob 1 ''prompt'' 1 1 10000)) = Some 0" by (simp add: worker_example_defs)
  have u: "users (example_logged ''chapter'') (job_user (ChapterJob 1 ''prompt'' 1 1 10000)) =
      Some \<lparr>text_credits = 1000, image_credits = 1000, audio_credits = 1000\<rparr>"
    by (simp add: worker_example_defs)
  from success_charges_recorded_cost [OF e _ f u] e show ?thesis by auto
qed

text \<open>
  C18: A metadata job whose story has been deleted is charged and then marked
  failed: the reply is reconciled and debited and the row marked succeeded,
  then building the reply message reads \<open>story.id\<close> of \<open>None\<close> and the
  \<open>except\<close> block overwrites the status with failed, leaving the real cost.
\<close>

theorem meta_missing_story_charged_then_failed:
  assumes "stories s sid = None" "json_loads E text = Some v" "meta_is_empty v = Inr False"
    "users s uid = Some u"
    "calculate_actual_meta_cost (pricing s) (modifiers s) n (count_tokens E text) = Inr p"
    "find_log (logs s) t uid ''meta'' = Some i"
    "generate_meta_task E (Inr text) t sid uid n s = (r, s')"
  shows "r = TaskFailed (py_error_str (AttributeError ''id'')) \<and>
         users s' uid = Some (u\<lparr>text_credits := text_credits u - of_int (total_credit_cost p)\<rparr>) \<and>
         logs s' = (logs s)[i := log_failed (AttributeError ''id'') (log_succeeded p ''gpt-4o-mini'' (logs s ! i))]"
  using assms find_log_Some [OF assms(6)]
  by (auto simp: generate_meta_task_def run_task_def task_except_def reconcile_def story_step_def
      db_commit_def story_ok_at_def spend_credits_def update_log_def Let_def)


theorem meta_missing_story_charged_then_failed_witness:
  "\<exists>(p :: cost_info) s'. generate_meta_task (example_json_env (JObj [(''locations'', JArr [JObj [(''name'', JStr ''Harbour'')]])]))
            (Inr ''reply'') 1 1 1 10000 ((example_logged ''meta'')\<lparr>stories := Map.empty\<rparr>) =
          (TaskFailed (py_error_str (AttributeError ''id'')), s') \<and>
          users s' 1 = Some \<lparr>text_credits = 1000 - of_int (total_credit_cost p), image_credits = 1000,
                             audio_credits = 1000\<rparr> \<and>
          map status (logs s') = [''failed''] \<and> map real_cost (logs s') = [Some (of_int (total_credit_cost p))]"
proof -
  let ?E = "example_json_env (JObj [(''locations'', JArr [JObj [(''name'', JStr ''Harbour'')]])])"
  let ?S = "(example_logged ''meta'')\<lparr>stories := Map.empty\<rparr>"
  have m: "meta_is_empty (JObj [(''locations'', JArr [JObj [(''name'', JStr ''Harbour'')]])]) = Inr False"
    by (simp add: meta_is_empty_def dict_lookup_def dict_keys_def)
  have "\<exists>p. calculate_actual_meta_cost (pricing ?S) (modifiers ?S) 10000 (count_tokens ?E ''reply'') = Inr p"
    by (simp add: calculate_actual_meta_cost_def worker_example_defs eval_simps)
  then obtain p where c: "calculate_actual_meta_cost (pricing ?S) (modifiers ?S) 10000 (count_tokens ?E ''reply'') = Inr p" ..
  obtain r s' where e: "generate_meta_task ?E (Inr ''reply'') 1 1 1 10000 ?S = (r, s')" by (rule prod.exhaust)
  have st: "stories ?S 1 = None" by simp
  have j: "json_loads ?E ''reply'' = Some (JObj [(''locations'', JArr [JObj [(''name'', JStr ''Harbour'')]])])"
    by (simp add: example_json_env_def)
  have u: "users ?S 1 = Some \<lparr>text_credits = 1000, image_credits = 1000, audio_credits = 1000\<rparr>"
    by (simp add: worker_example_defs)
  have f: "find_log (logs ?S) 1 1 ''meta'' = Some 0" by (simp add: worker_example_defs)
  from meta_missing_story_charged_then_failed [OF st j m u c f e] e
  have conj: "generate_meta_task ?E (Inr ''reply'') 1 1 1 10000 ?S = (TaskFailed (py_error_str (AttributeError ''id'')), s') \<and>
      users s' 1 = Some \<lparr>text_credits = 1000 - of_int (total_credit_cost p), image_credits = 1000,
                         audio_credits = 1000\<rparr> \<and>
      map status (logs s') = [''failed''] \<and> map real_cost (logs s') = [Some (of_int (total_credit_cost p))]"
    by (simp add: worker_example_defs log_failed_def log_succeeded_def)
  show ?thesis by (rule exI [of _ p], rule exI [of _ s'], rule conj)
qed

text \<open>
  C19: Scenario E of the specification, as the code has it.  A metadata reply
  that decodes to empty character and location lists is not marked failed:
  the task returns \<open>None\<close>, the log row stays pending, nothing is charged or
  written, and the lock is released.
\<close>

theorem meta_empty_reply_stays_pending:
  assumes "json_loads E text = Some (JObj [(''characters'', JArr []), (''locations'', JArr [])])"
    "generate_meta_task E (Inr text) t sid uid n s = (r, s')"
  shows "r = TaskNone \<and> logs s' = logs s \<and> users s' = users s \<and> stories s' = stories s \<and>
         locks s' uid = None"
  using assms
  by (auto simp: generate_meta_task_def run_task_def meta_is_empty_def dict_lookup_def dict_keys_def
      clear_user_generation_lock_def Let_def)

theorem meta_empty_reply_stays_pending_witness:
  "\<exists>s'. generate_meta_task (example_json_env (JObj [(''characters'', JArr []), (''locations'', JArr [])]))
          (Inr ''reply'') 1 1 1 10000 (example_logged ''meta'') = (TaskNone, s') \<and>
        map status (logs s') = [''pending''] \<and> locks s' 1 = None"
proof -
  let ?E = "example_json_env (JObj [(''characters'', JArr []), (''locations'', JArr [])])"
  obtain r s' where e: "generate_meta_task ?E (Inr ''reply'') 1 1 1 10000 (example_logged ''meta'') = (r, s')"
    by (rule prod.exhaust)
  have j: "json_loads ?E ''reply'' = Some (JObj [(''characters'', JArr []), (''locations'', JArr [])])"
    by (simp add: example_json_env_def)
  from meta_empty_reply_stays_pending [OF j e] e show ?thesis
    by (simp add: worker_example_defs)
qed

text \<open>
  C20: A story-arcs reply that decodes to a value that cannot be iterated (a
  number) makes the task fail after the story's arcs were deleted, and the
  \<open>except\<close> block's commit makes the deletion permanent: the story loses its
  arcs, nothing is charged, the row is marked failed.
\<close>

theorem arcs_bad_reply_deletes_arcs:
  assumes "stories s sid = Some st" "story_ok st" "json_loads E text = Some (JNum x)"
    "find_log (logs s) t uid ''story_arcs'' = Some i"
    "generate_story_arcs_task E (Inr text) t sid uid n s = (r, s')"
  shows "stories s' sid = Some (st\<lparr>story_arcs := []\<rparr>) \<and> users s' = users s \<and>
         status (logs s' ! i) = ''failed''"
  using assms find_log_Some [OF assms(4)]
  by (auto simp: generate_story_arcs_task_def run_task_def task_except_def story_step_def replace_arcs_def
      db_commit_def story_ok_at_def story_ok_def set_story_def update_log_def log_failed_def Let_def)

theorem arcs_bad_reply_deletes_arcs_witness:
  "\<exists>r s'. generate_story_arcs_task (example_json_env (JNum 3)) (Inr ''3'') 1 1 1 10000
            ((example_logged ''story_arcs'')\<lparr>stories := [1 \<mapsto> example_story\<lparr>story_arcs := [JStr ''An arc'']\<rparr>]\<rparr>) =
          (r, s') \<and> stories s' 1 = Some example_story \<and> status (logs s' ! 0) = ''failed''"
proof -
  let ?S = "(example_logged ''story_arcs'')\<lparr>stories := [1 \<mapsto> example_story\<lparr>story_arcs := [JStr ''An arc'']\<rparr>]\<rparr>"
  obtain r s' where e: "generate_story_arcs_task (example_json_env (JNum 3)) (Inr ''3'') 1 1 1 10000 ?S = (r, s')"
    by (rule prod.exhaust)
  have st: "stories ?S 1 = Some (example_story\<lparr>story_arcs := [JStr ''An arc'']\<rparr>)" by simp
  have ok: "story_ok (example_story\<lparr>story_arcs := [JStr ''An arc'']\<rparr>)"
    by (simp add: story_ok_def example_story_def)
  have j: "json_loads (example_json_env (JNum 3)) ''3'' = Some (JNum 3)" by (simp add: example_json_env_def)
  have f: "find_log (logs ?S) 1 1 ''story_arcs'' = Some 0" by (simp add: worker_example_defs)
  from arcs_bad_reply_deletes_arcs [OF st ok j f e] e show ?thesis
    by (auto simp: worker_example_defs length_Suc_conv)
qed

text \<open>
  C21: A summaries reply whose chapter has a \<open>null\<close> title makes the commit fail
  on the \<open>NOT NULL\<close> title column; the \<open>except\<close> block's own commit then raises
  \<open>PendingRollbackError\<close>, which escapes the task: the row stays pending, no
  failure is reported, nothing is written or charged.
\<close>

theorem summaries_null_title_escapes:
  assumes "stories s sid = Some st" "find_chapter (story_chapters st) 1 = None"
    "json_loads E text = Some (JArr [JObj [(''title'', JNull)]])" "\<not> py_strip_empty text"
    "find_log (logs s) t uid ''summaries'' = Some i"
    "generate_summaries_task E (Inr text) t sid uid n s = (r, s')"
  shows "r = TaskRaised PendingRollbackError \<and> logs s' = logs s \<and> users s' = users s \<and>
         stories s' = stories s"
  using assms
  by (auto simp: generate_summaries_task_def run_task_def task_except_def db_commit_def story_ok_at_def
      story_ok_def set_story_def dict_lookup_def Let_def)

theorem summaries_null_title_escapes_witness:
  "\<exists>s'. generate_summaries_task (example_json_env (JArr [JObj [(''title'', JNull)]])) (Inr ''reply'') 1 1 1 10000
          ((example_logged ''summaries'')\<lparr>stories := [1 \<mapsto> example_story\<lparr>story_chapters := []\<rparr>]\<rparr>) =
        (TaskRaised PendingRollbackError, s') \<and> map status (logs s') = [''pending'']"
proof -
  let ?S = "(example_logged ''summaries'')\<lparr>stories := [1 \<mapsto> example_story\<lparr>story_chapters := []\<rparr>]\<rparr>"
  let ?E = "example_json_env (JArr [JObj [(''title'', JNull)]])"
  obtain r s' where e: "generate_summaries_task ?E (Inr ''reply'') 1 1 1 10000 ?S = (r, s')"
    by (rule prod.exhaust)
  have st: "stories ?S 1 = Some (example_story\<lparr>story_chapters := []\<rparr>)" by simp
  have c: "find_chapter (story_chapters (example_story\<lparr>story_chapters := []\<rparr>)) 1 = None" by simp
  have j: "json_loads ?E ''reply'' = Some (JArr [JObj [(''title'', JNull)]])" by (simp add: example_json_env_def)
  have w: "\<not> py_strip_empty ''reply''" by (simp add: py_strip_empty_def)
  have f: "find_log (logs ?S) 1 1 ''summaries'' = Some 0" by (simp add: worker_example_defs)
  from summaries_null_title_escapes [OF st c j w f e] e show ?thesis
    by (simp add: worker_example_defs)
qed

text \<open>
  C22: A successful image job charges the image cost and marks its row
  succeeded without writing \<open>real_cost\<close>: the row keeps whatever the dispatcher
  wrote there.
\<close>

theorem image_success_leaves_real_cost:
  assumes "generate_image_task None (Inr url) t sid uid c ch s = (TaskSuccess, s')"
    "find_log (logs s) t uid ''image'' = Some i" "users s uid = Some u"
  shows "real_cost (logs s' ! i) = real_cost (logs s ! i) \<and> status (logs s' ! i) = ''succeeded'' \<and>
         users s' uid = Some (u\<lparr>image_credits := image_credits u - c\<rparr>)"
  using assms find_log_Some [OF assms(2)]
  by (auto simp: generate_image_task_def run_task_def task_except_def image_success_def db_commit_def
      story_ok_at_def spend_credits_def update_log_def set_story_def Let_def
      split: option.splits sum.splits prod.splits if_splits)

theorem image_success_leaves_real_cost_witness:
  "\<exists>s'. generate_image_task None (Inr ''covers/1.png'') 1 1 1 50 None (example_logged ''image'') = (TaskSuccess, s') \<and>
        real_cost (logs s' ! 0) = None \<and> status (logs s' ! 0) = ''succeeded'' \<and>
        users s' 1 = Some \<lparr>text_credits = 1000, image_credits = 950, audio_credits = 1000\<rparr>"
proof -
  have "\<exists>s'. generate_image_task None (Inr ''covers/1.png'') 1 1 1 50 None (example_logged ''image'') = (TaskSuccess, s')"
    by (simp add: generate_image_task_def run_task_def image_success_def db_commit_def story_ok_at_def
        story_ok_def worker_example_defs spend_credits_def set_story_def set_log_def update_log_def)
  then obtain s' where e: "generate_image_task None (Inr ''covers/1.png'') 1 1 1 50 None (example_logged ''image'') =
      (TaskSuccess, s')" ..
  have f: "find_log (logs (example_logged ''image'')) 1 1 ''image'' = Some 0" by (simp add: worker_example_defs)
  have u: "users (example_logged ''image'') 1 = Some \<lparr>text_credits = 1000, image_credits = 1000, audio_credits = 1000\<rparr>"
    by (simp add: worker_example_defs)
  from image_success_leaves_real_cost [OF e f u] e show ?thesis
    by (auto simp: worker_example_defs length_Suc_conv)
qed

end
