(* ===== verification/Frame.thy ===== *)
theory Frame
  imports Worker
begin

text \<open>
  Frame conditions of the workers of \<open>src/tasks.py\<close>: what a task run by
  \<open>run_job\<close> can change.  \<open>keeps s sid ss\<close> says that a session \<open>ss\<close> opened on
  \<open>s\<close> still has, in its committed and its working state, the queue, the keys of
  the generation-log rows and every story other than \<open>sid\<close> of \<open>s\<close>, and that its
  committed state satisfies the constraints at \<open>sid\<close>.  The session operations,
  the persistence steps and \<open>bind_err\<close> preserve it (the \<open>keeps_intros\<close>
  collection), so that every task and \<open>run_job\<close> itself leave the queue and the
  log keys as they found them, touch only the story of their job, and commit
  only a story that satisfies its \<open>NOT NULL\<close> constraints.
\<close>

definition log_keys :: "log_table \<Rightarrow> (task_id \<times> uid \<times> string) list" where
  "log_keys ls = map (\<lambda>l. (task_id l, log_user l, generation_type l)) ls"

definition keeps :: "sys \<Rightarrow> story_id \<Rightarrow> session \<Rightarrow> bool" where
  "keeps s sid ss \<longleftrightarrow>
     queue (committed ss) = queue s \<and> queue (working ss) = queue s \<and>
     log_keys (logs (committed ss)) = log_keys (logs s) \<and> log_keys (logs (working ss)) = log_keys (logs s) \<and>
     (\<forall>x. x \<noteq> sid \<longrightarrow> stories (committed ss) x = stories s x \<and> stories (working ss) x = stories s x) \<and>
     story_ok_at (committed ss) sid"

definition keeps_s :: "sys \<Rightarrow> story_id \<Rightarrow> (py_error \<times> session) + session \<Rightarrow> bool" where
  "keeps_s s sid r = (case r of Inl (e, ss) \<Rightarrow> keeps s sid ss | Inr ss \<Rightarrow> keeps s sid ss)"

definition keeps_b :: "sys \<Rightarrow> story_id \<Rightarrow> (py_error \<times> session) + (task_result \<times> session) \<Rightarrow> bool" where
  "keeps_b s sid r = (case r of Inl (e, ss) \<Rightarrow> keeps s sid ss | Inr (x, ss) \<Rightarrow> keeps s sid ss)"

definition frame_after :: "sys \<Rightarrow> story_id \<Rightarrow> sys \<Rightarrow> bool" where
  "frame_after s sid s' \<longleftrightarrow>
     queue s' = queue s \<and> log_keys (logs s') = log_keys (logs s) \<and>
     (\<forall>x. x \<noteq> sid \<longrightarrow> stories s' x = stories s x) \<and> story_ok_at s' sid"

named_theorems keeps_intros

lemma log_keys_update_log [simp]:
  assumes "\<And>l. task_id (f l) = task_id l \<and> log_user (f l) = log_user l \<and> generation_type (f l) = generation_type l"
  shows "log_keys (update_log ls e f) = log_keys ls"
proof (cases e)
  case (Some x)
  have "log_keys (ls[x := f (ls ! x)]) = log_keys ls"
  proof (cases "x < length ls")
    case True
    with assms have "log_keys (ls[x := f (ls ! x)]) = (log_keys ls)[x := log_keys ls ! x]"
      by (simp add: log_keys_def map_update)
    then show ?thesis by simp
  qed (simp add: list_update_beyond)
  with Some show ?thesis by (simp add: update_log_def)
qed (simp add: update_log_def)

lemma keeps_open [keeps_intros]: "story_ok_at s sid \<Longrightarrow> keeps s sid (open_session s)"
  by (simp add: keeps_def)

lemma keeps_ext [keeps_intros]:
  "(\<And>w. queue (f w) = queue w \<and> logs (f w) = logs w \<and> stories (f w) = stories w) \<Longrightarrow>
   keeps s sid ss \<Longrightarrow> keeps s sid (ext f ss)"
  by (simp add: keeps_def story_ok_at_def)

lemma keeps_work [keeps_intros]:
  "(\<And>w. queue (f w) = queue w \<and> log_keys (logs (f w)) = log_keys (logs w) \<and>
         (\<forall>x. x \<noteq> sid \<longrightarrow> stories (f w) x = stories w x)) \<Longrightarrow>
   keeps s sid ss \<Longrightarrow> keeps s sid (work f ss)"
  by (simp add: keeps_def)

lemma keeps_rollback [keeps_intros]: "keeps s sid ss \<Longrightarrow> keeps s sid (db_rollback ss)"
  by (simp add: keeps_def)

lemma keeps_commit [keeps_intros]: "keeps s sid ss \<Longrightarrow> keeps_s s sid (db_commit sid ss)"
  by (auto simp: keeps_s_def keeps_def db_commit_def)

lemma keeps_s_bind [keeps_intros]:
  "keeps_s s sid r \<Longrightarrow> (\<And>ss. r = Inr ss \<Longrightarrow> keeps s sid ss \<Longrightarrow> keeps_s s sid (k ss)) \<Longrightarrow>
   keeps_s s sid (bind_err r k)"
  by (cases r) (auto simp: keeps_s_def)

lemma keeps_b_bind [keeps_intros]:
  "keeps_s s sid r \<Longrightarrow> (\<And>ss. r = Inr ss \<Longrightarrow> keeps s sid ss \<Longrightarrow> keeps_b s sid (k ss)) \<Longrightarrow>
   keeps_b s sid (bind_err r k)"
  by (cases r) (auto simp: keeps_s_def keeps_b_def)

lemma keeps_s_Inl [keeps_intros]: "keeps s sid ss \<Longrightarrow> keeps_s s sid (Inl (e, ss))"
  by (simp add: keeps_s_def)

lemma keeps_s_Inr [keeps_intros]: "keeps s sid ss \<Longrightarrow> keeps_s s sid (Inr ss)"
  by (simp add: keeps_s_def)

lemma keeps_b_Inl [keeps_intros]: "keeps s sid ss \<Longrightarrow> keeps_b s sid (Inl (e, ss))"
  by (simp add: keeps_b_def)

lemma keeps_b_Inr [keeps_intros]: "keeps s sid ss \<Longrightarrow> keeps_b s sid (Inr (x, ss))"
  by (simp add: keeps_b_def)

lemma frame_simps [simp]:
  "queue (notify m u w) = queue w" "logs (notify m u w) = logs w" "stories (notify m u w) = stories w"
  "queue (emit m u w) = queue w" "logs (emit m u w) = logs w" "stories (emit m u w) = stories w"
  "queue (clear_lock u w) = queue w" "logs (clear_lock u w) = logs w" "stories (clear_lock u w) = stories w"
  "queue (set_story sid st w) = queue w" "logs (set_story sid st w) = logs w"
  "stories (set_story sid st w) = (stories w)(sid \<mapsto> st)"
  "queue (set_log e f w) = queue w" "stories (set_log e f w) = stories w"
  "queue (set_guide sid rows w) = queue w" "logs (set_guide sid rows w) = logs w"
  by (simp_all add: notify_def emit_def clear_lock_def set_story_def set_log_def set_guide_def
      split: option.splits)

lemma set_guide_other [simp]: "x \<noteq> sid \<Longrightarrow> stories (set_guide sid rows w) x = stories w x"
  by (simp add: set_guide_def set_story_def split: option.splits)

lemma keeps_reconcile [keeps_intros]:
  "keeps s sid ss \<Longrightarrow> keeps_s s sid (reconcile actual m E sid uid entry n text msg ss)"
  unfolding reconcile_def
  by (auto split: sum.splits option.splits intro!: keeps_intros simp: log_succeeded_def)

lemma keeps_story_step [keeps_intros]:
  "keeps s sid ss \<Longrightarrow> keeps_s s sid (story_step sid f ss)"
  unfolding story_step_def
  by (auto split: option.splits prod.splits intro!: keeps_intros)

lemma keeps_guide_step [keeps_intros]:
  "keeps s sid ss \<Longrightarrow> keeps_s s sid (guide_step sid g ss)"
  unfolding guide_step_def Let_def
  by (auto split: sum.splits option.splits prod.splits intro!: keeps_intros)

lemma keeps_task_except:
  assumes "keeps s sid ss"
  shows "keeps s sid (snd (task_except sid uid entry msg e ss))"
proof (cases entry)
  case None
  with assms show ?thesis by (simp add: task_except_def Let_def keeps_intros)
next
  case (Some i)
  from assms have k: "keeps s sid (work (set_log (Some i) (log_failed e)) ss)"
    by (intro keeps_intros) (simp add: log_failed_def)
  then have "keeps_s s sid (db_commit sid (work (set_log (Some i) (log_failed e)) ss))"
    by (rule keeps_commit)
  with Some show ?thesis
    by (auto simp: task_except_def Let_def keeps_s_def keeps_intros split: sum.splits)
qed

lemma keeps_frame_after: "keeps s sid ss \<Longrightarrow> frame_after s sid (clear_lock uid (committed ss))"
  by (simp add: keeps_def frame_after_def story_ok_at_def)

lemma run_task_frame:
  assumes "keeps_b s sid body"
  shows "frame_after s sid (snd (run_task sid uid entry msg rb body))"
proof -
  obtain r ss where eq: "(case body of Inr rs \<Rightarrow> rs
          | Inl (e, ss) \<Rightarrow> task_except sid uid entry msg e (if rb then db_rollback ss else ss)) = (r, ss)"
    by (rule prod.exhaust)
  have "keeps s sid (snd (case body of Inr rs \<Rightarrow> rs
          | Inl (e, ss) \<Rightarrow> task_except sid uid entry msg e (if rb then db_rollback ss else ss)))"
    using assms by (auto simp: keeps_b_def intro!: keeps_task_except keeps_rollback split: sum.splits)
  with eq have "keeps s sid ss" by simp
  then show ?thesis by (simp add: run_task_def eq keeps_frame_after)
qed

lemma meta_frame: "story_ok_at s sid \<Longrightarrow> frame_after s sid (snd (generate_meta_task E out t sid uid n s))"
  unfolding generate_meta_task_def Let_def
  by (rule run_task_frame) (auto split: sum.splits option.splits intro!: keeps_intros)

lemma arcs_frame: "story_ok_at s sid \<Longrightarrow> frame_after s sid (snd (generate_story_arcs_task E out t sid uid n s))"
  unfolding generate_story_arcs_task_def Let_def
  by (rule run_task_frame) (auto split: sum.splits option.splits intro!: keeps_intros)

lemma summaries_frame:
  "story_ok_at s sid \<Longrightarrow> frame_after s sid (snd (generate_summaries_task E out t sid uid n s))"
  unfolding generate_summaries_task_def Let_def
  by (rule run_task_frame) (auto split: sum.splits option.splits prod.splits intro!: keeps_intros)

lemma guide_frame:
  "story_ok_at s sid \<Longrightarrow> frame_after s sid (snd (generate_chapter_guide_task E out t sid uid n s))"
  unfolding generate_chapter_guide_task_def Let_def
  by (rule run_task_frame) (auto split: sum.splits option.splits intro!: keeps_intros)

lemma chapter_frame:
  "story_ok_at s sid \<Longrightarrow> frame_after s sid (snd (generate_chapter_task E out t sid k uid n s))"
  unfolding generate_chapter_task_def Let_def
  by (rule run_task_frame) (auto split: sum.splits option.splits intro!: keeps_intros)

lemma keeps_image_success [keeps_intros]:
  "keeps s sid ss \<Longrightarrow> keeps_b s sid (image_success sid uid entry c ss)"
  unfolding image_success_def
  by (auto split: sum.splits option.splits intro!: keeps_intros)

lemma image_frame:
  "story_ok_at s sid \<Longrightarrow> frame_after s sid (snd (generate_image_task g up t sid uid c ch s))"
  unfolding generate_image_task_def Let_def
  by (rule run_task_frame) (auto split: sum.splits option.splits intro!: keeps_intros)

lemma run_job_frame:
  "story_ok_at s (job_story j) \<Longrightarrow> frame_after s (job_story j) (snd (run_job E oc t j s))"
  by (cases j) (simp_all add: meta_frame arcs_frame summaries_frame guide_frame chapter_frame image_frame)

end
