(* ===== verification/Dispatcher.thy ===== *)
theory Dispatcher
  imports SystemState
begin

text \<open>
  The synchronous half of every generation endpoint, \<open>src/api/generation.py\<close>:
  \<open>api_generate_meta\<close>, \<open>api_generate_arcs\<close>, \<open>api_generate_summaries\<close>,
  \<open>api_generate_chapter_guide\<close>, \<open>api_generate_chapter\<close>,
  \<open>api_generate_all_chapters\<close>, \<open>api_generate_cover_image\<close> and
  \<open>api_generate_chapter_image\<close>.  Each handler is a function from the request
  and the state to the JSON response and the new state, with every early
  \<open>return\<close> of the source as a branch.  An exception the handler does not catch
  (a failing estimate, an out-of-range index) is the response \<open>Uncaught\<close>,
  which Flask turns into an HTTP 500 after the effects already performed.
  \<open>broker_ok\<close> says whether \<open>task.delay(...)\<close> succeeds; its failure is what the
  handlers' \<open>try\<close>/\<open>except\<close> catches.  The handlers are given the id of the
  user the authorisation decorator \<open>is_story_author_or_admin\<close> let through;
  the decorator is in theory \<open>Endpoints\<close>.
\<close>

datatype response =
    Queued "task_id option" rat
  | TopUp
  | NotFound string
  | InProgress
  | NotEnoughCredits rat "rat option"
  | ChapterDataNotFound
  | ServerError string
  | Uncaught py_error
  | LoginRedirect
  | BadRequest string
  | Forbidden string
  | Prediction rat
  | Reply json

text \<open>
  The second half of a dispatch: the pending log row with the predicted cost,
  committed after the job was queued, and the notification.
\<close>

definition log_dispatch :: "uid \<Rightarrow> task_id \<Rightarrow> string \<Rightarrow> int \<Rightarrow> string \<Rightarrow> sys \<Rightarrow> sys" where
  "log_dispatch uid tid gtype amount msg_ok s1 =
     notify msg_ok uid (s1\<lparr>logs := add_log (logs s1) (new_log uid tid gtype (Some (of_int amount)) None)\<rparr>)"

text \<open>
  The common tail of the text handlers: queue the job (\<open>.delay()\<close>), then
  add the pending log row; a broker failure is caught, reported, and the
  user's lock is cleared (whether or not this request took it).  The worker
  may take the job between the two halves (theory \<open>System\<close>).
\<close>

definition queue_text_job ::
  "bool \<Rightarrow> uid \<Rightarrow> job \<Rightarrow> string \<Rightarrow> int \<Rightarrow> string \<Rightarrow> string \<Rightarrow> sys \<Rightarrow> response \<times> sys" where
  "queue_text_job broker_ok uid j gtype amount msg_ok msg_fail s =
     (if \<not> broker_ok then (ServerError ''broker unavailable'', clear_lock uid (notify msg_fail uid s))
      else (case enqueue j s of (tid, s1) \<Rightarrow>
              (Queued (Some tid) (of_int amount), log_dispatch uid tid gtype amount msg_ok s1)))"

text \<open>The rejection of a request whose estimate exceeds the text credits.\<close>

definition reject_credits :: "uid \<Rightarrow> user_credits \<Rightarrow> int \<Rightarrow> sys \<Rightarrow> response \<times> sys" where
  "reject_credits uid u amount s =
     (NotEnoughCredits (of_int amount) (Some (text_credits u)),
      notify ''You Dont Have Enough Credits!'' uid s)"

definition top_up :: "uid \<Rightarrow> sys \<Rightarrow> response \<times> sys" where
  "top_up uid s = (TopUp, notify ''Top up your credits to see generation'' uid s)"

text \<open>The three handlers without a lock: metadata, arcs, chapter guide.  They
  differ in the kind, the estimator and the messages.\<close>

definition unlocked_text_handler ::
  "string \<Rightarrow> (token_cost_config option \<Rightarrow> credit_configs \<Rightarrow> tokens \<Rightarrow> py_error + cost_info) \<Rightarrow>
   (story_id \<Rightarrow> string \<Rightarrow> uid \<Rightarrow> tokens \<Rightarrow> job) \<Rightarrow> string \<Rightarrow> string \<Rightarrow>
   env \<Rightarrow> bool \<Rightarrow> uid \<Rightarrow> story_id \<Rightarrow> sys \<Rightarrow> response \<times> sys" where
  "unlocked_text_handler gtype predict mk_job msg_ok msg_fail E broker_ok uid sid s =
     (case users s uid of
        None \<Rightarrow> (Uncaught (AttributeError ''id''), s)
      | Some u \<Rightarrow>
          if is_last_generation_and_negative_creds (logs s) uid u gtype then top_up uid s
          else (case stories s sid of
                  None \<Rightarrow> (NotFound ''Story not found.'', s)
                | Some st \<Rightarrow>
                    (case predict (pricing s) (modifiers s) (predicted_tokens E gtype st 0) of
                       Inl e \<Rightarrow> (Uncaught e, s)
                     | Inr p \<Rightarrow>
                         if \<not> can_spend_credits u ''text'' (of_int (total_credit_cost p))
                         then reject_credits uid u (total_credit_cost p) s
                         else queue_text_job broker_ok uid
                                (mk_job sid (render_prompt E gtype st 0) uid (ci_input_tokens p))
                                gtype (total_credit_cost p) msg_ok msg_fail s)))"

definition api_generate_meta :: "env \<Rightarrow> bool \<Rightarrow> uid \<Rightarrow> story_id \<Rightarrow> sys \<Rightarrow> response \<times> sys" where
  "api_generate_meta = unlocked_text_handler ''meta'' calculate_predicted_meta_cost MetaJob
     ''Generating Metadata...'' ''Metadata Generation Failed''"

definition api_generate_arcs :: "env \<Rightarrow> bool \<Rightarrow> uid \<Rightarrow> story_id \<Rightarrow> sys \<Rightarrow> response \<times> sys" where
  "api_generate_arcs = unlocked_text_handler ''story_arcs'' calculate_predicted_story_arcs_cost
     StoryArcsJob ''Generating Story Arcs...'' ''Story Arcs Generation Failed''"

definition api_generate_chapter_guide ::
  "env \<Rightarrow> bool \<Rightarrow> uid \<Rightarrow> story_id \<Rightarrow> sys \<Rightarrow> response \<times> sys" where
  "api_generate_chapter_guide = unlocked_text_handler ''chapter_guide''
     calculate_predicted_chapter_guide_cost ChapterGuideJob
     ''Generating Detailed Story Arcs...'' ''Detailed Story Arcs Generation Failed''"

text \<open>\<open>set_user_generation_lock(user.id)\<close> from a handler.\<close>

definition take_lock :: "uid \<Rightarrow> sys \<Rightarrow> bool \<times> sys" where
  "take_lock uid s =
     (case set_user_generation_lock (locks s) (clock s) uid default_lock_expiry of
        (ok, L) \<Rightarrow> (ok, s\<lparr>locks := L\<rparr>))"

definition in_progress :: "uid \<Rightarrow> sys \<Rightarrow> response \<times> sys" where
  "in_progress uid s = (InProgress, notify ''A generation task is already in progress'' uid s)"

text \<open>\<open>api_generate_summaries\<close>: takes the lock after the story check; on
  insufficient credits it returns without releasing it.\<close>

definition api_generate_summaries :: "env \<Rightarrow> bool \<Rightarrow> uid \<Rightarrow> story_id \<Rightarrow> sys \<Rightarrow> response \<times> sys" where
  "api_generate_summaries E broker_ok uid sid s =
     (case users s uid of
        None \<Rightarrow> (Uncaught (AttributeError ''id''), s)
      | Some u \<Rightarrow>
          if is_last_generation_and_negative_creds (logs s) uid u ''summaries'' then top_up uid s
          else (case stories s sid of
                  None \<Rightarrow> (NotFound ''Story not found.'', s)
                | Some st \<Rightarrow>
                    (case take_lock uid s of
                       (False, _) \<Rightarrow> in_progress uid s
                     | (True, s1) \<Rightarrow>
                         (case calculate_predicted_summaries_cost (pricing s1) (modifiers s1)
                                 (predicted_tokens E ''summaries'' st 0) (chapters_count st) of
                            Inl e \<Rightarrow> (Uncaught e, s1)
                          | Inr p \<Rightarrow>
                              if \<not> can_spend_credits u ''text'' (of_int (total_credit_cost p))
                              then reject_credits uid u (total_credit_cost p) s1
                              else queue_text_job broker_ok uid
                                     (SummariesJob sid (render_prompt E ''summaries'' st 0) uid
                                        (ci_input_tokens p))
                                     ''summaries'' (total_credit_cost p)
                                     ''Generating Summaries...'' ''Summaries Generation Failed'' s1))))"

text \<open>The chapters of a story, \<open>order_by(Chapter.chapter_number)\<close>.\<close>

definition sorted_chapters :: "story \<Rightarrow> chapter_row list" where
  "sorted_chapters st = sort_key chapter_number (story_chapters st)"

text \<open>
  \<open>api_generate_chapter\<close>: the lock, the chapter-count check (which releases
  the lock), the reads \<open>chapters[chapter_number - 1]\<close> and, when
  \<open>chapter_number < len(chapters)\<close>, \<open>chapters[chapter_number]\<close> (Python
  indexing: a negative number counts from the end, out of range raises), the
  estimate, the credit check (which releases the lock), the job.
\<close>

definition api_generate_chapter ::
  "env \<Rightarrow> bool \<Rightarrow> uid \<Rightarrow> story_id \<Rightarrow> int \<Rightarrow> sys \<Rightarrow> response \<times> sys" where
  "api_generate_chapter E broker_ok uid sid n s =
     (case users s uid of
        None \<Rightarrow> (Uncaught (AttributeError ''id''), s)
      | Some u \<Rightarrow>
          if is_last_generation_and_negative_creds (logs s) uid u ''chapter'' then top_up uid s
          else (case stories s sid of
                  None \<Rightarrow> (NotFound ''Story not found.'', s)
                | Some st \<Rightarrow>
                    (case take_lock uid s of
                       (False, _) \<Rightarrow> in_progress uid s
                     | (True, s1) \<Rightarrow>
                         (let chs = sorted_chapters st in
                          if chs = [] \<or> int (length chs) < n
                          then (ChapterDataNotFound, clear_lock uid s1)
                          else if py_index chs (n - 1) = None then (Uncaught IndexError, s1)
                          else if n < int (length chs) \<and> py_index chs n = None
                          then (Uncaught IndexError, s1)
                          else
                            (case calculate_predicted_chapter_cost (pricing s1) (modifiers s1)
                                    (predicted_tokens E ''chapter'' st (n - 1)) of
                               Inl e \<Rightarrow> (Uncaught e, s1)
                             | Inr p \<Rightarrow>
                                 if \<not> can_spend_credits u ''text'' (of_int (total_credit_cost p))
                                 then reject_credits uid u (total_credit_cost p) (clear_lock uid s1)
                                 else queue_text_job broker_ok uid
                                        (ChapterJob sid (render_prompt E ''chapter'' st (n - 1)) n uid
                                           (ci_input_tokens p))
                                        ''chapter'' (total_credit_cost p)
                                        ''Generating Chapter...'' ''Chapter Generation Failed'' s1)))))"

text \<open>
  The loop of \<open>api_generate_all_chapters\<close>: per chapter index \<open>i\<close>, estimate,
  queue \<open>generate_chapter_task\<close> with chapter number \<open>i + 1\<close> and add the
  pending row.  The loop has no \<open>try\<close>: an exception leaves the jobs queued so
  far, their rows and the lock held; the error carries that state.
\<close>

fun all_chapters_dispatch ::
  "env \<Rightarrow> bool \<Rightarrow> uid \<Rightarrow> story_id \<Rightarrow> story \<Rightarrow> nat list \<Rightarrow> sys \<Rightarrow> (py_error \<times> sys) + sys" where
  "all_chapters_dispatch E broker_ok uid sid st [] s = Inr s"
| "all_chapters_dispatch E broker_ok uid sid st (i # idx) s =
     (case calculate_predicted_chapter_cost (pricing s) (modifiers s)
             (predicted_tokens E ''chapter'' st (int i)) of
        Inl e \<Rightarrow> Inl (e, s)
      | Inr p \<Rightarrow>
          if \<not> broker_ok then Inl (ModelError ''broker unavailable'', s)
          else (case enqueue (ChapterJob sid (render_prompt E ''chapter'' st (int i)) (int i + 1) uid
                                 (ci_input_tokens p)) s of
                  (tid, s1) \<Rightarrow>
                    all_chapters_dispatch E broker_ok uid sid st idx
                      (s1\<lparr>logs := add_log (logs s1)
                                    (new_log uid tid ''chapter'' (Some (of_int (total_credit_cost p))) None)\<rparr>)))"

definition api_generate_all_chapters ::
  "env \<Rightarrow> bool \<Rightarrow> uid \<Rightarrow> story_id \<Rightarrow> sys \<Rightarrow> response \<times> sys" where
  "api_generate_all_chapters E broker_ok uid sid s =
     (case users s uid of
        None \<Rightarrow> (Uncaught (AttributeError ''id''), s)
      | Some u \<Rightarrow>
          if is_last_generation_and_negative_creds (logs s) uid u ''chapter'' then top_up uid s
          else (case stories s sid of
                  None \<Rightarrow> (NotFound ''Story not found.'', s)
                | Some st \<Rightarrow>
                    (case take_lock uid s of
                       (False, _) \<Rightarrow> in_progress uid s
                     | (True, s1) \<Rightarrow>
                         (let idxs = [0..<length (sorted_chapters st)] in
                          case calculate_predicted_all_chapters_cost (pricing s1) (modifiers s1)
                                 (map (\<lambda>i. predicted_tokens E ''chapter'' st (int i)) idxs) of
                            Inl e \<Rightarrow> (Uncaught e, s1)
                          | Inr (amount, _) \<Rightarrow>
                              if \<not> can_spend_credits u ''text'' (of_int amount)
                              then reject_credits uid u amount (clear_lock uid s1)
                              else (case all_chapters_dispatch E broker_ok uid sid st idxs s1 of
                                      Inl (e, s2) \<Rightarrow> (Uncaught e, s2)
                                    | Inr s2 \<Rightarrow>
                                        (Queued None (of_int amount),
                                         notify ''Generating All Chapters...'' uid s2))))))"

text \<open>
  \<open>api_generate_cover_image\<close>: no lock; the prompt is stored before the
  estimate; the log row is created with \<open>real_cost\<close> already set to the
  prediction; a broker failure clears the user's lock although none was taken.
\<close>

definition api_generate_cover_image ::
  "bool \<Rightarrow> uid \<Rightarrow> story_id \<Rightarrow> string \<Rightarrow> sys \<Rightarrow> response \<times> sys" where
  "api_generate_cover_image broker_ok uid sid prompt s =
     (case users s uid of
        None \<Rightarrow> (Uncaught (AttributeError ''id''), s)
      | Some u \<Rightarrow>
          if is_last_generation_and_negative_creds (logs s) uid u ''image'' then top_up uid s
          else (case stories s sid of
                  None \<Rightarrow> (NotFound ''404'', s)
                | Some st \<Rightarrow>
                    (let s1 = s\<lparr>stories := (stories s)(sid \<mapsto> st\<lparr>cover_image_prompt := Some prompt\<rparr>)\<rparr> in
                     case calculate_image_cost (pricing s1) (modifiers s1) of
                       Inl e \<Rightarrow> (Uncaught e, s1)
                     | Inr (_, _, cost) \<Rightarrow>
                         if \<not> can_spend_credits u ''image'' cost
                         then (NotEnoughCredits cost None, notify ''You dont have enough credits!'' uid s1)
                         else if \<not> broker_ok
                         then (ServerError ''broker unavailable'',
                               clear_lock uid (notify ''Cover Image Generation Failed'' uid s1))
                         else (case enqueue (ImageJob sid (''stories/'' @ nat_str sid @ ''/cover.jpg'')
                                               prompt uid cost None) s1 of
                                 (tid, s2) \<Rightarrow>
                                   (Queued None cost,
                                    notify ''Generating Cover Image...'' uid
                                      (s2\<lparr>logs := add_log (logs s2)
                                                    (new_log uid tid ''image'' (Some cost) (Some cost))\<rparr>))))))"

text \<open>
  \<open>api_generate_chapter_image\<close>: the chapter is looked up by story and chapter
  id (404 when absent); its log row has no \<open>real_cost\<close>.  The chapter's
  image prompt column is not modelled.
\<close>

definition api_generate_chapter_image ::
  "bool \<Rightarrow> uid \<Rightarrow> story_id \<Rightarrow> nat \<Rightarrow> string \<Rightarrow> sys \<Rightarrow> response \<times> sys" where
  "api_generate_chapter_image broker_ok uid sid cid prompt s =
     (case users s uid of
        None \<Rightarrow> (Uncaught (AttributeError ''id''), s)
      | Some u \<Rightarrow>
          if is_last_generation_and_negative_creds (logs s) uid u ''image'' then top_up uid s
          else if (case stories s sid of None \<Rightarrow> True
                   | Some st \<Rightarrow> \<not> list_ex (\<lambda>c. chapter_id c = cid) (story_chapters st))
          then (NotFound ''404'', s)
          else (case calculate_image_cost (pricing s) (modifiers s) of
                  Inl e \<Rightarrow> (Uncaught e, s)
                | Inr (_, _, cost) \<Rightarrow>
                    if \<not> can_spend_credits u ''image'' cost
                    then (NotEnoughCredits cost None, notify ''You dont have enough credits!'' uid s)
                    else if \<not> broker_ok
                    then (ServerError ''broker unavailable'',
                          clear_lock uid (notify ''Chapter Image Generation Failed'' uid s))
                    else (case enqueue (ImageJob sid (''stories/'' @ nat_str sid @ ''/chapters/'' @
                                          nat_str cid @ ''.jpg'') prompt uid cost (Some cid)) s of
                            (tid, s2) \<Rightarrow>
                              (Queued None cost,
                               notify ''Generating Chapter Image...'' uid
                                 (s2\<lparr>logs := add_log (logs s2)
                                               (new_log uid tid ''image'' (Some cost) None)\<rparr>)))))"

subsection \<open>Dispatcher lemmas\<close>

lemmas handler_defs = queue_text_job_def log_dispatch_def reject_credits_def top_up_def in_progress_def take_lock_def

lemmas example_eval = example_defs handler_defs eval_simps enqueue_def notify_def add_log_def new_log_def
  calculate_predicted_meta_cost_def calculate_predicted_summaries_cost_def
  calculate_predicted_chapter_cost_def calculate_predicted_all_chapters_cost_def
  is_last_generation_and_negative_creds_def last_log_of_user_def sorted_chapters_def
  can_spend_credits_def set_user_generation_lock_def lock_held_def py_index_def

lemma queue_text_job_cases:
  "queue_text_job b uid j gt a mo mf s = (r, s') \<Longrightarrow>
     (b \<and> r = Queued (Some (next_task s)) (of_int a) \<and>
      queue s' = queue s @ [(next_task s, j)] \<and>
      logs s' = add_log (logs s) (new_log uid (next_task s) gt (Some (of_int a)) None) \<and>
      users s' = users s \<and> locks s' = locks s \<and> stories s' = stories s \<and> next_task s' = Suc (next_task s))
   \<or> (\<not> b \<and> r = ServerError ''broker unavailable'' \<and> s' = clear_lock uid (notify mf uid s))"
  by (cases b) (auto simp: queue_text_job_def log_dispatch_def enqueue_def)

lemma reject_credits_eq:
  "reject_credits uid u a s = (r, s') \<Longrightarrow>
     r = NotEnoughCredits (of_int a) (Some (text_credits u)) \<and>
     s' = notify ''You Dont Have Enough Credits!'' uid s"
  by (simp add: reject_credits_def)

lemma top_up_eq: "top_up uid s = (r, s') \<Longrightarrow> r = TopUp \<and> s' = notify ''Top up your credits to see generation'' uid s"
  by (simp add: top_up_def)

lemma in_progress_eq: "in_progress uid s = (r, s') \<Longrightarrow> r = InProgress \<and> s' = notify ''A generation task is already in progress'' uid s"
  by (simp add: in_progress_def)

lemma take_lock_True:
  "take_lock uid s = (True, s1) \<Longrightarrow>
     s1 = s\<lparr>locks := (locks s)(uid \<mapsto> clock s + default_lock_expiry)\<rparr> \<and> \<not> lock_held (locks s) (clock s) uid"
  by (auto simp: take_lock_def set_user_generation_lock_def split: if_splits)

lemma take_lock_held:
  "take_lock uid s = (True, s1) \<Longrightarrow> lock_held (locks s1) (clock s) uid"
  by (auto dest!: take_lock_True simp: lock_held_def default_lock_expiry_def)

lemma unlocked_text_handler_cases:
  assumes "unlocked_text_handler gt pr mk mo mf E b uid sid s = (r, s')"
  obtains e where "r = Uncaught e" "s' = s" | m where "r = NotFound m" "s' = s"
    | "top_up uid s = (r, s')" | u a where "reject_credits uid u a s = (r, s')"
    | st and p :: cost_info where
        "queue_text_job b uid (mk sid (render_prompt E gt st 0) uid (ci_input_tokens p))
           gt (total_credit_cost p) mo mf s = (r, s')"
  using assms by (auto simp: unlocked_text_handler_def split: option.splits sum.splits if_splits)

lemma summaries_cases:
  assumes "api_generate_summaries E b uid sid s = (r, s')"
  obtains e where "r = Uncaught e" "s' = s" | m where "r = NotFound m" "s' = s"
    | "top_up uid s = (r, s')" | "in_progress uid s = (r, s')"
    | s1 e where "take_lock uid s = (True, s1)" "r = Uncaught e" "s' = s1"
    | s1 u a where "take_lock uid s = (True, s1)" "reject_credits uid u a s1 = (r, s')"
    | s1 st and p :: cost_info where "take_lock uid s = (True, s1)"
        "queue_text_job b uid (SummariesJob sid (render_prompt E ''summaries'' st 0) uid
           (ci_input_tokens p)) ''summaries'' (total_credit_cost p)
           ''Generating Summaries...'' ''Summaries Generation Failed'' s1 = (r, s')"
  using assms
  by (auto simp: api_generate_summaries_def split: option.splits sum.splits if_splits prod.splits bool.splits)

lemma all_chapters_Queued:
  assumes "api_generate_all_chapters E b uid sid s = (Queued t c, s')" "stories s sid = Some st"
  obtains s1 s2 where "take_lock uid s = (True, s1)"
    "all_chapters_dispatch E b uid sid st [0..<length (sorted_chapters st)] s1 = Inr s2"
    "s' = notify ''Generating All Chapters...'' uid s2"
  using assms
  by (auto simp: api_generate_all_chapters_def Let_def top_up_def in_progress_def reject_credits_def
      split: option.splits sum.splits if_splits prod.splits bool.splits)

lemma all_chapters_dispatch_step:
  assumes "all_chapters_dispatch E b uid sid st (i # idx) s = Inr s'"
  obtains p :: cost_info where "b"
    "all_chapters_dispatch E b uid sid st idx
       (s\<lparr>queue := queue s @ [(next_task s, ChapterJob sid (render_prompt E ''chapter'' st (int i))
                                     (int i + 1) uid (ci_input_tokens p))],
          next_task := Suc (next_task s),
          logs := add_log (logs s) (new_log uid (next_task s) ''chapter''
                    (Some (of_int (total_credit_cost p))) None)\<rparr>) = Inr s'"
  using assms by (auto simp: enqueue_def split: sum.splits if_splits)

lemma all_chapters_dispatch_Inr:
  "all_chapters_dispatch E b uid sid st idx s = Inr s' \<Longrightarrow>
     \<exists>new. queue s' = queue s @ new \<and> length new = length idx \<and>
       set new \<subseteq> {(t, j). job_user j = uid \<and> job_type j = ''chapter''} \<and>
       length (logs s') = length (logs s) + length idx \<and>
       locks s' = locks s \<and> users s' = users s \<and> clock s' = clock s"
proof (induction idx arbitrary: s)
  case Nil
  then show ?case by simp
next
  case (Cons i idx)
  from Cons.prems obtain p :: cost_info where "b" and
    d: "all_chapters_dispatch E b uid sid st idx
       (s\<lparr>queue := queue s @ [(next_task s, ChapterJob sid (render_prompt E ''chapter'' st (int i))
                                     (int i + 1) uid (ci_input_tokens p))],
          next_task := Suc (next_task s),
          logs := add_log (logs s) (new_log uid (next_task s) ''chapter''
                    (Some (of_int (total_credit_cost p))) None)\<rparr>) = Inr s'"
    by (rule all_chapters_dispatch_step)
  from Cons.IH [OF d] obtain new where
    "queue s' = (queue s @ [(next_task s, ChapterJob sid (render_prompt E ''chapter'' st (int i))
                                     (int i + 1) uid (ci_input_tokens p))]) @ new"
    "length new = length idx" "set new \<subseteq> {(t, j). job_user j = uid \<and> job_type j = ''chapter''}"
    "length (logs s') = Suc (length (logs s)) + length idx"
    "locks s' = locks s" "users s' = users s" "clock s' = clock s"
    by auto
  then show ?case
    by (intro exI [of _ "(next_task s, ChapterJob sid (render_prompt E ''chapter'' st (int i))
                                     (int i + 1) uid (ci_input_tokens p)) # new"]) auto
qed

subsection \<open>Properties of the dispatcher\<close>

text \<open>
  C11: Scenario B of the specification.  When \<open>api_generate_chapter\<close> rejects
  a request for lack of credits, it creates no log row, queues no job, debits
  nothing, and the user's lock is not held afterwards.
\<close>

theorem chapter_credit_rejection_clean:
  assumes "api_generate_chapter E b uid sid n s = (NotEnoughCredits req avail, s')"
  shows "logs s' = logs s \<and> queue s' = queue s \<and> users s' = users s \<and>
         \<not> lock_held (locks s') (clock s) uid"
  using assms
  by (auto simp: api_generate_chapter_def handler_defs Let_def notify_def clear_lock_def
      set_user_generation_lock_def lock_held_def clear_user_generation_lock_def
      split: option.splits sum.splits prod.splits if_splits bool.splits)

theorem chapter_credit_rejection_clean_witness:
  "\<exists>s'. api_generate_chapter example_env True 1 1 1 (example_state 0) = (NotEnoughCredits 336 (Some 0), s') \<and>
     logs s' = [] \<and> queue s' = [] \<and> users s' = users (example_state 0) \<and> \<not> lock_held (locks s') 0 1"
proof -
  have "\<exists>s'. api_generate_chapter example_env True 1 1 1 (example_state 0) = (NotEnoughCredits 336 (Some 0), s')"
    by (simp add: api_generate_chapter_def example_eval)
  then obtain s' where e: "api_generate_chapter example_env True 1 1 1 (example_state 0) = (NotEnoughCredits 336 (Some 0), s')" ..
  from chapter_credit_rejection_clean [OF e] e show ?thesis by (simp add: example_state_def)
qed

text \<open>
  C12: The summaries handler leaks its lock.  When \<open>api_generate_summaries\<close>
  rejects a request for lack of credits, the lock it took is still held: the
  user cannot start any locked generation until the lock expires.
\<close>

theorem summaries_rejection_keeps_lock:
  assumes "api_generate_summaries E b uid sid s = (NotEnoughCredits req avail, s')"
  shows "lock_held (locks s') (clock s) uid \<and> logs s' = logs s \<and> queue s' = queue s"
  using assms
proof (cases rule: summaries_cases)
  case (6 s1 u a)
  then show ?thesis
    using take_lock_held [of uid s s1] take_lock_True [of uid s s1] by (auto dest!: reject_credits_eq)
qed (auto dest!: top_up_eq in_progress_eq queue_text_job_cases)

theorem summaries_rejection_keeps_lock_witness:
  "\<exists>req s'. api_generate_summaries example_env True 1 1 (example_state 0) = (NotEnoughCredits req (Some 0), s') \<and>
     lock_held (locks s') 0 1 \<and> logs s' = [] \<and> queue s' = []"
proof -
  have "\<exists>req s'. api_generate_summaries example_env True 1 1 (example_state 0) = (NotEnoughCredits req (Some 0), s')"
    by (simp add: api_generate_summaries_def example_eval)
  then obtain req s' where e: "api_generate_summaries example_env True 1 1 (example_state 0) = (NotEnoughCredits req (Some 0), s')" by blast
  from summaries_rejection_keeps_lock [OF e] e show ?thesis by (auto simp: example_state_def)
qed

text \<open>
  C13: A metadata request that is accepted queues exactly one job of the
  user, for the next task id, and adds exactly one pending log row for that
  task with the predicted cost; it debits nothing and never touches the
  lock.  Every other outcome queues nothing and adds no row, and only a
  broker failure changes the lock (it clears it).
\<close>

theorem meta_dispatch_single_job:
  assumes "api_generate_meta E b uid sid s = (r, s')"
  shows "(\<exists>c j. r = Queued (Some (next_task s)) c \<and> queue s' = queue s @ [(next_task s, j)] \<and>
            job_user j = uid \<and> job_type j = ''meta'' \<and>
            logs s' = add_log (logs s) (new_log uid (next_task s) ''meta'' (Some c) None) \<and>
            users s' = users s \<and> locks s' = locks s)
       \<or> ((\<forall>t c. r \<noteq> Queued t c) \<and> queue s' = queue s \<and> logs s' = logs s \<and> users s' = users s \<and>
          (locks s' = locks s \<or> (r = ServerError ''broker unavailable'' \<and>
                                 locks s' = clear_user_generation_lock (locks s) uid)))"
  using assms [unfolded api_generate_meta_def]
proof (cases rule: unlocked_text_handler_cases)
  case (5 st p)
  from queue_text_job_cases [OF this] show ?thesis by auto
qed (auto dest!: top_up_eq reject_credits_eq)

theorem meta_dispatch_single_job_witness:
  "\<exists>c j s'. api_generate_meta example_env True 1 1 (example_state 1000) = (Queued (Some 1) c, s') \<and>
     queue s' = [(1, j)] \<and> job_type j = ''meta'' \<and> length (logs s') = 1 \<and> locks s' = Map.empty"
proof -
  have "\<exists>c s'. api_generate_meta example_env True 1 1 (example_state 1000) = (Queued (Some 1) c, s')"
    by (simp add: api_generate_meta_def unlocked_text_handler_def example_eval)
  then obtain c s' where e: "api_generate_meta example_env True 1 1 (example_state 1000) = (Queued (Some 1) c, s')" by blast
  from meta_dispatch_single_job [OF e] e show ?thesis by (auto simp: example_state_def)
qed

text \<open>
  C14: The all-chapters handler fans out: when it accepts a request for a
  story, it queues one job of kind \<open>chapter\<close> of the user per chapter and one
  log row per chapter, and holds the user's lock; it debits nothing.
\<close>

theorem all_chapters_fan_out:
  assumes "stories s sid = Some st"
    and "api_generate_all_chapters E b uid sid s = (Queued t c, s')"
  shows "\<exists>new. queue s' = queue s @ new \<and> length new = length (story_chapters st) \<and>
           set new \<subseteq> {(t, j). job_user j = uid \<and> job_type j = ''chapter''} \<and>
           length (logs s') = length (logs s) + length (story_chapters st) \<and>
           lock_held (locks s') (clock s) uid \<and> users s' = users s"
proof -
  from assms(2,1) obtain s1 s2 where tl: "take_lock uid s = (True, s1)"
    and d: "all_chapters_dispatch E b uid sid st [0..<length (sorted_chapters st)] s1 = Inr s2"
    and s': "s' = notify ''Generating All Chapters...'' uid s2"
    by (rule all_chapters_Queued)
  have len: "length (sorted_chapters st) = length (story_chapters st)"
    by (simp add: sorted_chapters_def)
  from take_lock_True [OF tl] have "queue s1 = queue s" "logs s1 = logs s" "users s1 = users s"
    "clock s1 = clock s" by simp_all
  with all_chapters_dispatch_Inr [OF d] take_lock_held [OF tl] s' len show ?thesis
    by auto
qed

theorem all_chapters_fan_out_witness:
  "\<exists>c s'. api_generate_all_chapters example_env True 1 1 (example_state 1000) = (Queued None c, s') \<and>
     length (queue s') = 1 \<and> length (logs s') = 1 \<and> lock_held (locks s') 0 1"
proof -
  have "\<exists>c s'. api_generate_all_chapters example_env True 1 1 (example_state 1000) = (Queued None c, s')"
    by (simp add: api_generate_all_chapters_def example_eval upt_rec)
  then obtain c s' where e: "api_generate_all_chapters example_env True 1 1 (example_state 1000) = (Queued None c, s')" by blast
  have st: "stories (example_state 1000) 1 = Some example_story" by (simp add: example_state_def)
  from all_chapters_fan_out [OF st e] show ?thesis using e by (auto simp: example_state_def example_story_def)
qed

end
