(* ===== verification/Endpoints.thy ===== *)
theory Endpoints
  imports Dispatcher
begin

text \<open>
  The request layer around the handlers: the current user of a request
  (\<open>get_current_user\<close> of \<open>src/helpers.py\<close>), the decorator
  \<open>is_story_author_or_admin\<close> that guards every endpoint of
  \<open>src/api/generation.py\<close>, and the read-only \<open>predict_*_cost\<close> endpoints that
  show a user the price of a generation before they request it.  A request's
  access token is given already decoded: \<open>None\<close> when the cookie is missing or
  the token does not decode to a user id.
\<close>

text \<open>\<open>get_current_user()\<close>: the user the token names, if that user exists.\<close>

definition current_user :: "sys \<Rightarrow> uid option \<Rightarrow> uid option" where
  "current_user s tok =
     (case tok of None \<Rightarrow> None | Some u \<Rightarrow> (case users s u of None \<Rightarrow> None | Some _ \<Rightarrow> Some u))"

text \<open>
  \<open>is_story_author_or_admin(func)\<close>: redirect an anonymous request to the
  login page; take \<open>story_id\<close> from the URL or the JSON body (a missing or zero
  id is refused, as \<open>not story_id\<close> is true for both); 404 on a missing story;
  403 unless the user wrote the story or has the role \<open>admin\<close>; otherwise run
  the endpoint for that user and story.
\<close>

definition is_story_author_or_admin ::
  "sys \<Rightarrow> uid option \<Rightarrow> story_id option \<Rightarrow> (uid \<Rightarrow> story_id \<Rightarrow> sys \<Rightarrow> response \<times> sys) \<Rightarrow>
   response \<times> sys" where
  "is_story_author_or_admin s tok sid_arg endpoint =
     (case current_user s tok of
        None \<Rightarrow> (LoginRedirect, s)
      | Some u \<Rightarrow>
          (case sid_arg of
             None \<Rightarrow> (BadRequest ''story_id not provided'', s)
           | Some sid \<Rightarrow>
               if sid = 0 then (BadRequest ''story_id not provided'', s)
               else (case stories s sid of
                       None \<Rightarrow> (NotFound ''Story not found'', s)
                     | Some st \<Rightarrow>
                         if story_user st \<noteq> u \<and> roles s u \<noteq> Some ''admin''
                         then (Forbidden ''Unauthorized'', s)
                         else endpoint u sid s)))"

subsection \<open>The prediction endpoints\<close>

text \<open>The body shared by the text predictions: 404 on a missing story, else
  the estimator's \<open>total_predicted_credit_cost\<close> (an estimator exception is an
  HTTP 500).\<close>

definition predict_text ::
  "(story \<Rightarrow> py_error + cost_info) \<Rightarrow> story_id \<Rightarrow> sys \<Rightarrow> response" where
  "predict_text estimate sid s =
     (case stories s sid of
        None \<Rightarrow> NotFound ''Story not found.''
      | Some st \<Rightarrow>
          (case estimate st of
             Inl e \<Rightarrow> Uncaught e
           | Inr p \<Rightarrow> Prediction (of_int (total_credit_cost p))))"

definition predict_meta_cost :: "env \<Rightarrow> story_id \<Rightarrow> sys \<Rightarrow> response" where
  "predict_meta_cost E sid s =
     predict_text (\<lambda>st. calculate_predicted_meta_cost (pricing s) (modifiers s)
                          (predicted_tokens E ''meta'' st 0)) sid s"

definition predict_arcs_cost :: "env \<Rightarrow> story_id \<Rightarrow> sys \<Rightarrow> response" where
  "predict_arcs_cost E sid s =
     predict_text (\<lambda>st. calculate_predicted_story_arcs_cost (pricing s) (modifiers s)
                          (predicted_tokens E ''story_arcs'' st 0)) sid s"

definition predict_chapter_guide_cost :: "env \<Rightarrow> story_id \<Rightarrow> sys \<Rightarrow> response" where
  "predict_chapter_guide_cost E sid s =
     predict_text (\<lambda>st. calculate_predicted_chapter_guide_cost (pricing s) (modifiers s)
                          (predicted_tokens E ''chapter_guide'' st 0)) sid s"

definition predict_summaries_cost :: "env \<Rightarrow> story_id \<Rightarrow> sys \<Rightarrow> response" where
  "predict_summaries_cost E sid s =
     predict_text (\<lambda>st. calculate_predicted_summaries_cost (pricing s) (modifiers s)
                          (predicted_tokens E ''summaries'' st 0) (chapters_count st)) sid s"

text \<open>The three list reads of \<open>calculate_predicted_chapter_cost(story, chapter_index)\<close>
  (\<open>src/predictions.py\<close>, lines 548--562): the chapter itself when the index is
  below the length, the previous summary when \<open>chapter_index - 1 >= 0\<close> and the
  next one when \<open>chapter_index + 1 < len(chapters)\<close>; each read raises
  \<open>IndexError\<close> outside Python's index range.\<close>

definition chapter_reads_ok :: "'a list \<Rightarrow> int \<Rightarrow> bool" where
  "chapter_reads_ok cs i =
     ((if i < int (length cs) then py_index cs i \<noteq> None else True) \<and>
      (if 0 \<le> i - 1 then py_index cs (i - 1) \<noteq> None else True) \<and>
      (if i + 1 < int (length cs) then py_index cs (i + 1) \<noteq> None else True))"

text \<open>\<open>predict_chapter_cost(story_id, chapter_number)\<close>: chapter index
  \<open>chapter_number - 1\<close>; the reads of the sorted chapters come before the
  pricing row is read.\<close>

definition predict_chapter_cost :: "env \<Rightarrow> story_id \<Rightarrow> int \<Rightarrow> sys \<Rightarrow> response" where
  "predict_chapter_cost E sid n s =
     predict_text (\<lambda>st. if chapter_reads_ok (sorted_chapters st) (n - 1)
                        then calculate_predicted_chapter_cost (pricing s) (modifiers s)
                               (predicted_tokens E ''chapter'' st (n - 1))
                        else Inl IndexError) sid s"

definition predict_all_chapters_cost :: "env \<Rightarrow> story_id \<Rightarrow> sys \<Rightarrow> response" where
  "predict_all_chapters_cost E sid s =
     (case stories s sid of
        None \<Rightarrow> NotFound ''Story not found.''
      | Some st \<Rightarrow>
          (case calculate_predicted_all_chapters_cost (pricing s) (modifiers s)
                  (map (\<lambda>i. predicted_tokens E ''chapter'' st (int i))
                     [0..<length (sorted_chapters st)]) of
             Inl e \<Rightarrow> Uncaught e
           | Inr (amount, _) \<Rightarrow> Prediction (of_int amount)))"

definition predict_image_cost :: "story_id \<Rightarrow> sys \<Rightarrow> response" where
  "predict_image_cost sid s =
     (case stories s sid of
        None \<Rightarrow> NotFound ''Story not found.''
      | Some st \<Rightarrow>
          (case calculate_image_cost (pricing s) (modifiers s) of
             Inl e \<Rightarrow> Uncaught e
           | Inr (_, _, amount) \<Rightarrow> Prediction amount))"


subsection \<open>Properties of the request layer\<close>

text \<open>
  C23: Authorisation.  An endpoint behind \<open>is_story_author_or_admin\<close> changes
  the state only when it runs, and it runs only for a logged-in user who wrote
  the story named by the request or has the role \<open>admin\<close>; every other
  request is answered without any effect.
\<close>

theorem guard_admits_only_author_or_admin:
  assumes "is_story_author_or_admin s tok sid_arg endpoint = (r, s')" "s' \<noteq> s"
  shows "\<exists>u sid st. current_user s tok = Some u \<and> sid_arg = Some sid \<and> stories s sid = Some st \<and>
           (story_user st = u \<or> roles s u = Some ''admin'') \<and> endpoint u sid s = (r, s')"
  using assms
  by (auto simp: is_story_author_or_admin_def split: option.splits if_splits)

theorem guard_admits_only_author_or_admin_witness:
  "\<exists>r s'. is_story_author_or_admin (example_state 1000) (Some 1) (Some 1) (api_generate_meta example_env True) =
          (r, s') \<and> s' \<noteq> example_state 1000 \<and> roles (example_state 1000) 1 = Some ''user''"
proof -
  obtain r s' where e: "is_story_author_or_admin (example_state 1000) (Some 1) (Some 1) (api_generate_meta example_env True) =
          (r, s')" by (rule prod.exhaust)
  have "queue s' \<noteq> []"
    using e by (auto simp: is_story_author_or_admin_def current_user_def api_generate_meta_def unlocked_text_handler_def example_eval)
  then have ne: "s' \<noteq> example_state 1000" by (auto simp: example_state_def)
  from guard_admits_only_author_or_admin [OF e ne] e ne show ?thesis by (auto simp: example_state_def)
qed

text \<open>
  C24: The price a user is shown is the price they are quoted.  When
  \<open>predict_meta_cost\<close> answers with a predicted cost and the metadata request
  on the same state is queued, the cost it reports and records in the log
  row is the one shown.
\<close>

theorem predicted_meta_price_is_quoted:
  assumes "predict_meta_cost E sid s = Prediction c"
    "api_generate_meta E b uid sid s = (Queued t c', s')"
  shows "c' = c"
  using assms
  by (auto simp: predict_meta_cost_def predict_text_def api_generate_meta_def unlocked_text_handler_def
      top_up_def reject_credits_def queue_text_job_def log_dispatch_def enqueue_def split: option.splits sum.splits if_splits)

theorem predicted_meta_price_is_quoted_witness:
  "predict_meta_cost example_env 1 (example_state 1000) = Prediction 150 \<and>
   (\<exists>s'. api_generate_meta example_env True 1 1 (example_state 1000) = (Queued (Some 1) 150, s'))"
proof -
  have p: "predict_meta_cost example_env 1 (example_state 1000) = Prediction 150"
    by (simp add: predict_meta_cost_def predict_text_def example_eval)
  have "\<exists>c s'. api_generate_meta example_env True 1 1 (example_state 1000) = (Queued (Some 1) c, s')"
    by (simp add: api_generate_meta_def unlocked_text_handler_def example_eval)
  then obtain c s' where e: "api_generate_meta example_env True 1 1 (example_state 1000) = (Queued (Some 1) c, s')" by blast
  from predicted_meta_price_is_quoted [OF p e] p e show ?thesis by auto
qed

text \<open>
  The same for a chapter: \<open>predict_chapter_cost\<close> for chapter \<open>n\<close> shows the
  cost \<open>api_generate_chapter\<close> quotes for chapter \<open>n\<close>, although the handler
  takes the lock in between.
\<close>

theorem predicted_chapter_price_is_quoted:
  assumes "predict_chapter_cost E sid n s = Prediction c"
    "api_generate_chapter E b uid sid n s = (Queued t c', s')"
  shows "c' = c"
  using assms
  by (auto simp: predict_chapter_cost_def predict_text_def api_generate_chapter_def take_lock_def
      top_up_def reject_credits_def queue_text_job_def log_dispatch_def enqueue_def in_progress_def Let_def
      split: option.splits sum.splits if_splits prod.splits bool.splits)

theorem predicted_chapter_price_is_quoted_witness:
  "predict_chapter_cost example_env 1 1 (example_state 1000) = Prediction 336 \<and>
   (\<exists>s'. api_generate_chapter example_env True 1 1 1 (example_state 1000) = (Queued (Some 1) 336, s'))"
proof -
  have p: "predict_chapter_cost example_env 1 1 (example_state 1000) = Prediction 336"
    by (simp add: predict_chapter_cost_def predict_text_def chapter_reads_ok_def example_eval)
  have "\<exists>c s'. api_generate_chapter example_env True 1 1 1 (example_state 1000) = (Queued (Some 1) c, s')"
    by (simp add: api_generate_chapter_def example_eval)
  then obtain c s' where e: "api_generate_chapter example_env True 1 1 1 (example_state 1000) = (Queued (Some 1) c, s')"
    by blast
  from predicted_chapter_price_is_quoted [OF p e] p e show ?thesis by auto
qed

end
