(* ===== verification/PyInt.thy ===== *)
theory PyInt
  imports Story
begin

text \<open>
  Python's \<open>int()\<close> and \<open>str()\<close> on integers, and SQLite's comparison of an
  integer primary key with a bound request value: the conversions the story
  editing endpoints (\<open>src/api/story.py\<close>) and the billing webhook
  (\<open>src/api/profile.py\<close>) apply to ids and numbers taken from a request.
\<close>

subsection \<open>Python and SQL on request values\<close>

text \<open>\<open>int(v)\<close> on a decoded value: a string is stripped, may carry a sign, and
  is a run of decimal digits with single underscores between digits; a float
  is truncated toward zero; \<open>True\<close> and \<open>False\<close> are 1 and 0.\<close>

definition py_digit :: "char \<Rightarrow> bool" where
  "py_digit c \<longleftrightarrow> (48 :: nat) \<le> of_char c \<and> (of_char c :: nat) \<le> 57"

fun py_digits_ok :: "string \<Rightarrow> bool" where
  "py_digits_ok [] = False"
| "py_digits_ok [c] = py_digit c"
| "py_digits_ok (c # d # r) =
     (py_digit c \<and> (if d = CHR ''_'' then r \<noteq> [] \<and> py_digit (hd r) \<and> py_digits_ok r else py_digits_ok (d # r)))"

definition digits_val :: "string \<Rightarrow> int" where
  "digits_val ds = foldl (\<lambda>a c. if c = CHR ''_'' then a else 10 * a + (int (of_char c) - 48)) 0 ds"

definition parse_int :: "string \<Rightarrow> int option" where
  "parse_int s =
     (case py_strip s of
        [] \<Rightarrow> None
      | c # r \<Rightarrow>
          if c = CHR ''-'' then (if py_digits_ok r then Some (- digits_val r) else None)
          else if c = CHR ''+'' then (if py_digits_ok r then Some (digits_val r) else None)
          else if py_digits_ok (c # r) then Some (digits_val (c # r)) else None)"

fun py_int :: "json \<Rightarrow> py_error + int" where
  "py_int (JBool b) = Inr (of_bool b)"
| "py_int (JNum q) = Inr (if 0 \<le> q then \<lfloor>q\<rfloor> else \<lceil>q\<rceil>)"
| "py_int (JStr s) =
     (case parse_int s of None \<Rightarrow> Inl (ValueError ''invalid literal for int() with base 10'') | Some i \<Rightarrow> Inr i)"
| "py_int _ = Inl (TypeError ''int() argument must be a string, a bytes-like object or a real number'')"

text \<open>\<open>str(n)\<close> of a Python integer.\<close>

definition int_str :: "int \<Rightarrow> string" where
  "int_str i = (if i < 0 then CHR ''-'' # nat_str (nat (- i)) else nat_str (nat i))"

text \<open>\<open>filter_by(id=v)\<close> against an integer primary key: the bound value
  compares as a number; SQLite gives a numeral string the column's integer
  affinity.  A list or a dict cannot be bound.\<close>

fun sql_int_eq :: "json \<Rightarrow> nat \<Rightarrow> bool" where
  "sql_int_eq (JNum q) n = (q = of_nat n)"
| "sql_int_eq (JBool b) n = (of_bool b = n)"
| "sql_int_eq (JStr t) n = (t = nat_str n)"
| "sql_int_eq _ n = False"

subsection \<open>Lemmas on the conversions\<close>

lemma nat_str_digits: "nat_str n \<noteq> [] \<and> list_all py_digit (nat_str n)"
proof (induction n rule: nat_str.induct)
  case (1 n)
  have d: "py_digit (char_of (48 + k)) \<longleftrightarrow> k < 10" if "k < 10" for k :: nat
    using that by (simp add: py_digit_def of_char_of)
  show ?case
  proof (cases "n < 10")
    case True
    with d show ?thesis by simp
  next
    case False
    with "1.IH" d [of "n mod 10"] show ?thesis by simp
  qed
qed

lemma py_digits_ok_all: "xs \<noteq> [] \<Longrightarrow> list_all py_digit xs \<Longrightarrow> py_digits_ok xs"
proof (induction xs rule: py_digits_ok.induct)
  case (3 c d r)
  have "d \<noteq> CHR ''_''" using "3.prems"(2) by (auto simp: py_digit_def)
  with 3 show ?case by simp
qed simp_all

lemma digits_val_snoc: "digits_val (xs @ [c]) = (if c = CHR ''_'' then digits_val xs else 10 * digits_val xs + (int (of_char c) - 48))"
  by (simp add: digits_val_def)

lemma digits_val_nat_str: "digits_val (nat_str n) = int n"
proof (induction n rule: nat_str.induct)
  case (1 n)
  have c: "of_char (char_of (48 + k) :: char) = 48 + k" if "k < 10" for k :: nat
    using that by (simp add: of_char_of)
  have u: "char_of (48 + k) \<noteq> CHR ''_''" if "k < 10" for k :: nat
  proof
    assume "char_of (48 + k) = CHR ''_''"
    then have "(of_char (char_of (48 + k) :: char) :: nat) = of_char (CHR ''_'')" by simp
    with c [OF that] that show False by simp
  qed
  show ?case
  proof (cases "n < 10")
    case True
    then show ?thesis using c [OF True] u [OF True] by (simp add: digits_val_def)
  next
    case False
    have eq: "nat_str n = nat_str (n div 10) @ [char_of (48 + n mod 10)]"
      using False by (subst nat_str.simps) simp
    have m: "n mod 10 < 10" by simp
    have "int n = 10 * int (n div 10) + int (n mod 10)"
      by (metis div_mult_mod_eq mult.commute of_nat_add of_nat_mult of_nat_numeral)
    with eq "1.IH" [OF False] c [OF m] u [OF m] show ?thesis
      by (simp add: digits_val_snoc del: nat_str.simps)
  qed
qed

lemma dropWhile_none: "list_all (\<lambda>c. \<not> P c) xs \<Longrightarrow> dropWhile P xs = xs"
  by (induction xs) auto

lemma py_strip_no_space: "list_all (\<lambda>c. \<not> py_isspace c) xs \<Longrightarrow> py_strip xs = xs"
  by (simp add: py_strip_def dropWhile_none)

lemma digit_not_space: "py_digit c \<Longrightarrow> \<not> py_isspace c"
  by (auto simp: py_digit_def py_isspace_def)

text \<open>
  \<open>int()\<close> reads back what \<open>str()\<close> prints: for every integer \<open>i\<close>, \<open>int(str(i))\<close> is \<open>i\<close>, so a chapter number sent as the decimal string of an integer reaches \<open>save_chapter\<close> unchanged.
\<close>

theorem int_str_roundtrip: "py_int (JStr (int_str i)) = Inr i"
proof (cases "i < 0")
  case True
  let ?m = "nat (- i)"
  have ok: "nat_str ?m \<noteq> []" "list_all py_digit (nat_str ?m)" using nat_str_digits by (auto simp del: nat_str.simps)
  have "py_strip (CHR ''-'' # nat_str ?m) = CHR ''-'' # nat_str ?m"
    using ok(2) by (intro py_strip_no_space)
      (auto simp: list_all_iff simp del: nat_str.simps dest: digit_not_space, simp add: py_isspace_def)
  then show ?thesis
    using True ok by (simp add: int_str_def parse_int_def py_digits_ok_all digits_val_nat_str del: nat_str.simps)
next
  case False
  let ?m = "nat i"
  have ok: "nat_str ?m \<noteq> []" "list_all py_digit (nat_str ?m)" using nat_str_digits by (auto simp del: nat_str.simps)
  have strip: "py_strip (nat_str ?m) = nat_str ?m"
    using ok(2) by (intro py_strip_no_space) (auto simp: list_all_iff simp del: nat_str.simps dest: digit_not_space)
  have okd: "py_digits_ok (nat_str ?m)" using ok by (rule py_digits_ok_all)
  have val: "digits_val (nat_str ?m) = i" using False by (simp add: digits_val_nat_str del: nat_str.simps)
  obtain c r where cr: "nat_str ?m = c # r" using ok(1) by (cases "nat_str ?m") (auto simp del: nat_str.simps)
  have "py_digit c" using ok(2) cr by (simp del: nat_str.simps)
  then have "c \<noteq> CHR ''-''" "c \<noteq> CHR ''+''" by (auto simp: py_digit_def)
  with strip okd val cr False show ?thesis by (simp add: int_str_def parse_int_def del: nat_str.simps)
qed

lemma nat_str_inj: "nat_str m = nat_str n \<Longrightarrow> m = n"
  by (metis digits_val_nat_str of_nat_eq_iff)

end
