(* ===== verification/StoryEdit.thy ===== *)
theory StoryEdit
  imports Dispatcher PyInt
begin

text \<open>
  The story-editing endpoints of \<open>src/api/story.py\<close> that write the rows the
  generation pipeline reads and writes: \<open>update_meta\<close> (characters and
  locations), \<open>save_arcs\<close>, \<open>update_chapter_summaries\<close>, the
  \<open>chapter_summaries\<close> branch of \<open>api_save_field\<close>, \<open>save_chapter\<close>,
  \<open>delete_story\<close>, and the read-only \<open>list_characters\<close> and \<open>list_locations\<close>.
  Each runs behind \<open>is_story_author_or_admin\<close> for a user and a story and takes
  the decoded request body.

  A request's changes are written by the \<open>db.session.commit()\<close> at its end.
  An exception before that aborts the request: Flask answers with the
  exception's response and removes the session at teardown, which rolls
  everything back, so the state is unchanged (\<open>respond\<close>).  A query
  autoflushes the pending rows first, and a flush or commit raises
  \<open>IntegrityError\<close> when a row violates a \<open>NOT NULL\<close> constraint
  (\<open>flush_check\<close>, \<open>commit_story\<close>).  New chapter rows take their ids from
  \<open>next_row\<close> in the order they are flushed.
\<close>

subsection \<open>Chapter lookup by a request value\<close>

definition find_chapter_json :: "chapter_row list \<Rightarrow> json \<Rightarrow> py_error + chapter_row option" where
  "find_chapter_json cs v =
     (case v of
        JArr _ \<Rightarrow> Inl InterfaceError
      | JObj _ \<Rightarrow> Inl InterfaceError
      | _ \<Rightarrow> Inr (find (\<lambda>c. sql_int_eq v (chapter_id c)) cs))"

text \<open>Python's \<open>==\<close> between a decoded value and an integer id.\<close>

fun py_eq_int :: "json \<Rightarrow> nat \<Rightarrow> bool" where
  "py_eq_int (JNum q) n = (q = of_nat n)"
| "py_eq_int (JBool b) n = (of_bool b = n)"
| "py_eq_int _ n = False"

subsection \<open>The request's session\<close>

definition json_message :: "string \<Rightarrow> json" where
  "json_message m = JObj [(''message'', JStr m)]"

text \<open>The outcome of a request: the exception that aborted it, with the state
  unchanged, or the JSON body and the committed state.\<close>

definition respond :: "sys \<Rightarrow> py_error + (json \<times> sys) \<Rightarrow> response \<times> sys" where
  "respond s r = (case r of Inl e \<Rightarrow> (Uncaught e, s) | Inr (body, s') \<Rightarrow> (Reply body, s'))"

text \<open>\<open>Story.query.get_or_404(story_id)\<close>.\<close>

definition get_or_404 :: "sys \<Rightarrow> story_id \<Rightarrow> py_error + story" where
  "get_or_404 s sid = (case stories s sid of None \<Rightarrow> Inl HTTPNotFound | Some st \<Rightarrow> Inr st)"

text \<open>A flush of the story's pending rows.\<close>

definition flush_check :: "story \<Rightarrow> py_error + unit" where
  "flush_check st = (if story_ok st then Inr () else Inl IntegrityError)"

definition commit_story :: "story_id \<Rightarrow> story \<Rightarrow> sys \<Rightarrow> py_error + sys" where
  "commit_story sid st s =
     (if story_ok st then Inr (s\<lparr>stories := (stories s)(sid \<mapsto> st)\<rparr>) else Inl IntegrityError)"

subsection \<open>update_meta\<close>

text \<open>\<open>Character(...)\<close> and \<open>Location(...)\<close> of one element, added only when its
  \<open>name\<close> is truthy.\<close>

definition meta_character :: "json \<Rightarrow> py_error + character option" where
  "meta_character ch =
     bind_err (py_get ch ''name'' JNull) (\<lambda>n.
     bind_err (py_get ch ''description'' (JStr [])) (\<lambda>ds.
     bind_err (py_get ch ''example_dialogue'' (JStr [])) (\<lambda>ex.
       Inr (if py_truthy n then Some \<lparr>char_name = n, char_description = ds, example_dialogue = ex\<rparr> else None))))"

definition meta_location :: "json \<Rightarrow> py_error + location option" where
  "meta_location l =
     bind_err (py_get l ''name'' JNull) (\<lambda>n.
     bind_err (py_get l ''description'' (JStr [])) (\<lambda>ds.
       Inr (if py_truthy n then Some \<lparr>loc_name = n, loc_description = ds\<rparr> else None)))"

definition update_meta :: "json \<Rightarrow> uid \<Rightarrow> story_id \<Rightarrow> sys \<Rightarrow> response \<times> sys" where
  "update_meta data uid sid s =
     respond s
       (bind_err (py_get data ''characters'' (JArr [])) (\<lambda>cd.
        bind_err (py_get data ''locations'' (JArr [])) (\<lambda>ld.
        bind_err (get_or_404 s sid) (\<lambda>st.
        bind_err (bind_err (py_iter cd) (map_err meta_character)) (\<lambda>cs.
        bind_err (bind_err (py_iter ld) (map_err meta_location)) (\<lambda>ls.
        bind_err (commit_story sid (st\<lparr>story_characters := List.map_filter id cs,
                                       story_locations := List.map_filter id ls\<rparr>) s) (\<lambda>s1.
          Inr (json_message ''Characters and locations updated.'', notify ''Meta saved'' uid s1))))))))"

text \<open>\<open>list_characters\<close> and \<open>list_locations\<close>: the names of the story's rows.\<close>

definition list_characters :: "story_id \<Rightarrow> sys \<Rightarrow> response" where
  "list_characters sid s =
     Reply (JArr (case stories s sid of None \<Rightarrow> [] | Some st \<Rightarrow> map char_name (story_characters st)))"

definition list_locations :: "story_id \<Rightarrow> sys \<Rightarrow> response" where
  "list_locations sid s =
     Reply (JArr (case stories s sid of None \<Rightarrow> [] | Some st \<Rightarrow> map loc_name (story_locations st)))"

subsection \<open>save_arcs\<close>

text \<open>\<open>if arc_text.strip(): StoryArc(arc_text=arc_text.strip())\<close>; \<open>.strip\<close> of a
  value that is not a string raises.\<close>

fun arc_row :: "json \<Rightarrow> py_error + json option" where
  "arc_row (JStr t) = Inr (if py_strip t = [] then None else Some (JStr (py_strip t)))"
| "arc_row _ = Inl (AttributeError ''strip'')"

definition save_arcs :: "json \<Rightarrow> uid \<Rightarrow> story_id \<Rightarrow> sys \<Rightarrow> response \<times> sys" where
  "save_arcs data uid sid s =
     respond s
       (bind_err (py_get data ''arcs'' (JArr [])) (\<lambda>ad.
        bind_err (get_or_404 s sid) (\<lambda>st.
        bind_err (bind_err (py_iter ad) (map_err arc_row)) (\<lambda>arcs.
        bind_err (commit_story sid (st\<lparr>story_arcs := List.map_filter id arcs\<rparr>) s) (\<lambda>s1.
          Inr (json_message ''Story arcs saved.'', notify ''Story arcs saved'' uid s1))))))"

subsection \<open>Chapter rows from a summaries payload\<close>

definition add_chapter :: "story \<Rightarrow> nat \<Rightarrow> json \<Rightarrow> json \<Rightarrow> nat \<Rightarrow> story" where
  "add_chapter st cid t sm idx =
     st\<lparr>story_chapters := story_chapters st @
          [\<lparr>chapter_id = cid, chapter_number = int idx, chapter_title = t, chapter_summary = sm,
            chapter_content = JNull, chapter_image_key = None\<rparr>]\<rparr>"

definition edit_chapter :: "story \<Rightarrow> nat \<Rightarrow> json \<Rightarrow> json \<Rightarrow> nat \<Rightarrow> story" where
  "edit_chapter st cid t sm idx =
     st\<lparr>story_chapters := map (\<lambda>c. if chapter_id c = cid
                                     then c\<lparr>chapter_title := t, chapter_summary := sm, chapter_number := int idx\<rparr>
                                     else c) (story_chapters st)\<rparr>"

text \<open>The loop of \<open>update_chapter_summaries\<close>: an element without a truthy
  \<open>title\<close> is skipped; one with a truthy \<open>id\<close> naming a chapter of the story
  updates it; any other creates a chapter, flushed at once.  The loop returns
  the story, the next free id and the ids it updated or created.\<close>

fun ucs_loop :: "story \<Rightarrow> nat \<Rightarrow> nat list \<Rightarrow> nat \<Rightarrow> json list \<Rightarrow> py_error + (story \<times> nat \<times> nat list)" where
  "ucs_loop st nid upd idx [] = Inr (st, nid, upd)"
| "ucs_loop st nid upd idx (d # ds) =
     bind_err (py_get d ''title'' JNull) (\<lambda>t.
     bind_err (py_get d ''summary'' (JStr [])) (\<lambda>sm.
     bind_err (py_get d ''id'' JNull) (\<lambda>cid.
       if \<not> py_truthy t then ucs_loop st nid upd (Suc idx) ds
       else if py_truthy cid then
         bind_err (flush_check st) (\<lambda>_.
         bind_err (find_chapter_json (story_chapters st) cid) (\<lambda>co.
           case co of
             Some c \<Rightarrow> ucs_loop (edit_chapter st (chapter_id c) t sm idx) nid (upd @ [chapter_id c]) (Suc idx) ds
           | None \<Rightarrow>
               bind_err (flush_check (add_chapter st nid t sm idx)) (\<lambda>_.
                 ucs_loop (add_chapter st nid t sm idx) (Suc nid) (upd @ [nid]) (Suc idx) ds)))
       else
         bind_err (flush_check (add_chapter st nid t sm idx)) (\<lambda>_.
           ucs_loop (add_chapter st nid t sm idx) (Suc nid) (upd @ [nid]) (Suc idx) ds))))"

definition update_chapter_summaries :: "json \<Rightarrow> uid \<Rightarrow> story_id \<Rightarrow> sys \<Rightarrow> response \<times> sys" where
  "update_chapter_summaries data uid sid s =
     (case bind_err (py_get data ''story_id'' JNull) (\<lambda>v.
           bind_err (py_get data ''chapters'' (JArr [])) (\<lambda>p. Inr (v, p))) of
        Inl e \<Rightarrow> (Uncaught e, s)
      | Inr (v, payload) \<Rightarrow>
          if \<not> py_truthy v then (BadRequest ''Missing story_id.'', s)
          else respond s
            (bind_err (get_or_404 s sid) (\<lambda>st.
             bind_err (py_iter payload) (\<lambda>items.
             bind_err (ucs_loop st (next_row s) [] 1 items) (\<lambda>(st1, nid, upd).
             bind_err (flush_check st1) (\<lambda>_.
             bind_err (py_len payload) (\<lambda>n.
             bind_err (commit_story sid
                         (st1\<lparr>story_chapters := filter (\<lambda>c. chapter_id c \<in> set upd) (story_chapters st1),
                              chapters_count := n\<rparr>) (s\<lparr>next_row := nid\<rparr>)) (\<lambda>s1.
               Inr (json_message ''Chapter Summaries saved.'', notify ''Chapter Summaries Saved!'' uid s1)))))))))"

text \<open>The loop of the \<open>chapter_summaries\<close> branch of \<open>api_save_field\<close>: the
  title is the element's \<open>name\<close>, whatever it is; a truthy \<open>id\<close> is looked up
  (after an autoflush of the rows added so far) and updates its chapter or,
  when it names none, creates one; an element without one creates a
  chapter.  New rows are flushed at the next query.\<close>

fun sfs_loop :: "story \<Rightarrow> nat \<Rightarrow> nat \<Rightarrow> json list \<Rightarrow> py_error + (story \<times> nat)" where
  "sfs_loop st nid idx [] = Inr (st, nid)"
| "sfs_loop st nid idx (d # ds) =
     bind_err (py_get d ''id'' JNull) (\<lambda>cid.
     bind_err (py_get d ''name'' JNull) (\<lambda>t.
     bind_err (py_get d ''description'' (JStr [])) (\<lambda>sm.
       if py_truthy cid then
         bind_err (flush_check st) (\<lambda>_.
         bind_err (find_chapter_json (story_chapters st) cid) (\<lambda>co.
           case co of
             Some c \<Rightarrow> sfs_loop (edit_chapter st (chapter_id c) t sm idx) nid (Suc idx) ds
           | None \<Rightarrow> sfs_loop (add_chapter st nid t sm idx) (Suc nid) (Suc idx) ds))
       else sfs_loop (add_chapter st nid t sm idx) (Suc nid) (Suc idx) ds)))"

text \<open>\<open>json.loads(value) if isinstance(value, str) else value\<close>.\<close>

definition decode_value :: "env \<Rightarrow> json \<Rightarrow> json option" where
  "decode_value E v = (case v of JStr txt \<Rightarrow> json_loads E txt | _ \<Rightarrow> Some v)"

text \<open>\<open>api_save_field\<close> for the field \<open>chapter_summaries\<close>: after the loop the
  chapters whose id is not among the payload's truthy ids are deleted, but
  only when the payload has such an id at all.\<close>

definition save_field_summaries :: "env \<Rightarrow> json \<Rightarrow> uid \<Rightarrow> story_id \<Rightarrow> sys \<Rightarrow> response \<times> sys" where
  "save_field_summaries E data uid sid s =
     (case bind_err (py_get data ''value'' JNull) (\<lambda>value.
           bind_err (get_or_404 s sid) (\<lambda>st. Inr (value, st))) of
        Inl e \<Rightarrow> (Uncaught e, s)
      | Inr (value, st) \<Rightarrow>
          (case decode_value E value of
             None \<Rightarrow> (BadRequest ''Invalid JSON for chapter_summaries.'', s)
           | Some nd \<Rightarrow>
               respond s
                 (bind_err (py_iter nd) (\<lambda>items.
                  bind_err (sfs_loop st (next_row s) 1 items) (\<lambda>(st1, nid).
                  bind_err (map_err (\<lambda>d. py_get d ''id'' JNull) items) (\<lambda>ids.
                  bind_err (flush_check st1) (\<lambda>_.
                  bind_err (py_len nd) (\<lambda>n.
                    let new_ids = filter py_truthy ids;
                        cs = (if new_ids = [] then story_chapters st1
                              else filter (\<lambda>c. list_ex (\<lambda>v. py_eq_int v (chapter_id c)) new_ids)
                                     (story_chapters st1))
                    in bind_err (commit_story sid (st1\<lparr>story_chapters := cs, chapters_count := n\<rparr>)
                                  (s\<lparr>next_row := nid\<rparr>)) (\<lambda>s1.
                         Inr (json_message ''Chapter Summaries saved.'',
                              notify ''Chapter Summaries Saved!'' uid s1))))))))))"

subsection \<open>save_chapter and delete_story\<close>

text \<open>
  \<open>save_chapter\<close>: \<open>int(data.get("chapter_number"))\<close>, then the first chapter of
  the story with that number gets the content, or a new chapter is added
  with the number and the content and no title.  After the commit the
  handler calls \<open>notify("Chapter Saved", user.id)\<close>, but \<open>user\<close> is not
  defined in this function: the call raises \<open>NameError\<close> after the commit.
\<close>

definition save_chapter_commit :: "json \<Rightarrow> story_id \<Rightarrow> sys \<Rightarrow> py_error + sys" where
  "save_chapter_commit data sid s =
     bind_err (py_get data ''chapter_number'' JNull) (\<lambda>v.
     bind_err (py_int v) (\<lambda>n.
     bind_err (py_get data ''content'' JNull) (\<lambda>ct.
       case stories s sid of
         None \<Rightarrow> Inl IntegrityError
       | Some st \<Rightarrow>
           (case find_chapter (story_chapters st) n of
              Some _ \<Rightarrow>
                commit_story sid (st\<lparr>story_chapters :=
                  update_chapter (story_chapters st) n (\<lambda>c. c\<lparr>chapter_content := ct\<rparr>)\<rparr>) s
            | None \<Rightarrow>
                bind_err (commit_story sid (st\<lparr>story_chapters := story_chapters st @
                    [\<lparr>chapter_id = next_row s, chapter_number = n, chapter_title = JNull,
                      chapter_summary = JNull, chapter_content = ct, chapter_image_key = None\<rparr>]\<rparr>) s)
                  (\<lambda>s1. Inr (s1\<lparr>next_row := Suc (next_row s)\<rparr>))))))"

definition save_chapter :: "json \<Rightarrow> uid \<Rightarrow> story_id \<Rightarrow> sys \<Rightarrow> response \<times> sys" where
  "save_chapter data uid sid s =
     (case save_chapter_commit data sid s of
        Inl e \<Rightarrow> (Uncaught e, s)
      | Inr s1 \<Rightarrow> (Uncaught (NameError ''user''), s1))"

text \<open>\<open>delete_story\<close>: the story goes with its chapters and arcs (cascade) and
  its characters, locations and guide parts (explicit deletes); the images
  in object storage are deleted after the commit.  Every exception is
  swallowed by a bare \<open>except\<close>, and the answer is always \<open>{"deleted": true}\<close>.\<close>

definition delete_story :: "uid \<Rightarrow> story_id \<Rightarrow> sys \<Rightarrow> response \<times> sys" where
  "delete_story uid sid s =
     (Reply (JObj [(''deleted'', JBool True)]),
      case stories s sid of None \<Rightarrow> s | Some _ \<Rightarrow> s\<lparr>stories := (stories s)(sid := None)\<rparr>)"


subsection \<open>Proof predicates and example requests\<close>

definition chapters_wf :: "story \<Rightarrow> nat \<Rightarrow> nat list \<Rightarrow> bool" where
  "chapters_wf st nid upd \<longleftrightarrow> distinct (map chapter_id (story_chapters st)) \<and>
     list_all (\<lambda>c. chapter_id c < nid \<and> (chapter_id c \<in> set upd \<longrightarrow> py_truthy (chapter_title c)))
       (story_chapters st)"

definition edit_effect :: "sys \<Rightarrow> sys \<Rightarrow> bool" where
  "edit_effect s s' \<longleftrightarrow> queue s' = queue s \<and> logs s' = logs s \<and>
     (\<forall>x. stories s' x = stories s x \<or> stories s' x = None \<or> (\<exists>st. stories s' x = Some st \<and> story_ok st))"

definition example_meta_request :: json where
  "example_meta_request =
     JObj [(''characters'', JArr [JObj [(''name'', JStr ''Ann'')], JObj [(''name'', JStr [])]]),
           (''locations'', JArr [JObj [(''name'', JStr ''Town'')]])]"

definition example_summaries_request :: json where
  "example_summaries_request =
     JObj [(''story_id'', JNum 1),
           (''chapters'', JArr [JObj [(''title'', JStr ''Start''), (''id'', JNum 1)], JObj [(''summary'', JStr ''s'')]])]"

subsection \<open>Lemmas on the edits\<close>

lemma last_dropWhile: "dropWhile P xs \<noteq> [] \<Longrightarrow> last (dropWhile P xs) = last xs"
  by (metis last_append takeWhile_dropWhile_id)

lemma py_strip_idem [simp]: "py_strip (py_strip t) = py_strip t"
proof -
  let ?a = "dropWhile py_isspace t"
  let ?b = "dropWhile py_isspace (rev ?a)"
  have b: "dropWhile py_isspace ?b = ?b" by simp
  have "dropWhile py_isspace (rev ?b) = rev ?b"
  proof (cases "?b = []")
    case False
    then have "?a \<noteq> []" by (metis dropWhile.simps(1) rev.simps(1))
    have "hd (rev ?b) = last ?b" using False by (simp add: hd_rev)
    also have "\<dots> = last (rev ?a)" using False by (rule last_dropWhile)
    also have "\<dots> = hd ?a" using \<open>?a \<noteq> []\<close> by (simp add: last_rev)
    finally have "\<not> py_isspace (hd (rev ?b))" using \<open>?a \<noteq> []\<close> hd_dropWhile by metis
    then show ?thesis by (simp add: dropWhile_eq_self_iff)
  next
    case True
    then show ?thesis by (simp only: rev.simps(1) dropWhile.simps(1))
  qed
  then show ?thesis by (simp add: py_strip_def b)
qed

lemma commit_story_Inr [simp]:
  "commit_story sid st s = Inr s1 \<longleftrightarrow> story_ok st \<and> s1 = s\<lparr>stories := (stories s)(sid \<mapsto> st)\<rparr>"
  by (auto simp: commit_story_def)

lemma respond_Reply:
  "respond s r = (Reply b, s') \<longleftrightarrow> r = Inr (b, s')"
  by (auto simp: respond_def split: sum.splits prod.splits)

lemma get_or_404_Inr [simp]: "get_or_404 s sid = Inr st \<longleftrightarrow> stories s sid = Some st"
  by (auto simp: get_or_404_def split: option.splits)

lemma map_err_Inr_Cons:
  "map_err f (x # xs) = Inr ys \<longleftrightarrow> (\<exists>y ys'. f x = Inr y \<and> map_err f xs = Inr ys' \<and> ys = y # ys')"
  by (auto simp: bind_err_eq_Inr)

lemma meta_character_names:
  "map_err meta_character xs = Inr cs \<Longrightarrow>
   map char_name (List.map_filter id cs) = filter py_truthy (map (\<lambda>d. projr (py_get d ''name'' JNull)) xs)"
  by (induction xs arbitrary: cs)
     (auto simp: map_err_Inr_Cons meta_character_def bind_err_eq_Inr map_filter_simps)

lemma meta_location_names:
  "map_err meta_location xs = Inr ls \<Longrightarrow>
   map loc_name (List.map_filter id ls) = filter py_truthy (map (\<lambda>d. projr (py_get d ''name'' JNull)) xs)"
  by (induction xs arbitrary: ls)
     (auto simp: map_err_Inr_Cons meta_location_def bind_err_eq_Inr map_filter_simps)

text \<open>
  Saving metadata and listing it back, at the level of the decoded values.
  When \<open>update_meta\<close> succeeds, \<open>list_characters\<close> and
  \<open>list_locations\<close> return exactly the truthy names of the request's
  characters and locations, in request order: elements without a name, or
  with an empty one, are dropped.  The model keeps the decoded JSON value of
  a name; the \<open>String\<close> column's conversion of numbers and booleans to
  text, and the binding error a list or object raises at the commit, are not
  modelled, so this is a statement about the filtering and the order only.
\<close>

theorem update_meta_roundtrip:
  assumes "update_meta data uid sid s = (Reply b, s')"
  shows "\<exists>cd ld cs ls. py_get data ''characters'' (JArr []) = Inr cd \<and> py_iter cd = Inr cs \<and>
           py_get data ''locations'' (JArr []) = Inr ld \<and> py_iter ld = Inr ls \<and>
           list_characters sid s' = Reply (JArr (filter py_truthy (map (\<lambda>d. projr (py_get d ''name'' JNull)) cs))) \<and>
           list_locations sid s' = Reply (JArr (filter py_truthy (map (\<lambda>d. projr (py_get d ''name'' JNull)) ls)))"
  using assms
  by (auto simp: update_meta_def respond_Reply bind_err_eq_Inr list_characters_def list_locations_def
      dest!: meta_character_names meta_location_names simp del: py_get_Inr_iff)

lemma arc_row_stored:
  "map_err arc_row xs = Inr arcs \<Longrightarrow> list_all (\<lambda>a. arc_row a = Inr (Some a)) (List.map_filter id arcs)"
proof (induction xs arbitrary: arcs)
  case (Cons x xs)
  then show ?case
    by (cases x) (auto simp: bind_err_eq_Inr map_filter_simps)
qed simp

lemma map_err_arc_row_stored:
  "list_all (\<lambda>a. arc_row a = Inr (Some a)) ys \<Longrightarrow> map_err arc_row ys = Inr (map Some ys)"
  by (induction ys) auto

lemma map_filter_id_Some [simp]: "List.map_filter id (map Some ys) = ys"
  by (induction ys) (auto simp: map_filter_simps)

text \<open>
  Saving the arcs one has just read back is a no-op.  After a successful \<open>save_arcs\<close>, saving the stored arcs again succeeds with the same answer and leaves every story as it was: the stored arcs are stripped, non-empty strings, which \<open>save_arcs\<close> keeps unchanged.
\<close>

theorem save_arcs_reload_roundtrip:
  assumes "save_arcs data uid sid s = (Reply b, s1)"
  shows "\<exists>st1 s2. stories s1 sid = Some st1 \<and>
           save_arcs (JObj [(''arcs'', JArr (story_arcs st1))]) uid' sid s1 = (Reply b, s2) \<and>
           stories s2 = stories s1"
proof -
  from assms obtain ad items st arcs where
    st: "stories s sid = Some st" and "py_iter ad = Inr items" and arcs: "map_err arc_row items = Inr arcs"
    and ok: "story_ok (st\<lparr>story_arcs := List.map_filter id arcs\<rparr>)"
    and b: "b = json_message ''Story arcs saved.''"
    and s1: "s1 = notify ''Story arcs saved'' uid (s\<lparr>stories := (stories s)(sid \<mapsto> st\<lparr>story_arcs := List.map_filter id arcs\<rparr>)\<rparr>)"
    by (auto simp: save_arcs_def respond_Reply bind_err_eq_Inr simp del: py_get_Inr_iff)
  let ?st1 = "st\<lparr>story_arcs := List.map_filter id arcs\<rparr>"
  have st1: "stories s1 sid = Some ?st1" by (simp add: s1)
  have "map_err arc_row (story_arcs ?st1) = Inr (map Some (story_arcs ?st1))"
    using arc_row_stored [OF arcs] by (simp add: map_err_arc_row_stored)
  then show ?thesis
    using st1 ok
    by (auto simp: save_arcs_def respond_def b dict_lookup_def fun_upd_idem get_or_404_def commit_story_def)
qed

lemma save_chapter_commit_Inr:
  assumes "save_chapter_commit data sid s = Inr s1"
  obtains st n ct where "stories s sid = Some st" "find_chapter (story_chapters st) n \<noteq> None"
    "story_ok (st\<lparr>story_chapters := update_chapter (story_chapters st) n (\<lambda>c. c\<lparr>chapter_content := ct\<rparr>)\<rparr>)"
    "s1 = s\<lparr>stories := (stories s)(sid \<mapsto>
            st\<lparr>story_chapters := update_chapter (story_chapters st) n (\<lambda>c. c\<lparr>chapter_content := ct\<rparr>)\<rparr>)\<rparr>"
proof -
  obtain v n ct where n: "py_get data ''chapter_number'' JNull = Inr v" "py_int v = Inr n"
    "py_get data ''content'' JNull = Inr ct"
    and rest: "(case stories s sid of
         None \<Rightarrow> Inl IntegrityError
       | Some st \<Rightarrow>
           (case find_chapter (story_chapters st) n of
              Some _ \<Rightarrow>
                commit_story sid (st\<lparr>story_chapters :=
                  update_chapter (story_chapters st) n (\<lambda>c. c\<lparr>chapter_content := ct\<rparr>)\<rparr>) s
            | None \<Rightarrow>
                bind_err (commit_story sid (st\<lparr>story_chapters := story_chapters st @
                    [\<lparr>chapter_id = next_row s, chapter_number = n, chapter_title = JNull,
                      chapter_summary = JNull, chapter_content = ct, chapter_image_key = None\<rparr>]\<rparr>) s)
                  (\<lambda>s1. Inr (s1\<lparr>next_row := Suc (next_row s)\<rparr>)))) = Inr s1"
    using assms unfolding save_chapter_commit_def bind_err_eq_Inr by blast
  show ?thesis
  proof (cases "stories s sid")
    case None
    with rest show ?thesis by simp
  next
    case (Some st)
    show ?thesis
    proof (cases "find_chapter (story_chapters st) n")
      case None
      with rest Some show ?thesis by (simp add: bind_err_eq_Inr story_ok_def)
    next
      case (Some c)
      with rest \<open>stories s sid = Some st\<close> show ?thesis by (intro that [of st n ct]) (auto simp: commit_story_def split: if_splits)
    qed
  qed
qed

text \<open>
  C34: \<open>save_chapter\<close> never answers with success.  Every request ends in an exception.  When it changes the state at all, it has committed new content into an existing chapter of the story (no chapter is created, since a new row has no title) and then fails with \<open>NameError\<close> on the undefined \<open>user\<close>.
\<close>

theorem save_chapter_always_fails:
  assumes "save_chapter data uid sid s = (r, s')"
  shows "(\<exists>e. r = Uncaught e) \<and>
         (s' = s \<or> (r = Uncaught (NameError ''user'') \<and>
           (\<exists>st st'. stories s sid = Some st \<and> s' = s\<lparr>stories := (stories s)(sid \<mapsto> st')\<rparr> \<and>
                     map chapter_id (story_chapters st') = map chapter_id (story_chapters st))))"
proof (cases "save_chapter_commit data sid s")
  case (Inl e)
  with assms show ?thesis by (auto simp: save_chapter_def)
next
  case (Inr s1)
  have ids: "map chapter_id (update_chapter cs n (\<lambda>c. c\<lparr>chapter_content := ct\<rparr>)) = map chapter_id cs" for cs n ct
    by (induction cs) auto
  from Inr obtain st n ct where st: "stories s sid = Some st" and
    s1: "s1 = s\<lparr>stories := (stories s)(sid \<mapsto>
            st\<lparr>story_chapters := update_chapter (story_chapters st) n (\<lambda>c. c\<lparr>chapter_content := ct\<rparr>)\<rparr>)\<rparr>"
    by (rule save_chapter_commit_Inr) blast+
  from assms Inr have "r = Uncaught (NameError ''user'')" "s' = s1" by (simp_all add: save_chapter_def)
  with st s1 ids show ?thesis by fastforce
qed

lemma edit_chapter_ids [simp]:
  "map chapter_id (story_chapters (edit_chapter st i t sm idx)) = map chapter_id (story_chapters st)"
  by (induction "story_chapters st" arbitrary: st) (auto simp: edit_chapter_def)

lemma find_chapter_json_Some:
  "find_chapter_json cs v = Inr (Some c) \<Longrightarrow> c \<in> set cs"
  by (cases v) (auto simp: find_chapter_json_def dest: find_Some_iff [THEN iffD1] intro: nth_mem)

lemma wf_edit:
  assumes "chapters_wf st nid upd" "py_truthy t" "c \<in> set (story_chapters st)"
  shows "chapters_wf (edit_chapter st (chapter_id c) t sm idx) nid (upd @ [chapter_id c])"
proof -
  have lt: "chapter_id c < nid" using assms(1,3) by (auto simp: chapters_wf_def list_all_iff)
  have "distinct (map chapter_id (story_chapters (edit_chapter st (chapter_id c) t sm idx)))"
    using assms(1) by (simp only: edit_chapter_ids chapters_wf_def)
  moreover have "list_all (\<lambda>c'. chapter_id c' < nid \<and> (chapter_id c' \<in> set (upd @ [chapter_id c]) \<longrightarrow>
      py_truthy (chapter_title c'))) (story_chapters (edit_chapter st (chapter_id c) t sm idx))"
    using assms lt by (auto simp: chapters_wf_def list_all_iff edit_chapter_def)
  ultimately show ?thesis by (simp only: chapters_wf_def)
qed

lemma wf_add:
  assumes "chapters_wf st nid upd" "py_truthy t"
  shows "chapters_wf (add_chapter st nid t sm idx) (Suc nid) (upd @ [nid])"
  using assms by (auto simp: chapters_wf_def list_all_iff add_chapter_def)

lemma ucs_loop_wf:
  "ucs_loop st nid upd idx items = Inr (st1, nid1, upd1) \<Longrightarrow> chapters_wf st nid upd \<Longrightarrow>
   chapters_wf st1 nid1 upd1 \<and>
   length upd1 = length upd + length (filter (\<lambda>d. py_truthy (projr (py_get d ''title'' JNull))) items)"
proof (induction st nid upd idx items arbitrary: st1 nid1 upd1 rule: ucs_loop.induct)
  case (1 st nid upd idx)
  then show ?case by simp
next
  case (2 st nid upd idx d ds)
  obtain t sm cid where gt: "py_get d ''title'' JNull = Inr t"
    and gs: "py_get d ''summary'' (JStr []) = Inr sm" and gi: "py_get d ''id'' JNull = Inr cid"
    using "2.prems"(1) by (auto simp: bind_err_eq_Inr simp del: py_get_Inr_iff)
  have eq: "(if \<not> py_truthy t then ucs_loop st nid upd (Suc idx) ds
       else if py_truthy cid then
         bind_err (flush_check st) (\<lambda>_.
         bind_err (find_chapter_json (story_chapters st) cid) (\<lambda>co.
           case co of
             Some c \<Rightarrow> ucs_loop (edit_chapter st (chapter_id c) t sm idx) nid (upd @ [chapter_id c]) (Suc idx) ds
           | None \<Rightarrow>
               bind_err (flush_check (add_chapter st nid t sm idx)) (\<lambda>_.
                 ucs_loop (add_chapter st nid t sm idx) (Suc nid) (upd @ [nid]) (Suc idx) ds)))
       else
         bind_err (flush_check (add_chapter st nid t sm idx)) (\<lambda>_.
           ucs_loop (add_chapter st nid t sm idx) (Suc nid) (upd @ [nid]) (Suc idx) ds)) = Inr (st1, nid1, upd1)"
    using "2.prems"(1) gt gs gi by simp
  have tt: "projr (py_get d ''title'' JNull) = t" using gt by (simp del: py_get_Inr_iff)
  note wf = "2.prems"(2)
  show ?case
  proof (cases "py_truthy t")
    case False
    with eq have rec: "ucs_loop st nid upd (Suc idx) ds = Inr (st1, nid1, upd1)" by simp
    from "2.IH"(1) [OF False rec wf] False tt show ?thesis by simp
  next
    case tr: True
    have nn: "\<not> \<not> py_truthy t" using tr by simp
    show ?thesis
    proof (cases "py_truthy cid")
      case False
      with eq tr have rec: "ucs_loop (add_chapter st nid t sm idx) (Suc nid) (upd @ [nid]) (Suc idx) ds = Inr (st1, nid1, upd1)"
        by (simp add: bind_err_eq_Inr)
      from "2.IH"(4) [OF nn False rec wf_add [OF wf tr, of sm idx]] tr tt show ?thesis by simp
    next
      case True
      with eq tr obtain co where fl: "flush_check st = Inr ()" and fc: "find_chapter_json (story_chapters st) cid = Inr co"
        and rest: "(case co of
             Some c \<Rightarrow> ucs_loop (edit_chapter st (chapter_id c) t sm idx) nid (upd @ [chapter_id c]) (Suc idx) ds
           | None \<Rightarrow>
               bind_err (flush_check (add_chapter st nid t sm idx)) (\<lambda>_.
                 ucs_loop (add_chapter st nid t sm idx) (Suc nid) (upd @ [nid]) (Suc idx) ds)) = Inr (st1, nid1, upd1)"
        by (auto simp: bind_err_eq_Inr)
      show ?thesis
      proof (cases co)
        case None
        with rest have rec: "ucs_loop (add_chapter st nid t sm idx) (Suc nid) (upd @ [nid]) (Suc idx) ds = Inr (st1, nid1, upd1)"
          by (simp add: bind_err_eq_Inr)
        from "2.IH"(2) [OF nn True rec wf_add [OF wf tr, of sm idx]] tr tt show ?thesis by simp
      next
        case (Some c)
        with rest have rec: "ucs_loop (edit_chapter st (chapter_id c) t sm idx) nid (upd @ [chapter_id c]) (Suc idx) ds = Inr (st1, nid1, upd1)"
          by simp
        from "2.IH"(3) [OF nn True rec wf_edit [OF wf tr find_chapter_json_Some [OF fc [unfolded Some]]]] tr tt
        show ?thesis by simp
      qed
    qed
  qed
qed

lemma length_filter_ids:
  assumes "distinct (map f xs)"
  shows "length (filter (\<lambda>c. f c \<in> set ys) xs) \<le> length ys"
proof -
  let ?zs = "filter (\<lambda>c. f c \<in> set ys) xs"
  have "distinct (map f ?zs)" using assms by (simp add: distinct_map_filter)
  then have "length ?zs = card (set (map f ?zs))" by (metis distinct_card length_map)
  also have "\<dots> \<le> card (set ys)" by (rule card_mono) auto
  also have "\<dots> \<le> length ys" by (rule card_length)
  finally show ?thesis .
qed

text \<open>
  C35: \<open>update_chapter_summaries\<close> on a story whose chapter ids are distinct and below the id counter: on success every remaining chapter has a truthy title and there are at most as many chapters as titled payload entries, while \<open>chapters_count\<close> is the length of the whole payload, untitled entries included.
\<close>

theorem update_chapter_summaries_counts:
  assumes "update_chapter_summaries data uid sid s = (Reply b, s')"
    and "stories s sid = Some st" "distinct (map chapter_id (story_chapters st))"
    and "list_all (\<lambda>c. chapter_id c < next_row s) (story_chapters st)"
  shows "\<exists>payload items st'. py_get data ''chapters'' (JArr []) = Inr payload \<and> py_iter payload = Inr items \<and>
           stories s' sid = Some st' \<and> py_len payload = Inr (chapters_count st') \<and>
           list_all (\<lambda>c. py_truthy (chapter_title c)) (story_chapters st') \<and>
           length (story_chapters st') \<le> length (filter (\<lambda>d. py_truthy (projr (py_get d ''title'' JNull))) items)"
proof -
  have "\<exists>payload items st1 nid upd n. py_get data ''chapters'' (JArr []) = Inr payload \<and> py_iter payload = Inr items \<and>
          ucs_loop st (next_row s) [] 1 items = Inr (st1, nid, upd) \<and> py_len payload = Inr n \<and>
          stories s' sid = Some (st1\<lparr>story_chapters := filter (\<lambda>c. chapter_id c \<in> set upd) (story_chapters st1),
                                    chapters_count := n\<rparr>)"
    using assms(1,2)
    by (auto simp: update_chapter_summaries_def respond_Reply bind_err_eq_Inr
        split: sum.splits prod.splits if_splits simp del: py_get_Inr_iff)
  then obtain payload items st1 nid upd n where g: "py_get data ''chapters'' (JArr []) = Inr payload"
    "py_iter payload = Inr items" and loop: "ucs_loop st (next_row s) [] 1 items = Inr (st1, nid, upd)"
    and n: "py_len payload = Inr n"
    and st': "stories s' sid = Some (st1\<lparr>story_chapters := filter (\<lambda>c. chapter_id c \<in> set upd) (story_chapters st1),
                                    chapters_count := n\<rparr>)"
    by blast
  have "chapters_wf st (next_row s) []" using assms(3,4) by (simp add: chapters_wf_def)
  from ucs_loop_wf [OF loop this] have wf: "chapters_wf st1 nid upd"
    and len: "length upd = length (filter (\<lambda>d. py_truthy (projr (py_get d ''title'' JNull))) items)" by simp_all
  have "list_all (\<lambda>c. py_truthy (chapter_title c)) (filter (\<lambda>c. chapter_id c \<in> set upd) (story_chapters st1))"
    using wf by (auto simp: chapters_wf_def list_all_iff)
  moreover have "length (filter (\<lambda>c. chapter_id c \<in> set upd) (story_chapters st1)) \<le> length upd"
    using wf by (intro length_filter_ids) (simp add: chapters_wf_def)
  ultimately show ?thesis using g n st' len by auto
qed

lemma map_err_projr: "map_err f xs = Inr ys \<Longrightarrow> ys = map (\<lambda>x. projr (f x)) xs"
  by (induction xs arbitrary: ys) (auto simp: bind_err_eq_Inr)

lemma add_chapter_chapters [simp]:
  "story_chapters (add_chapter st i t sm idx) = story_chapters st @
     [\<lparr>chapter_id = i, chapter_number = int idx, chapter_title = t, chapter_summary = sm,
       chapter_content = JNull, chapter_image_key = None\<rparr>]"
  by (simp add: add_chapter_def)

lemma sfs_loop_appends:
  "sfs_loop st nid idx items = Inr (st1, nid1) \<Longrightarrow>
   list_all (\<lambda>d. \<not> py_truthy (projr (py_get d ''id'' JNull))) items \<Longrightarrow>
   \<exists>new. story_chapters st1 = story_chapters st @ new \<and> length new = length items"
proof (induction items arbitrary: st nid idx)
  case Nil
  then show ?case by simp
next
  case (Cons d ds)
  from Cons.prems obtain t sm cid where gi: "py_get d ''id'' JNull = Inr cid"
    and "\<not> py_truthy cid"
    and rec: "sfs_loop (add_chapter st nid t sm idx) (Suc nid) (Suc idx) ds = Inr (st1, nid1)"
    by (auto simp: bind_err_eq_Inr simp del: py_get_Inr_iff split: if_splits)
  from Cons.IH [OF rec] Cons.prems(2) obtain new where
    "story_chapters st1 = story_chapters (add_chapter st nid t sm idx) @ new" "length new = length ds"
    by auto
  then show ?case by (intro exI [of _ "_ # new"]) simp
qed

lemma save_field_summaries_Reply:
  assumes "save_field_summaries E data uid sid s = (Reply b, s')"
    and "py_get data ''value'' JNull = Inr v" "decode_value E v = Some nd" "py_iter nd = Inr items"
  obtains st st1 nid n cs where "stories s sid = Some st" "sfs_loop st (next_row s) 1 items = Inr (st1, nid)"
    "py_len nd = Inr n"
    "cs = (if filter py_truthy (map (\<lambda>d. projr (py_get d ''id'' JNull)) items) = [] then story_chapters st1
           else filter (\<lambda>c. list_ex (\<lambda>v. py_eq_int v (chapter_id c))
                  (filter py_truthy (map (\<lambda>d. projr (py_get d ''id'' JNull)) items))) (story_chapters st1))"
    "stories s' sid = Some (st1\<lparr>story_chapters := cs, chapters_count := n\<rparr>)"
  using assms
  by (auto simp: save_field_summaries_def respond_Reply bind_err_eq_Inr Let_def
      split: sum.splits prod.splits option.splits simp del: py_get_Inr_iff
      dest!: map_err_projr intro: that)

text \<open>
  C36: Saving chapter summaries through \<open>api_save_field\<close> with a payload that carries no truthy id keeps every existing chapter and appends one new chapter per entry: the story's chapters are duplicated instead of replaced.
\<close>

theorem save_field_without_ids_keeps_old:
  assumes "save_field_summaries E data uid sid s = (Reply b, s')" "stories s sid = Some st"
    and "py_get data ''value'' JNull = Inr v" "decode_value E v = Some nd" "py_iter nd = Inr items"
    and "list_all (\<lambda>d. \<not> py_truthy (projr (py_get d ''id'' JNull))) items"
  shows "\<exists>st' new. stories s' sid = Some st' \<and> story_chapters st' = story_chapters st @ new \<and>
                   length new = length items"
proof -
  from assms(1,3,4,5) obtain st0 st1 nid n cs where st0: "stories s sid = Some st0"
    and loop: "sfs_loop st0 (next_row s) 1 items = Inr (st1, nid)"
    and cs: "cs = (if filter py_truthy (map (\<lambda>d. projr (py_get d ''id'' JNull)) items) = [] then story_chapters st1
           else filter (\<lambda>c. list_ex (\<lambda>v. py_eq_int v (chapter_id c))
                  (filter py_truthy (map (\<lambda>d. projr (py_get d ''id'' JNull)) items))) (story_chapters st1))"
    and st': "stories s' sid = Some (st1\<lparr>story_chapters := cs, chapters_count := n\<rparr>)"
    by (rule save_field_summaries_Reply)
  have "filter py_truthy (map (\<lambda>d. projr (py_get d ''id'' JNull)) items) = []"
    using assms(6) by (simp add: filter_empty_conv list_all_iff)
  with cs have "cs = story_chapters st1" by simp
  moreover from sfs_loop_appends [OF loop assms(6)] st0 assms(2) obtain new where
    "story_chapters st1 = story_chapters st @ new" "length new = length items" by auto
  ultimately show ?thesis using st' by auto
qed

text \<open>
  C37: When the payload of \<open>api_save_field\<close> carries at least one truthy id, every chapter left afterwards is one whose id the payload names: the chapters the same request created for entries without an id are deleted again before the commit.
\<close>

theorem save_field_with_ids_keeps_only_named:
  assumes "save_field_summaries E data uid sid s = (Reply b, s')"
    and "py_get data ''value'' JNull = Inr v" "decode_value E v = Some nd" "py_iter nd = Inr items"
    and "list_ex (\<lambda>d. py_truthy (projr (py_get d ''id'' JNull))) items"
  shows "\<exists>st'. stories s' sid = Some st' \<and>
           list_all (\<lambda>c. list_ex (\<lambda>d. py_eq_int (projr (py_get d ''id'' JNull)) (chapter_id c)) items)
             (story_chapters st')"
proof -
  from assms(1-4) obtain st0 st1 nid n cs where
    cs: "cs = (if filter py_truthy (map (\<lambda>d. projr (py_get d ''id'' JNull)) items) = [] then story_chapters st1
           else filter (\<lambda>c. list_ex (\<lambda>v. py_eq_int v (chapter_id c))
                  (filter py_truthy (map (\<lambda>d. projr (py_get d ''id'' JNull)) items))) (story_chapters st1))"
    and st': "stories s' sid = Some (st1\<lparr>story_chapters := cs, chapters_count := n\<rparr>)"
    by (rule save_field_summaries_Reply)
  have "filter py_truthy (map (\<lambda>d. projr (py_get d ''id'' JNull)) items) \<noteq> []"
    using assms(5) by (auto simp: filter_empty_conv list_ex_iff)
  with st' cs show ?thesis by (auto simp: list_all_iff list_ex_iff)
qed


lemma edit_effect_refl [simp]: "edit_effect s s"
  by (simp add: edit_effect_def)

lemma commit_effect:
  "commit_story sid st s0 = Inr s1 \<Longrightarrow> queue s0 = queue s \<Longrightarrow> logs s0 = logs s \<Longrightarrow> stories s0 = stories s \<Longrightarrow>
   edit_effect s (notify m u s1)"
  by (auto simp: edit_effect_def)

lemma commit_effect_same: "commit_story sid st s = Inr s1 \<Longrightarrow> edit_effect s (notify m u s1)"
  by (erule commit_effect) simp_all

lemma commit_effect_row: "commit_story sid st (s\<lparr>next_row := n\<rparr>) = Inr s1 \<Longrightarrow> edit_effect s (notify m u s1)"
  by (erule commit_effect) simp_all

lemma respond_effect:
  "respond s x = (r, s') \<Longrightarrow> (\<And>b s1. x = Inr (b, s1) \<Longrightarrow> edit_effect s s1) \<Longrightarrow> edit_effect s s'"
  by (auto simp: respond_def split: sum.splits prod.splits)

lemma update_meta_effect: "update_meta data u sid s = (r, s') \<Longrightarrow> edit_effect s s'"
  unfolding update_meta_def
  by (erule respond_effect) (auto simp: bind_err_eq_Inr simp del: commit_story_Inr dest: commit_effect_same commit_effect_row)

lemma save_arcs_effect: "save_arcs data u sid s = (r, s') \<Longrightarrow> edit_effect s s'"
  unfolding save_arcs_def
  by (erule respond_effect) (auto simp: bind_err_eq_Inr simp del: commit_story_Inr dest: commit_effect_same commit_effect_row)

lemma update_chapter_summaries_effect: "update_chapter_summaries data u sid s = (r, s') \<Longrightarrow> edit_effect s s'"
  unfolding update_chapter_summaries_def
  by (auto split: sum.splits prod.splits if_splits elim!: respond_effect
      simp: bind_err_eq_Inr simp del: commit_story_Inr dest: commit_effect_same commit_effect_row)

lemma save_field_summaries_effect: "save_field_summaries E data u sid s = (r, s') \<Longrightarrow> edit_effect s s'"
  unfolding save_field_summaries_def Let_def
  by (auto split: sum.splits prod.splits option.splits elim!: respond_effect
      simp: bind_err_eq_Inr simp del: commit_story_Inr dest: commit_effect_same commit_effect_row)

lemma save_chapter_effect: "save_chapter data u sid s = (r, s') \<Longrightarrow> edit_effect s s'"
proof (cases "save_chapter_commit data sid s")
  case (Inr s1)
  then obtain st n ct where "stories s sid = Some st"
    "story_ok (st\<lparr>story_chapters := update_chapter (story_chapters st) n (\<lambda>c. c\<lparr>chapter_content := ct\<rparr>)\<rparr>)"
    "s1 = s\<lparr>stories := (stories s)(sid \<mapsto>
            st\<lparr>story_chapters := update_chapter (story_chapters st) n (\<lambda>c. c\<lparr>chapter_content := ct\<rparr>)\<rparr>)\<rparr>"
    by (rule save_chapter_commit_Inr) blast+
  moreover assume "save_chapter data u sid s = (r, s')"
  ultimately show ?thesis using Inr by (auto simp: save_chapter_def edit_effect_def)
qed (simp add: save_chapter_def)

lemma delete_story_effect: "delete_story u sid s = (r, s') \<Longrightarrow> edit_effect s s'"
  by (auto simp: delete_story_def edit_effect_def split: option.splits)

lemmas edit_eval = example_meta_request_def example_defs dict_lookup_def respond_def get_or_404_def
  commit_story_def flush_check_def story_ok_def meta_character_def meta_location_def map_filter_simps
  json_message_def

theorem update_meta_roundtrip_witness:
  "\<exists>b s'. update_meta example_meta_request 1 1 (example_state 1000) = (Reply b, s') \<and>
          list_characters 1 s' = Reply (JArr [JStr ''Ann'']) \<and> list_locations 1 s' = Reply (JArr [JStr ''Town''])"
proof -
  have "\<exists>b s'. update_meta example_meta_request 1 1 (example_state 1000) = (Reply b, s')"
    by (simp add: update_meta_def edit_eval)
  then obtain b s' where e: "update_meta example_meta_request 1 1 (example_state 1000) = (Reply b, s')" by blast
  from update_meta_roundtrip [OF e] have
    "list_characters 1 s' = Reply (JArr [JStr ''Ann'']) \<and> list_locations 1 s' = Reply (JArr [JStr ''Town''])"
    by (auto simp: example_meta_request_def dict_lookup_def)
  with e show ?thesis by blast
qed

theorem save_arcs_reload_roundtrip_witness:
  "\<exists>b s1 st1 s2. save_arcs (JObj [(''arcs'', JArr [JStr '' Rise '', JStr '' ''])]) 1 1 (example_state 1000) = (Reply b, s1) \<and>
     stories s1 1 = Some st1 \<and> story_arcs st1 = [JStr ''Rise''] \<and>
     save_arcs (JObj [(''arcs'', JArr (story_arcs st1))]) 1 1 s1 = (Reply b, s2) \<and> stories s2 = stories s1"
proof -
  have "\<exists>b s1. save_arcs (JObj [(''arcs'', JArr [JStr '' Rise '', JStr '' ''])]) 1 1 (example_state 1000) = (Reply b, s1)"
    by (simp add: save_arcs_def edit_eval py_strip_def py_isspace_def)
  then obtain b s1 where e: "save_arcs (JObj [(''arcs'', JArr [JStr '' Rise '', JStr '' ''])]) 1 1 (example_state 1000) = (Reply b, s1)"
    by blast
  have a: "\<exists>st1. stories s1 1 = Some st1 \<and> story_arcs st1 = [JStr ''Rise'']"
    using e by (auto simp: save_arcs_def edit_eval py_strip_def py_isspace_def)
  from save_arcs_reload_roundtrip [OF e, of 1] a e show ?thesis by auto
qed

theorem save_chapter_always_fails_witness:
  "\<exists>r s'. save_chapter (JObj [(''chapter_number'', JStr ''1''), (''content'', JStr ''Text'')]) 1 1 (example_state 1000) = (r, s') \<and>
     r = Uncaught (NameError ''user'') \<and> map chapter_content (story_chapters (the (stories s' 1))) = [JStr ''Text'']"
proof -
  obtain r s' where e: "save_chapter (JObj [(''chapter_number'', JStr ''1''), (''content'', JStr ''Text'')]) 1 1 (example_state 1000) = (r, s')"
    by (rule prod.exhaust)
  have ch: "r = Uncaught (NameError ''user'') \<and> map chapter_content (story_chapters (the (stories s' 1))) = [JStr ''Text'']"
    using e by (simp add: save_chapter_def save_chapter_commit_def edit_eval parse_int_def py_strip_def py_isspace_def
        py_digit_def digits_val_def) (auto simp: example_story_def)
  from save_chapter_always_fails [OF e] have "\<exists>e'. r = Uncaught e'" by blast
  with ch e show ?thesis by (intro exI [of _ r] exI [of _ s']) simp
qed

theorem update_chapter_summaries_counts_witness:
  "\<exists>b s' st'. update_chapter_summaries example_summaries_request 1 1 (example_state 1000) = (Reply b, s') \<and>
     stories s' 1 = Some st' \<and> chapters_count st' = 2 \<and> length (story_chapters st') \<le> 1"
proof -
  have "\<exists>b s'. update_chapter_summaries example_summaries_request 1 1 (example_state 1000) = (Reply b, s')"
    by (simp add: update_chapter_summaries_def example_summaries_request_def edit_eval find_chapter_json_def
        edit_chapter_def)
  then obtain b s' where e: "update_chapter_summaries example_summaries_request 1 1 (example_state 1000) = (Reply b, s')"
    by blast
  have st: "stories (example_state 1000) 1 = Some example_story" by (simp add: example_state_def)
  from update_chapter_summaries_counts [OF e st] obtain st' where
    "stories s' 1 = Some st'" "py_len (JArr [JObj [(''title'', JStr ''Start''), (''id'', JNum 1)], JObj [(''summary'', JStr ''s'')]]) = Inr (chapters_count st')"
    "length (story_chapters st') \<le> 1"
    by (auto simp: example_story_def example_state_def example_summaries_request_def dict_lookup_def)
  with e show ?thesis by auto
qed

theorem save_field_without_ids_keeps_old_witness:
  "\<exists>b s' st'. save_field_summaries example_env (JObj [(''value'', JArr [JObj [(''name'', JStr ''New'')]])]) 1 1
       (example_state 1000) = (Reply b, s') \<and> stories s' 1 = Some st' \<and> length (story_chapters st') = 2"
proof -
  have "\<exists>b s'. save_field_summaries example_env (JObj [(''value'', JArr [JObj [(''name'', JStr ''New'')]])]) 1 1
       (example_state 1000) = (Reply b, s')"
    by (simp add: save_field_summaries_def edit_eval decode_value_def add_chapter_def)
  then obtain b s' where e: "save_field_summaries example_env (JObj [(''value'', JArr [JObj [(''name'', JStr ''New'')]])]) 1 1
       (example_state 1000) = (Reply b, s')" by blast
  have st: "stories (example_state 1000) 1 = Some example_story" by (simp add: example_state_def)
  from save_field_without_ids_keeps_old [OF e st, of "JArr [JObj [(''name'', JStr ''New'')]]" "JArr [JObj [(''name'', JStr ''New'')]]"]
  obtain st' where "stories s' 1 = Some st'" "length (story_chapters st') = 2"
    by (auto simp: dict_lookup_def decode_value_def example_story_def)
  with e show ?thesis by auto
qed

theorem save_field_with_ids_keeps_only_named_witness:
  "\<exists>b s' st'. save_field_summaries example_env
       (JObj [(''value'', JArr [JObj [(''id'', JNum 1), (''name'', JStr ''A'')], JObj [(''name'', JStr ''B'')]])]) 1 1
       (example_state 1000) = (Reply b, s') \<and> stories s' 1 = Some st' \<and>
     list_all (\<lambda>c. chapter_id c = 1) (story_chapters st')"
proof -
  have "\<exists>b s'. save_field_summaries example_env
       (JObj [(''value'', JArr [JObj [(''id'', JNum 1), (''name'', JStr ''A'')], JObj [(''name'', JStr ''B'')]])]) 1 1
       (example_state 1000) = (Reply b, s')"
    by (simp add: save_field_summaries_def edit_eval decode_value_def add_chapter_def find_chapter_json_def
        edit_chapter_def)
  then obtain b s' where e: "save_field_summaries example_env
       (JObj [(''value'', JArr [JObj [(''id'', JNum 1), (''name'', JStr ''A'')], JObj [(''name'', JStr ''B'')]])]) 1 1
       (example_state 1000) = (Reply b, s')" by blast
  from save_field_with_ids_keeps_only_named [OF e,
      of "JArr [JObj [(''id'', JNum 1), (''name'', JStr ''A'')], JObj [(''name'', JStr ''B'')]]"
         "JArr [JObj [(''id'', JNum 1), (''name'', JStr ''A'')], JObj [(''name'', JStr ''B'')]]"]
  obtain st' where "stories s' 1 = Some st'" "list_all (\<lambda>c. chapter_id c = 1) (story_chapters st')"
    by (auto simp: dict_lookup_def decode_value_def list_all_iff)
  with e show ?thesis by auto
qed

end
