(* ===== verification/Accounts.thy ===== *)
theory Accounts
  imports Ledger PyInt "HOL-Library.AList"
begin

text \<open>
  The account tables of the back office and the admin endpoints that change
  them (\<open>src/api/admin.py\<close>): the \<open>Role\<close>, \<open>CreditPackage\<close>, \<open>User\<close> and
  \<open>Revenue\<close> rows of \<open>src/models\<close>, the decorator \<open>is_admin\<close> of
  \<open>src/helpers.py\<close>, the role endpoints (\<open>update_user_role\<close>, \<open>create_role\<close>,
  \<open>delete_role\<close>, \<open>edit_role\<close>), the credit-package endpoints, the two user
  toggles, \<open>delete_user\<close> and \<open>adjust_credits\<close>, and the rows \<open>src/app.py\<close>
  installs at start-up.

  A table is an association list in row-id order, so that \<open>.first()\<close> is
  \<open>find\<close>; a new row takes SQLite's next row id, one more than the largest id
  in the table.  A handler answers with a redirect (its flash message is not
  modelled), a JSON body with a status code, or an uncaught exception
  (\<open>Failed\<close>), after which the request's uncommitted changes are rolled
  back.  Handlers that commit more than once keep what their first commit
  wrote.  Values of \<open>float(...)\<close> are given by a parameter \<open>flt\<close> (the model
  has no IEEE floats; a price is a rational); \<open>int(...)\<close> is \<open>py_int\<close>.  The
  Stripe calls are arguments: their result or the exception they raise.
\<close>

record role =
  role_name :: string
  default_text :: int
  default_image :: int
  default_audio :: int
  role_cost :: rat
  protected :: bool
  role_price :: "string option"

record credit_package =
  pkg_credit_type :: string
  pkg_credits :: int
  pkg_cost :: rat
  pkg_price :: "string option"

text \<open>The columns of a \<open>User\<close> row the back office and the billing code use.
  The Stripe ids hold whatever value the code assigned (a string or \<open>None\<close>).\<close>

record account =
  username :: string
  acct_credits :: user_credits
  acct_role :: nat
  under_review :: bool
  is_locked :: bool
  stripe_customer :: json
  stripe_subscription :: json

record accounts_db =
  users_tab :: "(uid \<times> account) list"
  roles_tab :: "(nat \<times> role) list"
  packages_tab :: "(nat \<times> credit_package) list"
  revenue :: "rat list"
  story_owners :: "uid list"

datatype reply = Redirect string | Answer nat json | Failed py_error

type_synonym form = "(string \<times> string) list"

subsection \<open>Tables, forms and the admin guard\<close>

text \<open>SQLite's next row id: one more than the largest id of the table.\<close>

definition fresh_id :: "(nat \<times> 'a) list \<Rightarrow> nat" where
  "fresh_id tab = foldr (\<lambda>(k, _) m. max (Suc k) m) tab 1"

text \<open>\<open>request.form.get(key)\<close>: the first value given for the key.\<close>

definition form_get :: "form \<Rightarrow> string \<Rightarrow> string option" where
  "form_get f k = map_of f k"

text \<open>\<open>int(request.form.get(key))\<close> and \<open>int(request.form.get(key, d))\<close>.\<close>

definition form_int :: "form \<Rightarrow> string \<Rightarrow> py_error + int" where
  "form_int f k = py_int (case form_get f k of None \<Rightarrow> JNull | Some v \<Rightarrow> JStr v)"

definition form_int_default :: "form \<Rightarrow> string \<Rightarrow> int \<Rightarrow> py_error + int" where
  "form_int_default f k d = (case form_get f k of None \<Rightarrow> Inr d | Some v \<Rightarrow> py_int (JStr v))"

text \<open>\<open>float(request.form.get(key, d))\<close>, with \<open>float\<close> of a string given by \<open>flt\<close>.\<close>

definition form_float_default ::
  "(string option \<Rightarrow> py_error + rat) \<Rightarrow> form \<Rightarrow> string \<Rightarrow> rat \<Rightarrow> py_error + rat" where
  "form_float_default flt f k d = (case form_get f k of None \<Rightarrow> Inr d | Some v \<Rightarrow> flt (Some v))"

definition json_error :: "string \<Rightarrow> json" where
  "json_error m = JObj [(''error'', JStr m)]"

text \<open>A truthy Stripe id column (\<open>if role.stripe_price_id:\<close>).\<close>

definition has_price :: "string option \<Rightarrow> bool" where
  "has_price p = (case p of None \<Rightarrow> False | Some i \<Rightarrow> i \<noteq> [])"

text \<open>The role row of a user (\<open>user.role\<close>).\<close>

definition user_role :: "accounts_db \<Rightarrow> account \<Rightarrow> role option" where
  "user_role db a = map_of (roles_tab db) (acct_role a)"

text \<open>\<open>is_admin\<close>: the current user (the id the access token names, if any)
  must exist and hold the role named \<open>admin\<close>; otherwise the request is
  redirected to the index.\<close>

definition is_admin ::
  "accounts_db \<Rightarrow> uid option \<Rightarrow> (uid \<Rightarrow> reply \<times> accounts_db) \<Rightarrow> reply \<times> accounts_db" where
  "is_admin db cur f =
     (case cur of
        None \<Rightarrow> (Redirect ''index'', db)
      | Some u \<Rightarrow>
          (case map_of (users_tab db) u of
             None \<Rightarrow> (Redirect ''index'', db)
           | Some a \<Rightarrow>
               (case user_role db a of
                  None \<Rightarrow> (Failed (AttributeError ''name''), db)
                | Some r \<Rightarrow> if role_name r \<noteq> ''admin'' then (Redirect ''index'', db) else f u)))"

text \<open>A commit of the role table: \<open>Role.name\<close> is \<open>UNIQUE\<close>.\<close>

definition commit_roles :: "accounts_db \<Rightarrow> py_error + accounts_db" where
  "commit_roles db =
     (if distinct (map (role_name \<circ> snd) (roles_tab db)) then Inr db else Inl IntegrityError)"

text \<open>The outcome of a handler whose only commit is at its end.\<close>

definition finish :: "accounts_db \<Rightarrow> py_error + (reply \<times> accounts_db) \<Rightarrow> reply \<times> accounts_db" where
  "finish db r = (case r of Inl e \<Rightarrow> (Failed e, db) | Inr x \<Rightarrow> x)"

subsection \<open>Roles\<close>

text \<open>\<open>update_user_role\<close>: the role is looked up by name; a user who changes
  role and is not the admin making the request receives the new role's
  default credits on top of the ones they have.\<close>

definition update_user_role :: "uid \<Rightarrow> uid \<Rightarrow> form \<Rightarrow> accounts_db \<Rightarrow> reply \<times> accounts_db" where
  "update_user_role adm user_id f db =
     (case find (\<lambda>(i, r). Some (role_name r) = form_get f ''role'') (roles_tab db) of
        None \<Rightarrow> (Answer 400 (json_error ''Role not found.''), db)
      | Some (rid, r) \<Rightarrow>
          (case map_of (users_tab db) user_id of
             None \<Rightarrow> (Failed HTTPNotFound, db)
           | Some t \<Rightarrow>
               if acct_role t = rid then (Redirect ''admin_views.user_management'', db)
               else (case map_of (users_tab db) adm of
                       None \<Rightarrow> (Failed (AttributeError ''username''), db)
                     | Some me \<Rightarrow>
                         if username t = username me then (Redirect ''admin_views.user_management'', db)
                         else (Redirect ''admin_views.user_management'',
                               db\<lparr>users_tab := AList.update user_id
                                   (t\<lparr>acct_credits := grant_role_credits (acct_credits t)
                                         (default_text r) (default_image r) (default_audio r),
                                      acct_role := rid\<rparr>) (users_tab db)\<rparr>))))"

text \<open>\<open>create_role\<close>: the role is committed first, then its Stripe price is
  created; when Stripe raises, the role is deleted again.\<close>

definition create_role ::
  "(string option \<Rightarrow> py_error + rat) \<Rightarrow> form \<Rightarrow> py_error + string \<Rightarrow> accounts_db \<Rightarrow> reply \<times> accounts_db" where
  "create_role flt f price db =
     finish db
       (bind_err (form_int_default f ''default_text'' 0) (\<lambda>dt.
        bind_err (form_int_default f ''default_image'' 0) (\<lambda>di.
        bind_err (form_int_default f ''default_audio'' 0) (\<lambda>da.
        bind_err (form_float_default flt f ''cost'' 0) (\<lambda>c.
          if list_ex (\<lambda>(i, r). Some (role_name r) = form_get f ''role_name'') (roles_tab db)
          then Inr (Answer 400 (json_error ''Role already exists.''), db)
          else (case form_get f ''role_name'' of
                  None \<Rightarrow> Inl IntegrityError
                | Some n \<Rightarrow>
                    (let rid = fresh_id (roles_tab db);
                         r = \<lparr>role_name = n, default_text = dt, default_image = di, default_audio = da,
                              role_cost = c, protected = False, role_price = None\<rparr>
                     in bind_err (commit_roles (db\<lparr>roles_tab := roles_tab db @ [(rid, r)]\<rparr>)) (\<lambda>db1.
                          Inr (Redirect ''admin_views.role_management'',
                               (case price of
                                  Inl _ \<Rightarrow> db1\<lparr>roles_tab := AList.delete rid (roles_tab db1)\<rparr>
                                | Inr p \<Rightarrow> db1\<lparr>roles_tab := AList.update rid (r\<lparr>role_price := Some p\<rparr>)
                                                                 (roles_tab db1)\<rparr>))))))))))"

text \<open>\<open>delete_role\<close>: a protected role, or one some user holds, stays; a role
  with a Stripe price is deleted once its Stripe product is archived; a role
  without one is never deleted.\<close>

definition delete_role :: "nat \<Rightarrow> py_error + unit \<Rightarrow> accounts_db \<Rightarrow> reply \<times> accounts_db" where
  "delete_role role_id archive db =
     (case map_of (roles_tab db) role_id of
        None \<Rightarrow> (Failed HTTPNotFound, db)
      | Some r \<Rightarrow>
          (Redirect ''admin_views.role_management'',
           if protected r then db
           else if list_ex (\<lambda>(u, a). acct_role a = role_id) (users_tab db) then db
           else if has_price (role_price r) then
             (case archive of
                Inl _ \<Rightarrow> db
              | Inr _ \<Rightarrow> db\<lparr>roles_tab := AList.delete role_id (roles_tab db)\<rparr>)
           else db))"

text \<open>\<open>edit_role\<close>: every field the form names is replaced and committed; then,
  for a role with a Stripe price, the product is renamed and, if the cost
  changed, a new price is created.  The role's \<open>protected\<close> flag is not
  consulted.\<close>

definition edit_role ::
  "(string option \<Rightarrow> py_error + rat) \<Rightarrow> nat \<Rightarrow> form \<Rightarrow> py_error + string \<Rightarrow> accounts_db \<Rightarrow>
   reply \<times> accounts_db" where
  "edit_role flt role_id f stripe db =
     (case map_of (roles_tab db) role_id of
        None \<Rightarrow> (Failed HTTPNotFound, db)
      | Some r \<Rightarrow>
          finish db
            (bind_err (form_int_default f ''default_text'' (default_text r)) (\<lambda>dt.
             bind_err (form_int_default f ''default_image'' (default_image r)) (\<lambda>di.
             bind_err (form_int_default f ''default_audio'' (default_audio r)) (\<lambda>da.
             bind_err (form_float_default flt f ''cost'' (role_cost r)) (\<lambda>c.
               (let n = (case form_get f ''role_name'' of None \<Rightarrow> role_name r | Some v \<Rightarrow> v);
                    r1 = r\<lparr>role_name := n, default_text := dt, default_image := di,
                           default_audio := da, role_cost := c\<rparr>
                in bind_err (commit_roles (db\<lparr>roles_tab := AList.update role_id r1 (roles_tab db)\<rparr>)) (\<lambda>db1.
                     Inr (Redirect ''admin_views.role_management'',
                          if has_price (role_price r) then
                            (case stripe of
                               Inl _ \<Rightarrow> db1
                             | Inr p \<Rightarrow>
                                 if c \<noteq> role_cost r
                                 then db1\<lparr>roles_tab := AList.update role_id (r1\<lparr>role_price := Some p\<rparr>)
                                                          (roles_tab db1)\<rparr>
                                 else db1)
                          else db1)))))))))"

subsection \<open>Credit packages\<close>

text \<open>\<open>create_credit_package\<close>: one package per credit type and amount; the
  package is committed, then its Stripe price is created, and the package is
  deleted again when Stripe raises.\<close>

definition create_credit_package ::
  "(string option \<Rightarrow> py_error + rat) \<Rightarrow> form \<Rightarrow> py_error + string \<Rightarrow> accounts_db \<Rightarrow> reply \<times> accounts_db" where
  "create_credit_package flt f price db =
     finish db
       (bind_err (form_int f ''credits'') (\<lambda>n.
        bind_err (flt (form_get f ''cost'')) (\<lambda>c.
          if list_ex (\<lambda>(i, p). Some (pkg_credit_type p) = form_get f ''credit_type'' \<and> pkg_credits p = n)
                     (packages_tab db)
          then Inr (Answer 400 (json_error ''Credit package already exists.''), db)
          else (case form_get f ''credit_type'' of
                  None \<Rightarrow> Inl IntegrityError
                | Some t \<Rightarrow>
                    (let pid = fresh_id (packages_tab db);
                         p = \<lparr>pkg_credit_type = t, pkg_credits = n, pkg_cost = c, pkg_price = None\<rparr>;
                         db1 = db\<lparr>packages_tab := packages_tab db @ [(pid, p)]\<rparr>
                     in Inr (Redirect ''admin_views.credit_packages'',
                             (case price of
                                Inl _ \<Rightarrow> db1\<lparr>packages_tab := AList.delete pid (packages_tab db1)\<rparr>
                              | Inr q \<Rightarrow> db1\<lparr>packages_tab := AList.update pid (p\<lparr>pkg_price := Some q\<rparr>)
                                                                   (packages_tab db1)\<rparr>)))))))"

text \<open>\<open>delete_credit_package\<close>: a Stripe error while archiving the product is
  only flashed; the package is deleted in every case.\<close>

definition delete_credit_package :: "nat \<Rightarrow> accounts_db \<Rightarrow> reply \<times> accounts_db" where
  "delete_credit_package pid db =
     (case map_of (packages_tab db) pid of
        None \<Rightarrow> (Failed HTTPNotFound, db)
      | Some _ \<Rightarrow>
          (Answer 200 (JObj [(''message'', JStr ''Credit Package Deleted'')]),
           db\<lparr>packages_tab := AList.delete pid (packages_tab db)\<rparr>))"

text \<open>\<open>update_credit_package\<close>: the new values are committed; when the amount,
  cost or type changed, a new Stripe price is created and recorded.\<close>

definition update_credit_package ::
  "(string option \<Rightarrow> py_error + rat) \<Rightarrow> nat \<Rightarrow> form \<Rightarrow> py_error + string \<Rightarrow> accounts_db \<Rightarrow>
   reply \<times> accounts_db" where
  "update_credit_package flt pid f price db =
     (case map_of (packages_tab db) pid of
        None \<Rightarrow> (Failed HTTPNotFound, db)
      | Some p \<Rightarrow>
          finish db
            (bind_err (form_int_default f ''credits'' (pkg_credits p)) (\<lambda>n.
             bind_err (form_float_default flt f ''cost'' (pkg_cost p)) (\<lambda>c.
               (let t = (case form_get f ''credit_type'' of None \<Rightarrow> pkg_credit_type p | Some v \<Rightarrow> v);
                    changed = (c \<noteq> pkg_cost p \<or> n \<noteq> pkg_credits p \<or> t \<noteq> pkg_credit_type p);
                    p1 = p\<lparr>pkg_credits := n, pkg_cost := c, pkg_credit_type := t\<rparr>;
                    db1 = db\<lparr>packages_tab := AList.update pid p1 (packages_tab db)\<rparr>
                in Inr (Redirect ''admin_views.credit_packages'',
                        if changed then
                          (case price of
                             Inl _ \<Rightarrow> db1
                           | Inr q \<Rightarrow> db1\<lparr>packages_tab := AList.update pid (p1\<lparr>pkg_price := Some q\<rparr>)
                                                                (packages_tab db1)\<rparr>)
                        else db1))))))"

subsection \<open>Users\<close>

text \<open>\<open>toggle_under_review\<close> and \<open>toggle_lock_user\<close>: an admin cannot change
  their own flag.\<close>

definition toggle_under_review :: "uid \<Rightarrow> uid \<Rightarrow> accounts_db \<Rightarrow> reply \<times> accounts_db" where
  "toggle_under_review adm user_id db =
     (case map_of (users_tab db) user_id of
        None \<Rightarrow> (Failed HTTPNotFound, db)
      | Some t \<Rightarrow>
          (Redirect ''admin_views.user_management'',
           if user_id = adm then db
           else db\<lparr>users_tab := AList.update user_id (t\<lparr>under_review := \<not> under_review t\<rparr>) (users_tab db)\<rparr>))"

definition toggle_lock_user :: "uid \<Rightarrow> uid \<Rightarrow> accounts_db \<Rightarrow> reply \<times> accounts_db" where
  "toggle_lock_user adm user_id db =
     (case map_of (users_tab db) user_id of
        None \<Rightarrow> (Failed HTTPNotFound, db)
      | Some t \<Rightarrow>
          (Redirect ''admin_views.user_management'',
           if user_id = adm then db
           else db\<lparr>users_tab := AList.update user_id (t\<lparr>is_locked := \<not> is_locked t\<rparr>) (users_tab db)\<rparr>))"

text \<open>\<open>delete_user\<close>: not oneself, not a user with a subscription id.  The
  user's stories are not deleted: the ORM sets their \<open>user_id\<close> to \<open>NULL\<close>,
  which the \<open>NOT NULL\<close> column refuses at the commit.\<close>

definition delete_user :: "uid \<Rightarrow> uid \<Rightarrow> accounts_db \<Rightarrow> reply \<times> accounts_db" where
  "delete_user adm user_id db =
     (if adm = user_id then (Answer 400 (json_error ''You cannot delete your own account.''), db)
      else (case map_of (users_tab db) user_id of
              None \<Rightarrow> (Failed HTTPNotFound, db)
            | Some t \<Rightarrow>
                if stripe_subscription t \<noteq> JNull
                then (Answer 400 (json_error ''User has an active subscription.''), db)
                else if user_id \<in> set (story_owners db) then (Failed IntegrityError, db)
                else (Answer 200 (JObj [(''message'', JStr (''User '' @ username t @ '' deleted.''))]),
                      db\<lparr>users_tab := AList.delete user_id (users_tab db)\<rparr>)))"

text \<open>\<open>adjust_credits\<close> on the \<open>User\<close> row: the counter the form's \<open>type\<close>
  names is set to \<open>int(credits)\<close>; another type changes nothing.\<close>

definition set_credits :: "user_credits \<Rightarrow> string option \<Rightarrow> int \<Rightarrow> user_credits" where
  "set_credits u t n =
     (if t = Some ''text'' then u\<lparr>text_credits := of_int n\<rparr>
      else if t = Some ''image'' then u\<lparr>image_credits := of_int n\<rparr>
      else if t = Some ''audio'' then u\<lparr>audio_credits := of_int n\<rparr>
      else u)"

definition adjust_user_credits :: "uid \<Rightarrow> form \<Rightarrow> accounts_db \<Rightarrow> reply \<times> accounts_db" where
  "adjust_user_credits user_id f db =
     finish db
       (bind_err (form_int f ''credits'') (\<lambda>n.
          case map_of (users_tab db) user_id of
            None \<Rightarrow> Inl HTTPNotFound
          | Some t \<Rightarrow>
              Inr (Redirect ''admin_views.credit_management'',
                   db\<lparr>users_tab := AList.update user_id
                         (t\<lparr>acct_credits := set_credits (acct_credits t) (form_get f ''type'') n\<rparr>)
                         (users_tab db)\<rparr>)))"

subsection \<open>Start-up rows (\<open>src/app.py\<close>)\<close>

definition admin_role :: role where
  "admin_role = \<lparr>role_name = ''admin'', default_text = 1000, default_image = 1000, default_audio = 1000,
                 role_cost = 0, protected = True, role_price = None\<rparr>"

definition plain_user_role :: role where
  "plain_user_role = \<lparr>role_name = ''user'', default_text = 0, default_image = 0, default_audio = 0,
                      role_cost = 0, protected = False, role_price = None\<rparr>"

text \<open>The start-up block: the \<open>admin\<close> and \<open>user\<close> roles are created when
  missing; the admin account is looked up by the username \<open>admin\<close> and, when
  missing, created under the configured \<open>ADMIN_USERNAME\<close>.  One commit ends
  the block; \<open>User.username\<close> is \<open>UNIQUE\<close>.\<close>

definition add_role_if_missing :: "role \<Rightarrow> accounts_db \<Rightarrow> accounts_db" where
  "add_role_if_missing r db =
     (if list_ex (\<lambda>(i, x). role_name x = role_name r) (roles_tab db) then db
      else db\<lparr>roles_tab := roles_tab db @ [(fresh_id (roles_tab db), r)]\<rparr>)"

definition seed_accounts :: "string \<Rightarrow> accounts_db \<Rightarrow> py_error + accounts_db" where
  "seed_accounts admin_name db =
     (let db1 = add_role_if_missing admin_role db;
          rid = (case find (\<lambda>(i, x). role_name x = ''admin'') (roles_tab db1) of
                   None \<Rightarrow> 0 | Some (i, _) \<Rightarrow> i);
          db2 = add_role_if_missing plain_user_role db1
      in if list_ex (\<lambda>(u, a). username a = ''admin'') (users_tab db2) then Inr db2
         else (let db3 = db2\<lparr>users_tab := users_tab db2 @
                   [(fresh_id (users_tab db2),
                     \<lparr>username = admin_name,
                      acct_credits = \<lparr>text_credits = 10000, image_credits = 1000, audio_credits = 1000\<rparr>,
                      acct_role = rid, under_review = False, is_locked = False,
                      stripe_customer = JNull, stripe_subscription = JNull\<rparr>)]\<rparr>
               in if distinct (map (username \<circ> snd) (users_tab db3)) then Inr db3 else Inl IntegrityError))"

definition empty_accounts :: accounts_db where
  "empty_accounts = \<lparr>users_tab = [], roles_tab = [], packages_tab = [], revenue = [], story_owners = []\<rparr>"

subsection \<open>The invariant of the account tables\<close>

text \<open>Row ids are keys; role names are unique (\<open>Role.name\<close> is \<open>UNIQUE\<close>); every
  user's \<open>role_id\<close> names a role row (the foreign key, which SQLite does not
  enforce by default: the code keeps it).\<close>

definition accounts_inv :: "accounts_db \<Rightarrow> bool" where
  "accounts_inv db \<longleftrightarrow>
     distinct (map fst (users_tab db)) \<and> distinct (map fst (roles_tab db)) \<and>
     distinct (map fst (packages_tab db)) \<and> distinct (map (role_name \<circ> snd) (roles_tab db)) \<and>
     list_all (\<lambda>(u, a). acct_role a \<in> set (map fst (roles_tab db))) (users_tab db)"

subsection \<open>Every back-office operation keeps the invariant\<close>

lemma fresh_id_gt: "k \<in> fst ` set tab \<Longrightarrow> k < fresh_id tab"
  by (induction tab) (force simp: fresh_id_def less_max_iff_disj split: prod.splits)+

lemma fresh_id_notin [simp]: "fresh_id tab \<notin> fst ` set tab"
  by (meson fresh_id_gt less_irrefl)

lemma fresh_id_pair [simp]: "(fresh_id tab, b) \<notin> set tab"
  using fresh_id_notin [of tab] by (metis fst_conv image_eqI)

lemma keys_update [simp]: "k \<in> set (map fst al) \<Longrightarrow> map fst (AList.update k v al) = map fst al"
  by (induction al) auto

lemma list_all_update:
  "list_all P al \<Longrightarrow> P (k, v) \<Longrightarrow> list_all P (AList.update k v al)"
  by (induction al) auto

lemma list_all_delete: "list_all P al \<Longrightarrow> list_all P (AList.delete k al)"
  by (simp add: AList.delete_eq list_all_iff)

lemma distinct_keys_delete: "distinct (map fst al) \<Longrightarrow> distinct (map fst (AList.delete k al))"
  by (simp add: distinct_delete)

lemma distinct_map_delete: "distinct (map f al) \<Longrightarrow> distinct (map f (AList.delete k al))"
  by (simp add: AList.delete_eq distinct_map_filter)

lemma map_of_key: "map_of al k = Some v \<Longrightarrow> k \<in> set (map fst al)"
  by (force dest: map_of_SomeD)

lemma find_key: "find (\<lambda>(i, r). P r) al = Some (k, v) \<Longrightarrow> k \<in> set (map fst al)"
  by (induction al) (auto split: if_splits)

lemma inv_user_update:
  assumes "accounts_inv db" "map_of (users_tab db) u = Some a" "acct_role a' \<in> set (map fst (roles_tab db))"
  shows "accounts_inv (db\<lparr>users_tab := AList.update u a' (users_tab db)\<rparr>)"
  using assms by (auto simp: accounts_inv_def distinct_update intro: list_all_update)

lemma inv_user_update_same:
  assumes "accounts_inv db" "map_of (users_tab db) u = Some a" "acct_role a' = acct_role a"
  shows "accounts_inv (db\<lparr>users_tab := AList.update u a' (users_tab db)\<rparr>)"
proof -
  have "acct_role a \<in> set (map fst (roles_tab db))"
    using assms(1,2) map_of_SomeD [OF assms(2)]
    by (auto simp: accounts_inv_def list_all_iff)
  with assms show ?thesis by (intro inv_user_update) simp_all
qed

lemma inv_user_delete: "accounts_inv db \<Longrightarrow> accounts_inv (db\<lparr>users_tab := AList.delete u (users_tab db)\<rparr>)"
  by (simp add: accounts_inv_def distinct_keys_delete list_all_delete)

lemma inv_packages:
  "accounts_inv db \<Longrightarrow> distinct (map fst ps) \<Longrightarrow> accounts_inv (db\<lparr>packages_tab := ps\<rparr>)"
  by (simp add: accounts_inv_def)

lemma inv_revenue [simp]: "accounts_inv (db\<lparr>revenue := x\<rparr>) = accounts_inv db"
  by (simp add: accounts_inv_def)

lemma update_user_role_inv:
  "update_user_role adm u f db = (r, db') \<Longrightarrow> accounts_inv db \<Longrightarrow> accounts_inv db'"
  unfolding update_user_role_def
  by (auto split: option.splits if_splits prod.splits intro!: inv_user_update dest: find_key)


lemma map_update_same:
  "map_of al k = Some v0 \<Longrightarrow> f v = f v0 \<Longrightarrow> map (f \<circ> snd) (AList.update k v al) = map (f \<circ> snd) al"
  by (induction al) (auto split: if_splits)

lemma delete_appended: "k \<notin> set (map fst al) \<Longrightarrow> AList.delete k (al @ [(k, v)]) = al"
  by (induction al) auto

lemma map_of_appended: "k \<notin> set (map fst al) \<Longrightarrow> map_of (al @ [(k, v)]) k = Some v"
  by (induction al) auto

lemma inv_roles:
  assumes "accounts_inv db" "distinct (map fst rs)" "distinct (map (role_name \<circ> snd) rs)"
    "set (map fst (roles_tab db)) \<subseteq> set (map fst rs)"
  shows "accounts_inv (db\<lparr>roles_tab := rs\<rparr>)"
  using assms by (auto simp: accounts_inv_def list_all_iff)

lemma commit_roles_Inr [simp]:
  "commit_roles db = Inr db' \<longleftrightarrow> db' = db \<and> distinct (map (role_name \<circ> snd) (roles_tab db))"
  by (auto simp: commit_roles_def)

lemma inv_role_price:
  assumes "accounts_inv db" "map_of (roles_tab db) k = Some r" "role_name r' = role_name r"
  shows "accounts_inv (db\<lparr>roles_tab := AList.update k r' (roles_tab db)\<rparr>)"
  using assms map_update_same [OF assms(2), of role_name r'] map_of_key [OF assms(2)]
  by (intro inv_roles) (auto simp: accounts_inv_def distinct_update)

lemma create_role_inv:
  assumes "create_role flt f price db = (r, db')" "accounts_inv db"
  shows "accounts_inv db'"
proof -
  let ?k = "fresh_id (roles_tab db)"
  have ins: "accounts_inv (db\<lparr>roles_tab := roles_tab db @ [(?k, x)]\<rparr>)"
    if "distinct (map (role_name \<circ> snd) (roles_tab db @ [(?k, x)]))" for x
    using that assms(2) by (intro inv_roles) (auto simp: accounts_inv_def)
  have del: "AList.delete ?k (roles_tab db @ [(?k, x)]) = roles_tab db" for x
    by (rule delete_appended) simp
  have upd: "accounts_inv (db\<lparr>roles_tab := AList.update ?k y (roles_tab db @ [(?k, x)])\<rparr>)"
    if "distinct (map (role_name \<circ> snd) (roles_tab db @ [(?k, x)]))" "role_name y = role_name x" for x y
  proof -
    have "map_of (roles_tab db @ [(?k, x)]) ?k = Some x" by (rule map_of_appended) simp
    then show ?thesis using inv_role_price [OF ins [OF that(1)], of ?k x y] that(2) by simp
  qed
  show ?thesis
    using assms(1) assms(2) unfolding create_role_def finish_def
    by (cases "form_get f ''role_name''")
       (auto simp: bind_err_eq_Inr Let_def del intro: upd split: sum.split_asm if_split_asm)
qed


lemma inv_role_delete:
  assumes "accounts_inv db" "\<not> list_ex (\<lambda>(u, a). acct_role a = k) (users_tab db)"
  shows "accounts_inv (db\<lparr>roles_tab := AList.delete k (roles_tab db)\<rparr>)"
  using assms by (fastforce simp: accounts_inv_def AList.delete_eq list_all_iff list_ex_iff distinct_map_filter)

lemma delete_role_inv:
  "delete_role k archive db = (r, db') \<Longrightarrow> accounts_inv db \<Longrightarrow> accounts_inv db'"
  unfolding delete_role_def
  by (auto split: option.splits if_splits sum.splits intro: inv_role_delete)

lemma map_update_f:
  "f v = f v' \<Longrightarrow> map (f \<circ> snd) (AList.update k v al) = map (f \<circ> snd) (AList.update k v' al)"
  by (induction al) auto

lemma inv_role_edit:
  assumes "accounts_inv db" "map_of (roles_tab db) k = Some r"
    "distinct (map (role_name \<circ> snd) (AList.update k r1 (roles_tab db)))"
  shows "accounts_inv (db\<lparr>roles_tab := AList.update k r1 (roles_tab db)\<rparr>)"
  using assms map_of_key [OF assms(2)] by (intro inv_roles) (auto simp: accounts_inv_def distinct_update)

lemma edit_role_inv:
  assumes "edit_role flt k f stripe db = (r, db')" "accounts_inv db"
  shows "accounts_inv db'"
proof (cases "map_of (roles_tab db) k")
  case (Some r0)
  have upd: "accounts_inv (db\<lparr>roles_tab := AList.update k y (roles_tab db)\<rparr>)"
    if "distinct (map (role_name \<circ> snd) (AList.update k r1 (roles_tab db)))" "role_name y = role_name r1" for r1 y
    using inv_role_edit [OF assms(2) Some, of y] that map_update_f [of role_name y r1 k "roles_tab db"] by simp
  show ?thesis
    using assms Some unfolding edit_role_def finish_def
    by (cases stripe) (auto simp: bind_err_eq_Inr Let_def intro: upd inv_role_edit split: sum.split_asm if_split_asm)
qed (use assms in \<open>simp add: edit_role_def\<close>)

lemma packages_append_inv:
  "accounts_inv db \<Longrightarrow> accounts_inv (db\<lparr>packages_tab := packages_tab db @ [(fresh_id (packages_tab db), p)]\<rparr>)"
  by (simp add: accounts_inv_def)

lemma create_credit_package_inv:
  assumes "create_credit_package flt f price db = (r, db')" "accounts_inv db"
  shows "accounts_inv db'"
proof -
  let ?k = "fresh_id (packages_tab db)"
  have del: "AList.delete ?k (packages_tab db @ [(?k, x)]) = packages_tab db" for x
    by (rule delete_appended) simp
  have upd: "accounts_inv (db\<lparr>packages_tab := AList.update ?k y (packages_tab db @ [(?k, x)])\<rparr>)" for x y
    using packages_append_inv [OF assms(2), of x] by (simp add: accounts_inv_def distinct_update)
  show ?thesis
    using assms unfolding create_credit_package_def finish_def
    by (cases "form_get f ''credit_type''")
       (auto simp: bind_err_eq_Inr Let_def del intro: upd split: sum.split_asm if_split_asm)
qed

lemma delete_credit_package_inv:
  "delete_credit_package k db = (r, db') \<Longrightarrow> accounts_inv db \<Longrightarrow> accounts_inv db'"
  by (auto simp: delete_credit_package_def accounts_inv_def distinct_delete split: option.splits)

lemma update_credit_package_inv:
  "update_credit_package flt k f price db = (r, db') \<Longrightarrow> accounts_inv db \<Longrightarrow> accounts_inv db'"
  unfolding update_credit_package_def finish_def
  by (cases price) (auto simp: bind_err_eq_Inr Let_def accounts_inv_def distinct_update split: option.splits sum.split_asm if_split_asm)

lemma toggle_under_review_inv:
  "toggle_under_review adm u db = (r, db') \<Longrightarrow> accounts_inv db \<Longrightarrow> accounts_inv db'"
  by (auto simp: toggle_under_review_def split: option.splits if_splits intro: inv_user_update_same)

lemma toggle_lock_user_inv:
  "toggle_lock_user adm u db = (r, db') \<Longrightarrow> accounts_inv db \<Longrightarrow> accounts_inv db'"
  by (auto simp: toggle_lock_user_def split: option.splits if_splits intro: inv_user_update_same)

lemma delete_user_inv:
  "delete_user adm u db = (r, db') \<Longrightarrow> accounts_inv db \<Longrightarrow> accounts_inv db'"
  by (auto simp: delete_user_def split: option.splits if_splits intro: inv_user_delete)

lemma inv_credits_update:
  "accounts_inv db \<Longrightarrow> map_of (users_tab db) u = Some a \<Longrightarrow>
   accounts_inv (db\<lparr>users_tab := AList.update u (a\<lparr>acct_credits := c\<rparr>) (users_tab db)\<rparr>)"
  by (rule inv_user_update_same) simp_all

lemma adjust_user_credits_inv:
  "adjust_user_credits u f db = (r, db') \<Longrightarrow> accounts_inv db \<Longrightarrow> accounts_inv db'"
  unfolding adjust_user_credits_def finish_def
  by (auto simp: bind_err_eq_Inr split: option.splits sum.split_asm intro: inv_credits_update)

lemma seed_accounts_inv: "seed_accounts n empty_accounts = Inr db \<Longrightarrow> accounts_inv db"
  by (auto simp: seed_accounts_def empty_accounts_def add_role_if_missing_def admin_role_def
      plain_user_role_def fresh_id_def accounts_inv_def)

end
