(* ===== verification/Config.thy ===== *)
theory Config
  imports Accounts SystemState
begin

text \<open>
  The two admin endpoints of \<open>src/api/admin.py\<close> that change what the cost
  estimator reads: \<open>update_token_config\<close> (the prices of the
  \<open>TokenCostConfig\<close> row) and \<open>update_credit_config\<close> (the modifier of one
  \<open>CreditConfig\<close> action).  They act on the pipeline's state \<open>sys\<close>: its
  \<open>pricing\<close> and \<open>modifiers\<close>.  As in theory \<open>Accounts\<close>, \<open>float()\<close> of a form
  value is the parameter \<open>flt\<close>, which raises \<open>TypeError\<close> or \<open>ValueError\<close>.
\<close>

text \<open>The seven form fields, in the order the code reads them.\<close>

definition token_fields :: "string list" where
  "token_fields = [''cost_per_token'', ''cost_per_1m_tokens_input'', ''cost_per_1m_tokens_output'',
                   ''o1_cost_per_token'', ''o1_cost_per_1m_tokens_input'',
                   ''o1_cost_per_1m_tokens_output'', ''dall_e_price_per_image'']"

text \<open>\<open>update_token_config\<close>: a value that does not parse is caught and
  redirected.  With no \<open>TokenCostConfig\<close> row the code builds one from the
  undefined names \<open>o1_cost_per_token\<close>, \<open>o1_cost_per_1m_tokens_input\<close> and
  \<open>o1_cost_per_1m_tokens_output\<close>, so it raises \<open>NameError\<close>; otherwise the
  seven fields are replaced and committed (the commit cannot fail: every
  value is a number).\<close>

definition update_token_config ::
  "(string option \<Rightarrow> py_error + rat) \<Rightarrow> form \<Rightarrow> sys \<Rightarrow> reply \<times> sys" where
  "update_token_config flt f s =
     (case map_err (\<lambda>k. flt (form_get f k)) token_fields of
        Inl _ \<Rightarrow> (Redirect ''admin_views.token_config'', s)
      | Inr vs \<Rightarrow>
          (case pricing s of
             None \<Rightarrow> (Failed (NameError ''o1_cost_per_token''), s)
           | Some c \<Rightarrow>
               (Redirect ''admin_views.token_config'',
                s\<lparr>pricing := Some (c\<lparr>cost_per_1m_input := vs ! 1, cost_per_1m_output := vs ! 2,
                                     cost_per_credit := vs ! 0, o1_cost_per_1m_input := vs ! 4,
                                     o1_cost_per_1m_output := vs ! 5, o1_cost_per_credit := vs ! 3,
                                     dall_e_price_per_image := vs ! 6\<rparr>)\<rparr>)))"

text \<open>\<open>update_credit_config\<close>: the modifier is parsed first (an exception is
  not caught); an existing row for the action gets the new modifier; a new
  row is built without its \<open>NOT NULL\<close> column \<open>type\<close>, so the commit raises
  \<open>IntegrityError\<close>.\<close>

definition update_credit_config ::
  "(string option \<Rightarrow> py_error + rat) \<Rightarrow> form \<Rightarrow> sys \<Rightarrow> reply \<times> sys" where
  "update_credit_config flt f s =
     (case flt (form_get f ''modifier'') of
        Inl e \<Rightarrow> (Failed e, s)
      | Inr m \<Rightarrow>
          (case form_get f ''action'' of
             Some a \<Rightarrow>
               if modifiers s a \<noteq> None
               then (Redirect ''admin_views.credit_management'', s\<lparr>modifiers := (modifiers s)(a \<mapsto> m)\<rparr>)
               else (Failed IntegrityError, s)
           | None \<Rightarrow> (Failed IntegrityError, s)))"

subsection \<open>Lemmas on the configuration endpoints\<close>

lemma map_err_length: "map_err f xs = Inr ys \<Longrightarrow> length ys = length xs"
  by (induction xs arbitrary: ys) (auto simp: bind_err_eq_Inr)

lemma update_token_config_frame:
  "update_token_config flt f s = (r, s') \<Longrightarrow> \<exists>p. s' = s\<lparr>pricing := p\<rparr>"
  unfolding update_token_config_def
  by (auto split: sum.splits option.splits intro: exI [of _ "pricing s"])

lemma update_credit_config_frame:
  "update_credit_config flt f s = (r, s') \<Longrightarrow> \<exists>m. s' = s\<lparr>modifiers := m\<rparr>"
  unfolding update_credit_config_def
  by (auto split: sum.splits option.splits if_splits intro: exI [of _ "modifiers s"])

text \<open>A successful update of a configured action is what the estimator then
  reads.\<close>

lemma update_credit_config_roundtrip:
  "update_credit_config flt f s = (Redirect x, s') \<Longrightarrow> form_get f ''action'' = Some a \<Longrightarrow>
   flt (form_get f ''modifier'') = Inr m \<Longrightarrow> get_modifier (modifiers s') a = m"
  by (auto simp: update_credit_config_def get_modifier_def split: if_splits)

text \<open>An action without a row cannot be configured: the request fails and the
  estimator keeps the fallback modifier 2.\<close>

lemma update_credit_config_new_action_fails:
  "modifiers s a = None \<Longrightarrow> form_get f ''action'' = Some a \<Longrightarrow> flt (form_get f ''modifier'') = Inr m \<Longrightarrow>
   update_credit_config flt f s = (Failed IntegrityError, s) \<and> get_modifier (modifiers s) a = 2"
  by (simp add: update_credit_config_def get_modifier_def)

text \<open>Without a pricing row the endpoint that should create one always fails.\<close>

lemma update_token_config_without_row:
  "pricing s = None \<Longrightarrow> map_err (\<lambda>k. flt (form_get f k)) token_fields = Inr vs \<Longrightarrow>
   update_token_config flt f s = (Failed (NameError ''o1_cost_per_token''), s)"
  by (simp add: update_token_config_def)

end
