(* ===== verification/System.thy ===== *)
theory System
  imports Frame Endpoints StoryEdit Config
begin

text \<open>
  The whole application as a transition system: a state of \<open>sys\<close> steps by
  one request through the guard \<open>is_story_author_or_admin\<close> to one of the
  generation endpoints of \<open>src/api/generation.py\<close>, by the worker taking any
  queued job (\<open>run_job\<close>; the broker does not deliver in order), by the clock,
  by a credit adjustment of the admin back-office (\<open>adjust_credits\<close>), or by
  the creation of a story that satisfies its constraints.  Two invariants hold
  in every reachable state: every queued job has its generation-log row
  (\<open>jobs_logged\<close>), and every committed story satisfies the \<open>NOT NULL\<close>
  constraints its worker rows can violate (\<open>stories_ok\<close>).
\<close>

text \<open>Every queued job has the log row of its task, user and generation type.\<close>

definition jobs_logged :: "sys \<Rightarrow> bool" where
  "jobs_logged s \<longleftrightarrow> (\<forall>(t, j) \<in> set (queue s). (t, job_user j, job_type j) \<in> set (log_keys (logs s)))"

definition stories_ok :: "sys \<Rightarrow> bool" where
  "stories_ok s \<longleftrightarrow> (\<forall>sid. story_ok_at s sid)"

definition sys_inv :: "sys \<Rightarrow> bool" where
  "sys_inv s \<longleftrightarrow> jobs_logged s \<and> stories_ok s"

text \<open>One step of the application.\<close>

inductive sys_step :: "env \<Rightarrow> sys \<Rightarrow> sys \<Rightarrow> bool" for E where
  meta: "is_story_author_or_admin s tok a (api_generate_meta E b) = (r, s') \<Longrightarrow> sys_step E s s'"
| arcs: "is_story_author_or_admin s tok a (api_generate_arcs E b) = (r, s') \<Longrightarrow> sys_step E s s'"
| guide: "is_story_author_or_admin s tok a (api_generate_chapter_guide E b) = (r, s') \<Longrightarrow> sys_step E s s'"
| summaries: "is_story_author_or_admin s tok a (api_generate_summaries E b) = (r, s') \<Longrightarrow> sys_step E s s'"
| one_chapter: "is_story_author_or_admin s tok a (\<lambda>u sid. api_generate_chapter E b u sid n) = (r, s') \<Longrightarrow>
    sys_step E s s'"
| all_chapters: "is_story_author_or_admin s tok a (api_generate_all_chapters E b) = (r, s') \<Longrightarrow> sys_step E s s'"
| cover: "is_story_author_or_admin s tok a (\<lambda>u sid. api_generate_cover_image b u sid prompt) = (r, s') \<Longrightarrow>
    sys_step E s s'"
| chapter_image:
    "is_story_author_or_admin s tok a (\<lambda>u sid. api_generate_chapter_image b u sid cid prompt) = (r, s') \<Longrightarrow>
     sys_step E s s'"
| work: "(t, j) \<in> set (queue s) \<Longrightarrow> run_job E oc t j (s\<lparr>queue := remove1 (t, j) (queue s)\<rparr>) = (r, s') \<Longrightarrow>
    sys_step E s s'"
| tick: "sys_step E s (s\<lparr>clock := Suc (clock s)\<rparr>)"
| adjust: "adjust_credits (users s) u ct v = Some us \<Longrightarrow> sys_step E s (s\<lparr>users := us\<rparr>)"
| new_story: "stories s sid = None \<Longrightarrow> story_ok st \<Longrightarrow> sys_step E s (s\<lparr>stories := (stories s)(sid \<mapsto> st)\<rparr>)"
| update_meta: "is_story_author_or_admin s tok a (update_meta data) = (r, s') \<Longrightarrow> sys_step E s s'"
| save_arcs: "is_story_author_or_admin s tok a (save_arcs data) = (r, s') \<Longrightarrow> sys_step E s s'"
| update_chapter_summaries:
    "is_story_author_or_admin s tok a (update_chapter_summaries data) = (r, s') \<Longrightarrow> sys_step E s s'"
| save_field: "py_get data ''field'' JNull = Inr (JStr ''chapter_summaries'') \<Longrightarrow>
    is_story_author_or_admin s tok a (save_field_summaries E data) = (r, s') \<Longrightarrow> sys_step E s s'"
| save_chapter: "is_story_author_or_admin s tok a (save_chapter data) = (r, s') \<Longrightarrow> sys_step E s s'"
| delete_story: "is_story_author_or_admin s tok a delete_story = (r, s') \<Longrightarrow> sys_step E s s'"
| token_config: "update_token_config flt f s = (r, s') \<Longrightarrow> sys_step E s s'"
| credit_config: "update_credit_config flt f s = (r, s') \<Longrightarrow> sys_step E s s'"

text \<open>The states reachable from a state with no job, no log row and no story.\<close>

inductive reach :: "env \<Rightarrow> sys \<Rightarrow> bool" for E where
  init: "queue s = [] \<Longrightarrow> logs s = [] \<Longrightarrow> stories s = Map.empty \<Longrightarrow> reach E s"
| step: "reach E s \<Longrightarrow> sys_step E s s' \<Longrightarrow> reach E s'"

lemma log_keys_add_log [simp]:
  "log_keys (add_log L e) = log_keys L @ [(task_id e, log_user e, generation_type e)]"
  by (simp add: log_keys_def add_log_def)

lemma find_log_keys: "find_log L t u g \<noteq> None \<longleftrightarrow> (t, u, g) \<in> set (log_keys L)"
  by (auto simp: find_log_def find_log_from_None log_keys_def)

lemma jobs_logged_frame [simp]:
  "jobs_logged (notify m u s) = jobs_logged s" "jobs_logged (clear_lock u s) = jobs_logged s"
  by (simp_all add: jobs_logged_def)

lemma queue_text_job_logged:
  assumes "jobs_logged s" "queue_text_job b uid j gt a mo mf s = (r, s')" "job_user j = uid" "job_type j = gt"
  shows "jobs_logged s' \<and> stories s' = stories s"
  using assms
  by (cases b) (auto simp: jobs_logged_def queue_text_job_def log_dispatch_def enqueue_def new_log_def)

lemma jobs_logged_locks [simp]: "jobs_logged (s\<lparr>locks := L\<rparr>) = jobs_logged s"
  by (simp add: jobs_logged_def)

lemma reject_top_logged:
  "top_up uid s = (r, s') \<Longrightarrow> jobs_logged s' = jobs_logged s \<and> stories s' = stories s"
  "reject_credits uid u a s = (r, s') \<Longrightarrow> jobs_logged s' = jobs_logged s \<and> stories s' = stories s"
  "in_progress uid s = (r, s') \<Longrightarrow> jobs_logged s' = jobs_logged s \<and> stories s' = stories s"
  by (auto simp: top_up_def reject_credits_def in_progress_def)

lemma take_lock_logged:
  "take_lock uid s = (ok, s1) \<Longrightarrow> jobs_logged s1 = jobs_logged s \<and> stories s1 = stories s"
  by (auto simp: take_lock_def split: prod.splits)

lemmas logged_dests = queue_text_job_logged reject_top_logged take_lock_logged

lemma meta_logged:
  "jobs_logged s \<Longrightarrow> api_generate_meta E b uid sid s = (r, s') \<Longrightarrow> jobs_logged s' \<and> stories s' = stories s"
  unfolding api_generate_meta_def
  by (erule unlocked_text_handler_cases) (auto dest: logged_dests)

lemma arcs_logged:
  "jobs_logged s \<Longrightarrow> api_generate_arcs E b uid sid s = (r, s') \<Longrightarrow> jobs_logged s' \<and> stories s' = stories s"
  unfolding api_generate_arcs_def
  by (erule unlocked_text_handler_cases) (auto dest: logged_dests)

lemma guide_logged:
  "jobs_logged s \<Longrightarrow> api_generate_chapter_guide E b uid sid s = (r, s') \<Longrightarrow>
   jobs_logged s' \<and> stories s' = stories s"
  unfolding api_generate_chapter_guide_def
  by (erule unlocked_text_handler_cases) (auto dest: logged_dests)

lemma summaries_logged:
  "jobs_logged s \<Longrightarrow> api_generate_summaries E b uid sid s = (r, s') \<Longrightarrow> jobs_logged s' \<and> stories s' = stories s"
  by (erule summaries_cases) (fastforce dest: logged_dests)+

lemma chapter_cases:
  assumes "api_generate_chapter E b uid sid n s = (r, s')"
  obtains "s' = s" | "top_up uid s = (r, s')" | "in_progress uid s = (r, s')"
    | s1 where "take_lock uid s = (True, s1)" "s' = s1 \<or> s' = clear_lock uid s1"
    | s1 u a where "take_lock uid s = (True, s1)" "reject_credits uid u a (clear_lock uid s1) = (r, s')"
    | s1 st and p :: cost_info where "take_lock uid s = (True, s1)"
        "queue_text_job b uid (ChapterJob sid (render_prompt E ''chapter'' st (n - 1)) n uid (ci_input_tokens p))
           ''chapter'' (total_credit_cost p) ''Generating Chapter...'' ''Chapter Generation Failed'' s1 = (r, s')"
  using assms
  by (auto simp: api_generate_chapter_def Let_def split: option.splits sum.splits if_splits prod.splits bool.splits)

lemma chapter_logged:
  "jobs_logged s \<Longrightarrow> api_generate_chapter E b uid sid n s = (r, s') \<Longrightarrow> jobs_logged s' \<and> stories s' = stories s"
  by (erule chapter_cases) (fastforce dest: logged_dests)+

lemma all_chapters_dispatch_logged:
  "jobs_logged s \<Longrightarrow> all_chapters_dispatch E b uid sid st idx s = r \<Longrightarrow>
   jobs_logged (case r of Inl (e, s') \<Rightarrow> s' | Inr s' \<Rightarrow> s') \<and>
   stories (case r of Inl (e, s') \<Rightarrow> s' | Inr s' \<Rightarrow> s') = stories s"
proof (induction idx arbitrary: s)
  case Nil
  then show ?case by auto
next
  case (Cons i idx)
  let ?s1 = "\<lambda>p :: cost_info. s\<lparr>queue := queue s @ [(next_task s, ChapterJob sid (render_prompt E ''chapter'' st (int i))
                                   (int i + 1) uid (ci_input_tokens p))],
          next_task := Suc (next_task s),
          logs := add_log (logs s) (new_log uid (next_task s) ''chapter''
                    (Some (of_int (total_credit_cost p))) None)\<rparr>"
  show ?case
  proof (cases "calculate_predicted_chapter_cost (pricing s) (modifiers s) (predicted_tokens E ''chapter'' st (int i))")
    case (Inl e)
    with Cons.prems show ?thesis by auto
  next
    case (Inr p)
    show ?thesis
    proof (cases b)
      case False
      with Inr Cons.prems show ?thesis by auto
    next
      case True
      have j: "jobs_logged (?s1 p) \<and> stories (?s1 p) = stories s"
        using Cons.prems(1) by (auto simp: jobs_logged_def new_log_def)
      have "all_chapters_dispatch E b uid sid st idx (?s1 p) = r"
        using Cons.prems(2) Inr True by (simp add: enqueue_def)
      from Cons.IH [OF conjunct1 [OF j] this] j show ?thesis by simp
    qed
  qed
qed

lemma all_chapters_cases:
  assumes "api_generate_all_chapters E b uid sid s = (r, s')"
  obtains "s' = s" | "top_up uid s = (r, s')" | "in_progress uid s = (r, s')"
    | s1 where "take_lock uid s = (True, s1)" "s' = s1"
    | s1 u a where "take_lock uid s = (True, s1)" "reject_credits uid u a (clear_lock uid s1) = (r, s')"
    | s1 st idx e where "take_lock uid s = (True, s1)" "all_chapters_dispatch E b uid sid st idx s1 = Inl (e, s')"
    | s1 st idx s2 where "take_lock uid s = (True, s1)" "all_chapters_dispatch E b uid sid st idx s1 = Inr s2"
        "s' = notify ''Generating All Chapters...'' uid s2"
  using assms
  by (auto simp: api_generate_all_chapters_def Let_def split: option.splits sum.splits if_splits prod.splits bool.splits)

lemma all_chapters_logged:
  assumes "jobs_logged s" "api_generate_all_chapters E b uid sid s = (r, s')"
  shows "jobs_logged s' \<and> stories s' = stories s"
  using assms(2)
proof (cases rule: all_chapters_cases)
  case 1
  with assms(1) show ?thesis by simp
next
  case 2
  with assms(1) show ?thesis by (simp add: reject_top_logged)
next
  case 3
  with assms(1) show ?thesis by (simp add: reject_top_logged)
next
  case (4 s1)
  with assms(1) take_lock_logged [OF 4(1)] show ?thesis by simp
next
  case (5 s1 u a)
  with assms(1) take_lock_logged [OF 5(1)] reject_top_logged(2) [OF 5(2)] show ?thesis by simp
next
  case (6 s1 st idx e)
  with assms(1) take_lock_logged [OF 6(1)] all_chapters_dispatch_logged [OF _ 6(2)] show ?thesis by simp
next
  case (7 s1 st idx s2)
  with assms(1) take_lock_logged [OF 7(1)] all_chapters_dispatch_logged [OF _ 7(2)] show ?thesis by simp
qed

lemma story_ok_cover_prompt [simp]: "story_ok (st\<lparr>cover_image_prompt := x\<rparr>) = story_ok st"
  by (simp add: story_ok_def)

lemma cover_logged_snd:
  "jobs_logged s \<Longrightarrow> jobs_logged (snd (api_generate_cover_image b uid sid prompt s)) \<and>
     (\<forall>x. story_ok_at (snd (api_generate_cover_image b uid sid prompt s)) x = story_ok_at s x)"
  by (auto simp add: api_generate_cover_image_def Let_def top_up_def jobs_logged_def enqueue_def new_log_def
      story_ok_at_def split: option.split sum.split if_split prod.split)

lemma cover_logged:
  "jobs_logged s \<Longrightarrow> api_generate_cover_image b uid sid prompt s = (r, s') \<Longrightarrow>
   jobs_logged s' \<and> (\<forall>x. story_ok_at s' x = story_ok_at s x)"
  using cover_logged_snd [of s b uid sid prompt] by simp

lemma chapter_image_logged_snd:
  "jobs_logged s \<Longrightarrow> jobs_logged (snd (api_generate_chapter_image b uid sid cid prompt s)) \<and>
     stories (snd (api_generate_chapter_image b uid sid cid prompt s)) = stories s"
  by (auto simp add: api_generate_chapter_image_def top_up_def jobs_logged_def enqueue_def new_log_def
      split: option.split sum.split if_split prod.split)

lemma chapter_image_logged:
  "jobs_logged s \<Longrightarrow> api_generate_chapter_image b uid sid cid prompt s = (r, s') \<Longrightarrow>
   jobs_logged s' \<and> stories s' = stories s"
  using chapter_image_logged_snd [of s b uid sid cid prompt] by simp

lemma guard_cases:
  "is_story_author_or_admin s tok a h = (r, s') \<Longrightarrow> s' = s \<or> (\<exists>u sid. h u sid s = (r, s'))"
  by (auto simp: is_story_author_or_admin_def split: option.splits if_splits)

lemma guard_inv_ok:
  assumes "is_story_author_or_admin s tok a h = (r, s')" "sys_inv s"
    "\<And>u sid r' s''. jobs_logged s \<Longrightarrow> h u sid s = (r', s'') \<Longrightarrow>
       jobs_logged s'' \<and> (\<forall>x. story_ok_at s'' x = story_ok_at s x)"
  shows "sys_inv s'"
  using guard_cases [OF assms(1)] assms(2,3) by (auto simp: sys_inv_def stories_ok_def)

lemma guard_inv:
  assumes "is_story_author_or_admin s tok a h = (r, s')" "sys_inv s"
    "\<And>u sid r' s''. jobs_logged s \<Longrightarrow> h u sid s = (r', s'') \<Longrightarrow> jobs_logged s'' \<and> stories s'' = stories s"
  shows "sys_inv s'"
  using assms(1,2) by (rule guard_inv_ok) (simp add: assms(3) story_ok_at_def)

lemma edit_inv:
  assumes "sys_inv s" "edit_effect s s'"
  shows "sys_inv s'"
proof -
  have "jobs_logged s'" using assms by (simp add: sys_inv_def jobs_logged_def edit_effect_def)
  moreover have "story_ok_at s' x" for x
  proof -
    from assms(2) have "stories s' x = stories s x \<or> stories s' x = None \<or>
        (\<exists>st. stories s' x = Some st \<and> story_ok st)" by (simp add: edit_effect_def)
    moreover from assms(1) have "story_ok_at s x" by (simp add: sys_inv_def stories_ok_def)
    ultimately show ?thesis by (auto simp: story_ok_at_def)
  qed
  ultimately show ?thesis by (simp add: sys_inv_def stories_ok_def)
qed

lemma guard_inv_edit:
  assumes "is_story_author_or_admin s tok a h = (r, s')" "sys_inv s"
    "\<And>u sid r' s''. h u sid s = (r', s'') \<Longrightarrow> edit_effect s s''"
  shows "sys_inv s'"
  using guard_cases [OF assms(1)] assms(2,3) edit_inv by blast

lemma work_inv:
  assumes "(t, j) \<in> set (queue s)" "run_job E oc t j (s\<lparr>queue := remove1 (t, j) (queue s)\<rparr>) = (r, s')"
    "sys_inv s"
  shows "sys_inv s'"
proof -
  let ?w = "s\<lparr>queue := remove1 (t, j) (queue s)\<rparr>"
  from assms(3) have "story_ok_at ?w (job_story j)" by (simp add: sys_inv_def stories_ok_def story_ok_at_def)
  from run_job_frame [OF this, of E oc t] assms(2)
  have f: "queue s' = remove1 (t, j) (queue s)" "log_keys (logs s') = log_keys (logs s)"
    "\<And>x. x \<noteq> job_story j \<Longrightarrow> stories s' x = stories s x" "story_ok_at s' (job_story j)"
    by (auto simp: frame_after_def)
  have "jobs_logged s'"
    using assms(3) f(1,2) by (auto simp: sys_inv_def jobs_logged_def dest: set_remove1_subset [THEN subsetD])
  moreover have "story_ok_at s' x" for x
  proof (cases "x = job_story j")
    case True
    with f(4) show ?thesis by simp
  next
    case False
    with assms(3) show ?thesis by (simp add: sys_inv_def stories_ok_def story_ok_at_def f(3))
  qed
  ultimately show ?thesis by (simp add: sys_inv_def stories_ok_def)
qed

lemma step_inv: "sys_step E s s' \<Longrightarrow> sys_inv s \<Longrightarrow> sys_inv s'"
proof (induction rule: sys_step.induct)
  case meta
  from meta meta_logged show ?case by (rule guard_inv)
next
  case arcs
  from arcs arcs_logged show ?case by (rule guard_inv)
next
  case guide
  from guide guide_logged show ?case by (rule guard_inv)
next
  case summaries
  from summaries summaries_logged show ?case by (rule guard_inv)
next
  case one_chapter
  from one_chapter chapter_logged show ?case by (rule guard_inv)
next
  case all_chapters
  from all_chapters all_chapters_logged show ?case by (rule guard_inv)
next
  case cover
  from cover cover_logged show ?case by (rule guard_inv_ok)
next
  case chapter_image
  from chapter_image chapter_image_logged show ?case by (rule guard_inv)
next
  case work
  then show ?case by (rule work_inv)
next
  case tick
  then show ?case by (simp add: sys_inv_def jobs_logged_def stories_ok_def story_ok_at_def)
next
  case adjust
  then show ?case by (simp add: sys_inv_def jobs_logged_def stories_ok_def story_ok_at_def)
next
  case update_meta
  then show ?case by (rule guard_inv_edit) (erule update_meta_effect)
next
  case save_arcs
  then show ?case by (rule guard_inv_edit) (erule save_arcs_effect)
next
  case update_chapter_summaries
  then show ?case by (rule guard_inv_edit) (erule update_chapter_summaries_effect)
next
  case save_field
  from save_field(2,3) show ?case by (rule guard_inv_edit) (erule save_field_summaries_effect)
next
  case save_chapter
  then show ?case by (rule guard_inv_edit) (erule save_chapter_effect)
next
  case delete_story
  then show ?case by (rule guard_inv_edit) (erule delete_story_effect)
next
  case new_story
  then show ?case by (auto simp: sys_inv_def jobs_logged_def stories_ok_def story_ok_at_def)
next
  case (token_config flt f s r s')
  then obtain p where "s' = s\<lparr>pricing := p\<rparr>" by (blast dest: update_token_config_frame)
  with token_config show ?case by (simp add: sys_inv_def jobs_logged_def stories_ok_def story_ok_at_def)
next
  case (credit_config flt f s r s')
  then obtain m where "s' = s\<lparr>modifiers := m\<rparr>" by (blast dest: update_credit_config_frame)
  with credit_config show ?case by (simp add: sys_inv_def jobs_logged_def stories_ok_def story_ok_at_def)
qed

lemma reach_inv: "reach E s \<Longrightarrow> sys_inv s"
proof (induction rule: reach.induct)
  case (init s)
  then show ?case by (simp add: sys_inv_def jobs_logged_def stories_ok_def story_ok_at_def)
next
  case (step s s')
  from step.hyps(2) step.IH show ?case by (rule step_inv)
qed

subsection \<open>Invariants of the reachable states\<close>

text \<open>
  Every queued job has its log row, when requests are atomic.  In every
  state reachable from an empty one by guarded requests, worker runs of any queued job with any
  outcome, clock ticks, credit adjustments and story creation, each job on
  the queue has the generation-log row that its worker looks up by task id,
  user and kind.  The relation \<open>sys_step\<close> runs a handler as one step,
  so its \<open>.delay()\<close> and its commit of the row are not separated by a worker
  run; the interleaving that separates them is the race of the next section.
\<close>

theorem queued_jobs_are_logged:
  "reach E s \<Longrightarrow> (t, j) \<in> set (queue s) \<Longrightarrow> \<exists>i. find_log (logs s) t (job_user j) (job_type j) = Some i"
  using reach_inv [of E s] find_log_keys [of "logs s" t "job_user j" "job_type j"]
  by (auto simp: sys_inv_def jobs_logged_def)

text \<open>
  The database never holds a row that violates its schema.  In every
  reachable state, every stored story's chapter titles, arc texts and
  location names are not \<open>NULL\<close>: whatever the model replies, a worker's
  commit either satisfies the \<open>NOT NULL\<close> constraints or fails and is not
  applied.
\<close>

theorem committed_rows_satisfy_constraints: "reach E s \<Longrightarrow> story_ok_at s sid"
  using reach_inv [of E s] by (simp add: sys_inv_def stories_ok_def)

subsection \<open>A reachable example state\<close>

lemma example_reach_start: "reach example_env (example_state 1000)"
proof -
  let ?s0 = "(example_state 1000)\<lparr>stories := Map.empty\<rparr>"
  have "reach example_env ?s0" by (rule reach.init) (simp_all add: example_state_def)
  moreover have "sys_step example_env ?s0 (?s0\<lparr>stories := (stories ?s0)(1 \<mapsto> example_story)\<rparr>)"
    by (rule sys_step.new_story) (simp_all add: story_ok_def example_story_def)
  moreover have "?s0\<lparr>stories := (stories ?s0)(1 \<mapsto> example_story)\<rparr> = example_state 1000"
    by (simp add: example_state_def)
  ultimately show ?thesis by (metis reach.step)
qed

theorem queued_jobs_are_logged_witness:
  "\<exists>s j. reach example_env s \<and> queue s = [(1, j)] \<and> job_type j = ''meta'' \<and>
     (\<exists>i. find_log (logs s) 1 (job_user j) (job_type j) = Some i)"
proof -
  obtain r s where e: "api_generate_meta example_env True 1 1 (example_state 1000) = (r, s)"
    by (rule prod.exhaust)
  have g: "is_story_author_or_admin (example_state 1000) (Some 1) (Some 1) (api_generate_meta example_env True) = (r, s)"
    using e by (simp add: is_story_author_or_admin_def current_user_def example_state_def example_story_def)
  have rs: "reach example_env s"
    using example_reach_start sys_step.meta [OF g] by (rule reach.step)
  have "\<exists>j. queue s = [(1, j)] \<and> job_type j = ''meta''"
    using e by (simp add: api_generate_meta_def unlocked_text_handler_def example_eval) auto
  then obtain j where q: "queue s = [(1, j)]" "job_type j = ''meta''" by blast
  from queued_jobs_are_logged [OF rs, of 1 j] q have "\<exists>i. find_log (logs s) 1 (job_user j) (job_type j) = Some i"
    by simp
  with rs q show ?thesis by blast
qed

theorem committed_rows_satisfy_constraints_witness:
  "story_ok_at (example_state 1000) 1 \<and> story_ok example_story"
  using committed_rows_satisfy_constraints [OF example_reach_start, of 1]
  by (simp add: story_ok_at_def example_state_def)

subsection \<open>The dispatch race\<close>

text \<open>
  A text handler calls \<open>task.delay()\<close> (\<open>generation.py\<close>, line 396)
  before it adds and commits the job's \<open>GenerationLog\<close> row (line 405),
  and the worker looks the row up by task id, user and kind when the task
  starts (\<open>tasks.py\<close>, lines 134--136).  The handler is split here into
  \<open>enqueue\<close> and \<open>log_dispatch\<close>, and a worker run is placed between them.
\<close>

lemma success_without_row_debits:
  assumes "run_job E oc t j s = (TaskSuccess, s')" "job_type j \<noteq> ''image''"
    "find_log (logs s) t (job_user j) (job_type j) = None" "users s (job_user j) = Some u"
  shows "\<exists>c. users s' (job_user j) = Some (u\<lparr>text_credits := text_credits u - c\<rparr>) \<and> logs s' = logs s"
  using assms
  by (cases j) (auto simp: generate_meta_task_def generate_story_arcs_task_def generate_summaries_task_def
      generate_chapter_guide_task_def generate_chapter_task_def guide_step_def set_guide_def
      run_task_def task_except_def reconcile_def story_step_def
      db_commit_def story_ok_at_def spend_credits_def update_log_def Let_def log_succeeded_def set_story_def
      split: sum.splits option.splits prod.splits if_splits)

lemma find_log_from_append_None:
  "find_log_from i xs t uid gt = None \<Longrightarrow> find_log_from i (xs @ ys) t uid gt = find_log_from (i + length xs) ys t uid gt"
  by (induction i xs t uid gt rule: find_log_from.induct) (auto split: if_splits)

lemma find_log_append_new:
  "find_log lt t uid gt = None \<Longrightarrow> find_log (add_log lt (new_log uid t gt p r)) t uid gt = Some (length lt)"
  by (simp add: find_log_def add_log_def find_log_from_append_None new_log_def)

text \<open>
  C1: The dispatch race.  If the worker runs a queued text job before the
  handler has committed its log row, and the generation succeeds, the user
  is debited the reconciled cost while no row is updated; the row the handler
  commits afterwards is the first row for that task, and it is
  \<open>pending\<close> with no real cost.  The charge is never recorded in the log.
\<close>

theorem dispatch_race_leaves_row_pending:
  assumes enq: "enqueue j s = (t, s1)"
    and nolog: "find_log (logs s) t (job_user j) (job_type j) = None"
    and kind: "job_type j \<noteq> ''image''"
    and user: "users s (job_user j) = Some u"
    and run: "run_job E oc t j s1 = (TaskSuccess, s2)"
    and s3: "s3 = log_dispatch (job_user j) t (job_type j) amount msg s2"
  shows "\<exists>c. users s3 (job_user j) = Some (u\<lparr>text_credits := text_credits u - c\<rparr>) \<and>
           find_log (logs s3) t (job_user j) (job_type j) = Some (length (logs s)) \<and>
           status (logs s3 ! length (logs s)) = ''pending'' \<and> real_cost (logs s3 ! length (logs s)) = None"
proof -
  from enq have l1: "logs s1 = logs s" and u1: "users s1 = users s"
    by (auto simp: enqueue_def)
  obtain c where u2: "users s2 (job_user j) = Some (u\<lparr>text_credits := text_credits u - c\<rparr>)"
      and l2: "logs s2 = logs s"
    using success_without_row_debits [OF run kind] nolog user l1 u1 by auto
  have l3: "logs s3 = add_log (logs s) (new_log (job_user j) t (job_type j) (Some (of_int amount)) None)"
    using s3 l2 by (simp add: log_dispatch_def notify_def)
  have "find_log (logs s3) t (job_user j) (job_type j) = Some (length (logs s))"
    unfolding l3 by (rule find_log_append_new [OF nolog])
  moreover have "users s3 (job_user j) = Some (u\<lparr>text_credits := text_credits u - c\<rparr>)"
    using u2 s3 by (simp add: log_dispatch_def notify_def)
  ultimately show ?thesis
    using l3 by (simp add: add_log_def new_log_def nth_append, blast)
qed

theorem dispatch_race_leaves_row_pending_witness:
  "\<exists>s2 c. run_job example_env (example_outcome (Inr ''Once upon a time'')) 1 (ChapterJob 1 ''prompt'' 1 1 10000)
            (snd (enqueue (ChapterJob 1 ''prompt'' 1 1 10000) (example_state 1000))) = (TaskSuccess, s2) \<and>
          users (log_dispatch 1 1 ''chapter'' 336 ''queued'' s2) 1 =
            Some \<lparr>text_credits = 1000 - c, image_credits = 1000, audio_credits = 1000\<rparr> \<and>
          map status (logs (log_dispatch 1 1 ''chapter'' 336 ''queued'' s2)) = [''pending''] \<and>
          map real_cost (logs (log_dispatch 1 1 ''chapter'' 336 ''queued'' s2)) = [None]"
proof -
  let ?j = "ChapterJob 1 ''prompt'' 1 1 10000"
  let ?s1 = "snd (enqueue ?j (example_state 1000))"
  have enq: "enqueue ?j (example_state 1000) = (1, ?s1)" by (simp add: enqueue_def example_state_def)
  have "\<exists>s2. run_job example_env (example_outcome (Inr ''Once upon a time'')) 1 ?j ?s1 = (TaskSuccess, s2)"
    by (simp add: enqueue_def generate_chapter_task_def run_task_def reconcile_def db_commit_def story_ok_at_def
        story_ok_def worker_example_defs calculate_actual_chapter_cost_def eval_simps spend_credits_def
        set_story_def set_chapter_content_def set_log_def update_log_def find_log_def)
  then obtain s2 where e: "run_job example_env (example_outcome (Inr ''Once upon a time'')) 1 ?j ?s1 = (TaskSuccess, s2)" ..
  have f: "find_log (logs (example_state 1000)) 1 (job_user ?j) (job_type ?j) = None"
    by (simp add: find_log_def example_state_def)
  have u: "users (example_state 1000) (job_user ?j) =
      Some \<lparr>text_credits = 1000, image_credits = 1000, audio_credits = 1000\<rparr>"
    by (simp add: example_state_def)
  from dispatch_race_leaves_row_pending [OF enq f _ u e refl, of 336 "''queued''"]
  obtain c where "users (log_dispatch 1 1 ''chapter'' 336 ''queued'' s2) 1 =
            Some \<lparr>text_credits = 1000 - c, image_credits = 1000, audio_credits = 1000\<rparr>"
      "status (logs (log_dispatch 1 1 ''chapter'' 336 ''queued'' s2) ! 0) = ''pending''"
      "real_cost (logs (log_dispatch 1 1 ''chapter'' 336 ''queued'' s2) ! 0) = None"
    by (auto simp: example_state_def)
  moreover have "find_log (logs ?s1) 1 (job_user ?j) (job_type ?j) = None"
    by (simp add: find_log_def enqueue_def example_state_def)
  then have "logs s2 = []"
    using success_without_row_debits [OF e] by (auto simp: enqueue_def example_state_def)
  ultimately show ?thesis using e
    by (auto simp: log_dispatch_def notify_def add_log_def)
qed

end
