(* ===== verification/Webhook.thy ===== *)
theory Webhook
  imports Accounts
begin

text \<open>
  Billing (\<open>src/api/profile.py\<close>): the two endpoints that open a Stripe
  Checkout session (\<open>create_one_time_checkout_session\<close> for a credit package,
  \<open>create_checkout_session\<close> for a role subscription) and the webhook
  \<open>stripe_webhook\<close> that Stripe calls when a payment succeeds, a checkout
  completes or a subscription ends.  The webhook is the only place where a
  payment turns into credits.

  Stripe itself is outside the program.  A checkout session is the request
  the code sends (\<open>checkout_request\<close>); the event Stripe later posts back for
  it is built by \<open>completed_event\<close> and \<open>invoice_event\<close>, with Stripe's
  documented behaviour that metadata values come back as strings.  The
  signature check \<open>stripe.Webhook.construct_event\<close> is the input's
  constructor: a rejected payload or signature, or the verified event.
\<close>

subsection \<open>Python and SQL on event values\<close>

text \<open>\<open>v[key]\<close> on a decoded value.\<close>

fun py_index :: "json \<Rightarrow> string \<Rightarrow> py_error + json" where
  "py_index (JObj kvs) k = (case dict_lookup kvs k of None \<Rightarrow> Inl (KeyError k) | Some v \<Rightarrow> Inr v)"
| "py_index _ k = Inl (TypeError ''object is not subscriptable'')"

text \<open>\<open>key in v\<close>, for the dictionary the code applies it to.\<close>

fun py_in :: "string \<Rightarrow> json \<Rightarrow> py_error + bool" where
  "py_in k (JObj kvs) = Inr (k \<in> set (dict_keys kvs))"
| "py_in k _ = Inl (TypeError ''argument is not iterable'')"

text \<open>\<open>Model.query.get(v)\<close>: \<open>None\<close> finds nothing, a list or a dict cannot be
  bound, any other value is compared with the integer key.\<close>

definition sql_get :: "(nat \<times> 'a) list \<Rightarrow> json \<Rightarrow> py_error + (nat \<times> 'a) option" where
  "sql_get tab v =
     (case v of
        JNull \<Rightarrow> Inr None
      | JArr _ \<Rightarrow> Inl InterfaceError
      | JObj _ \<Rightarrow> Inl InterfaceError
      | _ \<Rightarrow> Inr (find (\<lambda>(i, _). sql_int_eq v i) tab))"

text \<open>\<open>Model.query.filter_by(col=v).first()\<close> on a string column: \<open>None\<close>
  becomes \<open>IS NULL\<close>.\<close>

definition sql_find_col :: "('a \<Rightarrow> json) \<Rightarrow> (nat \<times> 'a) list \<Rightarrow> json \<Rightarrow> py_error + (nat \<times> 'a) option" where
  "sql_find_col col tab v =
     (case v of
        JArr _ \<Rightarrow> Inl InterfaceError
      | JObj _ \<Rightarrow> Inl InterfaceError
      | _ \<Rightarrow> Inr (find (\<lambda>(i, a). col a = v) tab))"

text \<open>\<open>v / 100.0\<close>.\<close>

fun cents_to_dollars :: "json \<Rightarrow> py_error + rat" where
  "cents_to_dollars (JNum q) = Inr (q / 100)"
| "cents_to_dollars (JBool b) = Inr (of_bool b / 100)"
| "cents_to_dollars _ = Inl (TypeError ''unsupported operand type(s) for /'')"

text \<open>\<open>user.<type>_credits += package.credits\<close> for the credit type of the
  checkout's metadata.\<close>

definition add_package_credits :: "user_credits \<Rightarrow> json \<Rightarrow> int \<Rightarrow> user_credits" where
  "add_package_credits u t n =
     (if t = JStr ''text'' then u\<lparr>text_credits := text_credits u + of_int n\<rparr>
      else if t = JStr ''image'' then u\<lparr>image_credits := image_credits u + of_int n\<rparr>
      else if t = JStr ''audio'' then u\<lparr>audio_credits := audio_credits u + of_int n\<rparr>
      else u)"

text \<open>\<open>event['data']['object']\<close>.\<close>

definition event_object :: "json \<Rightarrow> py_error + json" where
  "event_object ev = bind_err (py_index ev ''data'') (\<lambda>d. py_index d ''object'')"

subsection \<open>The webhook\<close>

text \<open>\<open>invoice.payment_succeeded\<close>: the user whose subscription id is the
  invoice's gets the revenue recorded and the default credits of their
  current role added.\<close>

definition invoice_paid :: "json \<Rightarrow> accounts_db \<Rightarrow> py_error + accounts_db" where
  "invoice_paid invoice db =
     bind_err (py_get invoice ''subscription'' JNull) (\<lambda>sub.
     bind_err (sql_find_col stripe_subscription (users_tab db) sub) (\<lambda>found.
       case found of
         None \<Rightarrow> Inr db
       | Some (u, a) \<Rightarrow>
           bind_err (py_index invoice ''amount_paid'') (\<lambda>v.
           bind_err (cents_to_dollars v) (\<lambda>amt.
             case user_role db a of
               None \<Rightarrow> Inl (AttributeError ''default_text_credits'')
             | Some r \<Rightarrow>
                 Inr (db\<lparr>revenue := revenue db @ [amt],
                         users_tab := AList.update u
                           (a\<lparr>acct_credits := grant_role_credits (acct_credits a)
                                (default_text r) (default_image r) (default_audio r)\<rparr>) (users_tab db)\<rparr>)))))"

text \<open>\<open>checkout.session.completed\<close>: a package purchase (its metadata has a
  \<open>package_id\<close>) adds the package's credits to the counter the metadata's
  credit type names; a subscription checkout gives the user the role and
  records the subscription id.\<close>

definition checkout_completed :: "json \<Rightarrow> accounts_db \<Rightarrow> py_error + accounts_db" where
  "checkout_completed sess db =
     bind_err (py_get sess ''metadata'' (JObj [])) (\<lambda>md.
     bind_err (py_get md ''user_id'' JNull) (\<lambda>user_id.
     bind_err (py_get md ''role_id'' JNull) (\<lambda>role_id.
     bind_err (py_in ''package_id'' md) (\<lambda>is_package.
       if is_package then
         bind_err (py_get md ''package_id'' JNull) (\<lambda>package_id.
         bind_err (py_get md ''credit_type'' JNull) (\<lambda>credit_type.
         bind_err (sql_get (users_tab db) user_id) (\<lambda>uo.
         bind_err (sql_get (packages_tab db) package_id) (\<lambda>po.
           case (uo, po) of
             (Some (u, a), Some (_, p)) \<Rightarrow>
               bind_err (py_index sess ''amount_total'') (\<lambda>v.
               bind_err (cents_to_dollars v) (\<lambda>amt.
                 Inr (db\<lparr>revenue := revenue db @ [amt],
                         users_tab := AList.update u
                           (a\<lparr>acct_credits := add_package_credits (acct_credits a) credit_type (pkg_credits p)\<rparr>)
                           (users_tab db)\<rparr>)))
           | _ \<Rightarrow> Inr db))))
       else
         bind_err (py_get sess ''subscription'' JNull) (\<lambda>sub.
           if py_truthy user_id \<and> py_truthy role_id then
             bind_err (sql_get (users_tab db) user_id) (\<lambda>uo.
             bind_err (sql_get (roles_tab db) role_id) (\<lambda>ro.
               case (uo, ro) of
                 (Some (u, a), Some (rid, _)) \<Rightarrow>
                   Inr (db\<lparr>users_tab := AList.update u (a\<lparr>acct_role := rid, stripe_subscription := sub\<rparr>)
                                          (users_tab db)\<rparr>)
               | _ \<Rightarrow> Inr db))
           else Inr db)))))"

text \<open>\<open>customer.subscription.deleted\<close>: the customer's user falls back to the
  role named \<open>user\<close>, whose default credits replace the user's counters.\<close>

definition subscription_deleted :: "json \<Rightarrow> accounts_db \<Rightarrow> py_error + accounts_db" where
  "subscription_deleted sub db =
     bind_err (py_get sub ''customer'' JNull) (\<lambda>cust.
     bind_err (sql_find_col stripe_customer (users_tab db) cust) (\<lambda>found.
       case found of
         None \<Rightarrow> Inr db
       | Some (u, a) \<Rightarrow>
           (case find (\<lambda>(i, r). role_name r = ''user'') (roles_tab db) of
              None \<Rightarrow> Inr db
            | Some (rid, r) \<Rightarrow>
                Inr (db\<lparr>users_tab := AList.update u
                          (a\<lparr>acct_role := rid,
                             acct_credits := \<lparr>text_credits = of_int (default_text r),
                                              image_credits = of_int (default_image r),
                                              audio_credits = of_int (default_audio r)\<rparr>,
                             stripe_subscription := JNull\<rparr>) (users_tab db)\<rparr>))))"

definition webhook_event :: "json \<Rightarrow> accounts_db \<Rightarrow> py_error + accounts_db" where
  "webhook_event ev db =
     bind_err (py_index ev ''type'') (\<lambda>ty.
       if ty = JStr ''invoice.payment_succeeded'' then
         bind_err (event_object ev) (\<lambda>ob. invoice_paid ob db)
       else if ty = JStr ''checkout.session.completed'' then
         bind_err (event_object ev) (\<lambda>ob. checkout_completed ob db)
       else if ty = JStr ''customer.subscription.deleted'' then
         bind_err (event_object ev) (\<lambda>ob. subscription_deleted ob db)
       else Inr db)"

datatype hook_input = HookPayloadInvalid | HookSignatureInvalid | HookEvent json

text \<open>The endpoint: a rejected payload or signature is answered with 400; a
  verified event is handled and answered with an empty 200, or fails with
  the exception its handling raised, nothing committed.\<close>

definition stripe_webhook :: "hook_input \<Rightarrow> accounts_db \<Rightarrow> reply \<times> accounts_db" where
  "stripe_webhook inp db =
     (case inp of
        HookPayloadInvalid \<Rightarrow> (Answer 400 (JStr ''Invalid payload''), db)
      | HookSignatureInvalid \<Rightarrow> (Answer 400 (JStr ''Invalid signature''), db)
      | HookEvent ev \<Rightarrow> finish db (bind_err (webhook_event ev db) (\<lambda>db'. Inr (Answer 200 (JStr []), db'))))"

subsection \<open>Opening a checkout\<close>

record checkout_request =
  co_mode :: string
  co_customer :: json
  co_price :: "string option"
  co_metadata :: "(string \<times> json) list"

text \<open>\<open>if not user.stripe_customer_id\<close>: a Stripe customer is created (the
  argument: its id, or the exception) and committed.\<close>

definition ensure_customer :: "uid \<Rightarrow> account \<Rightarrow> py_error + string \<Rightarrow> accounts_db \<Rightarrow>
    py_error + (account \<times> accounts_db)" where
  "ensure_customer u a cust db =
     (if py_truthy (stripe_customer a) then Inr (a, db)
      else bind_err cust (\<lambda>c.
             (let a1 = a\<lparr>stripe_customer := JStr c\<rparr>
              in Inr (a1, db\<lparr>users_tab := AList.update u a1 (users_tab db)\<rparr>))))"

text \<open>\<open>create_one_time_checkout_session\<close>: the session for one package, with
  the user, the package and its credit type as metadata.  An exception of
  the session call is answered with 400; the customer stays committed.\<close>

definition create_one_time_checkout_session ::
  "uid \<Rightarrow> nat \<Rightarrow> py_error + string \<Rightarrow> py_error + string \<Rightarrow> accounts_db \<Rightarrow>
   (reply \<times> checkout_request option) \<times> accounts_db" where
  "create_one_time_checkout_session u pid cust sess db =
     (case map_of (users_tab db) u of
        None \<Rightarrow> ((Failed (AttributeError ''stripe_customer_id''), None), db)
      | Some a \<Rightarrow>
          (case map_of (packages_tab db) pid of
             None \<Rightarrow> ((Failed HTTPNotFound, None), db)
           | Some p \<Rightarrow>
               (case ensure_customer u a cust db of
                  Inl e \<Rightarrow> ((Failed e, None), db)
                | Inr (a1, db1) \<Rightarrow>
                    (let co = \<lparr>co_mode = ''payment'', co_customer = stripe_customer a1, co_price = pkg_price p,
                               co_metadata = [(''user_id'', JNum (of_nat u)), (''package_id'', JNum (of_nat pid)),
                                              (''credit_type'', JStr (pkg_credit_type p))]\<rparr>
                     in (case sess of
                           Inl e \<Rightarrow> ((Answer 400 (JObj [(''error'', JStr (py_error_str e))]), None), db1)
                         | Inr i \<Rightarrow> ((Answer 200 (JObj [(''id'', JStr i)]), Some co), db1))))))"

text \<open>\<open>str.lower\<close> on one character (ASCII and Latin-1 capitals).\<close>

definition py_lower :: "char \<Rightarrow> char" where
  "py_lower c =
     (let n = (of_char c :: nat)
      in if (65 \<le> n \<and> n \<le> 90) \<or> (192 \<le> n \<and> n \<le> 222 \<and> n \<noteq> 215) then char_of (n + 32) else c)"

text \<open>\<open>create_checkout_session\<close>: a monthly subscription to a role other than
  \<open>admin\<close> and \<open>user\<close> (compared in lower case); an exception of the session
  call is not caught.\<close>

definition create_checkout_session ::
  "uid \<Rightarrow> nat \<Rightarrow> py_error + string \<Rightarrow> py_error + string \<Rightarrow> accounts_db \<Rightarrow>
   (reply \<times> checkout_request option) \<times> accounts_db" where
  "create_checkout_session u rid cust sess db =
     (case map_of (users_tab db) u of
        None \<Rightarrow> ((Failed (AttributeError ''stripe_customer_id''), None), db)
      | Some a \<Rightarrow>
          (case map_of (roles_tab db) rid of
             None \<Rightarrow> ((Failed HTTPNotFound, None), db)
           | Some r \<Rightarrow>
               if map py_lower (role_name r) = ''admin'' \<or> map py_lower (role_name r) = ''user''
               then ((Redirect ''profile_views.subscriptions'', None), db)
               else (case ensure_customer u a cust db of
                       Inl e \<Rightarrow> ((Failed e, None), db)
                     | Inr (a1, db1) \<Rightarrow>
                         (case sess of
                            Inl e \<Rightarrow> ((Failed e, None), db1)
                          | Inr i \<Rightarrow>
                              ((Answer 200 (JObj [(''id'', JStr i)]),
                                Some \<lparr>co_mode = ''subscription'', co_customer = stripe_customer a1,
                                      co_price = role_price r,
                                      co_metadata = [(''user_id'', JNum (of_nat u)), (''role_id'', JNum (of_nat rid))]\<rparr>),
                               db1)))))"

subsection \<open>The events Stripe posts back\<close>

text \<open>Stripe returns metadata values as strings: \<open>str\<close> of the integer ids
  and the strings themselves.\<close>

fun stripe_str :: "json \<Rightarrow> string" where
  "stripe_str (JStr s) = s"
| "stripe_str (JNum q) = int_str \<lfloor>q\<rfloor>"
| "stripe_str _ = []"

definition stripe_metadata :: "(string \<times> json) list \<Rightarrow> json" where
  "stripe_metadata md = JObj (map (\<lambda>(k, v). (k, JStr (stripe_str v))) md)"

definition completed_event :: "checkout_request \<Rightarrow> json \<Rightarrow> int \<Rightarrow> json" where
  "completed_event co sub amount =
     JObj [(''type'', JStr ''checkout.session.completed''),
           (''data'', JObj [(''object'', JObj [(''metadata'', stripe_metadata (co_metadata co)),
                                               (''amount_total'', JNum (of_int amount)),
                                               (''subscription'', sub)])])]"

definition invoice_event :: "json \<Rightarrow> int \<Rightarrow> json" where
  "invoice_event sub amount =
     JObj [(''type'', JStr ''invoice.payment_succeeded''),
           (''data'', JObj [(''object'', JObj [(''subscription'', sub), (''amount_paid'', JNum (of_int amount))])])]"

subsection \<open>Example accounts\<close>

definition example_premium :: role where
  "example_premium = \<lparr>role_name = ''premium'', default_text = 500, default_image = 50, default_audio = 0,
                      role_cost = 10, protected = False, role_price = Some ''price_p''\<rparr>"

definition example_account :: account where
  "example_account = \<lparr>username = ''ann'', acct_credits = \<lparr>text_credits = 3, image_credits = 0, audio_credits = 0\<rparr>,
                      acct_role = 2, under_review = False, is_locked = False,
                      stripe_customer = JStr ''cus_1'', stripe_subscription = JNull\<rparr>"

definition example_package :: credit_package where
  "example_package = \<lparr>pkg_credit_type = ''text'', pkg_credits = 100, pkg_cost = 5, pkg_price = Some ''price_t''\<rparr>"

definition example_accounts :: accounts_db where
  "example_accounts = \<lparr>users_tab = [(1, example_account)],
                       roles_tab = [(1, admin_role), (2, plain_user_role), (3, example_premium)],
                       packages_tab = [(1, example_package)], revenue = [], story_owners = []\<rparr>"

subsection \<open>Billing lemmas\<close>

lemma find_sql_nat_str:
  "find (\<lambda>(i, _). sql_int_eq (JStr (nat_str k)) i) tab = find (\<lambda>(i, _). i = k) tab"
  by (induction tab) (auto dest: nat_str_inj simp del: nat_str.simps)

lemma sql_get_nat_str:
  "map_of tab k = Some v \<Longrightarrow> sql_get tab (JStr (nat_str k)) = Inr (Some (k, v))"
  by (simp add: sql_get_def find_sql_nat_str find_key_map_of del: nat_str.simps sql_int_eq.simps)

lemma int_str_of_nat [simp]: "int_str (int n) = nat_str n"
  by (simp add: int_str_def)

lemma webhook_completed_event:
  "webhook_event (completed_event co sub amount) db =
     checkout_completed (JObj [(''metadata'', stripe_metadata (co_metadata co)),
                               (''amount_total'', JNum (of_int amount)), (''subscription'', sub)]) db"
  by (simp add: webhook_event_def completed_event_def event_object_def dict_lookup_def)

lemma checkout_completed_package:
  assumes "sql_get (users_tab db) (JStr su) = Inr (Some (u, a))"
    and "sql_get (packages_tab db) (JStr sp) = Inr (Some (pid, p))"
  shows "checkout_completed (JObj [(''metadata'', JObj [(''user_id'', JStr su), (''package_id'', JStr sp),
                                                      (''credit_type'', t)]),
                                  (''amount_total'', JNum q), (''subscription'', sub)]) db =
         Inr (db\<lparr>revenue := revenue db @ [q / 100],
                 users_tab := AList.update u (a\<lparr>acct_credits := add_package_credits (acct_credits a) t (pkg_credits p)\<rparr>)
                                (users_tab db)\<rparr>)"
  using assms by (simp add: checkout_completed_def dict_lookup_def dict_keys_def)

lemma stripe_metadata_package:
  "stripe_metadata [(''user_id'', JNum (of_nat u)), (''package_id'', JNum (of_nat pid)), (''credit_type'', JStr t)] =
   JObj [(''user_id'', JStr (nat_str u)), (''package_id'', JStr (nat_str pid)), (''credit_type'', JStr t)]"
  by (simp add: stripe_metadata_def del: nat_str.simps)

text \<open>
  C27: A credit-package purchase delivers what was bought.  When
  \<open>create_one_time_checkout_session\<close> opened a checkout for a user and a
  package, the \<open>checkout.session.completed\<close> event Stripe posts back for it
  is answered with 200, records the amount paid as revenue and adds the
  package's credits to the counter named by the package's credit type at
  checkout time, in whatever state it arrives, as long as the user and the
  package still exist.  The amount added is the package's credits when the
  event arrives.
\<close>

theorem package_checkout_credits:
  assumes "create_one_time_checkout_session u pid cust sess db = ((r, Some co), db1)"
    and "map_of (users_tab db2) u = Some a" and "map_of (packages_tab db2) pid = Some p"
  shows "\<exists>p0. map_of (packages_tab db) pid = Some p0 \<and>
           stripe_webhook (HookEvent (completed_event co JNull amount)) db2 =
             (Answer 200 (JStr []),
              db2\<lparr>revenue := revenue db2 @ [of_int amount / 100],
                  users_tab := AList.update u
                    (a\<lparr>acct_credits := add_package_credits (acct_credits a) (JStr (pkg_credit_type p0))
                                          (pkg_credits p)\<rparr>) (users_tab db2)\<rparr>)"
proof -
  obtain p0 where p0: "map_of (packages_tab db) pid = Some p0"
    and co: "co_metadata co = [(''user_id'', JNum (of_nat u)), (''package_id'', JNum (of_nat pid)),
                               (''credit_type'', JStr (pkg_credit_type p0))]"
    using assms(1) unfolding create_one_time_checkout_session_def
    by (auto split: option.splits sum.splits prod.splits)
  have "webhook_event (completed_event co JNull amount) db2 =
        Inr (db2\<lparr>revenue := revenue db2 @ [of_int amount / 100],
                 users_tab := AList.update u
                   (a\<lparr>acct_credits := add_package_credits (acct_credits a) (JStr (pkg_credit_type p0))
                                         (pkg_credits p)\<rparr>) (users_tab db2)\<rparr>)"
    unfolding webhook_completed_event co stripe_metadata_package
    by (rule checkout_completed_package [OF sql_get_nat_str [OF assms(2)] sql_get_nat_str [OF assms(3)]])
  with p0 show ?thesis by (simp add: stripe_webhook_def finish_def)
qed

lemma ensure_customer_Inr:
  assumes "ensure_customer u a cust db = Inr (a1, db1)" "map_of (users_tab db) u = Some a"
  shows "map_of (users_tab db1) u = Some a1 \<and> roles_tab db1 = roles_tab db \<and>
         packages_tab db1 = packages_tab db \<and> revenue db1 = revenue db \<and>
         (\<forall>v. v \<noteq> u \<longrightarrow> map_of (users_tab db1) v = map_of (users_tab db) v) \<and>
         a1 = a\<lparr>stripe_customer := stripe_customer a1\<rparr>"
  using assms by (auto simp: ensure_customer_def update_conv' bind_err_eq_Inr Let_def split: if_splits)

lemma find_update_unique:
  assumes "\<not> list_ex (\<lambda>(i, a). P a) al" "P v"
  shows "find (\<lambda>(i, a). P a) (AList.update k v al) = Some (k, v)"
  using assms by (induction al) auto

lemma stripe_metadata_role:
  "stripe_metadata [(''user_id'', JNum (of_nat u)), (''role_id'', JNum (of_nat rid))] =
   JObj [(''user_id'', JStr (nat_str u)), (''role_id'', JStr (nat_str rid))]"
  by (simp add: stripe_metadata_def del: nat_str.simps)

lemma nat_str_truthy [simp]: "py_truthy (JStr (nat_str n))"
  using nat_str_digits [of n] by (simp del: nat_str.simps)

lemma checkout_completed_role:
  assumes "sql_get (users_tab db) (JStr su) = Inr (Some (u, a))"
    and "sql_get (roles_tab db) (JStr sr) = Inr (Some (rid, r))" "su \<noteq> []" "sr \<noteq> []"
  shows "checkout_completed (JObj [(''metadata'', JObj [(''user_id'', JStr su), (''role_id'', JStr sr)]),
                                  (''amount_total'', JNum q), (''subscription'', sub)]) db =
         Inr (db\<lparr>users_tab := AList.update u (a\<lparr>acct_role := rid, stripe_subscription := sub\<rparr>) (users_tab db)\<rparr>)"
  using assms by (simp add: checkout_completed_def dict_lookup_def dict_keys_def)

lemma webhook_invoice_event:
  "webhook_event (invoice_event sub amount) db =
     invoice_paid (JObj [(''subscription'', sub), (''amount_paid'', JNum (of_int amount))]) db"
  by (simp add: webhook_event_def invoice_event_def event_object_def dict_lookup_def)

lemma invoice_paid_no_user:
  assumes "\<not> list_ex (\<lambda>(i, a). stripe_subscription a = JStr s) (users_tab db)"
  shows "invoice_paid (JObj [(''subscription'', JStr s), (''amount_paid'', JNum q)]) db = Inr db"
proof -
  have "find (\<lambda>(i, a). stripe_subscription a = JStr s) (users_tab db) = None"
    using assms by (auto simp: find_None_iff list_ex_iff)
  then show ?thesis by (simp add: invoice_paid_def sql_find_col_def dict_lookup_def)
qed

lemma invoice_paid_user:
  assumes "sql_find_col stripe_subscription (users_tab db) sub = Inr (Some (u, a))" "user_role db a = Some r"
  shows "invoice_paid (JObj [(''subscription'', sub), (''amount_paid'', JNum q)]) db =
         Inr (db\<lparr>revenue := revenue db @ [q / 100],
                 users_tab := AList.update u (a\<lparr>acct_credits := grant_role_credits (acct_credits a)
                   (default_text r) (default_image r) (default_audio r)\<rparr>) (users_tab db)\<rparr>)"
  using assms by (simp add: invoice_paid_def dict_lookup_def)

lemma webhook_answer:
  "webhook_event ev db = Inr db' \<Longrightarrow> stripe_webhook (HookEvent ev) db = (Answer 200 (JStr []), db')"
  by (simp add: stripe_webhook_def finish_def)

text \<open>
  C28: The credits of a new subscription depend on the order in which Stripe
  delivers its two events.  After \<open>create_checkout_session\<close> for a role, if the
  invoice event arrives before the checkout event, the invoice finds no user
  with the subscription id and grants nothing, and the checkout event then
  only sets the role; if the checkout event comes first, the invoice adds the
  role's default credits.  Stripe does not guarantee either order.
\<close>

theorem subscription_credits_depend_on_event_order:
  assumes "create_checkout_session u rid cust sess db = ((r, Some co), db1)"
    and "\<not> list_ex (\<lambda>(i, a). stripe_subscription a = JStr sub) (users_tab db1)"
  shows "\<exists>a r0 db2.
     map_of (users_tab db1) u = Some a \<and> map_of (roles_tab db1) rid = Some r0 \<and>
     stripe_webhook (HookEvent (invoice_event (JStr sub) n)) db1 = (Answer 200 (JStr []), db1) \<and>
     stripe_webhook (HookEvent (completed_event co (JStr sub) m)) db1 = (Answer 200 (JStr []), db2) \<and>
     map_of (users_tab db2) u = Some (a\<lparr>acct_role := rid, stripe_subscription := JStr sub\<rparr>) \<and>
     stripe_webhook (HookEvent (invoice_event (JStr sub) n)) db2 =
       (Answer 200 (JStr []),
        db2\<lparr>revenue := revenue db2 @ [of_int n / 100],
            users_tab := AList.update u
              (a\<lparr>acct_role := rid, stripe_subscription := JStr sub,
                 acct_credits := grant_role_credits (acct_credits a)
                   (default_text r0) (default_image r0) (default_audio r0)\<rparr>) (users_tab db2)\<rparr>)"
proof -
  obtain a0 r0 a1 where a0: "map_of (users_tab db) u = Some a0" and r0: "map_of (roles_tab db) rid = Some r0"
    and ec: "ensure_customer u a0 cust db = Inr (a1, db1)"
    and co: "co_metadata co = [(''user_id'', JNum (of_nat u)), (''role_id'', JNum (of_nat rid))]"
    using assms(1) unfolding create_checkout_session_def
    by (auto split: option.splits sum.splits prod.splits if_splits)
  from ensure_customer_Inr [OF ec a0] r0
  have a1: "map_of (users_tab db1) u = Some a1" and r1: "map_of (roles_tab db1) rid = Some r0" by simp_all
  define a2 where "a2 = a1\<lparr>acct_role := rid, stripe_subscription := JStr sub\<rparr>"
  define db2 where "db2 = db1\<lparr>users_tab := AList.update u a2 (users_tab db1)\<rparr>"
  have inv1: "webhook_event (invoice_event (JStr sub) n) db1 = Inr db1"
    unfolding webhook_invoice_event using assms(2) by (rule invoice_paid_no_user)
  have chk: "webhook_event (completed_event co (JStr sub) m) db1 = Inr db2"
    unfolding webhook_completed_event co stripe_metadata_role db2_def a2_def
    by (rule checkout_completed_role [OF sql_get_nat_str [OF a1] sql_get_nat_str [OF r1]])
       (simp_all add: nat_str_digits del: nat_str.simps)
  have u2: "map_of (users_tab db2) u = Some a2" by (simp add: db2_def update_conv')
  have found: "sql_find_col stripe_subscription (users_tab db2) (JStr sub) = Inr (Some (u, a2))"
    using find_update_unique [OF assms(2), of a2 u] by (simp add: sql_find_col_def db2_def a2_def)
  have role2: "user_role db2 a2 = Some r0" using r1 by (simp add: user_role_def db2_def a2_def)
  have inv2: "webhook_event (invoice_event (JStr sub) n) db2 =
      Inr (db2\<lparr>revenue := revenue db2 @ [of_int n / 100],
               users_tab := AList.update u (a2\<lparr>acct_credits := grant_role_credits (acct_credits a2)
                 (default_text r0) (default_image r0) (default_audio r0)\<rparr>) (users_tab db2)\<rparr>)"
    unfolding webhook_invoice_event by (rule invoice_paid_user [OF found role2])
  show ?thesis
    using a1 r1 u2 webhook_answer [OF inv1] webhook_answer [OF chk] webhook_answer [OF inv2]
    by (intro exI [of _ a1] exI [of _ r0] exI [of _ db2]) (simp add: a2_def)
qed

lemmas example_billing_defs = example_accounts_def example_account_def example_package_def
  example_premium_def admin_role_def plain_user_role_def

theorem package_checkout_credits_witness:
  "create_one_time_checkout_session 1 1 (Inr ''cus_x'') (Inr ''cs_1'') example_accounts =
     ((Answer 200 (JObj [(''id'', JStr ''cs_1'')]),
       Some \<lparr>co_mode = ''payment'', co_customer = JStr ''cus_1'', co_price = Some ''price_t'',
             co_metadata = [(''user_id'', JNum 1), (''package_id'', JNum 1), (''credit_type'', JStr ''text'')]\<rparr>),
      example_accounts) \<and>
   stripe_webhook (HookEvent (completed_event
       \<lparr>co_mode = ''payment'', co_customer = JStr ''cus_1'', co_price = Some ''price_t'',
        co_metadata = [(''user_id'', JNum 1), (''package_id'', JNum 1), (''credit_type'', JStr ''text'')]\<rparr>
       JNull 500)) example_accounts =
     (Answer 200 (JStr []),
      example_accounts\<lparr>revenue := [5],
        users_tab := [(1, example_account\<lparr>acct_credits := \<lparr>text_credits = 103, image_credits = 0, audio_credits = 0\<rparr>\<rparr>)]\<rparr>)"
proof -
  have c: "create_one_time_checkout_session 1 1 (Inr ''cus_x'') (Inr ''cs_1'') example_accounts =
     ((Answer 200 (JObj [(''id'', JStr ''cs_1'')]),
       Some \<lparr>co_mode = ''payment'', co_customer = JStr ''cus_1'', co_price = Some ''price_t'',
             co_metadata = [(''user_id'', JNum 1), (''package_id'', JNum 1), (''credit_type'', JStr ''text'')]\<rparr>),
      example_accounts)"
    by (simp add: create_one_time_checkout_session_def ensure_customer_def example_billing_defs)
  have u: "map_of (users_tab example_accounts) 1 = Some example_account" by (simp add: example_accounts_def)
  have p: "map_of (packages_tab example_accounts) 1 = Some example_package" by (simp add: example_accounts_def)
  show ?thesis
    using c package_checkout_credits [OF c u p, of 500]
    by (auto simp: example_billing_defs add_package_credits_def)
qed

theorem subscription_credits_depend_on_event_order_witness:
  "\<exists>co db2.
     create_checkout_session 1 3 (Inr ''cus_x'') (Inr ''cs_2'') example_accounts =
       ((Answer 200 (JObj [(''id'', JStr ''cs_2'')]), Some co), example_accounts) \<and>
     stripe_webhook (HookEvent (invoice_event (JStr ''sub_1'') 1000)) example_accounts =
       (Answer 200 (JStr []), example_accounts) \<and>
     stripe_webhook (HookEvent (completed_event co (JStr ''sub_1'') 1000)) example_accounts =
       (Answer 200 (JStr []), db2) \<and>
     map_of (users_tab db2) 1 = Some (example_account\<lparr>acct_role := 3, stripe_subscription := JStr ''sub_1''\<rparr>) \<and>
     map_of (users_tab (snd (stripe_webhook (HookEvent (invoice_event (JStr ''sub_1'') 1000)) db2))) 1 =
       Some (example_account\<lparr>acct_role := 3, stripe_subscription := JStr ''sub_1'',
               acct_credits := \<lparr>text_credits = 503, image_credits = 50, audio_credits = 0\<rparr>\<rparr>)"
proof -
  define co where "co = \<lparr>co_mode = ''subscription'', co_customer = JStr ''cus_1'', co_price = Some ''price_p'',
                         co_metadata = [(''user_id'', JNum 1), (''role_id'', JNum 3)]\<rparr>"
  have c: "create_checkout_session 1 3 (Inr ''cus_x'') (Inr ''cs_2'') example_accounts =
             ((Answer 200 (JObj [(''id'', JStr ''cs_2'')]), Some co), example_accounts)"
    by (simp add: create_checkout_session_def ensure_customer_def py_lower_def co_def example_billing_defs)
  have n: "\<not> list_ex (\<lambda>(i, a). stripe_subscription a = JStr ''sub_1'') (users_tab example_accounts)"
    by (simp add: example_billing_defs)
  from subscription_credits_depend_on_event_order [OF c n, of 1000 1000]
  obtain a r0 db2 where a: "map_of (users_tab example_accounts) 1 = Some a"
    and r0: "map_of (roles_tab example_accounts) 3 = Some r0"
    and h: "stripe_webhook (HookEvent (invoice_event (JStr ''sub_1'') 1000)) example_accounts =
              (Answer 200 (JStr []), example_accounts)"
      "stripe_webhook (HookEvent (completed_event co (JStr ''sub_1'') 1000)) example_accounts =
              (Answer 200 (JStr []), db2)"
      "map_of (users_tab db2) 1 = Some (a\<lparr>acct_role := 3, stripe_subscription := JStr ''sub_1''\<rparr>)"
      "stripe_webhook (HookEvent (invoice_event (JStr ''sub_1'') 1000)) db2 =
         (Answer 200 (JStr []),
          db2\<lparr>revenue := revenue db2 @ [of_int 1000 / 100],
              users_tab := AList.update 1
                (a\<lparr>acct_role := 3, stripe_subscription := JStr ''sub_1'',
                   acct_credits := grant_role_credits (acct_credits a)
                     (default_text r0) (default_image r0) (default_audio r0)\<rparr>) (users_tab db2)\<rparr>)"
    by blast
  have a': "a = example_account" and r0': "r0 = example_premium"
    using a r0 by (simp_all add: example_accounts_def)
  show ?thesis
    using c h unfolding a' r0'
    by (intro exI [of _ co] exI [of _ db2])
       (simp add: update_conv' grant_role_credits_def example_account_def example_premium_def)
qed

subsection \<open>The billing operations keep the invariant of the account tables\<close>

lemma find_in_set: "find P xs = Some x \<Longrightarrow> x \<in> set xs"
  by (induction xs) (auto split: if_splits)

lemma find_map_of:
  "distinct (map fst tab) \<Longrightarrow> find P tab = Some (k, v) \<Longrightarrow> map_of tab k = Some v"
  by (rule map_of_is_SomeI) (auto dest: find_in_set)

lemma sql_get_in: "sql_get tab v = Inr (Some (k, x)) \<Longrightarrow> (k, x) \<in> set tab"
  by (auto simp: sql_get_def split: json.splits dest: find_in_set)

lemma sql_find_col_in: "sql_find_col c tab v = Inr (Some (k, x)) \<Longrightarrow> (k, x) \<in> set tab"
  by (auto simp: sql_find_col_def split: json.splits dest: find_in_set)

lemma inv_user_key:
  "accounts_inv db \<Longrightarrow> (u, a) \<in> set (users_tab db) \<Longrightarrow> map_of (users_tab db) u = Some a"
  by (simp add: accounts_inv_def map_of_is_SomeI)

lemma inv_users_revenue:
  "accounts_inv (db\<lparr>users_tab := t\<rparr>) \<Longrightarrow> accounts_inv (db\<lparr>revenue := x, users_tab := t\<rparr>)"
  by (simp add: accounts_inv_def)

lemma found_user:
  "sql_find_col c (users_tab db) v = Inr (Some (u, a)) \<Longrightarrow> accounts_inv db \<Longrightarrow> map_of (users_tab db) u = Some a"
  by (blast dest: sql_find_col_in inv_user_key)

lemma got_user:
  "sql_get (users_tab db) v = Inr (Some (u, a)) \<Longrightarrow> accounts_inv db \<Longrightarrow> map_of (users_tab db) u = Some a"
  by (blast dest: sql_get_in inv_user_key)

lemma inv_user_set:
  assumes "accounts_inv db" "(u, a) \<in> set (users_tab db)" "(rid, r) \<in> set (roles_tab db)" "acct_role a' = rid"
  shows "accounts_inv (db\<lparr>users_tab := AList.update u a' (users_tab db)\<rparr>)"
  using assms inv_user_key [OF assms(1,2)] by (intro inv_user_update [where a = a]) force+

lemma inv_user_set_same:
  assumes "accounts_inv db" "(u, a) \<in> set (users_tab db)" "acct_role a' = acct_role a"
  shows "accounts_inv (db\<lparr>users_tab := AList.update u a' (users_tab db)\<rparr>)"
  using assms by (intro inv_user_update_same [where a = a]) (auto simp: inv_user_key)

lemma inv_credits_revenue:
  "accounts_inv db \<Longrightarrow> (u, a) \<in> set (users_tab db) \<Longrightarrow>
   accounts_inv (db\<lparr>revenue := x, users_tab := AList.update u (a\<lparr>acct_credits := c\<rparr>) (users_tab db)\<rparr>)"
  by (intro inv_users_revenue inv_user_set_same) simp_all

lemma invoice_paid_inv:
  "invoice_paid ob db = Inr db' \<Longrightarrow> accounts_inv db \<Longrightarrow> accounts_inv db'"
  unfolding invoice_paid_def
  apply (auto simp: bind_err_eq_Inr simp del: py_get_Inr_iff split: option.split_asm dest!: sql_find_col_in)
  apply (rule inv_credits_revenue)
   apply assumption+
  done

lemma subscription_deleted_inv:
  "subscription_deleted ob db = Inr db' \<Longrightarrow> accounts_inv db \<Longrightarrow> accounts_inv db'"
  unfolding subscription_deleted_def
  apply (cases "find (\<lambda>(i, r). role_name r = ''user'') (roles_tab db)")
   apply (auto simp: bind_err_eq_Inr simp del: py_get_Inr_iff split: option.split_asm prod.split_asm
      dest!: sql_find_col_in find_in_set)
  apply (rule inv_user_set)
     apply assumption+
  apply simp
  done

lemma bind_err_InrE:
  "bind_err m f = Inr y \<Longrightarrow> (\<And>x. m = Inr x \<Longrightarrow> f x = Inr y \<Longrightarrow> P) \<Longrightarrow> P"
  by (cases m) auto

lemma case_two_found:
  "(case (uo, po) of (Some (u, a), Some (k, p)) \<Rightarrow> f u a k p | _ \<Rightarrow> g) =
   (case uo of None \<Rightarrow> g | Some (u, a) \<Rightarrow> (case po of None \<Rightarrow> g | Some (k, p) \<Rightarrow> f u a k p))"
  by (auto split: option.splits)

lemma checkout_completed_inv:
  "checkout_completed ob db = Inr db' \<Longrightarrow> accounts_inv db \<Longrightarrow> accounts_inv db'"
  unfolding checkout_completed_def case_two_found
  apply (auto simp del: py_get_Inr_iff elim!: bind_err_InrE
      split: option.split_asm prod.split_asm if_split_asm dest!: sql_get_in)
   apply (rule inv_credits_revenue; assumption)
  apply (rule inv_user_set; (assumption | simp))
  done

lemma stripe_webhook_inv:
  "stripe_webhook inp db = (r, db') \<Longrightarrow> accounts_inv db \<Longrightarrow> accounts_inv db'"
  unfolding stripe_webhook_def finish_def webhook_event_def
  by (auto elim!: bind_err_InrE split: hook_input.split_asm sum.split_asm if_split_asm
      intro: invoice_paid_inv checkout_completed_inv subscription_deleted_inv)

lemma ensure_customer_inv:
  "ensure_customer u a cust db = Inr (a1, db1) \<Longrightarrow> map_of (users_tab db) u = Some a \<Longrightarrow>
   accounts_inv db \<Longrightarrow> accounts_inv db1"
  unfolding ensure_customer_def
  by (auto simp: bind_err_eq_Inr Let_def split: if_split_asm intro: inv_user_update_same)

lemma create_one_time_checkout_session_inv:
  "create_one_time_checkout_session u k cust sess db = (r, db') \<Longrightarrow> accounts_inv db \<Longrightarrow> accounts_inv db'"
  unfolding create_one_time_checkout_session_def
  by (auto simp: Let_def split: option.split_asm sum.split_asm prod.split_asm intro: ensure_customer_inv)

lemma create_checkout_session_inv:
  "create_checkout_session u k cust sess db = (r, db') \<Longrightarrow> accounts_inv db \<Longrightarrow> accounts_inv db'"
  unfolding create_checkout_session_def
  by (auto split: option.split_asm sum.split_asm prod.split_asm if_split_asm intro: ensure_customer_inv)

end
