(* ===== verification/Billing.thy ===== *)
theory Billing
  imports Webhook
begin

text \<open>
  The account tables as a state machine: every admin endpoint behind the
  \<open>is_admin\<close> guard, every webhook delivery, and every checkout a logged-in
  user opens is a step, and the reachable states start from the rows
  \<open>src/app.py\<close> installs in a fresh database.  Their invariant
  (\<open>accounts_inv\<close>) holds in every reachable state, and an admin can rename
  the protected \<open>admin\<close> role, after which nobody passes the guard.
\<close>

inductive acct_step :: "accounts_db \<Rightarrow> accounts_db \<Rightarrow> bool" where
  update_user_role: "is_admin db cur (\<lambda>adm. update_user_role adm u f db) = (r, db') \<Longrightarrow> acct_step db db'"
| create_role: "is_admin db cur (\<lambda>_. create_role flt f price db) = (r, db') \<Longrightarrow> acct_step db db'"
| delete_role: "is_admin db cur (\<lambda>_. delete_role k archive db) = (r, db') \<Longrightarrow> acct_step db db'"
| edit_role: "is_admin db cur (\<lambda>_. edit_role flt k f stripe db) = (r, db') \<Longrightarrow> acct_step db db'"
| create_credit_package:
    "is_admin db cur (\<lambda>_. create_credit_package flt f price db) = (r, db') \<Longrightarrow> acct_step db db'"
| delete_credit_package: "is_admin db cur (\<lambda>_. delete_credit_package k db) = (r, db') \<Longrightarrow> acct_step db db'"
| update_credit_package:
    "is_admin db cur (\<lambda>_. update_credit_package flt k f price db) = (r, db') \<Longrightarrow> acct_step db db'"
| toggle_under_review: "is_admin db cur (\<lambda>adm. toggle_under_review adm u db) = (r, db') \<Longrightarrow> acct_step db db'"
| toggle_lock_user: "is_admin db cur (\<lambda>adm. toggle_lock_user adm u db) = (r, db') \<Longrightarrow> acct_step db db'"
| delete_user: "is_admin db cur (\<lambda>adm. delete_user adm u db) = (r, db') \<Longrightarrow> acct_step db db'"
| adjust_credits: "is_admin db cur (\<lambda>_. adjust_user_credits u f db) = (r, db') \<Longrightarrow> acct_step db db'"
| webhook: "stripe_webhook inp db = (r, db') \<Longrightarrow> acct_step db db'"
| one_time_checkout: "create_one_time_checkout_session u k cust sess db = (r, db') \<Longrightarrow> acct_step db db'"
| subscription_checkout: "create_checkout_session u k cust sess db = (r, db') \<Longrightarrow> acct_step db db'"

inductive acct_reach :: "accounts_db \<Rightarrow> bool" where
  start: "seed_accounts n empty_accounts = Inr db \<Longrightarrow> acct_reach db"
| step: "acct_reach db \<Longrightarrow> acct_step db db' \<Longrightarrow> acct_reach db'"

subsection \<open>The invariant in every reachable state\<close>

lemma is_admin_inv:
  assumes "is_admin db cur g = (r, db')" "accounts_inv db"
    and "\<And>u. g u = (r, db') \<Longrightarrow> accounts_inv db'"
  shows "accounts_inv db'"
  using assms by (auto simp: is_admin_def split: option.splits if_splits)

lemma acct_step_inv: "acct_step db db' \<Longrightarrow> accounts_inv db \<Longrightarrow> accounts_inv db'"
proof (induction rule: acct_step.induct)
  case (update_user_role db cur u f r db')
  then show ?case by (auto elim!: is_admin_inv dest: update_user_role_inv)
next
  case (create_role db cur flt f price r db')
  then show ?case by (auto elim!: is_admin_inv dest: create_role_inv)
next
  case (delete_role db cur k archive r db')
  then show ?case by (auto elim!: is_admin_inv dest: delete_role_inv)
next
  case (edit_role db cur flt k f stripe r db')
  then show ?case by (auto elim!: is_admin_inv dest: edit_role_inv)
next
  case (create_credit_package db cur flt f price r db')
  then show ?case by (auto elim!: is_admin_inv dest: create_credit_package_inv)
next
  case (delete_credit_package db cur k r db')
  then show ?case by (auto elim!: is_admin_inv dest: delete_credit_package_inv)
next
  case (update_credit_package db cur flt k f price r db')
  then show ?case by (auto elim!: is_admin_inv dest: update_credit_package_inv)
next
  case (toggle_under_review db cur u r db')
  then show ?case by (auto elim!: is_admin_inv dest: toggle_under_review_inv)
next
  case (toggle_lock_user db cur u r db')
  then show ?case by (auto elim!: is_admin_inv dest: toggle_lock_user_inv)
next
  case (delete_user db cur u r db')
  then show ?case by (auto elim!: is_admin_inv dest: delete_user_inv)
next
  case (adjust_credits db cur u f r db')
  then show ?case by (auto elim!: is_admin_inv dest: adjust_user_credits_inv)
next
  case (webhook inp db r db')
  then show ?case by (rule stripe_webhook_inv)
next
  case (one_time_checkout u k cust sess db r db')
  then show ?case by (cases r) (auto dest: create_one_time_checkout_session_inv)
next
  case (subscription_checkout u k cust sess db r db')
  then show ?case by (cases r) (auto dest: create_checkout_session_inv)
qed

text \<open>
  C25: The account tables stay well formed.  In every state reachable from
  the start-up rows of a fresh database by admin requests, webhook
  deliveries and checkouts, user, role and package ids are unique, role
  names are unique, and every user's role exists.
\<close>

theorem reachable_accounts_wellformed: "acct_reach db \<Longrightarrow> accounts_inv db"
  by (induction rule: acct_reach.induct) (auto intro: seed_accounts_inv acct_step_inv)

subsection \<open>Renaming the admin role\<close>

lemma edit_role_success:
  assumes "edit_role flt k f stripe db = (Redirect x, db')" "map_of (roles_tab db) k = Some r"
  shows "\<exists>r'. roles_tab db' = AList.update k r' (roles_tab db) \<and> users_tab db' = users_tab db \<and>
           role_name r' = (case form_get f ''role_name'' of None \<Rightarrow> role_name r | Some v \<Rightarrow> v)"
  using assms unfolding edit_role_def finish_def
  apply (cases stripe)
   apply (auto simp: Let_def elim!: bind_err_InrE split: sum.split_asm if_split_asm)
   apply ((rule exI, rule conjI, rule refl, simp)+)
  done

lemma unique_role_name:
  "distinct (map (role_name \<circ> snd) tab) \<Longrightarrow> (k1, x1) \<in> set tab \<Longrightarrow> (k2, x2) \<in> set tab \<Longrightarrow>
   role_name x1 = role_name x2 \<Longrightarrow> k1 = k2"
  unfolding distinct_map inj_on_def by (metis comp_apply snd_conv prod.inject)

text \<open>
  C26: The protected \<open>admin\<close> role can be renamed, and then nobody is an
  admin.  \<open>edit_role\<close> does not consult the role's \<open>protected\<close> flag: when an
  admin renames the role named \<open>admin\<close> to any other name, the request
  succeeds, and afterwards the \<open>is_admin\<close> guard redirects every request, so
  the back office is locked for everyone.
\<close>

theorem edit_role_renames_admin_locks_out:
  assumes "accounts_inv db" "map_of (roles_tab db) k = Some r" "role_name r = ''admin''"
    and "form_get f ''role_name'' = Some n" "n \<noteq> ''admin''"
    and "edit_role flt k f stripe db = (Redirect ''admin_views.role_management'', db')"
  shows "is_admin db' cur g = (Redirect ''index'', db')"
proof -
  obtain r' where roles': "roles_tab db' = AList.update k r' (roles_tab db)"
    and users': "users_tab db' = users_tab db" and name: "role_name r' = n"
    using edit_role_success [OF assms(6,2)] assms(4) by auto
  have inv': "accounts_inv db'" using assms(6,1) by (rule edit_role_inv)
  have no_admin: "role_name x \<noteq> ''admin''" if "map_of (roles_tab db') j = Some x" for j x
  proof (cases "j = k")
    case True
    with that roles' name assms(5) show ?thesis by (simp add: update_conv')
  next
    case False
    with that roles' have x: "map_of (roles_tab db) j = Some x" by (simp add: update_conv')
    have "distinct (map (role_name \<circ> snd) (roles_tab db))" using assms(1) by (simp add: accounts_inv_def)
    with map_of_SomeD [OF x] map_of_SomeD [OF assms(2)] assms(3) False show ?thesis
      using unique_role_name by fastforce
  qed
  have fk: "user_role db' a \<noteq> None" if "map_of (users_tab db') u = Some a" for u a
    using inv' map_of_SomeD [OF that]
    by (auto simp: accounts_inv_def user_role_def list_all_iff map_of_eq_None_iff)
  show ?thesis
  proof (cases cur)
    case (Some u)
    show ?thesis
    proof (cases "map_of (users_tab db') u")
      case (Some a)
      then obtain x where x: "user_role db' a = Some x" using fk by blast
      with no_admin [of "acct_role a" x] \<open>cur = Some u\<close> Some show ?thesis
        by (simp add: is_admin_def user_role_def)
    qed (simp add: is_admin_def Some)
  qed (simp add: is_admin_def)
qed

subsection \<open>Witnesses\<close>

lemma seed_fresh:
  "seed_accounts ''root'' empty_accounts =
     Inr \<lparr>users_tab = [(1, \<lparr>username = ''root'',
                             acct_credits = \<lparr>text_credits = 10000, image_credits = 1000, audio_credits = 1000\<rparr>,
                             acct_role = 1, under_review = False, is_locked = False,
                             stripe_customer = JNull, stripe_subscription = JNull\<rparr>)],
          roles_tab = [(1, admin_role), (2, plain_user_role)], packages_tab = [], revenue = [],
          story_owners = []\<rparr>"
  by (simp add: seed_accounts_def empty_accounts_def add_role_if_missing_def fresh_id_def admin_role_def
      plain_user_role_def)

theorem reachable_accounts_wellformed_witness:
  "\<exists>db. seed_accounts ''root'' empty_accounts = Inr db \<and> acct_reach db \<and> accounts_inv db"
  using seed_fresh acct_reach.start [OF seed_fresh] reachable_accounts_wellformed [OF acct_reach.start [OF seed_fresh]]
  by blast

theorem edit_role_renames_admin_locks_out_witness:
  "\<exists>db db'. seed_accounts ''root'' empty_accounts = Inr db \<and>
     edit_role (\<lambda>_. Inl (ValueError [])) 1 [(''role_name'', ''staff'')] (Inl (ValueError [])) db =
       (Redirect ''admin_views.role_management'', db') \<and>
     is_admin db' (Some 1) (\<lambda>_. (Redirect ''admin_views.role_management'', db')) = (Redirect ''index'', db')"
proof -
  obtain db where s: "seed_accounts ''root'' empty_accounts = Inr db" using seed_fresh by blast
  have inv: "accounts_inv db" using s by (rule seed_accounts_inv)
  have r: "map_of (roles_tab db) 1 = Some admin_role" using s seed_fresh by auto
  obtain db' where e: "edit_role (\<lambda>_. Inl (ValueError [])) 1 [(''role_name'', ''staff'')] (Inl (ValueError [])) db =
       (Redirect ''admin_views.role_management'', db')"
    using s seed_fresh
    by (auto simp: edit_role_def finish_def form_int_default_def form_float_default_def form_get_def
        commit_roles_def admin_role_def plain_user_role_def has_price_def Let_def)
  have "is_admin db' (Some 1) (\<lambda>_. (Redirect ''admin_views.role_management'', db')) = (Redirect ''index'', db')"
    by (rule edit_role_renames_admin_locks_out [OF inv r _ _ _ e]) (auto simp: admin_role_def form_get_def)
  with s e show ?thesis by blast
qed

end
