(* ===== verification/Auth.thy ===== *)
theory Auth
  imports Webhook
begin

text \<open>
  Authentication: registration, e-mail verification, login with its lockout,
  the password reset and the session cookie (\<open>src/views/auth.py\<close>,
  \<open>src/api/auth.py\<close>, \<open>get_current_user\<close>, \<open>is_valid_password\<close> and
  \<open>generate_verification_token\<close> of \<open>src/helpers.py\<close>, the admin user of
  \<open>src/app.py\<close>).  The columns of a \<open>User\<close> row are split in two: the account
  columns of theory \<open>Accounts\<close> (username, role, \<open>is_locked\<close>, ...) and the
  login columns below, in a second table under the same row id.  Times are
  seconds of \<open>datetime.utcnow()\<close>; a JWT is given by its claims, and a token
  that does not verify is \<open>None\<close>.  bcrypt is the pair of parameters
  \<open>bhash\<close> (\<open>generate_password_hash\<close>) and \<open>bcheck\<close> (\<open>check_password_hash\<close>).
\<close>

record login_cols =
  email :: string
  password_hash :: string
  is_verified :: bool
  failed_attempts :: nat
  last_failed_attempt :: "nat option"
  locked_until :: "nat option"
  last_login_ip :: "string option"

record auth_db =
  accts :: accounts_db
  logins :: "(uid \<times> login_cols) list"

record jwt =
  jwt_sub :: string
  jwt_action :: "string option"
  jwt_exp :: nat

subsection \<open>The password policy\<close>

text \<open>Python's \<open>\w\<close> on a character of the Latin-1 range: letters and digits
  as \<open>str.isalnum\<close> sees them, and the underscore.\<close>

definition py_word :: "char \<Rightarrow> bool" where
  "py_word c \<longleftrightarrow>
     (let n = (of_char c :: nat)
      in (48 \<le> n \<and> n \<le> 57) \<or> (65 \<le> n \<and> n \<le> 90) \<or> n = 95 \<or> (97 \<le> n \<and> n \<le> 122) \<or>
         n \<in> {170, 178, 179, 181, 185, 186, 188, 189, 190} \<or>
         (192 \<le> n \<and> n \<le> 255 \<and> n \<noteq> 215 \<and> n \<noteq> 247))"

definition py_ascii_lower :: "char \<Rightarrow> bool" where
  "py_ascii_lower c \<longleftrightarrow> (97 :: nat) \<le> of_char c \<and> (of_char c :: nat) \<le> 122"

definition py_ascii_upper :: "char \<Rightarrow> bool" where
  "py_ascii_upper c \<longleftrightarrow> (65 :: nat) \<le> of_char c \<and> (of_char c :: nat) \<le> 90"

text \<open>\<open>re.match(r"^(?=.*[a-z])(?=.*[A-Z])(?=.*\d)(?=.*[\W_]).{8,}$", password)\<close>.
  The dot does not match a newline, so the look-aheads and \<open>.{8,}\<close> read the
  first line \<open>l\<close>; \<open>$\<close> matches at the end or before a final newline; the class
  \<open>[\W_]\<close> also matches the newline that ends \<open>l\<close>.\<close>

definition is_valid_password :: "string \<Rightarrow> bool" where
  "is_valid_password p \<longleftrightarrow>
     (let l = takeWhile (\<lambda>c. c \<noteq> CHR 0x0A) p
      in (p = l \<or> p = l @ [CHR 0x0A]) \<and> 8 \<le> length l \<and>
         list_ex py_ascii_lower l \<and> list_ex py_ascii_upper l \<and> list_ex py_digit l \<and>
         list_ex (\<lambda>c. \<not> py_word c \<or> c = CHR ''_'') (take (Suc (length l)) p))"

subsection \<open>Tokens and the session\<close>

text \<open>\<open>decode_token\<close>: a verified token is refused once \<open>exp \<le> now\<close>.\<close>

definition decode_token :: "nat \<Rightarrow> jwt option \<Rightarrow> jwt option" where
  "decode_token now tok = (case tok of None \<Rightarrow> None | Some t \<Rightarrow> if now < jwt_exp t then Some t else None)"

text \<open>\<open>create_access_token(identity=str(user.id), ...)\<close>: the login cookie
  (the library's default lifetime of 15 minutes), the verification token
  (48 hours) and the password-reset token (24 hours).\<close>

definition access_token :: "uid \<Rightarrow> nat \<Rightarrow> jwt" where
  "access_token uid now = \<lparr>jwt_sub = nat_str uid, jwt_action = None, jwt_exp = now + 900\<rparr>"

definition generate_verification_token :: "uid \<Rightarrow> nat \<Rightarrow> jwt" where
  "generate_verification_token uid now =
     \<lparr>jwt_sub = nat_str uid, jwt_action = Some ''verify_email'', jwt_exp = now + 172800\<rparr>"

definition reset_token :: "uid \<Rightarrow> nat \<Rightarrow> jwt" where
  "reset_token uid now = \<lparr>jwt_sub = nat_str uid, jwt_action = Some ''reset_password'', jwt_exp = now + 86400\<rparr>"

text \<open>\<open>User.query.get(sub)\<close> with the token's string subject.\<close>

definition user_by_sub :: "string \<Rightarrow> auth_db \<Rightarrow> uid option" where
  "user_by_sub s db =
     (case find (\<lambda>(i, a). sql_int_eq (JStr s) i) (users_tab (accts db)) of None \<Rightarrow> None | Some (i, _) \<Rightarrow> Some i)"

text \<open>\<open>get_current_user()\<close>: any token that decodes and has a subject; its
  action claim is not read.\<close>

definition session_user :: "auth_db \<Rightarrow> nat \<Rightarrow> jwt option \<Rightarrow> uid option" where
  "session_user db now cookie =
     (case decode_token now cookie of
        None \<Rightarrow> None
      | Some t \<Rightarrow> if jwt_sub t = [] then None else user_by_sub (jwt_sub t) db)"

definition set_login :: "uid \<Rightarrow> login_cols \<Rightarrow> auth_db \<Rightarrow> auth_db" where
  "set_login uid lc db = db\<lparr>logins := AList.update uid lc (logins db)\<rparr>"

text \<open>\<open>User.query.filter_by(username=username).first()\<close>, with the row's login
  columns.\<close>

definition find_user :: "string \<Rightarrow> auth_db \<Rightarrow> (uid \<times> account \<times> login_cols) option" where
  "find_user u db =
     (case find (\<lambda>(i, a). username a = u) (users_tab (accts db)) of
        None \<Rightarrow> None
      | Some (i, a) \<Rightarrow> (case map_of (logins db) i of None \<Rightarrow> None | Some lc \<Rightarrow> Some (i, a, lc)))"

subsection \<open>The handlers\<close>

text \<open>\<open>register()\<close> (POST) under \<open>@is_unauthenticated\<close>: the username is
  lower-cased (a missing one raises \<open>AttributeError\<close>), must be new, and so
  must the e-mail (\<open>filter_by(email=None)\<close> matches no row); the password
  must pass the policy (\<open>None\<close> raises \<open>TypeError\<close> in \<open>re.match\<close>); the new
  row takes the role \<open>user\<close> and the column defaults, and a missing e-mail
  fails its \<open>NOT NULL\<close> at the commit.  After the commit the verification
  token is mailed: \<open>mail\<close> is the outcome of \<open>send_verification_email\<close>, and
  the second component of the answer is the token the user receives.\<close>

definition new_account :: "string \<Rightarrow> nat \<Rightarrow> account" where
  "new_account u rid =
     \<lparr>username = u, acct_credits = \<lparr>text_credits = 0, image_credits = 0, audio_credits = 0\<rparr>,
      acct_role = rid, under_review = False, is_locked = False,
      stripe_customer = JNull, stripe_subscription = JNull\<rparr>"

definition new_login :: "string \<Rightarrow> string \<Rightarrow> bool \<Rightarrow> login_cols" where
  "new_login em h verified =
     \<lparr>email = em, password_hash = h, is_verified = verified, failed_attempts = 0,
      last_failed_attempt = None, locked_until = None, last_login_ip = None\<rparr>"

definition register ::
  "bool \<Rightarrow> (string \<Rightarrow> string) \<Rightarrow> py_error + unit \<Rightarrow> nat \<Rightarrow> jwt option \<Rightarrow> form \<Rightarrow> auth_db \<Rightarrow>
   (reply \<times> jwt option) \<times> auth_db" where
  "register disabled bhash mail now cookie f db =
     (if session_user db now cookie \<noteq> None then ((Redirect ''dashboard'', None), db)
      else if disabled then ((Answer 503 JNull, None), db)
      else case form_get f ''username'' of
        None \<Rightarrow> ((Failed (AttributeError ''lower''), None), db)
      | Some u0 \<Rightarrow>
          (let u = map py_lower u0; e = form_get f ''email'' in
           if list_ex (\<lambda>(i, a). username a = u) (users_tab (accts db))
           then ((Redirect ''auth_views.register'', None), db)
           else if list_ex (\<lambda>(i, lc). Some (email lc) = e) (logins db)
           then ((Redirect ''auth_views.register'', None), db)
           else case form_get f ''password'' of
             None \<Rightarrow> ((Failed (TypeError ''expected string or bytes-like object''), None), db)
           | Some p \<Rightarrow>
               if \<not> is_valid_password p then ((Redirect ''auth_views.register'', None), db)
               else case find (\<lambda>(i, r). role_name r = ''user'') (roles_tab (accts db)) of
                 None \<Rightarrow> ((Redirect ''auth_views.register'', None), db)
               | Some (rid, _) \<Rightarrow>
                   (case e of
                      None \<Rightarrow> ((Failed IntegrityError, None), db)
                    | Some em \<Rightarrow>
                        (let uid = fresh_id (users_tab (accts db));
                             db1 = \<lparr>accts = (accts db)\<lparr>users_tab := users_tab (accts db) @ [(uid, new_account u rid)]\<rparr>,
                                    logins = logins db @ [(uid, new_login em (bhash p) False)]\<rparr>
                         in case mail of
                              Inl err \<Rightarrow> ((Failed err, None), db1)
                            | Inr _ \<Rightarrow> ((Redirect ''auth_views.login'', Some (generate_verification_token uid now)), db1)))))"

text \<open>\<open>verify_email(token)\<close>: the whole body is in \<open>try\<close>, so a token that
  does not decode redirects to the login page.\<close>

definition verify_email :: "nat \<Rightarrow> jwt option \<Rightarrow> auth_db \<Rightarrow> reply \<times> auth_db" where
  "verify_email now tok db =
     (case decode_token now tok of
        None \<Rightarrow> (Redirect ''auth_views.login'', db)
      | Some t \<Rightarrow>
          if jwt_action t \<noteq> Some ''verify_email'' then (Redirect ''auth_views.login'', db)
          else case user_by_sub (jwt_sub t) db of
            None \<Rightarrow> (Redirect ''auth_views.register'', db)
          | Some uid \<Rightarrow>
              (Redirect ''auth_views.login'',
               db\<lparr>logins := AList.map_entry uid (\<lambda>lc. lc\<lparr>is_verified := True\<rparr>) (logins db)\<rparr>))"

text \<open>\<open>forgot_password()\<close> (POST): the reset token is mailed to the first user
  with the given e-mail.\<close>

definition forgot_password ::
  "py_error + unit \<Rightarrow> nat \<Rightarrow> form \<Rightarrow> auth_db \<Rightarrow> (reply \<times> jwt option) \<times> auth_db" where
  "forgot_password mail now f db =
     (case find (\<lambda>(i, lc). Some (email lc) = form_get f ''email'') (logins db) of
        None \<Rightarrow> ((Redirect ''auth_views.forgot_password'', None), db)
      | Some (uid, _) \<Rightarrow>
          (case mail of
             Inl e \<Rightarrow> ((Failed e, None), db)
           | Inr _ \<Rightarrow> ((Redirect ''auth_views.login'', Some (reset_token uid now)), db)))"

text \<open>\<open>reset_password(token)\<close> (POST): the token checks are in \<open>try\<close>; the
  policy check of the new password is not (\<open>None\<close> raises).\<close>

definition reset_password ::
  "(string \<Rightarrow> string) \<Rightarrow> nat \<Rightarrow> jwt option \<Rightarrow> form \<Rightarrow> auth_db \<Rightarrow> reply \<times> auth_db" where
  "reset_password bhash now tok f db =
     (case decode_token now tok of
        None \<Rightarrow> (Redirect ''auth_views.forgot_password'', db)
      | Some t \<Rightarrow>
          if jwt_action t \<noteq> Some ''reset_password'' then (Redirect ''auth_views.login'', db)
          else case user_by_sub (jwt_sub t) db of
            None \<Rightarrow> (Redirect ''auth_views.register'', db)
          | Some uid \<Rightarrow>
              (case form_get f ''password'' of
                 None \<Rightarrow> (Failed (TypeError ''expected string or bytes-like object''), db)
               | Some p \<Rightarrow>
                   if \<not> is_valid_password p then (Redirect ''auth_views.reset_password'', db)
                   else (Redirect ''auth_views.login'',
                         db\<lparr>logins := AList.map_entry uid (\<lambda>lc. lc\<lparr>password_hash := bhash p\<rparr>) (logins db)\<rparr>)))"

text \<open>\<open>login()\<close> (POST) under \<open>@is_unauthenticated\<close>.  The answer carries the
  flashed message and the access-token cookie.  A failure more than 24 hours
  after the last one resets the counter first (and is committed); a locked
  account (the admin flag, or \<open>now < locked_until\<close>) is refused before the
  password is checked; the fifth consecutive failure locks the account for
  15 minutes.\<close>

definition lockout_msg :: string where
  "lockout_msg = ''Your account has been locked for 15 minutes due to too many failed login attempts.''"

definition bad_password_msg :: string where
  "bad_password_msg = ''Login Failed. Please check your credentials.''"

definition login ::
  "(string \<Rightarrow> string \<Rightarrow> bool) \<Rightarrow> nat \<Rightarrow> string \<Rightarrow> jwt option \<Rightarrow> form \<Rightarrow> auth_db \<Rightarrow>
   (reply \<times> string option \<times> jwt option) \<times> auth_db" where
  "login bcheck now ip cookie f db =
     (if session_user db now cookie \<noteq> None then ((Redirect ''dashboard'', None, None), db)
      else case form_get f ''username'' of
        None \<Rightarrow> ((Failed (AttributeError ''lower''), None, None), db)
      | Some u0 \<Rightarrow>
          (case find_user (map py_lower u0) db of
             None \<Rightarrow> ((Redirect ''auth_views.login'', Some ''Login Failed'', None), db)
           | Some (uid, a, lc) \<Rightarrow>
               if \<not> is_verified lc
               then ((Redirect ''auth_views.login'', Some ''Please verify your account'', None), db)
               else
                 (let lc1 = (case last_failed_attempt lc of
                               Some l \<Rightarrow> if 86400 < now - l then lc\<lparr>failed_attempts := 0\<rparr> else lc
                             | None \<Rightarrow> lc)
                  in if is_locked a \<or> (case locked_until lc1 of Some t \<Rightarrow> now < t | None \<Rightarrow> False)
                  then ((Redirect ''auth_views.login'',
                         Some ''Your account is locked. Please contact support or try again later.'', None),
                        set_login uid lc1 db)
                  else case form_get f ''password'' of
                    None \<Rightarrow> ((Failed (TypeError ''password''), None, None), set_login uid lc1 db)
                  | Some p \<Rightarrow>
                      if bcheck (password_hash lc1) p
                      then ((Redirect ''news'', None, Some (access_token uid now)),
                            set_login uid (lc1\<lparr>failed_attempts := 0, last_failed_attempt := None,
                                               locked_until := None, last_login_ip := Some ip\<rparr>) db)
                      else if 5 \<le> Suc (failed_attempts lc1)
                      then ((Redirect ''auth_views.login'', Some lockout_msg, None),
                            set_login uid (lc1\<lparr>failed_attempts := Suc (failed_attempts lc1),
                                               last_failed_attempt := Some now,
                                               locked_until := Some (now + 900)\<rparr>) db)
                      else ((Redirect ''auth_views.login'', Some bad_password_msg, None),
                            set_login uid (lc1\<lparr>failed_attempts := Suc (failed_attempts lc1),
                                               last_failed_attempt := Some now\<rparr>) db))))"

text \<open>A run of login attempts \<open>(now, form)\<close> from one address, without a
  cookie; the flashed messages in order.\<close>

fun login_run ::
  "(string \<Rightarrow> string \<Rightarrow> bool) \<Rightarrow> string \<Rightarrow> (nat \<times> form) list \<Rightarrow> auth_db \<Rightarrow> string option list \<times> auth_db" where
  "login_run bcheck ip [] db = ([], db)"
| "login_run bcheck ip ((t, f) # atts) db =
     (let ((r, m, c), db1) = login bcheck t ip None f db;
          (ms, db2) = login_run bcheck ip atts db1
      in (m # ms, db2))"

text \<open>The admin user of the start-up block (\<open>src/app.py\<close>): created
  verified, with the e-mail \<open>admin@example.com\<close> (\<open>UNIQUE\<close>) and the
  configured password, when no user is named \<open>admin\<close>.\<close>

definition seed_auth :: "(string \<Rightarrow> string) \<Rightarrow> string \<Rightarrow> string \<Rightarrow> auth_db \<Rightarrow> py_error + auth_db" where
  "seed_auth bhash admin_name admin_pw db =
     bind_err (seed_accounts admin_name (accts db)) (\<lambda>a.
       if list_ex (\<lambda>(u, x). username x = ''admin'') (users_tab (accts db)) then Inr (db\<lparr>accts := a\<rparr>)
       else if list_ex (\<lambda>(i, lc). email lc = ''admin@example.com'') (logins db) then Inl IntegrityError
       else Inr \<lparr>accts = a, logins = logins db @
                   [(fresh_id (users_tab (accts db)), new_login ''admin@example.com'' (bhash admin_pw) True)]\<rparr>)"

text \<open>\<open>resend_verification()\<close> under \<open>@is_unauthenticated\<close>: the username
  of the query string, compared as given.\<close>

definition resend_verification ::
  "py_error + unit \<Rightarrow> nat \<Rightarrow> jwt option \<Rightarrow> string option \<Rightarrow> auth_db \<Rightarrow> (reply \<times> jwt option) \<times> auth_db" where
  "resend_verification mail now cookie uname db =
     (if session_user db now cookie \<noteq> None then ((Redirect ''dashboard'', None), db)
      else case uname of
        None \<Rightarrow> ((Redirect ''auth_views.login'', None), db)
      | Some n \<Rightarrow>
          if n = [] then ((Redirect ''auth_views.login'', None), db)
          else case find (\<lambda>(i, a). username a = n) (users_tab (accts db)) of
            None \<Rightarrow> ((Redirect ''auth_views.login'', None), db)
          | Some (uid, _) \<Rightarrow>
              (case mail of
                 Inl e \<Rightarrow> ((Failed e, None), db)
               | Inr _ \<Rightarrow> ((Redirect ''auth_views.login'', Some (generate_verification_token uid now)), db)))"

text \<open>Every login row belongs to a user row.\<close>

definition auth_inv :: "auth_db \<Rightarrow> bool" where
  "auth_inv db \<longleftrightarrow> fst ` set (logins db) \<subseteq> fst ` set (users_tab (accts db))"

text \<open>The state of a guessing run inside a window of 15 minutes from \<open>start\<close>:
  \<open>k\<close> wrong passwords checked so far, each counted by the row, the last one
  inside the window, and a lock past the window once the count reaches 5.\<close>

definition guess_inv :: "nat \<Rightarrow> nat \<Rightarrow> login_cols \<Rightarrow> bool" where
  "guess_inv start k lc \<longleftrightarrow>
     k \<le> 5 \<and> (0 < k \<longrightarrow> k \<le> failed_attempts lc \<and> (\<exists>l. last_failed_attempt lc = Some l \<and> start \<le> l) \<and>
                         (5 \<le> failed_attempts lc \<longrightarrow> (\<exists>u. locked_until lc = Some u \<and> start + 900 \<le> u)))"

definition wrong_password_flash :: "string option \<Rightarrow> bool" where
  "wrong_password_flash m \<longleftrightarrow> m = Some bad_password_msg \<or> m = Some lockout_msg"

text \<open>A database after the start-up block: the two roles and the admin
  user, whose password hashes to itself (\<open>bhash = id\<close>).\<close>

definition example_admin_login :: login_cols where
  "example_admin_login = new_login ''admin@example.com'' ''Adm1n!pass'' True"

definition example_auth :: auth_db where
  "example_auth =
     \<lparr>accts = \<lparr>users_tab = [(1, \<lparr>username = ''admin'',
                                   acct_credits = \<lparr>text_credits = 10000, image_credits = 1000, audio_credits = 1000\<rparr>,
                                   acct_role = 1, under_review = False, is_locked = False,
                                   stripe_customer = JNull, stripe_subscription = JNull\<rparr>)],
                roles_tab = [(1, admin_role), (2, plain_user_role)], packages_tab = [], revenue = [],
                story_owners = []\<rparr>,
      logins = [(1, example_admin_login)]\<rparr>"

definition example_signup :: form where
  "example_signup = [(''username'', ''Alice''), (''password'', ''Secret#99''), (''email'', ''alice@example.org'')]"

definition example_guesses :: "(nat \<times> form) list" where
  "example_guesses = map (\<lambda>t. (t, [(''username'', ''Admin''), (''password'', ''letmein'')])) [100, 200, 300, 400, 500, 600, 700]"

subsection \<open>Lemmas on sessions and the login columns\<close>

lemma session_user_no_cookie [simp]: "session_user db now None = None"
  by (simp add: session_user_def decode_token_def)

lemma find_user_set_login:
  "find_user u db = Some (uid, a, lc) \<Longrightarrow> find_user u (set_login uid lc' db) = Some (uid, a, lc')"
  by (auto simp: find_user_def set_login_def update_conv' split: option.splits)

lemma login_guess_step:
  assumes fu: "find_user (map py_lower n) db = Some (uid, acc, lc)"
    and f: "form_get f ''username'' = Some n"
    and pw: "\<forall>p. form_get f ''password'' = Some p \<longrightarrow> \<not> bcheck (password_hash lc) p"
    and t: "start \<le> t" "t < start + 900"
    and g: "guess_inv start k lc"
    and l: "login bcheck t ip None f db = ((r, m, c), db')"
  shows "\<exists>lc'. find_user (map py_lower n) db' = Some (uid, acc, lc') \<and> password_hash lc' = password_hash lc \<and>
           guess_inv start (if wrong_password_flash m then Suc k else k) lc'"
proof -
  define lc1 where "lc1 = (case last_failed_attempt lc of
                             Some l \<Rightarrow> if 86400 < t - l then lc\<lparr>failed_attempts := 0\<rparr> else lc
                           | None \<Rightarrow> lc)"
  have same: "0 < k \<Longrightarrow> lc1 = lc"
    using g t by (auto simp: guess_inv_def lc1_def)
  have h1: "password_hash lc1 = password_hash lc"
    by (simp add: lc1_def split: option.split)
  have g1: "guess_inv start k lc1"
    using g same by (cases "k = 0") (auto simp: guess_inv_def)
  have msgs: "\<not> wrong_password_flash (Some ''Please verify your account'')"
    "\<not> wrong_password_flash (Some ''Your account is locked. Please contact support or try again later.'')"
    "\<not> wrong_password_flash None" "wrong_password_flash (Some lockout_msg)" "wrong_password_flash (Some bad_password_msg)"
    by (simp_all add: wrong_password_flash_def lockout_msg_def bad_password_msg_def)
  show ?thesis
  proof (cases "is_verified lc")
    case False
    with l fu f show ?thesis by (auto simp: login_def msgs g)
  next
    case ver: True
    show ?thesis
    proof (cases "is_locked acc \<or> (case locked_until lc1 of Some u \<Rightarrow> t < u | None \<Rightarrow> False)")
      case True
      with l fu f ver have "m = Some ''Your account is locked. Please contact support or try again later.''"
        and "db' = set_login uid lc1 db"
        by (simp_all add: login_def lc1_def [symmetric] Let_def)
      with fu h1 g1 show ?thesis by (auto simp: find_user_set_login msgs)
    next
      case unl: False
      have k5: "k < 5" if "form_get f ''password'' = Some p" for p
      proof (rule ccontr)
        assume "\<not> k < 5"
        with g1 have "5 \<le> failed_attempts lc1" "\<exists>u. locked_until lc1 = Some u \<and> start + 900 \<le> u"
          by (auto simp: guess_inv_def)
        with unl t show False by auto
      qed
      show ?thesis
      proof (cases "form_get f ''password''")
        case None
        with l fu f ver unl have "m = None" "db' = set_login uid lc1 db"
          by (simp_all add: login_def lc1_def [symmetric] Let_def)
        with fu h1 g1 show ?thesis by (auto simp: find_user_set_login msgs)
      next
        case (Some p)
        with pw h1 have wrong: "\<not> bcheck (password_hash lc1) p" by simp
        have kf: "k \<le> failed_attempts lc1" using g1 by (cases "k = 0") (auto simp: guess_inv_def)
        let ?lc2 = "lc1\<lparr>failed_attempts := Suc (failed_attempts lc1), last_failed_attempt := Some t\<rparr>"
        show ?thesis
        proof (cases "5 \<le> Suc (failed_attempts lc1)")
          case True
          with l fu f ver unl Some wrong
          have "m = Some lockout_msg" "db' = set_login uid (?lc2\<lparr>locked_until := Some (t + 900)\<rparr>) db"
            by (simp_all add: login_def lc1_def [symmetric] Let_def)
          with fu h1 k5 [OF Some] kf t show ?thesis
            by (auto simp: find_user_set_login msgs guess_inv_def)
        next
          case False
          with l fu f ver unl Some wrong
          have "m = Some bad_password_msg" "db' = set_login uid ?lc2 db"
            by (simp_all add: login_def lc1_def [symmetric] Let_def)
          with fu h1 k5 [OF Some] kf t False show ?thesis
            by (auto simp: find_user_set_login msgs guess_inv_def)
        qed
      qed
    qed
  qed
qed

lemma login_run_guesses:
  assumes "find_user (map py_lower n) db = Some (uid, acc, lc)" "guess_inv start k lc"
    and "\<forall>(t, f) \<in> set atts. start \<le> t \<and> t < start + 900 \<and> form_get f ''username'' = Some n \<and>
           (\<forall>p. form_get f ''password'' = Some p \<longrightarrow> \<not> bcheck (password_hash lc) p)"
  shows "k + length (filter wrong_password_flash (fst (login_run bcheck ip atts db))) \<le> 5"
  using assms
proof (induction atts arbitrary: db lc k)
  case Nil
  then show ?case by (simp add: guess_inv_def)
next
  case (Cons tf atts)
  obtain t f where tf: "tf = (t, f)" by (cases tf)
  obtain r m c db1 where l: "login bcheck t ip None f db = ((r, m, c), db1)" by (metis prod.exhaust)
  from Cons.prems tf have "form_get f ''username'' = Some n" "start \<le> t" "t < start + 900"
    "\<forall>p. form_get f ''password'' = Some p \<longrightarrow> \<not> bcheck (password_hash lc) p" by auto
  from login_guess_step [OF Cons.prems(1) this(1) this(4) this(2,3) Cons.prems(2) l]
  obtain lc' where lc': "find_user (map py_lower n) db1 = Some (uid, acc, lc')"
    "password_hash lc' = password_hash lc" "guess_inv start (if wrong_password_flash m then Suc k else k) lc'"
    by blast
  have "(if wrong_password_flash m then Suc k else k) +
        length (filter wrong_password_flash (fst (login_run bcheck ip atts db1))) \<le> 5"
    using Cons.IH [OF lc'(1) lc'(3)] Cons.prems(3) lc'(2) by simp
  moreover obtain ms db2 where "login_run bcheck ip atts db1 = (ms, db2)" by (metis prod.exhaust)
  ultimately show ?case by (simp add: tf l split: if_splits)
qed

text \<open>
  C29: The lockout bounds password guessing: whatever the state of an
  account, a run of login attempts on it inside any window of 15 minutes,
  none with its password, has at most five passwords checked (answered
  with the failed-login or the lockout message).
\<close>

theorem lockout_bounds_guessing:
  assumes "find_user (map py_lower n) db = Some (uid, acc, lc)"
    and "\<forall>(t, f) \<in> set atts. start \<le> t \<and> t < start + 900 \<and> form_get f ''username'' = Some n \<and>
           (\<forall>p. form_get f ''password'' = Some p \<longrightarrow> \<not> bcheck (password_hash lc) p)"
  shows "length (filter wrong_password_flash (fst (login_run bcheck ip atts db))) \<le> 5"
proof -
  have "guess_inv start 0 lc" by (simp add: guess_inv_def)
  from login_run_guesses [where n = n and start = start and atts = atts and bcheck = bcheck, OF assms(1) this assms(2)]
  show ?thesis by simp
qed

lemma sql_int_eq_nat_str [simp]: "sql_int_eq (JStr (nat_str n)) i \<longleftrightarrow> i = n"
  by (auto dest: nat_str_inj simp del: nat_str.simps)

lemma user_by_sub_nat_str:
  "uid \<in> fst ` set (users_tab (accts db)) \<Longrightarrow> user_by_sub (nat_str uid) db = Some uid"
proof -
  let ?P = "\<lambda>(i :: nat, a :: account). sql_int_eq (JStr (nat_str uid)) i"
  assume "uid \<in> fst ` set (users_tab (accts db))"
  then obtain a0 where "(uid, a0) \<in> set (users_tab (accts db))" by force
  then have "\<exists>x\<in>set (users_tab (accts db)). ?P x" by (intro bexI [of _ "(uid, a0)"]) simp_all
  then obtain i a where f: "find ?P (users_tab (accts db)) = Some (i, a)"
    by (metis find_None_iff2 not_Some_eq surj_pair)
  then have "i = uid" by (auto dest!: find_Some_iff [THEN iffD1] simp del: sql_int_eq.simps nat_str.simps)
  with f show ?thesis by (simp add: user_by_sub_def del: sql_int_eq.simps)
qed

lemma session_user_access_token:
  "uid \<in> fst ` set (users_tab (accts db)) \<Longrightarrow> t < now + 900 \<Longrightarrow>
   session_user db t (Some (access_token uid now)) = Some uid"
  using nat_str_digits [of uid]
  by (simp add: session_user_def decode_token_def access_token_def user_by_sub_nat_str del: nat_str.simps)

text \<open>What a successful registration did.\<close>

lemma register_success:
  assumes "register False bhash mail now None f db = ((Redirect ''auth_views.login'', Some tok), db1)"
  shows "\<exists>u0 p em rid r. form_get f ''username'' = Some u0 \<and> form_get f ''password'' = Some p \<and>
           form_get f ''email'' = Some em \<and> is_valid_password p \<and>
           \<not> list_ex (\<lambda>(i, a). username a = map py_lower u0) (users_tab (accts db)) \<and>
           find (\<lambda>(i, r). role_name r = ''user'') (roles_tab (accts db)) = Some (rid, r) \<and>
           tok = generate_verification_token (fresh_id (users_tab (accts db))) now \<and>
           db1 = \<lparr>accts = (accts db)\<lparr>users_tab := users_tab (accts db) @
                    [(fresh_id (users_tab (accts db)), new_account (map py_lower u0) rid)]\<rparr>,
                  logins = logins db @ [(fresh_id (users_tab (accts db)), new_login em (bhash p) False)]\<rparr>"
  using assms unfolding register_def Let_def
  by (auto split: option.splits if_splits sum.splits prod.splits)

lemma find_append_new:
  "\<not> list_ex P xs \<Longrightarrow> P x \<Longrightarrow> find P (xs @ [x]) = Some x"
  by (induction xs) auto

lemma map_of_append_new:
  "k \<notin> fst ` set al \<Longrightarrow> map_of (al @ [(k, v)]) k = Some v"
  by (induction al) auto

text \<open>
  C30: Registration, e-mail verification and login compose: after a
  successful registration, the verification link it mails is followed in
  time, and the user logs in with the same username (in any case) and
  password; the login succeeds and its cookie names the new user.
\<close>

theorem register_verify_login:
  assumes inv: "auth_inv db"
    and reg: "register False bhash mail now None f db = ((Redirect ''auth_views.login'', Some tok), db1)"
    and ver: "verify_email now' (Some tok) db1 = (r, db2)" and tm: "now' < now + 172800"
    and u: "map py_lower ` set_option (form_get g ''username'') = map py_lower ` set_option (form_get f ''username'')"
    and p: "form_get g ''password'' = form_get f ''password''"
    and bc: "\<forall>p. bcheck (bhash p) p"
  shows "r = Redirect ''auth_views.login'' \<and>
         (\<exists>uid db3. login bcheck t ip None g db2 = ((Redirect ''news'', None, Some (access_token uid t)), db3) \<and>
                   session_user db3 t (Some (access_token uid t)) = Some uid)"
proof -
  from register_success [OF reg] obtain u0 pw em rid where
    f: "form_get f ''username'' = Some u0" "form_get f ''password'' = Some pw" and
    new: "\<not> list_ex (\<lambda>(i, a). username a = map py_lower u0) (users_tab (accts db))" and
    tok: "tok = generate_verification_token (fresh_id (users_tab (accts db))) now" and
    db1: "db1 = \<lparr>accts = (accts db)\<lparr>users_tab := users_tab (accts db) @
                    [(fresh_id (users_tab (accts db)), new_account (map py_lower u0) rid)]\<rparr>,
                  logins = logins db @ [(fresh_id (users_tab (accts db)), new_login em (bhash pw) False)]\<rparr>"
    by blast
  define uid where "uid = fresh_id (users_tab (accts db))"
  have uid_new: "uid \<notin> fst ` set (logins db)"
    using inv fresh_id_notin [of "users_tab (accts db)"] unfolding auth_inv_def uid_def by blast
  have in1: "uid \<in> fst ` set (users_tab (accts db1))" by (simp add: db1 uid_def)
  have v: "r = Redirect ''auth_views.login''"
    and db2: "db2 = db1\<lparr>logins := AList.map_entry uid (\<lambda>lc. lc\<lparr>is_verified := True\<rparr>) (logins db1)\<rparr>"
    using ver tm user_by_sub_nat_str [OF in1]
    by (simp_all add: verify_email_def decode_token_def tok generate_verification_token_def uid_def
                 del: nat_str.simps)
  have "map_of (logins db1) uid = Some (new_login em (bhash pw) False)"
    using uid_new by (simp add: db1 uid_def [symmetric] map_of_append_new del: map_of_append)
  then have lc2: "map_of (logins db2) uid = Some (new_login em (bhash pw) True)"
    by (simp add: db2 map_of_map_entry new_login_def)
  have fu: "find_user (map py_lower u0) db2 = Some (uid, new_account (map py_lower u0) rid, new_login em (bhash pw) True)"
    using new lc2 by (simp add: find_user_def db2 db1 uid_def [symmetric] find_append_new new_account_def)
  obtain u1 where g: "form_get g ''username'' = Some u1" "map py_lower u1 = map py_lower u0"
    using u f by (cases "form_get g ''username''") auto
  let ?db3 = "set_login uid ((new_login em (bhash pw) True)\<lparr>failed_attempts := 0, last_failed_attempt := None,
                               locked_until := None, last_login_ip := Some ip\<rparr>) db2"
  have l: "login bcheck t ip None g db2 = ((Redirect ''news'', None, Some (access_token uid t)), ?db3)"
    using g fu p f bc by (simp add: login_def new_login_def new_account_def)
  have "uid \<in> fst ` set (users_tab (accts ?db3))" using in1 by (simp add: set_login_def db2)
  from session_user_access_token [OF this, of t t] l v show ?thesis by auto
qed

text \<open>
  C31: The password-reset link is a session credential: the token that
  \<open>forgot_password\<close> mails for an address opens, for 24 hours, a session of
  the user with that address through \<open>get_current_user\<close>, which reads neither
  the token's action claim nor the account's lock, lockout or verification.
\<close>

theorem reset_link_opens_session:
  assumes inv: "auth_inv db"
    and fp: "forgot_password mail now f db = ((r, Some tok), db')" and tm: "t < now + 86400"
  shows "\<exists>uid lc. (uid, lc) \<in> set (logins db) \<and> form_get f ''email'' = Some (email lc) \<and>
                  db' = db \<and> session_user db' t (Some tok) = Some uid"
proof -
  from fp obtain uid lc where
    fd: "find (\<lambda>(i, lc). Some (email lc) = form_get f ''email'') (logins db) = Some (uid, lc)"
    and tok: "tok = reset_token uid now" and db': "db' = db"
    by (auto simp: forgot_password_def split: option.splits sum.splits)
  from fd have mem: "(uid, lc) \<in> set (logins db)" by (rule find_in_set)
  from fd have em: "form_get f ''email'' = Some (email lc)"
    by (auto dest!: find_Some_iff [THEN iffD1])
  from mem inv have "uid \<in> fst ` set (users_tab (accts db))" by (force simp: auth_inv_def)
  with tm nat_str_digits [of uid] have "session_user db t (Some tok) = Some uid"
    by (simp add: session_user_def decode_token_def tok reset_token_def user_by_sub_nat_str del: nat_str.simps)
  with mem em db' show ?thesis by blast
qed

subsection \<open>The handlers keep every login row with its user row\<close>

lemma auth_inv_same_keys:
  "auth_inv db \<Longrightarrow> fst ` set L = fst ` set (logins db) \<Longrightarrow> auth_inv (db\<lparr>logins := L\<rparr>)"
  by (simp add: auth_inv_def)

lemma auth_inv_append:
  "auth_inv db \<Longrightarrow>
   auth_inv \<lparr>accts = (accts db)\<lparr>users_tab := users_tab (accts db) @ [(k, a)]\<rparr>, logins = logins db @ [(k, l)]\<rparr>"
  by (auto simp: auth_inv_def)

lemma register_auth_inv:
  "auth_inv db \<Longrightarrow> register dis bhash mail now cookie f db = (res, db') \<Longrightarrow> auth_inv db'"
  unfolding register_def Let_def
  by (auto split: if_splits option.splits sum.splits prod.splits intro: auth_inv_append)

lemma verify_email_auth_inv:
  "auth_inv db \<Longrightarrow> verify_email now tok db = (r, db') \<Longrightarrow> auth_inv db'"
  unfolding verify_email_def
  by (auto split: if_splits option.splits intro: auth_inv_same_keys [OF _ dom_map_entry])

lemma reset_password_auth_inv:
  "auth_inv db \<Longrightarrow> reset_password bhash now tok f db = (r, db') \<Longrightarrow> auth_inv db'"
  unfolding reset_password_def
  by (auto split: if_splits option.splits intro: auth_inv_same_keys [OF _ dom_map_entry])

lemma forgot_password_keeps:
  "forgot_password mail now f db = (res, db') \<Longrightarrow> db' = db"
  by (auto simp: forgot_password_def split: option.splits sum.splits)

lemma set_login_auth_inv:
  assumes "auth_inv db" "find_user u db = Some (uid, a, lc)"
  shows "auth_inv (set_login uid lc' db)"
proof -
  from assms(2) have "map_of (logins db) uid = Some lc"
    by (auto simp: find_user_def split: option.splits)
  then have "uid \<in> fst ` set (logins db)" by (metis map_of_eq_None_iff option.distinct(1))
  with assms(1) show ?thesis by (auto simp: auth_inv_def set_login_def dom_update)
qed

lemma login_auth_inv:
  "auth_inv db \<Longrightarrow> login bcheck now ip cookie f db = (res, db') \<Longrightarrow> auth_inv db'"
  unfolding login_def Let_def
  by (auto split: if_splits option.splits elim: set_login_auth_inv)


lemma add_role_users [simp]: "users_tab (add_role_if_missing r db) = users_tab db"
  by (simp add: add_role_if_missing_def)

lemma seed_accounts_users:
  "seed_accounts n A = Inr A' \<Longrightarrow>
   fst ` set (users_tab A) \<subseteq> fst ` set (users_tab A') \<and>
   (\<not> list_ex (\<lambda>(u, x). username x = ''admin'') (users_tab A) \<longrightarrow>
      fresh_id (users_tab A) \<in> fst ` set (users_tab A'))"
  by (auto simp: seed_accounts_def Let_def split: if_splits)

lemma seed_auth_inv:
  assumes "auth_inv db" "seed_auth bhash n pw db = Inr db'"
  shows "auth_inv db'"
proof -
  from assms(2) obtain a where a: "seed_accounts n (accts db) = Inr a"
    by (cases "seed_accounts n (accts db)") (simp_all add: seed_auth_def)
  note u = seed_accounts_users [OF a]
  show ?thesis
  proof (cases "list_ex (\<lambda>(u, x). username x = ''admin'') (users_tab (accts db))")
    case True
    with assms a have "db' = db\<lparr>accts := a\<rparr>" by (simp add: seed_auth_def)
    with assms(1) u show ?thesis by (auto simp: auth_inv_def)
  next
    case False
    with assms a have "db' = \<lparr>accts = a, logins = logins db @
                   [(fresh_id (users_tab (accts db)), new_login ''admin@example.com'' (bhash pw) True)]\<rparr>"
      by (simp add: seed_auth_def split: if_splits)
    with assms(1) u False show ?thesis by (auto simp: auth_inv_def)
  qed
qed

text \<open>The newline that may end a password counts as its special character.\<close>

lemma password_newline_is_special:
  "is_valid_password (''Abcdefg1'' @ [CHR 0x0A]) \<and> \<not> is_valid_password ''Abcdefg1''"
  by (simp add: is_valid_password_def py_word_def py_ascii_lower_def py_ascii_upper_def py_digit_def)


subsection \<open>Witnesses\<close>

lemmas example_auth_defs = example_auth_def example_admin_login_def new_login_def admin_role_def
  plain_user_role_def

theorem lockout_bounds_guessing_witness:
  "find_user (map py_lower ''Admin'') example_auth = Some (1, snd (hd (users_tab (accts example_auth))), example_admin_login) \<and>
   length (filter wrong_password_flash (fst (login_run (=) ''10.0.0.1'' example_guesses example_auth))) \<le> 5"
proof -
  have fu: "find_user (map py_lower ''Admin'') example_auth = Some (1, snd (hd (users_tab (accts example_auth))), example_admin_login)"
    by (simp add: find_user_def example_auth_def py_lower_def char_of_def bit_0)
  have "\<forall>(t, f) \<in> set example_guesses. 100 \<le> t \<and> t < 100 + 900 \<and> form_get f ''username'' = Some ''Admin'' \<and>
           (\<forall>p. form_get f ''password'' = Some p \<longrightarrow> \<not> password_hash example_admin_login = p)"
    by (simp add: example_guesses_def form_get_def example_auth_defs)
  from lockout_bounds_guessing [where n = "''Admin''" and bcheck = "(=)" and ip = "''10.0.0.1''", OF fu this] fu
  show ?thesis by simp
qed

lemma example_signup_valid: "is_valid_password ''Secret#99''"
  by (simp add: is_valid_password_def py_word_def py_ascii_lower_def py_ascii_upper_def py_digit_def)

theorem register_verify_login_witness:
  "\<exists>uid db3. login (=) 3000 ''10.0.0.2'' None [(''username'', ''ALICE''), (''password'', ''Secret#99'')]
              (snd (verify_email 2000 (Some (generate_verification_token 2 1000))
                    (snd (register False id (Inr ()) 1000 None example_signup example_auth)))) =
            ((Redirect ''news'', None, Some (access_token uid 3000)), db3) \<and>
            session_user db3 3000 (Some (access_token uid 3000)) = Some uid"
proof -
  have inv: "auth_inv example_auth" by (simp add: auth_inv_def example_auth_def)
  have reg: "register False id (Inr ()) 1000 None example_signup example_auth =
             ((Redirect ''auth_views.login'', Some (generate_verification_token 2 1000)),
              snd (register False id (Inr ()) 1000 None example_signup example_auth))"
    using example_signup_valid
    by (simp add: register_def example_signup_def form_get_def example_auth_defs py_lower_def char_of_def bit_0
                  fresh_id_def numeral_2_eq_2)
  have ver: "verify_email 2000 (Some (generate_verification_token 2 1000))
               (snd (register False id (Inr ()) 1000 None example_signup example_auth)) =
             (fst (verify_email 2000 (Some (generate_verification_token 2 1000))
                     (snd (register False id (Inr ()) 1000 None example_signup example_auth))),
              snd (verify_email 2000 (Some (generate_verification_token 2 1000))
                     (snd (register False id (Inr ()) 1000 None example_signup example_auth))))"
    by simp
  have "(2000 :: nat) < 1000 + 172800" by simp
  from register_verify_login [where g = "[(''username'', ''ALICE''), (''password'', ''Secret#99'')]" and
      bcheck = "(=)" and t = 3000 and ip = "''10.0.0.2''", OF inv reg ver this]
  show ?thesis
    by (simp add: form_get_def example_signup_def py_lower_def char_of_def bit_0)
qed

theorem reset_link_opens_session_witness:
  "forgot_password (Inr ()) 1000 [(''email'', ''admin@example.com'')] example_auth =
     ((Redirect ''auth_views.login'', Some (reset_token 1 1000)), example_auth) \<and>
   (\<exists>uid lc. (uid, lc) \<in> set (logins example_auth) \<and> Some ''admin@example.com'' = Some (email lc) \<and>
             session_user example_auth 50000 (Some (reset_token 1 1000)) = Some uid)"
proof -
  have inv: "auth_inv example_auth" by (simp add: auth_inv_def example_auth_def)
  have fp: "forgot_password (Inr ()) 1000 [(''email'', ''admin@example.com'')] example_auth =
              ((Redirect ''auth_views.login'', Some (reset_token 1 1000)), example_auth)"
    by (simp add: forgot_password_def form_get_def example_auth_defs)
  have "(50000 :: nat) < 1000 + 86400" by simp
  from reset_link_opens_session [OF inv fp this] fp show ?thesis by (simp add: form_get_def)
qed

end
