(* ===== verification/Community.thy ===== *)
theory Community
  imports Auth
begin

text \<open>
  The public side of stories (\<open>src/api/story.py\<close>: \<open>toggle_favorite\<close>,
  \<open>flag_story\<close>; \<open>src/api/admin.py\<close>: \<open>unflag_story\<close>, \<open>toggle_spotlight\<close>).
  The publication columns of a \<open>Story\<close> row (\<open>shared\<close>, \<open>spotlight\<close>,
  \<open>flagged\<close>, \<open>favorites_count\<close>, the owner) and its \<open>story_flags\<close> rows are
  kept here, beside the generation columns of theory \<open>Story\<close>; the
  \<open>favorites\<close> association table is a list of (user, story) rows.  The
  authentication tables of theory \<open>Auth\<close> give the current user, and the
  author's \<open>under_review\<close> flag is the account column of theory \<open>Accounts\<close>.
  Notifications are appended to an outbox.
\<close>

record pub_story =
  story_owner :: uid
  shared :: bool
  spotlight :: bool
  flagged :: bool
  favorites_count :: "int option"
  flaggers :: "uid list"

record community =
  c_auth :: auth_db
  c_stories :: "(story_id \<times> pub_story) list"
  favorites :: "(uid \<times> story_id) list"
  c_outbox :: "(uid \<times> string) list"

text \<open>\<open>(story.favorites_count or 0)\<close>.\<close>

definition count_or_0 :: "int option \<Rightarrow> int" where
  "count_or_0 k = (case k of None \<Rightarrow> 0 | Some n \<Rightarrow> n)"

definition set_story :: "story_id \<Rightarrow> pub_story \<Rightarrow> community \<Rightarrow> community" where
  "set_story sid st c = c\<lparr>c_stories := AList.update sid st (c_stories c)\<rparr>"

definition notify_c :: "string \<Rightarrow> uid \<Rightarrow> community \<Rightarrow> community" where
  "notify_c msg u c = c\<lparr>c_outbox := c_outbox c @ [(u, msg)]\<rparr>"

text \<open>\<open>@is_authenticated\<close>: the user of the session cookie, or a redirect to
  the login page.\<close>

definition authenticated ::
  "nat \<Rightarrow> jwt option \<Rightarrow> community \<Rightarrow> (uid \<Rightarrow> reply \<times> community) \<Rightarrow> reply \<times> community" where
  "authenticated now cookie c f =
     (case session_user (c_auth c) now cookie of None \<Rightarrow> (Redirect ''auth_views.login'', c) | Some u \<Rightarrow> f u)"

text \<open>\<open>@is_admin\<close> on the community state, as \<open>Accounts.is_admin\<close>.\<close>

definition admin_guard ::
  "nat \<Rightarrow> jwt option \<Rightarrow> community \<Rightarrow> (uid \<Rightarrow> reply \<times> community) \<Rightarrow> reply \<times> community" where
  "admin_guard now cookie c f =
     (let db = accts (c_auth c) in
      case session_user (c_auth c) now cookie of
        None \<Rightarrow> (Redirect ''index'', c)
      | Some u \<Rightarrow>
          (case map_of (users_tab db) u of
             None \<Rightarrow> (Redirect ''index'', c)
           | Some a \<Rightarrow>
               (case user_role db a of
                  None \<Rightarrow> (Failed (AttributeError ''name''), c)
                | Some r \<Rightarrow> if role_name r \<noteq> ''admin'' then (Redirect ''index'', c) else f u)))"

text \<open>\<open>toggle_favorite(story_id)\<close>: not for one's own story nor for a story
  that is not shared; otherwise the favourite row is removed or added and
  the counter moved by one.\<close>

definition toggle_favorite :: "nat \<Rightarrow> jwt option \<Rightarrow> story_id \<Rightarrow> community \<Rightarrow> reply \<times> community" where
  "toggle_favorite now cookie sid c =
     authenticated now cookie c (\<lambda>u.
       case map_of (c_stories c) sid of
         None \<Rightarrow> (Failed HTTPNotFound, c)
       | Some st \<Rightarrow>
           if u = story_owner st then (Answer 403 (json_error ''You cannot favorite your own story.''), c)
           else if \<not> shared st
           then (Answer 403 (json_error ''You do not have permission to favorite this story.''), c)
           else if (u, sid) \<in> set (favorites c)
           then (let n = count_or_0 (favorites_count st) - 1 in
                 (Answer 200 (JObj [(''favorite'', JBool False), (''favorites_count'', JNum (of_int n))]),
                  notify_c ''Removed from favorites'' u
                    (set_story sid (st\<lparr>favorites_count := Some n\<rparr>) (c\<lparr>favorites := remove1 (u, sid) (favorites c)\<rparr>))))
           else (let n = count_or_0 (favorites_count st) + 1 in
                 (Answer 200 (JObj [(''favorite'', JBool True), (''favorites_count'', JNum (of_int n))]),
                  notify_c ''Added to favorites'' u
                    (set_story sid (st\<lparr>favorites_count := Some n\<rparr>) (c\<lparr>favorites := favorites c @ [(u, sid)]\<rparr>)))))"

text \<open>\<open>flag_story(story_id)\<close>: only a shared story of another user; a second
  flag by the same user removes the flag; the fifth flag unshares the story,
  marks it flagged, drops its flags and puts the author under review.\<close>

definition flag_story :: "nat \<Rightarrow> jwt option \<Rightarrow> story_id \<Rightarrow> community \<Rightarrow> reply \<times> community" where
  "flag_story now cookie sid c =
     authenticated now cookie c (\<lambda>u.
       case map_of (c_stories c) sid of
         None \<Rightarrow> (Failed HTTPNotFound, c)
       | Some st \<Rightarrow>
           if \<not> shared st then (Answer 403 (json_error ''This story is not shared publicly.''), c)
           else if story_owner st = u then (Answer 403 (json_error ''You cannot flag your own story.''), c)
           else if u \<in> set (flaggers st)
           then (let fl = remove1 u (flaggers st) in
                 (Answer 200 (JObj [(''message'', JStr ''Flag removed.''), (''flag_count'', JNum (of_nat (length fl)))]),
                  set_story sid (st\<lparr>flaggers := fl\<rparr>) c))
           else (let fl = flaggers st @ [u] in
                 if 5 \<le> length fl
                 then (Answer 200 (JObj [(''message'', JStr ''Story has been flagged and removed from public view.''),
                                         (''flag_count'', JNum 0)]),
                       (set_story sid (st\<lparr>shared := False, flagged := True, flaggers := []\<rparr>) c)
                         \<lparr>c_auth := (c_auth c)\<lparr>accts := (accts (c_auth c))\<lparr>users_tab :=
                             AList.map_entry (story_owner st) (\<lambda>a. a\<lparr>under_review := True\<rparr>)
                               (users_tab (accts (c_auth c)))\<rparr>\<rparr>\<rparr>)
                 else (Answer 200 (JObj [(''message'', JStr ''Story flagged.''), (''flag_count'', JNum (of_nat (length fl)))]),
                       set_story sid (st\<lparr>flaggers := fl\<rparr>) c)))"

text \<open>\<open>unflag_story(story_id)\<close> (admin): clears \<open>flagged\<close> only.\<close>

definition unflag_story :: "nat \<Rightarrow> jwt option \<Rightarrow> story_id \<Rightarrow> community \<Rightarrow> reply \<times> community" where
  "unflag_story now cookie sid c =
     admin_guard now cookie c (\<lambda>u.
       case map_of (c_stories c) sid of
         None \<Rightarrow> (Failed HTTPNotFound, c)
       | Some st \<Rightarrow> (Redirect ''admin_views.flagged_stories'', set_story sid (st\<lparr>flagged := False\<rparr>) c))"

text \<open>\<open>toggle_spotlight(story_id)\<close> (admin): only a shared story.\<close>

definition toggle_spotlight :: "nat \<Rightarrow> jwt option \<Rightarrow> story_id \<Rightarrow> community \<Rightarrow> reply \<times> community" where
  "toggle_spotlight now cookie sid c =
     admin_guard now cookie c (\<lambda>u.
       case map_of (c_stories c) sid of
         None \<Rightarrow> (Failed HTTPNotFound, c)
       | Some st \<Rightarrow>
           if \<not> shared st then (Answer 400 (json_error ''Story must be public to be spotlighted.''), c)
           else (Answer 200 (JObj [(''spotlight'', JBool (\<not> spotlight st))]),
                 notify_c ''Story Added to Spotlight'' u (set_story sid (st\<lparr>spotlight := \<not> spotlight st\<rparr>) c)))"

subsection \<open>The invariant and the transition system\<close>

text \<open>The favourite rows of a story.\<close>

definition fav_count :: "(uid \<times> story_id) list \<Rightarrow> story_id \<Rightarrow> nat" where
  "fav_count favs sid = length (filter (\<lambda>(u, s). s = sid) favs)"

text \<open>A story's flags are distinct users, a shared story has fewer than five
  (the fifth unshares it), and its counter is the number of its favourite
  rows.\<close>

definition story_inv :: "(uid \<times> story_id) list \<Rightarrow> story_id \<times> pub_story \<Rightarrow> bool" where
  "story_inv favs x \<longleftrightarrow>
     (case x of (sid, st) \<Rightarrow>
        distinct (flaggers st) \<and> (shared st \<longrightarrow> length (flaggers st) < 5) \<and>
        favorites_count st = Some (int (fav_count favs sid)))"

definition comm_inv :: "community \<Rightarrow> bool" where
  "comm_inv c \<longleftrightarrow>
     distinct (map fst (c_stories c)) \<and> distinct (favorites c) \<and> list_all (story_inv (favorites c)) (c_stories c)"

text \<open>Stories as \<open>new_story\<close> creates them: no flags, no favourites, the
  counter's default 0.\<close>

definition comm_fresh :: "community \<Rightarrow> bool" where
  "comm_fresh c \<longleftrightarrow>
     distinct (map fst (c_stories c)) \<and> favorites c = [] \<and>
     list_all (\<lambda>(sid, st). flaggers st = [] \<and> favorites_count st = Some 0) (c_stories c)"

inductive comm_step :: "community \<Rightarrow> community \<Rightarrow> bool" where
  favorite: "toggle_favorite now cookie sid c = (r, c') \<Longrightarrow> comm_step c c'"
| flag: "flag_story now cookie sid c = (r, c') \<Longrightarrow> comm_step c c'"
| unflag: "unflag_story now cookie sid c = (r, c') \<Longrightarrow> comm_step c c'"
| spotlight: "toggle_spotlight now cookie sid c = (r, c') \<Longrightarrow> comm_step c c'"

inductive comm_reach :: "community \<Rightarrow> bool" where
  start: "comm_fresh c \<Longrightarrow> comm_reach c"
| step: "comm_reach c \<Longrightarrow> comm_step c c' \<Longrightarrow> comm_reach c'"

text \<open>A shared story 5 of user 7 in a fresh state, with the authentication
  tables of \<open>Auth.example_auth\<close>.\<close>

definition example_pub :: pub_story where
  "example_pub = \<lparr>story_owner = 7, shared = True, spotlight = False, flagged = False,
                  favorites_count = Some 0, flaggers = []\<rparr>"

definition example_comm :: community where
  "example_comm = \<lparr>c_auth = example_auth, c_stories = [(5, example_pub)], favorites = [], c_outbox = []\<rparr>"

text \<open>The same story with four flags, its author's account present.\<close>

definition example_flagged_comm :: community where
  "example_flagged_comm =
     \<lparr>c_auth = example_auth\<lparr>accts := (accts example_auth)\<lparr>users_tab :=
                 users_tab (accts example_auth) @ [(7, new_account ''bob'' 2)]\<rparr>\<rparr>,
      c_stories = [(5, example_pub\<lparr>flaggers := [2, 3, 4, 6]\<rparr>)], favorites = [], c_outbox = []\<rparr>"

subsection \<open>Every operation keeps the invariant\<close>

lemma list_all_update_other:
  "distinct (map fst al) \<Longrightarrow> P (k, v) \<Longrightarrow> (\<forall>x\<in>set al. fst x \<noteq> k \<longrightarrow> P x) \<Longrightarrow>
   list_all P (AList.update k v al)"
proof -
  assume d: "distinct (map fst al)" and pk: "P (k, v)" and po: "\<forall>x\<in>set al. fst x \<noteq> k \<longrightarrow> P x"
  from d have "set (AList.update k v al) \<subseteq> insert (k, v) {x \<in> set al. fst x \<noteq> k}"
    by (induction al) (auto simp: image_iff)
  with pk po show ?thesis by (auto simp: list_all_iff)
qed

lemma map_of_in_set: "map_of al k = Some v \<Longrightarrow> (k, v) \<in> set al"
  by (rule map_of_SomeD)

lemma fav_count_remove_other:
  "s \<noteq> sid \<Longrightarrow> fav_count (remove1 (u, sid) favs) s = fav_count favs s"
  by (induction favs) (auto simp: fav_count_def)

lemma fav_count_remove_same:
  "(u, sid) \<in> set favs \<Longrightarrow> int (fav_count (remove1 (u, sid) favs) sid) = int (fav_count favs sid) - 1"
  by (induction favs) (auto simp: fav_count_def)

lemma fav_count_append:
  "fav_count (favs @ [(u, sid)]) s = fav_count favs s + (if s = sid then 1 else 0)"
  by (simp add: fav_count_def)

lemma comm_inv_story:
  "comm_inv c \<Longrightarrow> map_of (c_stories c) sid = Some st \<Longrightarrow> story_inv (favorites c) (sid, st)"
  by (auto simp: comm_inv_def list_all_iff dest: map_of_in_set)

text \<open>Replacing one story's row, with the favourite rows changed only for
  that story.\<close>

lemma comm_inv_set_story:
  assumes "comm_inv c" "map_of (c_stories c) sid = Some st" "distinct favs'"
    and "\<And>s. s \<noteq> sid \<Longrightarrow> fav_count favs' s = fav_count (favorites c) s"
    and "story_inv favs' (sid, st')"
  shows "comm_inv (set_story sid st' (c\<lparr>favorites := favs'\<rparr>))"
proof -
  have "\<forall>x\<in>set (c_stories c). fst x \<noteq> sid \<longrightarrow> story_inv favs' x"
    using assms(1,4) by (auto simp: comm_inv_def list_all_iff story_inv_def)
  with assms(1,5) have "list_all (story_inv favs') (AList.update sid st' (c_stories c))"
    by (intro list_all_update_other) (simp_all add: comm_inv_def)
  moreover have "sid \<in> set (map fst (c_stories c))" using assms(2) by (rule map_of_key)
  ultimately show ?thesis using assms(1,3) by (simp add: comm_inv_def set_story_def)
qed

lemma comm_inv_set_story_same:
  "comm_inv c \<Longrightarrow> map_of (c_stories c) sid = Some st \<Longrightarrow> story_inv (favorites c) (sid, st') \<Longrightarrow>
   comm_inv (set_story sid st' c)"
  using comm_inv_set_story [of c sid st "favorites c" st'] by (simp add: comm_inv_def)

lemma comm_inv_notify [simp]: "comm_inv (notify_c m u c) = comm_inv c"
  by (simp add: comm_inv_def notify_c_def)

lemma comm_inv_auth [simp]: "comm_inv (c\<lparr>c_auth := a\<rparr>) = comm_inv c"
  by (simp add: comm_inv_def)

lemma toggle_favorite_inv:
  assumes "comm_inv c" "toggle_favorite now cookie sid c = (r, c')"
  shows "comm_inv c'"
proof -
  { fix u st
    assume st: "map_of (c_stories c) sid = Some st"
    from comm_inv_story [OF assms(1) st]
    have si: "story_inv (favorites c) (sid, st)" .
    have rm: "comm_inv (set_story sid (st\<lparr>favorites_count := Some (count_or_0 (favorites_count st) - 1)\<rparr>)
                 (c\<lparr>favorites := remove1 (u, sid) (favorites c)\<rparr>))" if "(u, sid) \<in> set (favorites c)"
      using assms(1) st si that
      by (intro comm_inv_set_story)
         (auto simp: comm_inv_def story_inv_def fav_count_remove_other fav_count_remove_same count_or_0_def)
    have ad: "comm_inv (set_story sid (st\<lparr>favorites_count := Some (count_or_0 (favorites_count st) + 1)\<rparr>)
                 (c\<lparr>favorites := favorites c @ [(u, sid)]\<rparr>))" if "(u, sid) \<notin> set (favorites c)"
      using assms(1) st si that
      by (intro comm_inv_set_story) (auto simp: comm_inv_def story_inv_def fav_count_append count_or_0_def)
    note rm ad }
  with assms show ?thesis
    by (auto simp: toggle_favorite_def authenticated_def Let_def split: option.splits if_splits)
qed

lemma flag_story_inv:
  assumes "comm_inv c" "flag_story now cookie sid c = (r, c')"
  shows "comm_inv c'"
proof -
  { fix u st
    assume st: "map_of (c_stories c) sid = Some st"
    from comm_inv_story [OF assms(1) st]
    have si: "story_inv (favorites c) (sid, st)" .
    have "comm_inv (set_story sid (st\<lparr>flaggers := remove1 u (flaggers st)\<rparr>) c)"
      using assms(1) st si
      by (intro comm_inv_set_story_same)
         (auto simp: story_inv_def length_remove1 dest: le_less_trans [OF diff_le_self])
    moreover have "comm_inv (set_story sid (st\<lparr>shared := False, flagged := True, flaggers := []\<rparr>) c)"
      using assms(1) st si by (intro comm_inv_set_story_same) (auto simp: story_inv_def)
    moreover have "comm_inv (set_story sid (st\<lparr>flaggers := flaggers st @ [u]\<rparr>) c)"
      if "u \<notin> set (flaggers st)" "\<not> 5 \<le> length (flaggers st @ [u])"
      using assms(1) st si that by (intro comm_inv_set_story_same) (auto simp: story_inv_def)
    moreover note calculation }
  with assms show ?thesis
    by (auto simp: flag_story_def authenticated_def Let_def split: option.splits if_splits)
qed

lemma admin_guard_cases:
  "admin_guard now cookie c f = (r, c') \<Longrightarrow> c' = c \<or> (\<exists>u. f u = (r, c'))"
  by (auto simp: admin_guard_def Let_def split: option.splits if_splits)

lemma unflag_story_inv:
  assumes "comm_inv c" "unflag_story now cookie sid c = (r, c')"
  shows "comm_inv c'"
  using admin_guard_cases [OF assms(2) [unfolded unflag_story_def]] assms(1)
  by (auto split: option.splits intro!: comm_inv_set_story_same dest: comm_inv_story simp: story_inv_def)

lemma toggle_spotlight_inv:
  assumes "comm_inv c" "toggle_spotlight now cookie sid c = (r, c')"
  shows "comm_inv c'"
proof (cases "map_of (c_stories c) sid")
  case None
  with admin_guard_cases [OF assms(2) [unfolded toggle_spotlight_def]] assms(1) show ?thesis by auto
next
  case (Some st)
  with assms(1) have "comm_inv (set_story sid (st\<lparr>spotlight := \<not> spotlight st\<rparr>) c)"
    by (intro comm_inv_set_story_same) (auto dest: comm_inv_story simp: story_inv_def)
  with Some admin_guard_cases [OF assms(2) [unfolded toggle_spotlight_def]] assms(1) show ?thesis
    by (auto split: if_splits)
qed

lemma comm_step_inv: "comm_step c c' \<Longrightarrow> comm_inv c \<Longrightarrow> comm_inv c'"
  by (induction rule: comm_step.induct)
     (auto elim: toggle_favorite_inv flag_story_inv unflag_story_inv toggle_spotlight_inv)

lemma comm_fresh_inv: "comm_fresh c \<Longrightarrow> comm_inv c"
  by (auto simp: comm_fresh_def comm_inv_def list_all_iff story_inv_def fav_count_def)

text \<open>
  C32: In every state reachable from freshly created stories by favourite
  toggles, flags, unflags and spotlight toggles, each story's favourite
  counter is the number of users who favourited it, no user flags a story
  twice, and a shared story carries fewer than five flags.
\<close>

theorem reachable_community_consistent:
  "comm_reach c \<Longrightarrow> comm_inv c"
  by (induction rule: comm_reach.induct) (auto intro: comm_fresh_inv comm_step_inv)

theorem reachable_community_consistent_witness:
  "favorites (snd (toggle_favorite 10 (Some (access_token 1 0)) 5 example_comm)) = [(1, 5)] \<and>
   comm_reach (snd (toggle_favorite 10 (Some (access_token 1 0)) 5 example_comm)) \<and>
   comm_inv (snd (toggle_favorite 10 (Some (access_token 1 0)) 5 example_comm))"
proof -
  have "comm_fresh example_comm" by (simp add: comm_fresh_def example_comm_def example_pub_def)
  then have r0: "comm_reach example_comm" by (rule comm_reach.start)
  have "comm_step example_comm (snd (toggle_favorite 10 (Some (access_token 1 0)) 5 example_comm))"
    by (rule comm_step.favorite [of 10 "Some (access_token 1 0)" 5 example_comm
          "fst (toggle_favorite 10 (Some (access_token 1 0)) 5 example_comm)"]) simp
  with r0 have r: "comm_reach (snd (toggle_favorite 10 (Some (access_token 1 0)) 5 example_comm))"
    by (rule comm_reach.step)
  have "session_user example_auth 10 (Some (access_token 1 0)) = Some 1"
    by (rule session_user_access_token) (simp_all add: example_auth_def)
  then have "favorites (snd (toggle_favorite 10 (Some (access_token 1 0)) 5 example_comm)) = [(1, 5)]"
    by (simp add: toggle_favorite_def authenticated_def example_comm_def example_pub_def set_story_def
                  notify_c_def)
  with reachable_community_consistent [OF r] r show ?thesis by simp
qed

lemma map_of_map_entry_same:
  "map_of al k = Some a \<Longrightarrow> map_of (AList.map_entry k f al) k = Some (f a)"
  by (simp add: map_of_map_entry)

text \<open>
  C33: The fifth distinct flag on a shared story unshares it, marks it
  flagged, drops its flags and puts its author under review; an admin's
  \<open>unflag_story\<close> afterwards either is refused and changes nothing, or
  clears only \<open>flagged\<close>: the story stays unshared with no flags and the
  author stays under review.
\<close>

theorem fifth_flag_then_unflag:
  assumes st: "map_of (c_stories c) sid = Some st" and sh: "shared st" and four: "length (flaggers st) = 4"
    and u: "session_user (c_auth c) now cookie = Some u" "u \<noteq> story_owner st" "u \<notin> set (flaggers st)"
    and f: "flag_story now cookie sid c = (r, c1)" and uf: "unflag_story now' cookie' sid c1 = (r', c2)"
  shows "map_of (c_stories c1) sid = Some (st\<lparr>shared := False, flagged := True, flaggers := []\<rparr>) \<and>
         (c2 = c1 \<or> map_of (c_stories c2) sid = Some (st\<lparr>shared := False, flagged := False, flaggers := []\<rparr>)) \<and>
         (\<exists>st2. map_of (c_stories c2) sid = Some st2 \<and> \<not> shared st2 \<and> flaggers st2 = []) \<and>
         (\<forall>a. map_of (users_tab (accts (c_auth c))) (story_owner st) = Some a \<longrightarrow>
              map_of (users_tab (accts (c_auth c2))) (story_owner st) = Some (a\<lparr>under_review := True\<rparr>))"
proof -
  let ?st1 = "st\<lparr>shared := False, flagged := True, flaggers := []\<rparr>"
  have c1: "c1 = (set_story sid ?st1 c)
                   \<lparr>c_auth := (c_auth c)\<lparr>accts := (accts (c_auth c))\<lparr>users_tab :=
                      AList.map_entry (story_owner st) (\<lambda>a. a\<lparr>under_review := True\<rparr>)
                        (users_tab (accts (c_auth c)))\<rparr>\<rparr>\<rparr>"
    using f st sh four u by (simp add: flag_story_def authenticated_def Let_def)
  have s1: "map_of (c_stories c1) sid = Some ?st1" by (simp add: c1 set_story_def update_conv')
  from admin_guard_cases [OF uf [unfolded unflag_story_def]]
  have "c2 = c1 \<or> c2 = set_story sid (?st1\<lparr>flagged := False\<rparr>) c1"
    using s1 by auto
  then have "(c2 = c1 \<or> map_of (c_stories c2) sid = Some (st\<lparr>shared := False, flagged := False, flaggers := []\<rparr>)) \<and>
             (\<exists>st2. map_of (c_stories c2) sid = Some st2 \<and> \<not> shared st2 \<and> flaggers st2 = []) \<and>
             c_auth c2 = c_auth c1"
    using s1 by (auto simp: set_story_def update_conv')
  with s1 show ?thesis by (auto simp: c1 set_story_def map_of_map_entry_same)
qed

theorem fifth_flag_then_unflag_witness:
  "map_of (users_tab (accts (c_auth (snd (unflag_story 20 (Some (access_token 1 10)) 5
      (snd (flag_story 10 (Some (access_token 1 0)) 5 example_flagged_comm))))))) 7 =
     Some ((new_account ''bob'' 2)\<lparr>under_review := True\<rparr>) \<and>
   (\<exists>st2. map_of (c_stories (snd (unflag_story 20 (Some (access_token 1 10)) 5
      (snd (flag_story 10 (Some (access_token 1 0)) 5 example_flagged_comm))))) 5 = Some st2 \<and> \<not> shared st2)"
proof -
  let ?c1 = "snd (flag_story 10 (Some (access_token 1 0)) 5 example_flagged_comm)"
  have m: "map_of (c_stories example_flagged_comm) 5 = Some (example_pub\<lparr>flaggers := [2, 3, 4, 6]\<rparr>)"
    by (simp add: example_flagged_comm_def)
  have sh: "shared (example_pub\<lparr>flaggers := [2, 3, 4, 6]\<rparr>)" by (simp add: example_pub_def)
  have l: "length (flaggers (example_pub\<lparr>flaggers := [2, 3, 4, 6]\<rparr>)) = 4" by simp
  have su: "session_user (c_auth example_flagged_comm) 10 (Some (access_token 1 0)) = Some 1"
    by (rule session_user_access_token) (simp_all add: example_flagged_comm_def example_auth_def)
  have o: "1 \<noteq> story_owner (example_pub\<lparr>flaggers := [2, 3, 4, 6]\<rparr>)" by (simp add: example_pub_def)
  have n: "(1::nat) \<notin> set (flaggers (example_pub\<lparr>flaggers := [2, 3, 4, 6]\<rparr>))" by simp
  have f: "flag_story 10 (Some (access_token 1 0)) 5 example_flagged_comm =
             (fst (flag_story 10 (Some (access_token 1 0)) 5 example_flagged_comm), ?c1)" by simp
  have uf: "unflag_story 20 (Some (access_token 1 10)) 5 ?c1 =
              (fst (unflag_story 20 (Some (access_token 1 10)) 5 ?c1), snd (unflag_story 20 (Some (access_token 1 10)) 5 ?c1))"
    by simp
  have a7: "map_of (users_tab (accts (c_auth example_flagged_comm))) (story_owner (example_pub\<lparr>flaggers := [2, 3, 4, 6]\<rparr>)) =
              Some (new_account ''bob'' 2)"
    by (simp add: example_flagged_comm_def example_auth_def example_pub_def)
  from fifth_flag_then_unflag [OF m sh l su o n f uf] a7 show ?thesis by (auto simp: example_pub_def)
qed

end
