(* ===== verification/Maintenance.thy ===== *)
theory Maintenance
  imports Auth
begin

text \<open>
  The request filter \<open>check_maintenance_mode\<close> of \<open>src/app.py\<close>, which runs
  before every request: it copies the \<open>SiteConfig\<close> row
  (\<open>src/models/SiteConfig.py\<close>) into \<open>app.config\<close> and, in maintenance mode,
  stops every request of a user who is not an admin except login and
  logout.  The route \<open>maintenance\<close> and two requests composed with the filter:
  a Stripe webhook delivery and a registration, whose \<open>REGISTRATION_DISABLED\<close>
  flag is the one the filter has just set.
\<close>

record site_config =
  registration_disabled :: bool
  maintenance_mode :: bool

text \<open>The two entries of \<open>app.config\<close> the filter writes.\<close>

record app_config =
  cfg_registration_disabled :: bool
  cfg_maintenance_mode :: bool

datatype filter_result = Proceed | Intercept reply

text \<open>\<open>str.startswith\<close>.\<close>

definition py_startswith :: "string \<Rightarrow> string \<Rightarrow> bool" where
  "py_startswith s p \<longleftrightarrow> take (length p) s = p"

text \<open>\<open>SiteConfig.query.first()\<close> copied into \<open>app.config\<close>, or the defaults.\<close>

definition site_flags :: "site_config option \<Rightarrow> app_config" where
  "site_flags sc =
     (case sc of
        Some c \<Rightarrow> \<lparr>cfg_registration_disabled = registration_disabled c, cfg_maintenance_mode = maintenance_mode c\<rparr>
      | None \<Rightarrow> \<lparr>cfg_registration_disabled = False, cfg_maintenance_mode = False\<rparr>)"

text \<open>\<open>user and user.role.name.lower() == "admin"\<close>: a user without a role row
  raises.\<close>

definition maintenance_admin :: "auth_db \<Rightarrow> uid option \<Rightarrow> py_error + bool" where
  "maintenance_admin db cur =
     (case cur of
        None \<Rightarrow> Inr False
      | Some u \<Rightarrow>
          (case map_of (users_tab (accts db)) u of
             None \<Rightarrow> Inr False
           | Some a \<Rightarrow>
               (case user_role (accts db) a of
                  None \<Rightarrow> Inl (AttributeError ''name'')
                | Some r \<Rightarrow> Inr (map py_lower (role_name r) = ''admin''))))"

text \<open>\<open>check_maintenance_mode()\<close> for a request path and endpoint: the new
  configuration (written before the role is read) and the outcome.\<close>

definition check_maintenance_mode ::
  "auth_db \<Rightarrow> site_config option \<Rightarrow> nat \<Rightarrow> jwt option \<Rightarrow> string \<Rightarrow> string \<Rightarrow>
   app_config \<times> (py_error + filter_result)" where
  "check_maintenance_mode db sc now cookie path endpoint =
     (let cfg = site_flags sc in
      (cfg,
       bind_err (maintenance_admin db (session_user db now cookie)) (\<lambda>adm.
         Inr (if cfg_maintenance_mode cfg \<and> \<not> adm then
                (if py_startswith path ''/logout'' then Proceed
                 else if py_startswith path ''/login'' then Proceed
                 else if py_startswith path ''/api''
                 then Intercept (Answer 503 (json_error ''Site is under maintenance.''))
                 else if endpoint \<noteq> ''maintenance'' \<and> \<not> py_startswith path ''/static''
                 then Intercept (Redirect ''maintenance'')
                 else Proceed)
              else Proceed))))"

text \<open>\<open>maintenance()\<close>: the page answers 503 while maintenance is on.\<close>

definition maintenance :: "app_config \<Rightarrow> reply" where
  "maintenance cfg = (if \<not> cfg_maintenance_mode cfg then Redirect ''index'' else Answer 503 JNull)"

text \<open>A request through the filter: an exception of the filter is the
  request's answer, an interception answers in the handler's place.\<close>

definition filtered ::
  "auth_db \<Rightarrow> site_config option \<Rightarrow> nat \<Rightarrow> jwt option \<Rightarrow> string \<Rightarrow> string \<Rightarrow>
   (app_config \<Rightarrow> 'r \<times> auth_db) \<Rightarrow> (reply \<Rightarrow> 'r) \<Rightarrow> 'r \<times> auth_db" where
  "filtered db sc now cookie path endpoint handler answer =
     (case check_maintenance_mode db sc now cookie path endpoint of
        (cfg, Inl e) \<Rightarrow> (answer (Failed e), db)
      | (cfg, Inr (Intercept r)) \<Rightarrow> (answer r, db)
      | (cfg, Inr Proceed) \<Rightarrow> handler cfg)"

text \<open>Stripe's \<open>POST /stripe/webhook\<close>, on the account tables.\<close>

definition webhook_request ::
  "auth_db \<Rightarrow> site_config option \<Rightarrow> nat \<Rightarrow> jwt option \<Rightarrow> hook_input \<Rightarrow> reply \<times> auth_db" where
  "webhook_request db sc now cookie h =
     filtered db sc now cookie ''/stripe/webhook'' ''profile.stripe_webhook''
       (\<lambda>cfg. case stripe_webhook h (accts db) of (r, a) \<Rightarrow> (r, db\<lparr>accts := a\<rparr>)) id"

text \<open>\<open>POST /register\<close>, with the flag the filter set.\<close>

definition register_request ::
  "(string \<Rightarrow> string) \<Rightarrow> py_error + unit \<Rightarrow> auth_db \<Rightarrow> site_config option \<Rightarrow> nat \<Rightarrow> jwt option \<Rightarrow> form \<Rightarrow>
   (reply \<times> jwt option) \<times> auth_db" where
  "register_request bhash mail db sc now cookie f =
     filtered db sc now cookie ''/register'' ''auth_views.register''
       (\<lambda>cfg. register (cfg_registration_disabled cfg) bhash mail now cookie f db) (\<lambda>r. (r, None))"

subsection \<open>What the filter lets through\<close>

lemma startswith_prefix:
  "py_startswith s q \<Longrightarrow> length p \<le> length q \<Longrightarrow> py_startswith s p = py_startswith q p"
  unfolding py_startswith_def by (metis min.absorb1 take_take)

text \<open>Stripe posts its events without a session cookie, so in maintenance
  mode every delivery is redirected to the maintenance page and no event is
  processed; Stripe counts the redirect as a failed delivery.\<close>

lemma maintenance_drops_webhooks:
  "maintenance_mode c \<Longrightarrow> webhook_request db (Some c) now None h = (Redirect ''maintenance'', db)"
  by (simp add: webhook_request_def filtered_def check_maintenance_mode_def maintenance_admin_def
                site_flags_def py_startswith_def)

text \<open>Without maintenance the delivery reaches the handler.\<close>

lemma webhook_request_open:
  "\<not> maintenance_mode c \<Longrightarrow>
   webhook_request db (Some c) now None h = (fst (stripe_webhook h (accts db)), db\<lparr>accts := snd (stripe_webhook h (accts db))\<rparr>)"
  by (simp add: webhook_request_def filtered_def check_maintenance_mode_def maintenance_admin_def
                site_flags_def split: prod.split)

text \<open>With registration closed in the site configuration (and maintenance
  off), a registration changes nothing.\<close>

lemma registration_closed:
  "registration_disabled c \<Longrightarrow> \<not> maintenance_mode c \<Longrightarrow> session_user db now cookie = None \<Longrightarrow>
   register_request bhash mail db (Some c) now cookie f = ((Answer 503 JNull, None), db)"
  by (simp add: register_request_def filtered_def check_maintenance_mode_def maintenance_admin_def
                site_flags_def register_def)

text \<open>In maintenance mode a request of a user who is not an admin to the API is
  answered 503.\<close>

lemma maintenance_api_503:
  "maintenance_mode c \<Longrightarrow> maintenance_admin db (session_user db now cookie) = Inr False \<Longrightarrow>
   py_startswith path ''/api'' \<Longrightarrow>
   snd (check_maintenance_mode db (Some c) now cookie path ep) = Inr (Intercept (Answer 503 (json_error ''Site is under maintenance.'')))"
proof -
  assume m: "maintenance_mode c" and a: "maintenance_admin db (session_user db now cookie) = Inr False"
    and p: "py_startswith path ''/api''"
  have "\<not> py_startswith path ''/login''" "\<not> py_startswith path ''/logout''"
    using startswith_prefix [of path "''/login''" "''/api''"] startswith_prefix [of path "''/logout''" "''/api''"] p
    by (auto simp: py_startswith_def)
  with m a p show ?thesis by (simp add: check_maintenance_mode_def site_flags_def)
qed

end
