(* ===== verification/AdminViews.thy ===== *)
theory AdminViews
  imports Auth SystemState
begin

text \<open>
  Two read-only pages of the back office (\<open>src/views/admin.py\<close>) that
  compute what they show: \<open>analytics\<close> (token totals, their dollar cost at
  the configured prices, image cost, revenue and the margin) and
  \<open>generation_logs\<close> (search by username or task id, newest first, 20 rows a
  page).  The log rows are those of theory \<open>GenerationLog\<close>; rows are
  inserted in time order, so \<open>order_by(timestamp.desc())\<close> is the reversed
  list.  The model keeps no timestamps: the year and month filters of
  \<open>analytics\<close> are the row selections \<open>sel_log\<close> and \<open>sel_rev\<close> (all rows when
  no period is given).
\<close>

record analytics_view =
  total_input :: nat
  total_output :: nat
  gpt_input_cost :: rat
  gpt_output_cost :: rat
  o1_input_cost :: rat
  o1_output_cost :: rat
  image_cost :: rat
  total_token_cost :: rat
  total_revenue :: rat
  realized_revenue :: rat

text \<open>\<open>query.filter(GenerationLog.model == m).with_entities(db.func.sum(col))\<close>
  with \<open>or 0\<close>: a row whose model is \<open>NULL\<close> matches no model.\<close>

definition log_sum :: "(generation_log \<Rightarrow> nat) \<Rightarrow> string \<Rightarrow> log_table \<Rightarrow> nat" where
  "log_sum col m lt = sum_list (map col (filter (\<lambda>e. log_model e = Some m) lt))"

text \<open>\<open>analytics()\<close>.  Without a \<open>TokenCostConfig\<close> row the four token costs are
  0, but the image cost still reads \<open>token_config.dall_e_price_per_image\<close>
  and raises.\<close>

definition analytics ::
  "(generation_log \<Rightarrow> bool) \<Rightarrow> (nat \<Rightarrow> bool) \<Rightarrow> log_table \<Rightarrow> token_cost_config option \<Rightarrow> rat list \<Rightarrow>
   py_error + analytics_view" where
  "analytics sel_log sel_rev lt cfg revs =
     (let ls = filter sel_log lt;
          gi = log_sum input_tokens ''gpt-4o-mini'' ls; go = log_sum output_tokens ''gpt-4o-mini'' ls;
          oi = log_sum input_tokens ''o1-mini'' ls; oo = log_sum output_tokens ''o1-mini'' ls;
          costs = (case cfg of
                     Some c \<Rightarrow> (of_nat gi / 1000000 * cost_per_1m_input c, of_nat go / 1000000 * cost_per_1m_output c,
                                of_nat oi / 1000000 * o1_cost_per_1m_input c, of_nat oo / 1000000 * o1_cost_per_1m_output c)
                   | None \<Rightarrow> (0, 0, 0, 0));
          imgs = length (filter (\<lambda>e. log_model e = Some ''dall-e-3'' \<and> status e = ''succeeded'') ls)
      in case cfg of
           None \<Rightarrow> Inl (AttributeError ''dall_e_price_per_image'')
         | Some c \<Rightarrow>
             (case costs of (gic, goc, oic, ooc) \<Rightarrow>
                let img = of_nat imgs * dall_e_price_per_image c;
                    tok = (gic + oic) + (goc + ooc);
                    rev_total = sum_list (map snd (filter (sel_rev \<circ> fst) (zip [0..<length revs] revs)))
                in Inr \<lparr>total_input = gi + oi, total_output = go + oo, gpt_input_cost = gic, gpt_output_cost = goc,
                        o1_input_cost = oic, o1_output_cost = ooc, image_cost = img, total_token_cost = tok,
                        total_revenue = rev_total, realized_revenue = rev_total - (tok + img)\<rparr>))"

text \<open>SQLite's \<open>lower()\<close>: ASCII letters only.\<close>

definition sql_lower :: "char \<Rightarrow> char" where
  "sql_lower c = (let n = (of_char c :: nat) in if 65 \<le> n \<and> n \<le> 90 then char_of (n + 32) else c)"

text \<open>\<open>lower(x) LIKE lower(p)\<close>, which SQLAlchemy's \<open>ilike\<close> issues: \<open>%\<close> matches
  any sequence, \<open>_\<close> any one character; there is no escape character.\<close>

fun sql_like :: "string \<Rightarrow> string \<Rightarrow> bool" where
  "sql_like [] s = (s = [])"
| "sql_like (c # p) s =
     (if c = CHR ''%'' then sql_like p s \<or> (case s of [] \<Rightarrow> False | _ # s' \<Rightarrow> sql_like (c # p) s')
      else (case s of [] \<Rightarrow> False | d # s' \<Rightarrow> (c = CHR ''_'' \<or> sql_lower c = sql_lower d) \<and> sql_like p s'))"

text \<open>\<open>query.paginate(page=page, per_page=20, error_out=False)\<close>: a page below 1
  is page 1.\<close>

definition paginate :: "int \<Rightarrow> 'a list \<Rightarrow> 'a list" where
  "paginate page rows = (let p = (if page < 1 then 1 else page) in take 20 (drop (nat (p - 1) * 20) rows))"

text \<open>\<open>generation_logs()\<close>: \<open>q\<close> is stripped; a \<open>q\<close> naming a user selects that
  user's rows, any other \<open>q\<close> the rows whose task id contains it.\<close>

definition generation_logs :: "(uid \<times> account) list \<Rightarrow> log_table \<Rightarrow> string \<Rightarrow> int \<Rightarrow> generation_log list" where
  "generation_logs utab lt q0 page =
     (let q = py_strip q0;
          rows = (if q = [] then lt
                  else case find (\<lambda>(i, a). username a = q) utab of
                         Some (uid, _) \<Rightarrow> filter (\<lambda>e. log_user e = uid) lt
                       | None \<Rightarrow> filter (\<lambda>e. sql_like (''%'' @ q @ ''%'') (nat_str (task_id e))) lt)
      in paginate page (rev rows))"

subsection \<open>Lemmas on the pages\<close>

text \<open>Without a pricing row the analytics page fails, although the code
  prepares zero token costs for that case.\<close>

lemma analytics_without_pricing:
  "analytics sel_log sel_rev lt None revs = Inl (AttributeError ''dall_e_price_per_image'')"
  by (simp add: analytics_def Let_def)

text \<open>The margin is the revenue less the token and image costs.\<close>

lemma analytics_margin:
  "analytics sel_log sel_rev lt cfg revs = Inr v \<Longrightarrow>
   realized_revenue v = total_revenue v - (total_token_cost v + image_cost v) \<and>
   total_token_cost v = gpt_input_cost v + o1_input_cost v + (gpt_output_cost v + o1_output_cost v)"
  by (auto simp: analytics_def Let_def split: option.splits)

lemma paginate_page: "0 < p \<Longrightarrow> paginate (int p) rows = take 20 (drop ((p - 1) * 20) rows)"
  by (simp add: paginate_def nat_diff_distrib)

lemma pages_concat: "concat (map (\<lambda>p. paginate (int p) rows) [1..<Suc n]) = take (n * 20) rows"
proof (induction n)
  case 0
  then show ?case by simp
next
  case (Suc n)
  have p: "paginate (int (Suc n)) rows = take 20 (drop (n * 20) rows)"
    using paginate_page [of "Suc n" rows] by simp
  have t: "take (n * 20) rows @ take 20 (drop (n * 20) rows) = take (Suc n * 20) rows"
    by (metis add.commute mult_Suc take_add)
  have "[1..<Suc (Suc n)] = [1..<Suc n] @ [Suc n]" by simp
  then have "concat (map (\<lambda>p. paginate (int p) rows) [1..<Suc (Suc n)]) =
             concat (map (\<lambda>p. paginate (int p) rows) [1..<Suc n]) @ paginate (int (Suc n)) rows"
    by (simp only: map_append concat_append) simp
  with Suc.IH p t show ?case by simp
qed

text \<open>The pages partition the rows: pages 1 to \<open>n\<close>, for \<open>20 n\<close> at least the
  number of rows, list every row once, in order.\<close>

lemma pages_partition: "length rows \<le> n * 20 \<Longrightarrow> concat (map (\<lambda>p. paginate (int p) rows) [1..<Suc n]) = rows"
  by (metis pages_concat take_all)

text \<open>The search pattern: a query without the wildcards \<open>%\<close> and \<open>_\<close> is matched
  as a case-insensitive (ASCII) substring of the task id.\<close>

lemma sql_like_literal:
  "CHR ''%'' \<notin> set q \<Longrightarrow> CHR ''_'' \<notin> set q \<Longrightarrow>
   sql_like (q @ r) s \<longleftrightarrow>
   length q \<le> length s \<and> map sql_lower (take (length q) s) = map sql_lower q \<and> sql_like r (drop (length q) s)"
proof (induction q arbitrary: s)
  case Nil
  then show ?case by simp
next
  case (Cons c q)
  then show ?case by (cases s) auto
qed

lemma ex_le_Suc: "(\<exists>i\<le>Suc n. Q i) \<longleftrightarrow> Q 0 \<or> (\<exists>i\<le>n. Q (Suc i))"
proof
  assume "\<exists>i\<le>Suc n. Q i"
  then obtain i where "i \<le> Suc n" "Q i" by blast
  then show "Q 0 \<or> (\<exists>i\<le>n. Q (Suc i))" by (cases i) auto
next
  assume "Q 0 \<or> (\<exists>i\<le>n. Q (Suc i))"
  then show "\<exists>i\<le>Suc n. Q i" by (auto intro: Suc_leI)
qed

lemma sql_like_percent: "sql_like (CHR ''%'' # r) s \<longleftrightarrow> (\<exists>i\<le>length s. sql_like r (drop i s))"
  by (induction s) (simp_all add: ex_le_Suc)

lemma sql_like_any: "sql_like ''%'' t"
  using sql_like_percent [of "[]" t] by (auto intro: exI [of _ "length t"])

lemma ilike_is_substring:
  "CHR ''%'' \<notin> set q \<Longrightarrow> CHR ''_'' \<notin> set q \<Longrightarrow>
   sql_like (''%'' @ q @ ''%'') s \<longleftrightarrow>
   (\<exists>i\<le>length s. length q \<le> length s - i \<and> map sql_lower (take (length q) (drop i s)) = map sql_lower q)"
proof -
  assume a: "CHR ''%'' \<notin> set q" "CHR ''_'' \<notin> set q"
  have "sql_like (''%'' @ q @ ''%'') s = sql_like (CHR ''%'' # (q @ ''%'')) s" by simp
  also have "\<dots> \<longleftrightarrow> (\<exists>i\<le>length s. sql_like (q @ ''%'') (drop i s))" by (rule sql_like_percent)
  also have "\<dots> \<longleftrightarrow> (\<exists>i\<le>length s. length q \<le> length s - i \<and>
                        map sql_lower (take (length q) (drop i s)) = map sql_lower q)"
    using sql_like_literal [OF a] by (simp add: sql_like_any del: sql_like.simps)
  finally show ?thesis .
qed

text \<open>Searching for a username lists, over enough pages, exactly that user's
  log rows, newest first.\<close>

lemma generation_logs_user_pages:
  assumes "py_strip q0 \<noteq> []" "find (\<lambda>(i, a). username a = py_strip q0) utab = Some (uid, a)"
    and "length lt \<le> n * 20"
  shows "concat (map (\<lambda>p. generation_logs utab lt q0 (int p)) [1..<Suc n]) = rev (filter (\<lambda>e. log_user e = uid) lt)"
proof -
  have eq: "generation_logs utab lt q0 p = paginate p (rev (filter (\<lambda>e. log_user e = uid) lt))" for p
    using assms(1,2) by (simp add: generation_logs_def)
  have "length (rev (filter (\<lambda>e. log_user e = uid) lt)) \<le> n * 20"
    using assms(3) length_filter_le [of _ lt] by (metis le_trans length_rev)
  then show ?thesis by (simp only: eq pages_partition)
qed

end
