(* ===== verification/Spec2Isabelle.thy ===== *)
theory Spec2Isabelle
  imports System Billing Community Maintenance AdminViews
begin

text \<open>
  A verification development for the credit-metered asynchronous generation
  pipeline of the novel-writing application (\<open>src/\<close>): a request predicts
  the credit cost of a language-model call, checks the user's balance and a
  per-user generation lock, records a pending generation-log row and queues
  a job; a Celery worker later runs the job, decodes the model's reply, writes
  the story's rows, reconciles the cost, debits the user, updates the log row
  and releases the lock.

  \<^bold>\<open>Theories, in import order, and the code they model.\<close>
  \<^item> \<open>Prelude\<close>: Python's \<open>round\<close> (ties to even) and \<open>round(x, 2)\<close> on
    floats, modelled on exact rationals; true division raising
    \<open>ZeroDivisionError\<close>; negative list indexing; the exceptions of the code
    as the datatype \<open>py_error\<close> with \<open>str(e)\<close>; results as \<open>py_error + 'a\<close>
    sequenced by \<open>bind_err\<close> and \<open>map_err\<close> (a \<open>for\<close> loop whose body may
    raise); \<open>str.strip\<close> and \<open>str.isspace\<close>.
  \<^item> \<open>Estimator\<close> (\<open>src/predictions.py\<close>, \<open>src/models/TokenCostConfig.py\<close>,
    \<open>src/models/CreditConfig.py\<close>, defaults of \<open>src/app.py\<close>): the pricing
    row, the modifier table with its fallback 2, the shared arithmetic
    \<open>credit_cost\<close>, one definition per \<open>calculate_*_cost\<close> function, the image
    cost and the all-chapters loop.
  \<^item> \<open>Lock\<close> (\<open>set_user_generation_lock\<close>, \<open>clear_user_generation_lock\<close> of
    \<open>src/api/generation.py\<close>): Redis \<open>SET NX EX\<close> and \<open>DEL\<close> on a map from user
    ids to expiry times.
  \<^item> \<open>Ledger\<close> (\<open>can_spend_credits\<close>, \<open>spend_credits\<close> of \<open>src/helpers.py\<close>,
    \<open>adjust_credits\<close> and the role grant of \<open>src/api/admin.py\<close>) and
    \<open>GenerationLog\<close> (\<open>src/models/GenerationLog.py\<close>, the worker's lookup, the
    overdraft guard \<open>is_last_generation_and_negative_creds\<close>).
  \<^item> \<open>Json\<close> and \<open>Story\<close>: the values \<open>json.loads\<close> returns with Python's
    \<open>.get\<close>, \<open>len\<close>, iteration and \<open>.items()\<close> on them; the story rows the workers
    write (\<open>src/models/Story.py\<close>, \<open>Chapter.py\<close>, \<open>ChapterGuide.py\<close>,
    \<open>StoryArc.py\<close>, \<open>Location.py\<close>), their \<open>NOT NULL\<close> constraints
    (\<open>story_ok\<close>) and the persistence loops of \<open>src/tasks.py\<close>, which may raise
    part-way (\<open>map_partial\<close>).
  \<^item> \<open>SystemState\<close>: the shared state \<open>sys\<close> (users and roles, stories, locks,
    log rows, the broker queue, id counters, clock, pricing, modifiers, the
    notification outbox), the queued \<open>job\<close>s, and the environment \<open>env\<close> of
    the prompt renderer, the token predictor, the tokenizer and \<open>json.loads\<close>.
  \<^item> \<open>Dispatcher\<close>: the seven \<open>api_generate_*\<close> handlers of
    \<open>src/api/generation.py\<close>, each whole, with the broker's availability as a
    boolean.  \<open>Endpoints\<close>: \<open>get_current_user\<close> and the decorator
    \<open>is_story_author_or_admin\<close> of \<open>src/helpers.py\<close>, and the seven
    \<open>predict_*_cost\<close> endpoints, with the \<open>IndexError\<close> of a chapter number
    outside the story (\<open>chapter_reads_ok\<close>).
  \<^item> \<open>StoryEdit\<close>: the story-editing endpoints of \<open>src/api/story.py\<close> that
    write the rows the workers read: \<open>update_meta\<close> with \<open>list_characters\<close>
    and \<open>list_locations\<close>, \<open>save_arcs\<close>, \<open>update_chapter_summaries\<close>, the
    \<open>chapter_summaries\<close> branch of \<open>api_save_field\<close>, \<open>save_chapter\<close> and
    \<open>delete_story\<close>, each whole.  A request runs in the Flask-SQLAlchemy
    session: a query autoflushes the pending rows (\<open>flush_check\<close>, which
    raises \<open>IntegrityError\<close> on a \<open>NOT NULL\<close> violation), a new row takes the
    next id, and an exception aborts the request with nothing committed
    (\<open>respond\<close>).  Python's truth value (\<open>py_truthy\<close>), \<open>int()\<close> on a string
    (\<open>py_int\<close>) and SQLite's comparison of an id with a JSON value
    (\<open>sql_int_eq\<close>) are modelled as the code relies on them.
  \<^item> \<open>Worker\<close>: the six \<open>generate_*_task\<close> functions of \<open>src/tasks.py\<close> and
    \<open>run_job\<close>, which runs the task a job names.  A task runs in an explicit
    SQLAlchemy session (\<open>session\<close>: committed state, working state, and
    whether a flush failed); a commit fails with \<open>IntegrityError\<close> on a
    \<open>NOT NULL\<close> violation and a commit after a failed flush raises
    \<open>PendingRollbackError\<close>; \<open>run_task\<close> is the task's \<open>try\<close>/\<open>except\<close>/\<open>finally\<close>.
    The model's reply, the image download and the upload are the argument
    \<open>outcome\<close>.
  \<^item> \<open>PyInt\<close>: Python's \<open>int()\<close> and \<open>str()\<close> on integers and SQLite's
    comparison of an integer key with a request value.
  \<^item> \<open>Accounts\<close> (\<open>src/api/admin.py\<close>, \<open>is_admin\<close> of \<open>src/helpers.py\<close>, the
    \<open>Role\<close>, \<open>CreditPackage\<close>, \<open>User\<close> and \<open>Revenue\<close> models, the start-up rows
    of \<open>src/app.py\<close>): the account tables as association lists in row-id
    order (\<open>accounts_db\<close>), the admin guard, and one definition per admin
    endpoint on roles, credit packages and users.  \<open>float()\<close> of a form
    value is a parameter (no IEEE floats) and every Stripe call is an
    argument: its result or the exception it raises.
  \<^item> \<open>Webhook\<close> (\<open>src/api/profile.py\<close>): \<open>stripe_webhook\<close> with its three event
    handlers and the two checkout-session endpoints.  The events Stripe posts
    back are built from the checkout request the code sent, with metadata
    values turned into strings as Stripe does (\<open>completed_event\<close>,
    \<open>invoice_event\<close>; a model of Stripe, not of the repository).
  \<^item> \<open>Billing\<close>: the account tables as an inductive step relation
    \<open>acct_step\<close> (every admin endpoint through the guard, every webhook
    delivery, every checkout) and its reachable states from a fresh database.
  \<^item> \<open>Auth\<close> (\<open>src/views/auth.py\<close>, \<open>src/api/auth.py\<close>, \<open>get_current_user\<close>,
    \<open>is_valid_password\<close> and \<open>generate_verification_token\<close> of \<open>src/helpers.py\<close>,
    \<open>src/models/User.py\<close>): the login columns of a user row in a second table
    beside the account tables (\<open>auth_db\<close>), tokens by their claims, and one
    definition per handler: \<open>register\<close>, \<open>verify_email\<close>,
    \<open>resend_verification\<close>, \<open>login\<close> with its lockout, \<open>forgot_password\<close>,
    \<open>reset_password\<close>, the session lookup \<open>session_user\<close> and the admin
    user's login row at start-up.  bcrypt and the mail server are parameters.
  \<^item> \<open>Community\<close> (\<open>toggle_favorite\<close>, \<open>flag_story\<close> of \<open>src/api/story.py\<close>;
    \<open>unflag_story\<close>, \<open>toggle_spotlight\<close> of \<open>src/api/admin.py\<close>): the publication
    columns of a story row, its flags and the favourites table, beside the
    authentication tables that give the current user; an inductive step
    relation \<open>comm_step\<close> and its reachable states from fresh stories.
  \<^item> \<open>Maintenance\<close> (\<open>check_maintenance_mode\<close> and \<open>maintenance\<close> of
    \<open>src/app.py\<close>, \<open>src/models/SiteConfig.py\<close>): the request filter that copies
    the site configuration into \<open>app.config\<close> and stops non-admin requests in
    maintenance mode, composed with the Stripe webhook and registration.
  \<^item> \<open>AdminViews\<close> (\<open>analytics\<close> and \<open>generation_logs\<close> of
    \<open>src/views/admin.py\<close>): the analytics figures over the log rows, prices and
    revenue, SQLite's \<open>LIKE\<close> (\<open>sql_like\<close>) and Flask-SQLAlchemy's pagination.
  \<^item> \<open>Config\<close>: \<open>update_token_config\<close> and \<open>update_credit_config\<close> of
    \<open>src/api/admin.py\<close> on the pricing row and the modifier table of \<open>sys\<close>
    that the estimator reads.
  \<^item> \<open>Frame\<close>: what a worker can change (the \<open>keeps\<close> predicates and the
    \<open>keeps_intros\<close> rules): never the queue or the log keys, only its job's
    story, and only to a state that satisfies the constraints.
  \<^item> \<open>System\<close>: the application as an inductive step relation \<open>sys_step\<close>
    (a request through the guard to any generation endpoint, the worker
    running any queued job in any order with any outcome, a clock tick, an
    admin credit adjustment or pricing update, the creation of a story, any of the story
    edits above through the author guard) and its reachable states \<open>reach\<close>.
    A handler is one step of \<open>sys_step\<close>, so its \<open>task.delay()\<close> and the
    commit of its log row are not separated; the interleaving that separates
    them is modelled apart, with \<open>queue_text_job\<close> split into \<open>enqueue\<close>
    (the \<open>.delay()\<close> call) and \<open>log_dispatch\<close> (the row, the commit and the
    notification) and a worker run between them.

  \<^bold>\<open>What the lemmas show.\<close>
  \<open>System\<close>: the dispatch race: a worker that runs a text job before the
  handler commits its row debits the user and updates no row, and the row
  committed afterwards stays pending with no real cost.  By rule induction
  on \<open>reach\<close>, when requests are atomic every queued job has the log row
  its worker looks up, and no committed story violates its constraints,
  whichever endpoint or edit ran (each edit is shown to change at most its
  story, to a state that satisfies the constraints: \<open>edit_effect\<close>).
  \<open>Estimator\<close>: prediction equals reconciliation at the heuristic output
  lengths; Scenario A of the specification; the exact error conditions; the
  modifier fallback; a two-credit lower bound for the floored kinds;
  monotonicity of billing; the all-chapters total as the sum of its parts;
  the summaries and chapter predictions are zero whenever fewer than half a
  credit's worth of tokens is predicted.  \<open>Ledger\<close>, \<open>Lock\<close>, \<open>GenerationLog\<close>: debits
  are exact, a checked debit never overdraws, a second lock acquisition is
  refused, the expiry bounds an orphaned lock, the overdraft guard's exact
  condition.  \<open>Dispatcher\<close> and \<open>Endpoints\<close>: Scenario B, the summaries lock
  leak, one job and one log row per accepted request, the all-chapters fan
  out, that the guard admits only the author or an admin, and that the price
  a user is shown is the price queued.  \<open>Worker\<close>: the lock is released
  whatever happens, a model error marks the row failed, a success charges
  the recorded cost, and the behaviours the findings of the manifest
  record (a charged job marked failed, a pending row on an empty reply,
  deletions committed by the except block, an exception escaping the except
  block, an image row without its real cost).  \<open>StoryEdit\<close>: round trips
  (saved metadata lists back as the truthy names, as decoded JSON values, re-saving stored arcs is a
  no-op, \<open>int(str(i)) = i\<close>), and the behaviours its findings record:
  \<open>save_chapter\<close> never succeeds, \<open>update_chapter_summaries\<close> counts untitled
  entries, and \<open>api_save_field\<close> either duplicates the chapters (no ids) or
  deletes the ones it has just created (some ids).  \<open>Accounts\<close>,
  \<open>Webhook\<close>, \<open>Billing\<close>: every admin endpoint, webhook handler and checkout
  keeps the invariant of the account tables (unique ids and role names,
  every user's role exists), hence it holds in every reachable state; a
  package purchase credits what was bought; the first month's credits of a
  subscription depend on Stripe's event order; renaming the protected admin
  role locks everybody out of the back office.  \<open>Auth\<close>: the lockout
  admits at most five wrong passwords in any 15 minutes, by induction over a
  run of attempts with an invariant of the row (\<open>guess_inv\<close>); registration,
  verification and login compose; the reset link is a session cookie; every
  handler keeps each login row with its user row.  \<open>Community\<close>: by rule
  induction, favourite counters equal the favourite rows and a shared story
  has fewer than five distinct flags; the fifth flag unshares the story and
  puts the author under review, and an unflag is either refused or clears
  only the flagged mark.
  \<open>Maintenance\<close>: in maintenance mode every Stripe delivery is redirected
  and processed by no handler, and a closed registration changes nothing.
  \<open>AdminViews\<close>: the analytics page fails without a pricing row; the pages
  partition the rows; a search pattern without wildcards is a substring
  test, and a username search lists exactly that user's rows.
  \<open>Config\<close>: a modifier update
  is what the estimator reads next, an unknown action cannot be configured,
  and with no pricing row the token update always fails.

  \<^bold>\<open>Bounds.\<close>  No loop of the modelled code is unbounded: every loop is a
  \<open>for\<close> over a finite list and is a structurally recursive function, so no
  fuel is needed.  \<open>sql_like\<close> recurses on the pattern and the string in lexicographic
  order, so it terminates on every input.  Machine integers do not occur: credits and token counts
  are Python integers (\<open>int\<close>, \<open>nat\<close>), prices are exact rationals.  The lock
  expiry is the code's default of 2000 seconds on a discrete clock.  Login
  times are seconds: the lockout lasts 900, the counter resets after 86400,
  the login cookie lives 900 (the library's default), the reset link 86400
  and the verification link 172800.

  \<^bold>\<open>Not modelled.\<close>  The prompt text (\<open>src/prompt_templates.py\<close>) and the
  model provider (\<open>src/openai_handler.py\<close>): only their token counts and
  replies enter, as arguments.  The Socket.IO transport: notifications are
  appended to an outbox.  Logout (it only deletes the cookie) and the
  profile pages (\<open>src/views/profile.py\<close>), the story CRUD
  endpoints and views other than the story edits above, e-mail and object
  storage: session and I/O glue or plain data management outside the
  generation pipeline.  Floating-point rounding error: prices and modifiers
  are exact rationals.  The contents of the workers' reply dictionaries:
  only the exceptions that building them raises.  Of \<open>src/api/story.py\<close>:
  the generic \<open>setattr\<close> branch of \<open>api_save_field\<close> (it writes any column
  with a JSON value whose storage SQLite's dynamic typing decides), the
  chapter, arc and guide-part ordering and arc-mapping endpoints (they
  store any JSON value in integer position columns, which SQLite's dynamic
  typing keeps and the model's integer columns cannot hold),
  \<open>new_story\<close> and \<open>edit_story\<close> (their tag handling needs the \<open>Tag\<close>
  model), tags, comments and search (\<open>src/models/__init__.py\<close> imports
  \<open>Comment\<close>, \<open>Tag\<close>, \<open>News\<close>, \<open>Feedback\<close> and \<open>Notification\<close>, which are
  not in the repository), EPUB export and the HTML views.  Of the back
  office: news, feedback, tags and site configuration (models missing or
  without behaviour), and the billing
  portal session (a redirect to Stripe with no state change).  Stripe
  itself, the customer and price objects it holds, and the order and
  duplication of its webhook deliveries are inputs, not modelled code.
  SQLite's column affinity and parameter binding: a row keeps the decoded
  JSON value it was given, so the \<open>String\<close> columns' conversion of numbers
  and booleans to text and the binding error a list or object raises at
  the commit are not modelled (this bears on \<open>update_meta\<close>, the list
  endpoints and \<open>db_commit\<close>); \<open>sql_int_eq\<close> matches an id against the
  canonical decimal string only, not against strings such as \<open>'05'\<close> that
  SQLite's integer affinity also converts.  The session's autoflush inside
  \<open>upsert_summaries\<close> is not modelled (the edit endpoints model it through
  \<open>flush_check\<close>).  Some Python exceptions of inputs the application never
  produces are not branches of the model: the \<open>TypeError\<close> of
  \<open>sorted\<close> on chapter-guide keys of mixed types in
  \<open>generate_chapter_guide_task\<close>, and Redis's refusal of a lock
  expiry of 0 (the code always passes 2000).
\<close>

end
